(* ===== verification/Prelude.thy ===== *)
theory Prelude
  imports Main "HOL-Library.Word"
begin

text \<open>
  Shared vocabulary of the development: names for the Go types that occur everywhere
  (strings as byte lists, string maps, \<open>types.NamespacedName\<close>, \<open>int32\<close>, \<open>int64\<close>), the
  "empty means default" idiom of the operator, and the lemma collections the component
  theories extend.
  A Go \<open>string\<close> is a sequence of bytes, and so is Isabelle's \<open>string\<close>: the type \<open>char\<close> has
  256 values.  A \<open>map[string]string\<close> is a partial function; where the code distinguishes
  a nil map from an empty one the type is an option of it.
\<close>

section \<open>Collections of facts\<close>

named_theorems contract_rules
  \<open>rules that reduce a contract of a composed program to the contracts of its parts\<close>
named_theorems contracts
  \<open>contracts of the operator's own operations\<close>
named_theorems run_simps
  \<open>equations that execute a program against an API server\<close>
named_theorems object_simps
  \<open>kind, key and owner references of the objects the operator builds\<close>

section \<open>Types\<close>

type_synonym strmap = "string \<rightharpoonup> string"
type_synonym NamespacedName = "string \<times> string" \<comment> \<open>namespace, name\<close>
type_synonym int32 = "32 word"
type_synonym int64 = "64 word"

text \<open>
  Reading a Go map at an absent key gives the zero value, here the empty string; reading a
  nil map does the same.
\<close>

definition map_index :: "strmap \<Rightarrow> string \<Rightarrow> string" where
  "map_index m k = (case m k of None \<Rightarrow> [] | Some v \<Rightarrow> v)"

definition map_or_empty :: "strmap option \<Rightarrow> strmap" where
  "map_or_empty m = (case m of None \<Rightarrow> Map.empty | Some m' \<Rightarrow> m')"

text \<open>The idiom \<open>if x == "" { x = d }\<close>.\<close>

definition ifEmpty :: "string \<Rightarrow> string \<Rightarrow> string" where
  "ifEmpty x d = (if x = [] then d else x)"

section \<open>Generic lemmas\<close>

lemma ifEmpty_Nil [simp]: "ifEmpty [] d = d"
  by (simp add: ifEmpty_def)

lemma ifEmpty_nonempty [simp]: "x \<noteq> [] \<Longrightarrow> ifEmpty x d = x"
  by (simp add: ifEmpty_def)

lemma ifEmpty_eq_Nil [simp]: "ifEmpty x d = [] \<longleftrightarrow> x = [] \<and> d = []"
  by (simp add: ifEmpty_def)

lemma map_index_empty [simp]: "map_index Map.empty k = []"
  by (simp add: map_index_def)

lemma map_index_upd [simp]:
  "map_index (m(k \<mapsto> v)) k' = (if k' = k then v else map_index m k')"
  by (simp add: map_index_def)

lemma map_or_empty_simps [simp]:
  "map_or_empty None = Map.empty" "map_or_empty (Some m) = m"
  by (simp_all add: map_or_empty_def)

lemma find_None_iff_set: "find P xs = None \<longleftrightarrow> (\<forall>x \<in> set xs. \<not> P x)"
  by (induction xs) auto

lemma find_SomeD: "find P xs = Some x \<Longrightarrow> x \<in> set xs \<and> P x"
  by (induction xs) (auto split: if_splits)

lemma map_add_absorb:
  assumes "distinct (map fst xs)"
  shows "m ++ map_of xs = m \<longleftrightarrow> (\<forall>(k, v) \<in> set xs. m k = Some v)"
proof -
  have "m ++ map_of xs = m \<longleftrightarrow> (\<forall>k v. map_of xs k = Some v \<longrightarrow> m k = Some v)"
    by (auto simp: fun_eq_iff map_add_def split: option.split)
  also have "\<dots> \<longleftrightarrow> (\<forall>(k, v) \<in> set xs. m k = Some v)" by (auto simp: assms)
  finally show ?thesis .
qed

end
