(* ===== verification/ApiTypes.thy ===== *)
theory ApiTypes
  imports Prelude
begin

text \<open>
  The custom resource of the operator: the structs of \<open>api/v1alpha1\<close>, one record per Go
  struct and one field per field of it.  Field names carry a short prefix for the struct they
  belong to, because Isabelle's record selectors are global constants.
  The \<open>metav1.ObjectMeta\<close> of the resource is kept to the fields the operator reads.
  The \<open>valid_\<close> predicates are the validation markers (\<open>+kubebuilder:validation\<close>,
  \<open>+listType=map\<close>) that the API server enforces on the resource.
\<close>

section \<open>Storage classes\<close>

record DiskStorageClassSpec =
  dsc_Name :: string
  dsc_Type :: string
  dsc_ReclaimPolicy :: string
  dsc_AllowVolumeExpansion :: bool
  dsc_VirtDefault :: bool
  dsc_Encrypted :: bool
  dsc_VolumeMode :: string

record SnapshotConfig =
  snap_Enabled :: bool
  snap_ClassName :: string

record StorageProfileConfig =
  sp_Patch :: bool
  sp_CloneStrategy :: string

record DiskSpec =
  disk_Enabled :: bool
  disk_DefaultStorageClass :: bool
  disk_StorageClasses :: "DiskStorageClassSpec list"
  disk_Snapshot :: SnapshotConfig
  disk_StorageProfile :: StorageProfileConfig

record NASStorageClassSpec =
  nsc_Name :: string
  nsc_VolumeAs :: string
  nsc_StorageType :: string
  nsc_FileSystemType :: string
  nsc_RegionID :: string
  nsc_ZoneID :: string
  nsc_VpcID :: string
  nsc_VSwitchID :: string
  nsc_Server :: string
  nsc_MountProtocol :: string
  nsc_ReclaimPolicy :: string
  nsc_AllowVolumeExpansion :: bool
  nsc_VirtDefault :: bool

record NASSpec =
  nas_Enabled :: bool
  nas_StorageClasses :: "NASStorageClassSpec list"
  nas_StorageProfile :: StorageProfileConfig

record OSSSpec =
  oss_Enabled :: bool

section \<open>Authentication, scheduling, environment\<close>

record AuthSpec =
  auth_RAMToken :: string

record TolerationSpec =
  ts_Key :: string
  ts_Operator :: string
  ts_Value :: string
  ts_Effect :: string

record ControllerSpec =
  ctl_Replicas :: int32
  ctl_NodeSelector :: "strmap option" \<comment> \<open>None: the nil map\<close>
  ctl_Tolerations :: "TolerationSpec list"

record SecretKeySelector =
  sks_Name :: string
  sks_Key :: string

record EnvVarSpec =
  evs_Name :: string
  evs_Value :: string
  evs_SecretKeyRef :: "SecretKeySelector option" \<comment> \<open>None: the nil pointer\<close>

section \<open>The resource\<close>

record AlibabaCloudCSIDriverSpec =
  spec_Disk :: DiskSpec
  spec_NAS :: NASSpec
  spec_OSS :: OSSSpec
  spec_ImageTag :: string
  spec_ECSEndpoint :: string
  spec_ExtraEnv :: "EnvVarSpec list"
  spec_Auth :: AuthSpec
  spec_Controller :: ControllerSpec

type_synonym ConditionType = string

definition ConditionAvailable :: ConditionType where
  "ConditionAvailable = ''Available''"

definition ConditionProgressing :: ConditionType where
  "ConditionProgressing = ''Progressing''"

definition ConditionDegraded :: ConditionType where
  "ConditionDegraded = ''Degraded''"

text \<open>\<open>metav1.Time\<close> is serialised with a resolution of one second: a count of seconds.\<close>

record CSIDriverCondition =
  cond_Type :: ConditionType
  cond_Status :: string
  cond_Reason :: string
  cond_Message :: string
  cond_LastTransitionTime :: nat

record AlibabaCloudCSIDriverStatus =
  st_ObservedGeneration :: int64
  st_Conditions :: "CSIDriverCondition list"
  st_DiskDriverReady :: bool
  st_NASDriverReady :: bool
  st_OSSDriverReady :: bool

record AlibabaCloudCSIDriver =
  cr_Name :: string
  cr_Namespace :: string
  cr_UID :: string
  cr_Generation :: int64
  cr_Spec :: AlibabaCloudCSIDriverSpec
  cr_Status :: AlibabaCloudCSIDriverStatus

definition crKey :: "AlibabaCloudCSIDriver \<Rightarrow> NamespacedName" where
  "crKey cr = (cr_Namespace cr, cr_Name cr)"

section \<open>Zero values\<close>

text \<open>What a Go variable of the type holds before anything is assigned to it.\<close>

definition zero_DiskStorageClassSpec :: DiskStorageClassSpec where
  "zero_DiskStorageClassSpec = \<lparr>dsc_Name = [], dsc_Type = [], dsc_ReclaimPolicy = [],
     dsc_AllowVolumeExpansion = False, dsc_VirtDefault = False, dsc_Encrypted = False,
     dsc_VolumeMode = []\<rparr>"

definition zero_SnapshotConfig :: SnapshotConfig where
  "zero_SnapshotConfig = \<lparr>snap_Enabled = False, snap_ClassName = []\<rparr>"

definition zero_StorageProfileConfig :: StorageProfileConfig where
  "zero_StorageProfileConfig = \<lparr>sp_Patch = False, sp_CloneStrategy = []\<rparr>"

definition zero_DiskSpec :: DiskSpec where
  "zero_DiskSpec = \<lparr>disk_Enabled = False, disk_DefaultStorageClass = False, disk_StorageClasses = [],
     disk_Snapshot = zero_SnapshotConfig, disk_StorageProfile = zero_StorageProfileConfig\<rparr>"

definition zero_NASStorageClassSpec :: NASStorageClassSpec where
  "zero_NASStorageClassSpec = \<lparr>nsc_Name = [], nsc_VolumeAs = [], nsc_StorageType = [],
     nsc_FileSystemType = [], nsc_RegionID = [], nsc_ZoneID = [], nsc_VpcID = [], nsc_VSwitchID = [],
     nsc_Server = [], nsc_MountProtocol = [], nsc_ReclaimPolicy = [],
     nsc_AllowVolumeExpansion = False, nsc_VirtDefault = False\<rparr>"

definition zero_NASSpec :: NASSpec where
  "zero_NASSpec = \<lparr>nas_Enabled = False, nas_StorageClasses = [],
     nas_StorageProfile = zero_StorageProfileConfig\<rparr>"

definition zero_OSSSpec :: OSSSpec where
  "zero_OSSSpec = \<lparr>oss_Enabled = False\<rparr>"

definition zero_AuthSpec :: AuthSpec where
  "zero_AuthSpec = \<lparr>auth_RAMToken = []\<rparr>"

definition zero_TolerationSpec :: TolerationSpec where
  "zero_TolerationSpec = \<lparr>ts_Key = [], ts_Operator = [], ts_Value = [], ts_Effect = []\<rparr>"

definition zero_ControllerSpec :: ControllerSpec where
  "zero_ControllerSpec = \<lparr>ctl_Replicas = 0, ctl_NodeSelector = None, ctl_Tolerations = []\<rparr>"

definition zero_SecretKeySelector :: SecretKeySelector where
  "zero_SecretKeySelector = \<lparr>sks_Name = [], sks_Key = []\<rparr>"

definition zero_EnvVarSpec :: EnvVarSpec where
  "zero_EnvVarSpec = \<lparr>evs_Name = [], evs_Value = [], evs_SecretKeyRef = None\<rparr>"

definition zero_Spec :: AlibabaCloudCSIDriverSpec where
  "zero_Spec = \<lparr>spec_Disk = zero_DiskSpec, spec_NAS = zero_NASSpec, spec_OSS = zero_OSSSpec,
     spec_ImageTag = [], spec_ECSEndpoint = [], spec_ExtraEnv = [], spec_Auth = zero_AuthSpec,
     spec_Controller = zero_ControllerSpec\<rparr>"

definition zero_CSIDriverCondition :: CSIDriverCondition where
  "zero_CSIDriverCondition = \<lparr>cond_Type = [], cond_Status = [], cond_Reason = [],
     cond_Message = [], cond_LastTransitionTime = 0\<rparr>"

section \<open>Validation markers\<close>

definition valid_DiskStorageClassSpec :: "DiskStorageClassSpec \<Rightarrow> bool" where
  "valid_DiskStorageClassSpec sc \<longleftrightarrow>
     dsc_ReclaimPolicy sc \<in> {''Delete'', ''Retain''} \<and>
     dsc_VolumeMode sc \<in> {''Block'', ''Filesystem''}"

definition valid_NASStorageClassSpec :: "NASStorageClassSpec \<Rightarrow> bool" where
  "valid_NASStorageClassSpec sc \<longleftrightarrow>
     nsc_VolumeAs sc \<in> {''filesystem'', ''subpath''} \<and>
     nsc_FileSystemType sc \<in> {''standard'', ''extreme''} \<and>
     nsc_MountProtocol sc \<in> {''nfs'', ''cnfs''} \<and>
     nsc_ReclaimPolicy sc \<in> {''Delete'', ''Retain''}"

text \<open>
  The rule \<open>has(self.value) != has(self.secretKeyRef)\<close> is evaluated on the serialised object.
  After decoding, an absent and an empty \<open>value\<close> are the same, so what the decoded struct
  satisfies is: a secret reference comes with no literal value.
\<close>

definition valid_EnvVarSpec :: "EnvVarSpec \<Rightarrow> bool" where
  "valid_EnvVarSpec e \<longleftrightarrow>
     evs_Name e \<noteq> [] \<and> (evs_SecretKeyRef e \<noteq> None \<longrightarrow> evs_Value e = [])"

definition valid_ExtraEnv :: "EnvVarSpec list \<Rightarrow> bool" where
  "valid_ExtraEnv es \<longleftrightarrow> distinct (map evs_Name es) \<and> list_all valid_EnvVarSpec es"

end
