(* ===== verification/KubeObjects.thy ===== *)
theory KubeObjects
  imports ApiTypes
begin

text \<open>
  The Kubernetes API objects the operator builds, reads and writes: the structs of \<open>k8s.io/api\<close>
  with the fields the source sets or reads, grouped in one type of objects (metadata and a body
  that depends on the kind).  \<open>obj_rest\<close> stands for every field of the object that the operator
  neither sets nor reads (server-side defaults, status, fields added by other writers); it is
  empty in an object the operator builds.
\<close>

section \<open>Metadata\<close>

record OwnerReference =
  or_APIVersion :: string
  or_Kind :: string
  or_Name :: string
  or_UID :: string
  or_Controller :: bool
  or_BlockOwnerDeletion :: bool

record ObjectMeta =
  om_Name :: string
  om_Namespace :: string
  om_Labels :: "strmap option"
  om_Annotations :: "strmap option"
  om_OwnerReferences :: "OwnerReference list"
  om_ResourceVersion :: string

definition named :: "string \<Rightarrow> string \<Rightarrow> ObjectMeta" where
  "named ns n = \<lparr>om_Name = n, om_Namespace = ns, om_Labels = None, om_Annotations = None,
     om_OwnerReferences = [], om_ResourceVersion = []\<rparr>"

section \<open>RBAC\<close>

record PolicyRule =
  pr_APIGroups :: "string list"
  pr_Resources :: "string list"
  pr_Verbs :: "string list"
  pr_ResourceNames :: "string list" \<comment> \<open>empty: every name\<close>

record RoleRef =
  rr_APIGroup :: string
  rr_Kind :: string
  rr_Name :: string

record Subject =
  sub_Kind :: string
  sub_Name :: string
  sub_Namespace :: string

section \<open>Pods\<close>

datatype EnvVarSource = SecretKeyRef string string | FieldRef string

record EnvVar =
  ev_Name :: string
  ev_Value :: string
  ev_ValueFrom :: "EnvVarSource option"

record VolumeMount =
  vm_Name :: string
  vm_MountPath :: string
  vm_MountPropagation :: "string option"

datatype HostPathType = HostPathDirectory | HostPathDirectoryOrCreate

datatype VolumeSource = EmptyDir | HostPath string HostPathType

record Volume =
  vol_Name :: string
  vol_Source :: VolumeSource

record HTTPGetAction =
  hg_Path :: string
  hg_Port :: int32
  hg_Host :: string

record Probe =
  pb_HTTPGet :: HTTPGetAction
  pb_InitialDelaySeconds :: int32
  pb_PeriodSeconds :: int32
  pb_FailureThreshold :: int32

record ResourceRequirements =
  rq_RequestCPU :: string
  rq_RequestMemory :: string
  rq_LimitCPU :: string
  rq_LimitMemory :: string

record Container =
  ct_Name :: string
  ct_Image :: string
  ct_Args :: "string list"
  ct_Privileged :: bool
  ct_Env :: "EnvVar list"
  ct_VolumeMounts :: "VolumeMount list"
  ct_Resources :: "ResourceRequirements option"
  ct_StartupProbe :: "Probe option"

record Toleration =
  tol_Key :: string
  tol_Operator :: string
  tol_Value :: string
  tol_Effect :: string

record PodAffinityTerm =
  pat_Weight :: int32
  pat_TopologyKey :: string
  pat_MatchLabels :: strmap

record PodSpec =
  ps_ServiceAccountName :: string
  ps_HostNetwork :: bool
  ps_HostPID :: bool
  ps_NodeSelector :: "strmap option"
  ps_Tolerations :: "Toleration list"
  ps_PreferredAntiAffinity :: "PodAffinityTerm list"
  ps_Containers :: "Container list"
  ps_Volumes :: "Volume list"

record DeploymentSpec =
  dep_Replicas :: int32
  dep_Selector :: strmap
  dep_TemplateLabels :: strmap
  dep_PodSpec :: PodSpec

record DaemonSetSpec =
  ds_Selector :: strmap
  ds_TemplateLabels :: strmap
  ds_PodSpec :: PodSpec

section \<open>Storage\<close>

record CSIDriverSpec =
  cd_AttachRequired :: bool
  cd_PodInfoOnMount :: bool
  cd_FSGroupPolicy :: string
  cd_SELinuxMount :: bool

datatype ReclaimPolicy = ReclaimDelete | ReclaimRetain

datatype VolumeBindingMode = BindingImmediate | BindingWaitForFirstConsumer

record StorageClassBody =
  scl_Provisioner :: string
  scl_ReclaimPolicy :: ReclaimPolicy
  scl_AllowVolumeExpansion :: bool
  scl_Parameters :: strmap
  scl_VolumeBindingMode :: VolumeBindingMode

section \<open>Objects\<close>

datatype Kind =
    KServiceAccount | KClusterRole | KClusterRoleBinding | KNamespace | KCSIDriver
  | KDeployment | KDaemonSet | KStorageClass | KVolumeSnapshotClass | KStorageProfile

datatype Body =
    ServiceAccountBody
  | ClusterRoleBody "PolicyRule list"
  | ClusterRoleBindingBody RoleRef "Subject list"
  | NamespaceBody
  | CSIDriverBody CSIDriverSpec
  | DeploymentBody DeploymentSpec
  | DaemonSetBody DaemonSetSpec
  | StorageClassBody StorageClassBody
  | VolumeSnapshotClassBody string string \<comment> \<open>driver, deletionPolicy\<close>
  | StorageProfileBody

fun body_kind :: "Body \<Rightarrow> Kind" where
  "body_kind ServiceAccountBody = KServiceAccount"
| "body_kind (ClusterRoleBody _) = KClusterRole"
| "body_kind (ClusterRoleBindingBody _ _) = KClusterRoleBinding"
| "body_kind NamespaceBody = KNamespace"
| "body_kind (CSIDriverBody _) = KCSIDriver"
| "body_kind (DeploymentBody _) = KDeployment"
| "body_kind (DaemonSetBody _) = KDaemonSet"
| "body_kind (StorageClassBody _) = KStorageClass"
| "body_kind (VolumeSnapshotClassBody _ _) = KVolumeSnapshotClass"
| "body_kind StorageProfileBody = KStorageProfile"

record Object =
  obj_meta :: ObjectMeta
  obj_body :: Body
  obj_rest :: string

definition fresh :: "ObjectMeta \<Rightarrow> Body \<Rightarrow> Object" where
  "fresh m b = \<lparr>obj_meta = m, obj_body = b, obj_rest = []\<rparr>"

definition objKind :: "Object \<Rightarrow> Kind" where
  "objKind ob = body_kind (obj_body ob)"

definition objNamed :: "Object \<Rightarrow> NamespacedName" where
  "objNamed ob = (om_Namespace (obj_meta ob), om_Name (obj_meta ob))"

type_synonym ObjectRef = "Kind \<times> NamespacedName"

definition objRef :: "Object \<Rightarrow> ObjectRef" where
  "objRef ob = (objKind ob, objNamed ob)"

definition setOwners :: "OwnerReference list \<Rightarrow> Object \<Rightarrow> Object" where
  "setOwners rs ob = ob\<lparr>obj_meta := (obj_meta ob)\<lparr>om_OwnerReferences := rs\<rparr>\<rparr>"

definition owners :: "Object \<Rightarrow> OwnerReference list" where
  "owners ob = om_OwnerReferences (obj_meta ob)"

definition resourceVersion :: "Object \<Rightarrow> string" where
  "resourceVersion ob = om_ResourceVersion (obj_meta ob)"

definition setResourceVersion :: "string \<Rightarrow> Object \<Rightarrow> Object" where
  "setResourceVersion rv ob = ob\<lparr>obj_meta := (obj_meta ob)\<lparr>om_ResourceVersion := rv\<rparr>\<rparr>"

definition setLabels :: "strmap \<Rightarrow> Object \<Rightarrow> Object" where
  "setLabels ls ob = ob\<lparr>obj_meta := (obj_meta ob)\<lparr>om_Labels := Some ls\<rparr>\<rparr>"

definition setRest :: "string \<Rightarrow> Object \<Rightarrow> Object" where
  "setRest s ob = ob\<lparr>obj_rest := s\<rparr>"

text \<open>
  What an API server keeps as sent: everything except the resource version, which it assigns,
  and the fields the operator does not set, which it may default.
\<close>

definition sameDesired :: "Object \<Rightarrow> Object \<Rightarrow> bool" where
  "sameDesired ob ob' \<longleftrightarrow> setRest [] (setResourceVersion [] ob) = setRest [] (setResourceVersion [] ob')"

section \<open>Lemmas\<close>

lemma objRef_setOwners [object_simps]: "objRef (setOwners rs ob) = objRef ob"
  by (simp add: objRef_def objKind_def objNamed_def setOwners_def)

lemma objRef_setResourceVersion [object_simps]: "objRef (setResourceVersion rv ob) = objRef ob"
  by (simp add: objRef_def objKind_def objNamed_def setResourceVersion_def)

lemma objRef_setLabels [object_simps]: "objRef (setLabels ls ob) = objRef ob"
  by (simp add: objRef_def objKind_def objNamed_def setLabels_def)

lemma objRef_setRest [object_simps]: "objRef (setRest s ob) = objRef ob"
  by (simp add: objRef_def objKind_def objNamed_def setRest_def)

lemma objRef_fresh [object_simps]:
  "objRef (fresh m b) = (body_kind b, (om_Namespace m, om_Name m))"
  by (simp add: objRef_def objKind_def objNamed_def fresh_def)

lemma owners_setOwners [object_simps]: "owners (setOwners rs ob) = rs"
  by (simp add: owners_def setOwners_def)

lemma owners_setResourceVersion [object_simps]: "owners (setResourceVersion rv ob) = owners ob"
  by (simp add: owners_def setResourceVersion_def)

lemma owners_setRest [object_simps]: "owners (setRest s ob) = owners ob"
  by (simp add: owners_def setRest_def)

lemma owners_setLabels [object_simps]: "owners (setLabels ls ob) = owners ob"
  by (simp add: owners_def setLabels_def)

lemma owners_fresh [object_simps]: "owners (fresh m b) = om_OwnerReferences m"
  by (simp add: owners_def fresh_def)

lemma named_simps [object_simps]:
  "om_Name (named ns n) = n" "om_Namespace (named ns n) = ns"
  "om_OwnerReferences (named ns n) = []" "om_ResourceVersion (named ns n) = []"
  "om_Labels (named ns n) = None" "om_Annotations (named ns n) = None"
  by (simp_all add: named_def)

lemma resourceVersion_simps [object_simps]:
  "resourceVersion (setResourceVersion rv ob) = rv"
  "resourceVersion (setOwners rs ob) = resourceVersion ob"
  "resourceVersion (setRest s ob) = resourceVersion ob"
  "resourceVersion (fresh m b) = om_ResourceVersion m"
  by (simp_all add: resourceVersion_def setResourceVersion_def setOwners_def setRest_def fresh_def)

lemma body_simps [object_simps]:
  "obj_body (setResourceVersion rv ob) = obj_body ob" "obj_body (setOwners rs ob) = obj_body ob"
  "obj_body (setRest s ob) = obj_body ob" "obj_body (setLabels ls ob) = obj_body ob"
  "obj_body (fresh m b) = b"
  by (simp_all add: setResourceVersion_def setOwners_def setRest_def setLabels_def fresh_def)

lemma sameDesired_refl [simp]: "sameDesired ob ob"
  by (simp add: sameDesired_def)

lemma sameDesired_sym: "sameDesired ob ob' \<Longrightarrow> sameDesired ob' ob"
  by (simp add: sameDesired_def)

lemma sameDesired_trans: "sameDesired a b \<Longrightarrow> sameDesired b c \<Longrightarrow> sameDesired a c"
  by (simp add: sameDesired_def)

lemma sameDesired_setResourceVersion [simp]:
  "sameDesired (setResourceVersion rv ob) ob' = sameDesired ob ob'"
  "sameDesired ob (setResourceVersion rv ob') = sameDesired ob ob'"
  by (simp_all add: sameDesired_def setRest_def setResourceVersion_def)

lemma sameDesired_setRest [simp]:
  "sameDesired (setRest s ob) ob' = sameDesired ob ob'"
  "sameDesired ob (setRest s ob') = sameDesired ob ob'"
  by (simp_all add: sameDesired_def setRest_def setResourceVersion_def)

lemma sameDesired_facts:
  assumes "sameDesired ob ob'"
  shows sameDesired_body: "obj_body ob = obj_body ob'"
    and sameDesired_ref: "objRef ob = objRef ob'"
    and sameDesired_owners: "owners ob = owners ob'"
proof -
  from assms have eq: "setRest [] (setResourceVersion [] ob) = setRest [] (setResourceVersion [] ob')"
    by (simp add: sameDesired_def)
  show "obj_body ob = obj_body ob'"
    using arg_cong [OF eq, of obj_body] by (simp add: object_simps)
  show "objRef ob = objRef ob'"
    using arg_cong [OF eq, of objRef] by (simp add: object_simps)
  show "owners ob = owners ob'"
    using arg_cong [OF eq, of owners] by (simp add: object_simps)
qed

lemma sameDesired_setOwners:
  assumes "sameDesired a b"
  shows "sameDesired (setOwners rs a) (setOwners rs b)"
proof -
  have "setRest [] (setResourceVersion [] (setOwners rs x)) =
      setOwners rs (setRest [] (setResourceVersion [] x))" for x
    by (simp add: setRest_def setResourceVersion_def setOwners_def)
  with assms show ?thesis by (simp add: sameDesired_def)
qed

lemma setOwners_setOwners [simp]: "setOwners rs (setOwners rs' ob) = setOwners rs ob"
  by (simp add: setOwners_def)

lemma setOwners_owners [simp]: "setOwners (owners ob) ob = ob"
  by (simp add: setOwners_def owners_def)

lemma objRef_eq_iff: "objRef a = objRef b \<longleftrightarrow> objKind a = objKind b \<and> objNamed a = objNamed b"
  by (simp add: objRef_def)

end
