(* ===== verification/Client.thy ===== *)
theory Client
  imports KubeObjects
begin

text \<open>
  The boundary between the operator and the cluster.  Every call the reconciler makes on
  \<open>client.Client\<close>, on the REST mapper and on the discovery client, and every reading of the
  clock, is a request; an operation of the operator is the tree of the requests it makes, each
  with a continuation for every possible answer.  Nothing about the cluster is built into the
  tree, so what holds of all paths of a tree holds whatever the API server, other writers and
  the network do between two calls.

  Three readings of a tree:
    \<^item> \<open>exec p tr a\<close>: with the requests and answers \<open>tr\<close>, the program \<open>p\<close> returns \<open>a\<close>;
    \<^item> \<open>always P p Q\<close>: on every path, all events satisfy \<open>P\<close> and the result satisfies \<open>Q\<close>;
    \<^item> \<open>run api p w\<close>: the result and the final world when the requests are answered by \<open>api\<close>.
\<close>

section \<open>Errors\<close>

text \<open>
  What the operator can see of an error a library returns: the class that \<open>apierrors.IsNotFound\<close>,
  \<open>IsAlreadyExists\<close>, \<open>IsConflict\<close> and \<open>meta.IsNoMatchError\<close> report, and its message.
\<close>

datatype ErrReason = NotFound | AlreadyExists | Conflict | NoMatch | OtherReason

record LibError =
  err_Reason :: ErrReason
  err_Message :: string

text \<open>\<open>fmt.Errorf("prefix: %w", err)\<close> wraps an error; wrapping keeps its class.\<close>

datatype goerror = LibErr LibError | Wrapped string goerror

fun Error :: "goerror \<Rightarrow> string" where
  "Error (LibErr e) = err_Message e"
| "Error (Wrapped p e) = p @ Error e"

fun reasonOf :: "goerror \<Rightarrow> ErrReason" where
  "reasonOf (LibErr e) = err_Reason e"
| "reasonOf (Wrapped p e) = reasonOf e"

section \<open>JSON values\<close>

text \<open>
  The values the operator gives to \<open>json.Marshal\<close>; a \<open>map[string]interface{}\<close> is marshalled with
  its keys in increasing order, which is the order kept here.
\<close>

datatype json = JString string | JArray "json list" | JObject "(string \<times> json) list"

section \<open>Programs\<close>

datatype 'a prog =
    Ret 'a
  | GetCR NamespacedName "LibError + AlibabaCloudCSIDriver \<Rightarrow> 'a prog"
  | GetObj Kind NamespacedName "LibError + Object \<Rightarrow> 'a prog"
  | Create Object "LibError option \<Rightarrow> 'a prog"
  | Update Object "LibError option \<Rightarrow> 'a prog"
  | MergePatch Kind NamespacedName json "LibError option \<Rightarrow> 'a prog"
  | StatusPatch AlibabaCloudCSIDriver AlibabaCloudCSIDriver "LibError option \<Rightarrow> 'a prog"
  | RESTMapping string string "LibError option \<Rightarrow> 'a prog"
  | NewDiscoveryClient "LibError option \<Rightarrow> 'a prog"
  | ServerResources string "LibError + string list \<Rightarrow> 'a prog"
  | Now "nat \<Rightarrow> 'a prog"

primrec bind :: "'a prog \<Rightarrow> ('a \<Rightarrow> 'b prog) \<Rightarrow> 'b prog" where
  "bind (Ret a) f = f a"
| "bind (GetCR n k) f = GetCR n (\<lambda>r. bind (k r) f)"
| "bind (GetObj kd n k) f = GetObj kd n (\<lambda>r. bind (k r) f)"
| "bind (Create ob k) f = Create ob (\<lambda>r. bind (k r) f)"
| "bind (Update ob k) f = Update ob (\<lambda>r. bind (k r) f)"
| "bind (MergePatch kd n j k) f = MergePatch kd n j (\<lambda>r. bind (k r) f)"
| "bind (StatusPatch c c' k) f = StatusPatch c c' (\<lambda>r. bind (k r) f)"
| "bind (RESTMapping g kd k) f = RESTMapping g kd (\<lambda>r. bind (k r) f)"
| "bind (NewDiscoveryClient k) f = NewDiscoveryClient (\<lambda>r. bind (k r) f)"
| "bind (ServerResources gv k) f = ServerResources gv (\<lambda>r. bind (k r) f)"
| "bind (Now k) f = Now (\<lambda>r. bind (k r) f)"

lemma bind_Ret [simp]: "bind p Ret = p"
  by (induction p) simp_all

lemma bind_assoc [simp]: "bind (bind p f) g = bind p (\<lambda>a. bind (f a) g)"
  by (induction p) simp_all

text \<open>
  Go's \<open>if err := p(); err != nil { return wrap(err) }\<close> followed by \<open>rest\<close>.
\<close>

definition check :: "goerror option prog \<Rightarrow> (goerror \<Rightarrow> goerror) \<Rightarrow> goerror option prog
    \<Rightarrow> goerror option prog" where
  "check p wrap rest = bind p (\<lambda>e. case e of None \<Rightarrow> rest | Some e \<Rightarrow> Ret (Some (wrap e)))"

section \<open>Events and traces\<close>

datatype event =
    EvGetCR NamespacedName "LibError + AlibabaCloudCSIDriver"
  | EvGet Kind NamespacedName "LibError + Object"
  | EvCreate Object "LibError option"
  | EvUpdate Object "LibError option"
  | EvPatch Kind NamespacedName json "LibError option"
  | EvStatusPatch AlibabaCloudCSIDriver AlibabaCloudCSIDriver "LibError option"
  | EvRESTMapping string string "LibError option"
  | EvNewDiscoveryClient "LibError option"
  | EvServerResources string "LibError + string list"
  | EvNow nat

text \<open>
  A typed \<open>Get\<close> of a name decodes into a struct of the requested kind, and the server answers
  with the object of that name.
\<close>

fun answersGet :: "Kind \<Rightarrow> NamespacedName \<Rightarrow> LibError + Object \<Rightarrow> bool" where
  "answersGet kd n (Inl e) = True"
| "answersGet kd n (Inr ob) = (objRef ob = (kd, n))"

fun answersGetCR :: "NamespacedName \<Rightarrow> LibError + AlibabaCloudCSIDriver \<Rightarrow> bool" where
  "answersGetCR n (Inl e) = True"
| "answersGetCR n (Inr cr) = (crKey cr = n)"

inductive exec :: "'a prog \<Rightarrow> event list \<Rightarrow> 'a \<Rightarrow> bool" where
  exec_Ret: "exec (Ret a) [] a"
| exec_GetCR: "answersGetCR n r \<Longrightarrow> exec (k r) tr a \<Longrightarrow> exec (GetCR n k) (EvGetCR n r # tr) a"
| exec_GetObj: "answersGet kd n r \<Longrightarrow> exec (k r) tr a \<Longrightarrow>
    exec (GetObj kd n k) (EvGet kd n r # tr) a"
| exec_Create: "exec (k r) tr a \<Longrightarrow> exec (Create ob k) (EvCreate ob r # tr) a"
| exec_Update: "exec (k r) tr a \<Longrightarrow> exec (Update ob k) (EvUpdate ob r # tr) a"
| exec_MergePatch: "exec (k r) tr a \<Longrightarrow> exec (MergePatch kd n j k) (EvPatch kd n j r # tr) a"
| exec_StatusPatch: "exec (k r) tr a \<Longrightarrow>
    exec (StatusPatch c c' k) (EvStatusPatch c c' r # tr) a"
| exec_RESTMapping: "exec (k r) tr a \<Longrightarrow> exec (RESTMapping g kd' k) (EvRESTMapping g kd' r # tr) a"
| exec_NewDiscoveryClient: "exec (k r) tr a \<Longrightarrow>
    exec (NewDiscoveryClient k) (EvNewDiscoveryClient r # tr) a"
| exec_ServerResources: "exec (k r') tr a \<Longrightarrow>
    exec (ServerResources gv k) (EvServerResources gv r' # tr) a"
| exec_Now: "exec (k t) tr a \<Longrightarrow> exec (Now k) (EvNow t # tr) a"

inductive_simps exec_Ret_iff [simp]: "exec (Ret a) tr b"
inductive_simps exec_GetCR_iff: "exec (GetCR n k) tr b"
inductive_simps exec_GetObj_iff: "exec (GetObj kd n k) tr b"
inductive_simps exec_Create_iff: "exec (Create ob k) tr b"
inductive_simps exec_Update_iff: "exec (Update ob k) tr b"
inductive_simps exec_MergePatch_iff: "exec (MergePatch kd n j k) tr b"
inductive_simps exec_StatusPatch_iff: "exec (StatusPatch c c' k) tr b"
inductive_simps exec_RESTMapping_iff: "exec (RESTMapping g kd k) tr b"
inductive_simps exec_NewDiscoveryClient_iff: "exec (NewDiscoveryClient k) tr b"
inductive_simps exec_ServerResources_iff: "exec (ServerResources gv k) tr b"
inductive_simps exec_Now_iff: "exec (Now k) tr b"

lemmas exec_iffs = exec_GetCR_iff exec_GetObj_iff exec_Create_iff exec_Update_iff
  exec_MergePatch_iff exec_StatusPatch_iff exec_RESTMapping_iff exec_NewDiscoveryClient_iff
  exec_ServerResources_iff exec_Now_iff

text \<open>The traces of a sequence of two programs are the concatenations of theirs.\<close>

lemma exec_prefix:
  "(\<exists>r tr'. tr = E r # tr' \<and> (\<exists>tr1 a tr2. tr' = tr1 @ tr2 \<and> X r tr1 a \<and> R a tr2)) \<longleftrightarrow>
   (\<exists>tr1 a tr2. tr = tr1 @ tr2 \<and> (\<exists>r tr'. tr1 = E r # tr' \<and> X r tr' a) \<and> R a tr2)"
  by (metis append_Cons)

lemma exec_prefix_guarded:
  "(\<exists>r tr'. tr = E r # tr' \<and> G r \<and> (\<exists>tr1 a tr2. tr' = tr1 @ tr2 \<and> X r tr1 a \<and> R a tr2)) \<longleftrightarrow>
   (\<exists>tr1 a tr2. tr = tr1 @ tr2 \<and> (\<exists>r tr'. tr1 = E r # tr' \<and> G r \<and> X r tr' a) \<and> R a tr2)"
  by (metis append_Cons)

lemma exec_bind_iff:
  "exec (bind p f) tr b \<longleftrightarrow> (\<exists>tr1 a tr2. tr = tr1 @ tr2 \<and> exec p tr1 a \<and> exec (f a) tr2 b)"
proof (induction p arbitrary: tr)
  case (Ret x)
  then show ?case by auto
next
  case (GetCR n k)
  then show ?case by (simp only: bind.simps exec_iffs rangeI exec_prefix_guarded)
next
  case (GetObj kd n k)
  then show ?case by (simp only: bind.simps exec_iffs rangeI exec_prefix_guarded)
qed (simp_all only: bind.simps exec_iffs rangeI exec_prefix)

lemma exec_bindI: "exec p tr a \<Longrightarrow> exec (f a) tr' b \<Longrightarrow> exec (bind p f) (tr @ tr') b"
  by (auto simp: exec_bind_iff)

lemma exec_bindE:
  assumes "exec (bind p f) tr b"
  obtains tr1 a tr2 where "tr = tr1 @ tr2" "exec p tr1 a" "exec (f a) tr2 b"
  using assms by (auto simp: exec_bind_iff)

lemma exec_checkE:
  assumes "exec (check p wrap rest) tr b"
  obtains (ok) tr1 tr2 where "tr = tr1 @ tr2" "exec p tr1 None" "exec rest tr2 b"
  | (err) e where "exec p tr (Some e)" "b = Some (wrap e)"
  using assms unfolding check_def
  by (elim exec_bindE) (auto split: option.splits)

section \<open>Contracts on all paths\<close>

text \<open>
  \<open>always P p Q\<close>: whatever the answers, every event on the path satisfies \<open>P\<close> and the value
  returned satisfies \<open>Q\<close>.  It is the weakest liberal precondition of the tree, computed by
  recursion over it.
\<close>

primrec always :: "(event \<Rightarrow> bool) \<Rightarrow> 'a prog \<Rightarrow> ('a \<Rightarrow> bool) \<Rightarrow> bool" where
  "always P (Ret a) Q = Q a"
| "always P (GetCR n k) Q = (\<forall>r. answersGetCR n r \<longrightarrow> P (EvGetCR n r) \<and> always P (k r) Q)"
| "always P (GetObj kd n k) Q = (\<forall>r. answersGet kd n r \<longrightarrow> P (EvGet kd n r) \<and> always P (k r) Q)"
| "always P (Create ob k) Q = (\<forall>r. P (EvCreate ob r) \<and> always P (k r) Q)"
| "always P (Update ob k) Q = (\<forall>r. P (EvUpdate ob r) \<and> always P (k r) Q)"
| "always P (MergePatch kd n j k) Q = (\<forall>r. P (EvPatch kd n j r) \<and> always P (k r) Q)"
| "always P (StatusPatch c c' k) Q = (\<forall>r. P (EvStatusPatch c c' r) \<and> always P (k r) Q)"
| "always P (RESTMapping g kd k) Q = (\<forall>r. P (EvRESTMapping g kd r) \<and> always P (k r) Q)"
| "always P (NewDiscoveryClient k) Q = (\<forall>r. P (EvNewDiscoveryClient r) \<and> always P (k r) Q)"
| "always P (ServerResources gv k) Q = (\<forall>r. P (EvServerResources gv r) \<and> always P (k r) Q)"
| "always P (Now k) Q = (\<forall>t. P (EvNow t) \<and> always P (k t) Q)"

lemma always_exec:
  assumes "exec p tr a" and "always P p Q"
  shows "list_all P tr \<and> Q a"
  using assms by (induction rule: exec.induct) auto

lemma exec_total: "\<exists>tr a. exec p tr a"
proof (induction p)
  case (Ret x)
  then show ?case by (blast intro: exec_Ret)
next
  case (GetCR n k)
  have "\<exists>tr a. exec (k (Inl undefined)) tr a" by (rule GetCR.IH) simp
  then show ?case by (meson exec_GetCR answersGetCR.simps(1))
next
  case (GetObj kd n k)
  have "\<exists>tr a. exec (k (Inl undefined)) tr a" by (rule GetObj.IH) simp
  then show ?case by (meson exec_GetObj answersGet.simps(1))
qed (meson exec.intros rangeI)+

lemma always_bind: "always P (bind p f) Q \<longleftrightarrow> always P p (\<lambda>a. always P (f a) Q)"
  by (induction p) simp_all

lemma always_mono:
  assumes "always P p Q" and "\<And>e. P e \<Longrightarrow> P' e" and "\<And>a. Q a \<Longrightarrow> Q' a"
  shows "always P' p Q'"
  using assms(1) by (induction p) (auto intro: assms(2,3))

lemma always_events: "always P p Q \<Longrightarrow> always P p (\<lambda>_. True)"
  by (erule always_mono) simp_all

lemma always_conj:
  "always P p Q \<Longrightarrow> always P' p Q' \<Longrightarrow> always (\<lambda>e. P e \<and> P' e) p (\<lambda>a. Q a \<and> Q' a)"
  by (induction p) auto

lemma always_TrueI [simp]: "always (\<lambda>_. True) p (\<lambda>_. True)"
  by (induction p) auto

text \<open>
  The contract most operations share: \<open>confined P p\<close> says that \<open>p\<close> makes only requests in \<open>P\<close>,
  whatever it returns.
\<close>

definition confined :: "(event \<Rightarrow> bool) \<Rightarrow> 'a prog \<Rightarrow> bool" where
  "confined P p \<longleftrightarrow> always P p (\<lambda>_. True)"

lemma confined_exec: "confined P p \<Longrightarrow> exec p tr a \<Longrightarrow> list_all P tr"
  by (auto simp: confined_def dest: always_exec)

lemma confined_mono: "confined P p \<Longrightarrow> (\<And>e. P e \<Longrightarrow> P' e) \<Longrightarrow> confined P' p"
  unfolding confined_def by (erule always_mono) auto

lemma confined_Ret [contract_rules]: "confined P (Ret a)"
  by (simp add: confined_def)

lemma confined_bind [contract_rules]:
  "confined P p \<Longrightarrow> (\<And>a. confined P (f a)) \<Longrightarrow> confined P (bind p f)"
  by (auto simp: confined_def always_bind elim: always_mono)

lemma confined_check [contract_rules]:
  "confined P p \<Longrightarrow> confined P rest \<Longrightarrow> confined P (check p wrap rest)"
  unfolding check_def by (auto intro!: confined_bind confined_Ret split: option.splits)

lemma confined_if [contract_rules]:
  "(b \<Longrightarrow> confined P p) \<Longrightarrow> (\<not> b \<Longrightarrow> confined P q) \<Longrightarrow> confined P (if b then p else q)"
  by simp

lemma confined_requests [contract_rules]:
  "(\<And>r. answersGetCR n r \<Longrightarrow> P (EvGetCR n r)) \<Longrightarrow>
     (\<And>r. answersGetCR n r \<Longrightarrow> confined P (kc r)) \<Longrightarrow> confined P (GetCR n kc)"
  "(\<And>r. answersGet kd n r \<Longrightarrow> P (EvGet kd n r)) \<Longrightarrow>
     (\<And>r. answersGet kd n r \<Longrightarrow> confined P (kg r)) \<Longrightarrow> confined P (GetObj kd n kg)"
  "(\<And>r. P (EvCreate ob r)) \<Longrightarrow> (\<And>r. confined P (k r)) \<Longrightarrow> confined P (Create ob k)"
  "(\<And>r. P (EvUpdate ob r)) \<Longrightarrow> (\<And>r. confined P (k r)) \<Longrightarrow> confined P (Update ob k)"
  "(\<And>r. P (EvPatch kd n j r)) \<Longrightarrow> (\<And>r. confined P (k r)) \<Longrightarrow> confined P (MergePatch kd n j k)"
  "(\<And>r. P (EvStatusPatch c c' r)) \<Longrightarrow> (\<And>r. confined P (k r)) \<Longrightarrow>
     confined P (StatusPatch c c' k)"
  "(\<And>r. P (EvRESTMapping g kd' r)) \<Longrightarrow> (\<And>r. confined P (k r)) \<Longrightarrow>
     confined P (RESTMapping g kd' k)"
  "(\<And>r. P (EvNewDiscoveryClient r)) \<Longrightarrow> (\<And>r. confined P (k r)) \<Longrightarrow>
     confined P (NewDiscoveryClient k)"
  "(\<And>r. P (EvServerResources gv r)) \<Longrightarrow> (\<And>r. confined P (ks r)) \<Longrightarrow>
     confined P (ServerResources gv ks)"
  "(\<And>t. P (EvNow t)) \<Longrightarrow> (\<And>t. confined P (kn t)) \<Longrightarrow> confined P (Now kn)"
  by (simp_all add: confined_def)

section \<open>Running against an API server\<close>

text \<open>
  An API server (with its cluster, other writers included) is a state type and an answer to each
  request.  It is a parameter: nothing is assumed of it here.
\<close>

record 'w api =
  api_GetCR :: "NamespacedName \<Rightarrow> 'w \<Rightarrow> (LibError + AlibabaCloudCSIDriver) \<times> 'w"
  api_Get :: "Kind \<Rightarrow> NamespacedName \<Rightarrow> 'w \<Rightarrow> (LibError + Object) \<times> 'w"
  api_Create :: "Object \<Rightarrow> 'w \<Rightarrow> LibError option \<times> 'w"
  api_Update :: "Object \<Rightarrow> 'w \<Rightarrow> LibError option \<times> 'w"
  api_Patch :: "Kind \<Rightarrow> NamespacedName \<Rightarrow> json \<Rightarrow> 'w \<Rightarrow> LibError option \<times> 'w"
  api_StatusPatch :: "AlibabaCloudCSIDriver \<Rightarrow> AlibabaCloudCSIDriver \<Rightarrow> 'w \<Rightarrow>
     LibError option \<times> 'w"
  api_RESTMapping :: "string \<Rightarrow> string \<Rightarrow> 'w \<Rightarrow> LibError option \<times> 'w"
  api_NewDiscoveryClient :: "'w \<Rightarrow> LibError option \<times> 'w"
  api_ServerResources :: "string \<Rightarrow> 'w \<Rightarrow> (LibError + string list) \<times> 'w"
  api_Now :: "'w \<Rightarrow> nat \<times> 'w"

primrec run :: "'w api \<Rightarrow> 'a prog \<Rightarrow> 'w \<Rightarrow> 'a \<times> 'w" where
  "run A (Ret a) w = (a, w)"
| "run A (GetCR n k) w = (let (r, w') = api_GetCR A n w in run A (k r) w')"
| "run A (GetObj kd n k) w = (let (r, w') = api_Get A kd n w in run A (k r) w')"
| "run A (Create ob k) w = (let (r, w') = api_Create A ob w in run A (k r) w')"
| "run A (Update ob k) w = (let (r, w') = api_Update A ob w in run A (k r) w')"
| "run A (MergePatch kd n j k) w = (let (r, w') = api_Patch A kd n j w in run A (k r) w')"
| "run A (StatusPatch c c' k) w = (let (r, w') = api_StatusPatch A c c' w in run A (k r) w')"
| "run A (RESTMapping g kd k) w = (let (r, w') = api_RESTMapping A g kd w in run A (k r) w')"
| "run A (NewDiscoveryClient k) w = (let (r, w') = api_NewDiscoveryClient A w in run A (k r) w')"
| "run A (ServerResources gv k) w = (let (r, w') = api_ServerResources A gv w in run A (k r) w')"
| "run A (Now k) w = (let (t, w') = api_Now A w in run A (k t) w')"

declare run.simps [run_simps]

lemma run_bind [run_simps]: "run A (bind p f) w = (let (a, w') = run A p w in run A (f a) w')"
  by (induction p arbitrary: w) (simp_all add: Let_def split: prod.splits)

lemma run_check [run_simps]:
  "run A (check p wrap rest) w = (let (e, w') = run A p w in
     case e of None \<Rightarrow> run A rest w' | Some e \<Rightarrow> (Some (wrap e), w'))"
  by (simp add: check_def run_bind split: option.splits prod.splits)

text \<open>The requests of a run, with their answers.\<close>

primrec requests :: "'w api \<Rightarrow> 'a prog \<Rightarrow> 'w \<Rightarrow> event list" where
  "requests A (Ret a) w = []"
| "requests A (GetCR n k) w = (let (r, w') = api_GetCR A n w in EvGetCR n r # requests A (k r) w')"
| "requests A (GetObj kd n k) w = (let (r, w') = api_Get A kd n w in EvGet kd n r # requests A (k r) w')"
| "requests A (Create ob k) w = (let (r, w') = api_Create A ob w in EvCreate ob r # requests A (k r) w')"
| "requests A (Update ob k) w = (let (r, w') = api_Update A ob w in EvUpdate ob r # requests A (k r) w')"
| "requests A (MergePatch kd n j k) w =
     (let (r, w') = api_Patch A kd n j w in EvPatch kd n j r # requests A (k r) w')"
| "requests A (StatusPatch c c' k) w =
     (let (r, w') = api_StatusPatch A c c' w in EvStatusPatch c c' r # requests A (k r) w')"
| "requests A (RESTMapping g kd k) w =
     (let (r, w') = api_RESTMapping A g kd w in EvRESTMapping g kd r # requests A (k r) w')"
| "requests A (NewDiscoveryClient k) w =
     (let (r, w') = api_NewDiscoveryClient A w in EvNewDiscoveryClient r # requests A (k r) w')"
| "requests A (ServerResources gv k) w =
     (let (r, w') = api_ServerResources A gv w in EvServerResources gv r # requests A (k r) w')"
| "requests A (Now k) w = (let (t, w') = api_Now A w in EvNow t # requests A (k t) w')"

lemma requests_bind:
  "requests A (bind p f) w = requests A p w @ requests A (f (fst (run A p w))) (snd (run A p w))"
  by (induction p arbitrary: w) (simp_all add: Let_def split_beta)

lemma requests_check:
  "requests A (check p wrap rest) w = requests A p w @
     (if fst (run A p w) = None then requests A rest (snd (run A p w)) else [])"
  by (simp add: check_def requests_bind split: option.split)

lemma run_iffs:
  "run A (GetCR n k) w = (a, w') \<longleftrightarrow>
     (\<exists>res w1. api_GetCR A n w = (res, w1) \<and> run A (k res) w1 = (a, w'))"
  "run A (GetObj kd n kg) w = (a, w') \<longleftrightarrow>
     (\<exists>res w1. api_Get A kd n w = (res, w1) \<and> run A (kg res) w1 = (a, w'))"
  "run A (Create ob ke) w = (a, w') \<longleftrightarrow>
     (\<exists>res w1. api_Create A ob w = (res, w1) \<and> run A (ke res) w1 = (a, w'))"
  "run A (Update ob ke) w = (a, w') \<longleftrightarrow>
     (\<exists>res w1. api_Update A ob w = (res, w1) \<and> run A (ke res) w1 = (a, w'))"
  "run A (MergePatch kd n j ke) w = (a, w') \<longleftrightarrow>
     (\<exists>res w1. api_Patch A kd n j w = (res, w1) \<and> run A (ke res) w1 = (a, w'))"
  "run A (StatusPatch c c' ke) w = (a, w') \<longleftrightarrow>
     (\<exists>res w1. api_StatusPatch A c c' w = (res, w1) \<and> run A (ke res) w1 = (a, w'))"
  "run A (RESTMapping g kd' ke) w = (a, w') \<longleftrightarrow>
     (\<exists>res w1. api_RESTMapping A g kd' w = (res, w1) \<and> run A (ke res) w1 = (a, w'))"
  "run A (NewDiscoveryClient ke) w = (a, w') \<longleftrightarrow>
     (\<exists>res w1. api_NewDiscoveryClient A w = (res, w1) \<and> run A (ke res) w1 = (a, w'))"
  "run A (ServerResources gv kl) w = (a, w') \<longleftrightarrow>
     (\<exists>res w1. api_ServerResources A gv w = (res, w1) \<and> run A (kl res) w1 = (a, w'))"
  "run A (Now kt) w = (a, w') \<longleftrightarrow>
     (\<exists>res w1. api_Now A w = (res, w1) \<and> run A (kt res) w1 = (a, w'))"
  by (simp_all split: prod.splits)

lemma run_bind_iff: "run A (bind p f) w = (b, w') \<longleftrightarrow>
    (\<exists>a w1. run A p w = (a, w1) \<and> run A (f a) w1 = (b, w'))"
  by (simp add: run_bind split: prod.splits)

lemma run_check_None: "run A (check p wrap rest) w = (None, w') \<longleftrightarrow>
    (\<exists>w1. run A p w = (None, w1) \<and> run A rest w1 = (None, w'))"
  by (auto simp: run_check split: prod.splits option.splits)

end
