(* ===== verification/Apply.thy ===== *)
theory Apply
  imports Client
begin

text \<open>
  The generic helpers of the reconciler, \<open>createOrAdopt\<close> and \<open>createOrUpdate\<close>, and the libraries
  they call.  \<open>controllerutil.SetControllerReference\<close>, \<open>metav1.IsControlledBy\<close> and
  \<open>retry.RetryOnConflict\<close> are not part of the repository: they are parameters, fields of the
  record the operations take, and the locales below state what their documentation promises.
\<close>

section \<open>The reconciler and its libraries\<close>

text \<open>
  \<open>rec_Config\<close> says whether the reconciler has a \<open>rest.Config\<close>; \<open>rec_Getenv\<close> is \<open>os.Getenv\<close> at
  start-up, the empty string for a variable that is not set.  The function that is retried
  captures the object it sends and may change it between two attempts, so \<open>RetryOnConflict\<close> is
  given that object as a state.
\<close>

record Reconciler =
  lib_SetControllerReference :: "AlibabaCloudCSIDriver \<Rightarrow> Object \<Rightarrow> LibError + Object"
  lib_IsControlledBy :: "Object \<Rightarrow> AlibabaCloudCSIDriver \<Rightarrow> bool"
  lib_RetryOnConflict :: "(Object \<Rightarrow> (goerror option \<times> Object) prog) \<Rightarrow> Object \<Rightarrow>
     (goerror option \<times> Object) prog"
  rec_Config :: bool
  rec_Getenv :: "string \<Rightarrow> string"

section \<open>createOrAdopt\<close>

definition adoptAttempt :: "Reconciler \<Rightarrow> AlibabaCloudCSIDriver \<Rightarrow> Object \<Rightarrow>
    (goerror option \<times> Object) prog" where
  "adoptAttempt r cr obj = GetObj (objKind obj) (objNamed obj) (\<lambda>res. case res of
       Inl err \<Rightarrow> Ret (Some (LibErr err), obj)
     | Inr existing \<Rightarrow>
         if lib_IsControlledBy r existing cr then Ret (None, obj)
         else (case lib_SetControllerReference r cr existing of
             Inl err \<Rightarrow> Ret (Some (LibErr err), obj)
           | Inr existing' \<Rightarrow> Update existing' (\<lambda>err. Ret (map_option LibErr err, obj))))"

definition createOrAdopt :: "Reconciler \<Rightarrow> AlibabaCloudCSIDriver \<Rightarrow> Object \<Rightarrow>
    goerror option prog" where
  "createOrAdopt r cr obj = (case lib_SetControllerReference r cr obj of
       Inl err \<Rightarrow> Ret (Some (LibErr err))
     | Inr obj' \<Rightarrow> Create obj' (\<lambda>err. case err of
           None \<Rightarrow> Ret None
         | Some err \<Rightarrow>
             if err_Reason err \<noteq> AlreadyExists then Ret (Some (LibErr err))
             else bind (lib_RetryOnConflict r (adoptAttempt r cr) obj') (\<lambda>(err, _). Ret err)))"

section \<open>createOrUpdate\<close>

definition updateAttempt :: "Object \<Rightarrow> (goerror option \<times> Object) prog" where
  "updateAttempt obj = GetObj (objKind obj) (objNamed obj) (\<lambda>res. case res of
       Inl err \<Rightarrow>
         if err_Reason err = NotFound then Create obj (\<lambda>err. Ret (map_option LibErr err, obj))
         else Ret (Some (LibErr err), obj)
     | Inr existing \<Rightarrow>
         (let obj' = setResourceVersion (resourceVersion existing) obj
          in Update obj' (\<lambda>err. Ret (map_option LibErr err, obj'))))"

definition createOrUpdate :: "Reconciler \<Rightarrow> AlibabaCloudCSIDriver \<Rightarrow> Object \<Rightarrow>
    goerror option prog" where
  "createOrUpdate r cr obj = (case lib_SetControllerReference r cr obj of
       Inl err \<Rightarrow> Ret (Some (LibErr err))
     | Inr obj' \<Rightarrow> bind (lib_RetryOnConflict r updateAttempt obj') (\<lambda>(err, _). Ret err))"

section \<open>What the libraries promise\<close>

subsection \<open>Owner references\<close>

text \<open>
  The controller of an object is its owner reference with the \<open>controller\<close> flag.  A controller is
  foreign when it refers to an object other than the resource being reconciled.
\<close>

definition controllerOf :: "Object \<Rightarrow> OwnerReference option" where
  "controllerOf ob = find or_Controller (owners ob)"

definition ownerKind :: string where
  "ownerKind = ''AlibabaCloudCSIDriver''"

definition ownerGroup :: string where
  "ownerGroup = ''csi.alibabacloud.com''"

text \<open>The group of an \<open>apiVersion\<close>: what stands before the slash, or nothing for the core group.\<close>

definition apiGroup :: "string \<Rightarrow> string" where
  "apiGroup apiVersion = (if CHR ''/'' \<in> set apiVersion then takeWhile (\<lambda>c. c \<noteq> CHR ''/'') apiVersion else [])"

definition refersTo :: "AlibabaCloudCSIDriver \<Rightarrow> OwnerReference \<Rightarrow> bool" where
  "refersTo cr ref \<longleftrightarrow> apiGroup (or_APIVersion ref) = ownerGroup \<and> or_Kind ref = ownerKind \<and>
     or_Name ref = cr_Name cr"

definition foreign :: "AlibabaCloudCSIDriver \<Rightarrow> Object \<Rightarrow> bool" where
  "foreign cr ob \<longleftrightarrow> (\<exists>ref. controllerOf ob = Some ref \<and> \<not> refersTo cr ref)"

definition namespaceOk :: "AlibabaCloudCSIDriver \<Rightarrow> Object \<Rightarrow> bool" where
  "namespaceOk cr ob \<longleftrightarrow> cr_Namespace cr = [] \<or> cr_Namespace cr = fst (objNamed ob)"

text \<open>
  \<open>SetControllerReference\<close> \<open>sets owner as a Controller OwnerReference on controlled\<close>, \<open>returns an
  error if there is another OwnerReference with Controller flag set\<close>, and refuses a namespaced
  owner for an object outside its namespace; the reference it sets blocks the deletion of the owner.  \<open>IsControlledBy\<close> \<open>checks if the object has a
  controllerRef set to the given owner\<close>; it compares UIDs.
\<close>

locale owner_lib =
  fixes setController :: "AlibabaCloudCSIDriver \<Rightarrow> Object \<Rightarrow> LibError + Object"
    and isControlledBy :: "Object \<Rightarrow> AlibabaCloudCSIDriver \<Rightarrow> bool"
  assumes set_owners_only:
      "setController cr ob = Inr ob' \<Longrightarrow> \<exists>refs. ob' = setOwners refs ob"
    and set_controls: "setController cr ob = Inr ob' \<Longrightarrow>
      \<exists>ref. controllerOf ob' = Some ref \<and> refersTo cr ref \<and> or_UID ref = cr_UID cr \<and>
        or_BlockOwnerDeletion ref"
    and set_succeeds: "namespaceOk cr ob \<Longrightarrow> \<not> foreign cr ob \<Longrightarrow> \<exists>ob'. setController cr ob = Inr ob'"
    and set_refuses: "foreign cr ob \<Longrightarrow> \<exists>e. setController cr ob = Inl e"
    and controlled_iff: "isControlledBy ob cr \<longleftrightarrow>
      (\<exists>ref. controllerOf ob = Some ref \<and> or_UID ref = cr_UID cr)"
begin

lemma set_isControlledBy: "setController cr ob = Inr ob' \<Longrightarrow> isControlledBy ob' cr"
  by (auto simp: controlled_iff dest: set_controls)

lemma set_not_foreign: "setController cr ob = Inr ob' \<Longrightarrow> \<not> foreign cr ob'"
  by (auto simp: foreign_def dest: set_controls)

lemma set_objRef: "setController cr ob = Inr ob' \<Longrightarrow> objRef ob' = objRef ob"
  by (auto dest!: set_owners_only simp: object_simps)

lemma set_body: "setController cr ob = Inr ob' \<Longrightarrow> obj_body ob' = obj_body ob"
  by (auto dest!: set_owners_only simp: object_simps)

lemma set_resourceVersion:
  "setController cr ob = Inr ob' \<Longrightarrow> resourceVersion ob' = resourceVersion ob"
  by (auto dest!: set_owners_only simp: object_simps)

lemma set_fresh:
  assumes "cr_Namespace cr = []" and "owners ob = []"
  shows "\<exists>ob'. setController cr ob = Inr ob'"
  using assms by (intro set_succeeds) (auto simp: namespaceOk_def foreign_def controllerOf_def)

lemma isControlledBy_owners: "owners ob = owners ob' \<Longrightarrow> isControlledBy ob cr = isControlledBy ob' cr"
  by (simp add: controlled_iff controllerOf_def)

end

subsection \<open>Retrying on conflict\<close>

text \<open>
  \<open>RetryOnConflict\<close> runs the function, and as long as it returns a conflict error and the backoff
  has steps left runs it again; it returns what the last run returned.  The programs that behave
  so are the ones the following relation admits; the number of steps is left open.
\<close>

definition isConflict :: "goerror option \<Rightarrow> bool" where
  "isConflict err \<longleftrightarrow> (\<exists>e. err = Some e \<and> reasonOf e = Conflict)"

inductive retries :: "('s \<Rightarrow> (goerror option \<times> 's) prog) \<Rightarrow> 's \<Rightarrow> (goerror option \<times> 's) prog \<Rightarrow> bool"
  for f where
  last_attempt: "retries f s (f s)"
| more_attempts: "(\<And>s'. retries f s' (again s')) \<Longrightarrow>
    retries f s (bind (f s) (\<lambda>(err, s'). if isConflict err then again s' else Ret (err, s')))"

locale retry_lib =
  fixes retryOnConflict :: "(Object \<Rightarrow> (goerror option \<times> Object) prog) \<Rightarrow> Object \<Rightarrow>
     (goerror option \<times> Object) prog"
  assumes retries: "retries f s (retryOnConflict f s)"

text \<open>An invariant of the captured state that every attempt keeps holds at the end.\<close>

lemma always_retries:
  assumes "retries f s p" and "I s"
    and "\<And>s. I s \<Longrightarrow> always P (f s) (\<lambda>(err, s'). I s' \<and> Q (err, s'))"
  shows "always P p Q"
  using assms(1,2)
proof (induction rule: retries.induct)
  case (last_attempt s)
  then show ?case using assms(3) [of s] by (auto elim!: always_mono)
next
  case (more_attempts again s)
  show ?case unfolding always_bind
    by (rule always_mono [OF assms(3) [OF more_attempts.prems]]) (auto simp: more_attempts.IH)
qed

lemma run_retries:
  assumes "retries f s p" and "run A (f s) w = ((err, s'), w')" and "\<not> isConflict err"
  shows "run A p w = ((err, s'), w')"
  using assms by (cases rule: retries.cases) (auto simp: run_simps)

context retry_lib
begin

lemma always_retry:
  assumes "I s" and "\<And>s. I s \<Longrightarrow> always P (f s) (\<lambda>(err, s'). I s' \<and> Q (err, s'))"
  shows "always P (retryOnConflict f s) Q"
  by (rule always_retries [OF retries, where I = I]) (use assms in auto)

lemma confined_retry:
  assumes "I s" and "\<And>s. I s \<Longrightarrow> always P (f s) (\<lambda>(err, s'). I s')"
  shows "confined P (retryOnConflict f s)"
  unfolding confined_def
  by (rule always_retry [where I = I]) (use assms in \<open>auto elim: always_mono\<close>)

lemma run_retry:
  "run A (f s) w = ((err, s'), w') \<Longrightarrow> \<not> isConflict err \<Longrightarrow>
   run A (retryOnConflict f s) w = ((err, s'), w')"
  by (rule run_retries [OF retries])

end

text \<open>The two interfaces together are what the reconciler needs of its libraries.\<close>

locale operator_libs =
  owner_lib "lib_SetControllerReference r" "lib_IsControlledBy r" +
  retry_lib "lib_RetryOnConflict r" for r :: Reconciler

section \<open>Contracts of the two helpers, whatever the API server answers\<close>

text \<open>
  \<open>writesWithin T\<close>: the event writes nothing, or writes an object whose reference is in \<open>T\<close>,
  and a patch changes nothing but the \<open>spec\<close>.
\<close>

definition patchesSpecOnly :: "json \<Rightarrow> bool" where
  "patchesSpecOnly j \<longleftrightarrow> (\<exists>v. j = JObject [(''spec'', v)])"

fun writesWithin :: "ObjectRef set \<Rightarrow> event \<Rightarrow> bool" where
  "writesWithin T (EvCreate ob _) = (objRef ob \<in> T)"
| "writesWithin T (EvUpdate ob _) = (objRef ob \<in> T)"
| "writesWithin T (EvPatch kd n j _) = ((kd, n) \<in> T \<and> patchesSpecOnly j)"
| "writesWithin T (EvStatusPatch _ _ _) = False"
| "writesWithin T _ = True"

lemma writesWithin_mono: "writesWithin T e \<Longrightarrow> T \<subseteq> T' \<Longrightarrow> writesWithin T' e"
  by (cases e) auto

text \<open>
  \<open>ownedWrites r cr\<close>: what the event creates or replaces is controlled by \<open>cr\<close>; a namespace,
  which the operator labels but does not own, is the exception.
\<close>

fun ownedWrites :: "Reconciler \<Rightarrow> AlibabaCloudCSIDriver \<Rightarrow> event \<Rightarrow> bool" where
  "ownedWrites r cr (EvCreate ob _) = lib_IsControlledBy r ob cr"
| "ownedWrites r cr (EvUpdate ob _) = (objKind ob = KNamespace \<or> lib_IsControlledBy r ob cr)"
| "ownedWrites r cr (EvPatch _ _ j _) = patchesSpecOnly j"
| "ownedWrites r cr _ = True"

text \<open>
  \<open>updatesFollowGet R tr\<close>: every update in the trace is the request right after a successful
  \<open>Get\<close>, and \<open>R\<close> relates the object read to the object written.
\<close>

fun objectRead :: "event \<Rightarrow> Object option" where
  "objectRead (EvGet _ _ (Inr ex)) = Some ex"
| "objectRead _ = None"

fun updateFollows :: "(Object \<Rightarrow> Object \<Rightarrow> bool) \<Rightarrow> Object option \<Rightarrow> event \<Rightarrow> bool" where
  "updateFollows R (Some ex) (EvUpdate ob _) = R ex ob"
| "updateFollows R None (EvUpdate ob _) = False"
| "updateFollows R _ _ = True"

primrec updatesFollowGetFrom :: "(Object \<Rightarrow> Object \<Rightarrow> bool) \<Rightarrow> Object option \<Rightarrow> event list \<Rightarrow> bool"
  where
  "updatesFollowGetFrom R read [] = True"
| "updatesFollowGetFrom R read (ev # tr) =
     (updateFollows R read ev \<and> updatesFollowGetFrom R (objectRead ev) tr)"

abbreviation updatesFollowGet :: "(Object \<Rightarrow> Object \<Rightarrow> bool) \<Rightarrow> event list \<Rightarrow> bool" where
  "updatesFollowGet R \<equiv> updatesFollowGetFrom R None"

lemma updateFollows_None: "updateFollows R None ev \<Longrightarrow> updateFollows R read ev"
  by (cases ev; cases read) auto

lemma updatesFollowGet_weaken:
  "updatesFollowGet R tr \<Longrightarrow> updatesFollowGetFrom R read tr"
  by (cases tr) (auto dest: updateFollows_None)

lemma updatesFollowGet_append:
  "updatesFollowGetFrom R read tr \<Longrightarrow> updatesFollowGet R tr' \<Longrightarrow>
   updatesFollowGetFrom R read (tr @ tr')"
  by (induction tr arbitrary: read) (auto dest: updatesFollowGet_weaken)

lemma updatesFollowGet_mono:
  "updatesFollowGetFrom R read tr \<Longrightarrow> (\<And>ex ob. R ex ob \<Longrightarrow> R' ex ob) \<Longrightarrow> updatesFollowGetFrom R' read tr"
proof (induction tr arbitrary: read)
  case (Cons ev tr)
  then show ?case by (cases ev; cases read) auto
qed simp

text \<open>\<open>onUpdate P\<close>: the object that is written, if the event is an update, satisfies \<open>P\<close>.\<close>

fun onUpdate :: "(Object \<Rightarrow> bool) \<Rightarrow> event \<Rightarrow> bool" where
  "onUpdate P (EvUpdate ob _) = P ob"
| "onUpdate P _ = True"

lemma updatesFollowGet_conj:
  "updatesFollowGetFrom R read tr \<Longrightarrow> list_all (onUpdate P) tr \<Longrightarrow>
   updatesFollowGetFrom (\<lambda>ex ob. R ex ob \<and> P ob) read tr"
proof (induction tr arbitrary: read)
  case (Cons ev tr)
  then show ?case by (cases ev; cases read) auto
qed simp

lemma updatesFollowGet_none:
  "list_all (onUpdate (\<lambda>_. False)) tr \<Longrightarrow> updatesFollowGetFrom R read tr"
proof (induction tr arbitrary: read)
  case (Cons ev tr)
  then show ?case by (cases ev; cases read) auto
qed simp

text \<open>\<open>updating R p\<close>: on every path of \<open>p\<close>, updates follow a read and \<open>R\<close> relates the two objects.\<close>

definition updating :: "(Object \<Rightarrow> Object \<Rightarrow> bool) \<Rightarrow> 'a prog \<Rightarrow> bool" where
  "updating R p \<longleftrightarrow> (\<forall>tr a. exec p tr a \<longrightarrow> updatesFollowGet R tr)"

lemma updating_Ret: "updating R (Ret a)"
  by (simp add: updating_def)

lemma updating_bind: "updating R p \<Longrightarrow> (\<And>a. updating R (f a)) \<Longrightarrow> updating R (bind p f)"
  unfolding updating_def by (blast elim: exec_bindE intro: updatesFollowGet_append)

lemma updating_check: "updating R p \<Longrightarrow> updating R q \<Longrightarrow> updating R (check p wrap q)"
  unfolding check_def by (rule updating_bind) (auto simp: updating_Ret split: option.split)

lemma updating_if: "(b \<Longrightarrow> updating R p) \<Longrightarrow> (\<not> b \<Longrightarrow> updating R q) \<Longrightarrow> updating R (if b then p else q)"
  by simp

lemma updating_none: "confined (onUpdate (\<lambda>_. False)) p \<Longrightarrow> updating R p"
  unfolding updating_def by (blast dest: confined_exec intro: updatesFollowGet_none)

text \<open>
  A property of traces that concatenation keeps holds of a retried function when it holds of
  every attempt.
\<close>

lemma exec_retries:
  assumes "retries f s p" and "exec p tr res" and "I s"
    and "\<And>s tr err s'. I s \<Longrightarrow> exec (f s) tr (err, s') \<Longrightarrow> T tr \<and> I s'"
    and "\<And>tr tr'. T tr \<Longrightarrow> T tr' \<Longrightarrow> T (tr @ tr')" and "T []"
  shows "T tr"
  using assms(1-3)
proof (induction arbitrary: tr res rule: retries.induct)
  case (last_attempt s)
  then show ?case using assms(4) [of s tr "fst res" "snd res"] by simp
next
  case (more_attempts again s)
  from more_attempts.prems(1) obtain tr1 err s' tr2 where tr: "tr = tr1 @ tr2"
    and first: "exec (f s) tr1 (err, s')"
    and rest: "exec (if isConflict err then again s' else Ret (err, s')) tr2 res"
    by (auto elim!: exec_bindE)
  from assms(4) [OF more_attempts.prems(2) first] have "T tr1" and "I s'" by simp_all
  moreover have "T tr2"
    using rest \<open>I s'\<close> assms(6) more_attempts.IH [of s' tr2 res]
    by (cases "isConflict err") auto
  ultimately show ?case unfolding tr by (simp add: assms(5))
qed

text \<open>One attempt of each helper.\<close>

lemma exec_adoptAttempt:
  assumes "exec (adoptAttempt r cr obj) tr (err, obj')"
  shows "obj' = obj \<and> (
    (\<exists>res. tr = [EvGet (objKind obj) (objNamed obj) res] \<and> answersGet (objKind obj) (objNamed obj) res)
    \<or> (\<exists>ex ex' e. tr = [EvGet (objKind obj) (objNamed obj) (Inr ex), EvUpdate ex' e]
        \<and> objRef ex = objRef obj \<and> \<not> lib_IsControlledBy r ex cr
        \<and> lib_SetControllerReference r cr ex = Inr ex'))"
proof -
  from assms obtain res tr' where tr: "tr = EvGet (objKind obj) (objNamed obj) res # tr'"
    and res: "answersGet (objKind obj) (objNamed obj) res"
    and rest: "exec (case res of
        Inl err \<Rightarrow> Ret (Some (LibErr err), obj)
      | Inr existing \<Rightarrow> if lib_IsControlledBy r existing cr then Ret (None, obj)
          else (case lib_SetControllerReference r cr existing of
              Inl err \<Rightarrow> Ret (Some (LibErr err), obj)
            | Inr existing' \<Rightarrow> Update existing' (\<lambda>err. Ret (map_option LibErr err, obj))))
      tr' (err, obj')"
    unfolding adoptAttempt_def exec_GetObj_iff by blast
  show ?thesis
  proof (cases res)
    case (Inl e)
    with rest res show ?thesis unfolding tr by auto
  next
    case (Inr ex)
    with rest res show ?thesis unfolding tr
      by (cases "lib_IsControlledBy r ex cr"; cases "lib_SetControllerReference r cr ex")
        (auto simp: exec_iffs objRef_def)
  qed
qed

lemma exec_updateAttempt:
  assumes "exec (updateAttempt obj) tr (err, obj')"
  shows "(\<exists>e. tr = [EvGet (objKind obj) (objNamed obj) (Inl e)] \<and> obj' = obj)
    \<or> (\<exists>e e'. tr = [EvGet (objKind obj) (objNamed obj) (Inl e), EvCreate obj e'] \<and> obj' = obj)
    \<or> (\<exists>ex e. tr = [EvGet (objKind obj) (objNamed obj) (Inr ex), EvUpdate obj' e]
        \<and> obj' = setResourceVersion (resourceVersion ex) obj)"
proof -
  from assms obtain res tr' where tr: "tr = EvGet (objKind obj) (objNamed obj) res # tr'"
    and rest: "exec (case res of
        Inl err \<Rightarrow> if err_Reason err = NotFound
          then Create obj (\<lambda>err. Ret (map_option LibErr err, obj)) else Ret (Some (LibErr err), obj)
      | Inr existing \<Rightarrow> (let obj' = setResourceVersion (resourceVersion existing) obj
          in Update obj' (\<lambda>err. Ret (map_option LibErr err, obj')))) tr' (err, obj')"
    unfolding updateAttempt_def exec_GetObj_iff by blast
  show ?thesis
  proof (cases res)
    case (Inl e)
    with rest show ?thesis unfolding tr by (cases "err_Reason e = NotFound") (auto simp: exec_iffs)
  next
    case (Inr ex)
    with rest show ?thesis unfolding tr by (auto simp: exec_iffs Let_def)
  qed
qed

context operator_libs
begin

text \<open>
  \<open>createOrAdopt\<close> creates the object it was given, stamped, or updates an existing one in which
  only the owner references change, right after reading it.
\<close>

definition adopts :: "AlibabaCloudCSIDriver \<Rightarrow> Object \<Rightarrow> Object \<Rightarrow> bool" where
  "adopts cr ex ob \<longleftrightarrow> \<not> lib_IsControlledBy r ex cr \<and> \<not> foreign cr ex \<and>
     (\<exists>refs. ob = setOwners refs ex) \<and> lib_IsControlledBy r ob cr"

lemma adopt_from_set:
  "\<not> lib_IsControlledBy r ex cr \<Longrightarrow> lib_SetControllerReference r cr ex = Inr ob \<Longrightarrow> adopts cr ex ob"
  unfolding adopts_def
  by (metis Inl_Inr_False set_isControlledBy set_owners_only set_refuses)

lemma createOrAdopt_updates:
  assumes "exec (createOrAdopt r cr obj) tr err"
  shows "updatesFollowGet (adopts cr) tr"
proof -
  have attempt: "updatesFollowGet (adopts cr) tr"
    if "exec (adoptAttempt r cr ob) tr (err, ob')" for ob tr err ob'
    using exec_adoptAttempt [OF that] by (auto dest: adopt_from_set)
  have loop: "updatesFollowGet (adopts cr) tr"
    if "exec (lib_RetryOnConflict r (adoptAttempt r cr) ob) tr res" for ob tr res
    by (rule exec_retries [OF retries that, where I = "\<lambda>_. True"])
      (auto intro: attempt updatesFollowGet_append)
  show ?thesis
  proof (cases "lib_SetControllerReference r cr obj")
    case (Inl e)
    with assms show ?thesis unfolding createOrAdopt_def by simp
  next
    case (Inr obj')
    with assms obtain res tr' where tr: "tr = EvCreate obj' res # tr'"
      and rest: "exec (case res of None \<Rightarrow> Ret None | Some err \<Rightarrow>
          if err_Reason err \<noteq> AlreadyExists then Ret (Some (LibErr err))
          else bind (lib_RetryOnConflict r (adoptAttempt r cr) obj') (\<lambda>(err, _). Ret err)) tr' err"
      unfolding createOrAdopt_def by (auto simp: exec_Create_iff)
    have "updatesFollowGet (adopts cr) tr'"
    proof (cases "\<exists>e. res = Some e \<and> err_Reason e = AlreadyExists")
      case True
      with rest obtain res' where
        "exec (lib_RetryOnConflict r (adoptAttempt r cr) obj') tr' res'"
        by (auto elim!: exec_bindE)
      then show ?thesis by (rule loop)
    next
      case False
      with rest show ?thesis by (cases res) auto
    qed
    then show ?thesis by (simp add: tr)
  qed
qed

lemma createOrUpdate_updates:
  assumes "exec (createOrUpdate r cr obj) tr err"
  shows "updatesFollowGet (\<lambda>ex ob. \<exists>stamped. lib_SetControllerReference r cr obj = Inr stamped \<and>
      ob = setResourceVersion (resourceVersion ex) stamped) tr"
proof (cases "lib_SetControllerReference r cr obj")
  case (Inl e)
  with assms show ?thesis unfolding createOrUpdate_def by simp
next
  case (Inr stamped)
  let ?I = "\<lambda>ob. \<exists>rv. ob = setResourceVersion rv stamped"
  let ?R = "\<lambda>ex ob. ob = setResourceVersion (resourceVersion ex) stamped"
  have rv2: "setResourceVersion a (setResourceVersion b ob) = setResourceVersion a ob" for a b ob
    by (simp add: setResourceVersion_def)
  have I0: "?I stamped"
    by (rule exI [of _ "resourceVersion stamped"])
      (simp add: setResourceVersion_def resourceVersion_def)
  from assms Inr obtain res where "exec (lib_RetryOnConflict r updateAttempt stamped) tr res"
    unfolding createOrUpdate_def by (auto elim!: exec_bindE)
  from retries this I0 have "updatesFollowGet ?R tr"
    by (rule exec_retries)
      (auto dest!: exec_updateAttempt simp: rv2 intro: updatesFollowGet_append)
  then show ?thesis using Inr by simp
qed


text \<open>
  On every path the two helpers read, create and replace only the object they were given, and
  what they send is controlled by \<open>cr\<close>.
\<close>

lemma createOrAdopt_stamped:
  assumes "\<And>st res. lib_SetControllerReference r cr obj = Inr st \<Longrightarrow> P (EvCreate st res)"
    and "\<And>ex st res. lib_SetControllerReference r cr ex = Inr st \<Longrightarrow> objRef ex = objRef obj \<Longrightarrow>
      P (EvUpdate st res)"
    and "\<And>res. P (EvGet (objKind obj) (objNamed obj) res)"
  shows "confined P (createOrAdopt r cr obj)"
proof (cases "lib_SetControllerReference r cr obj")
  case (Inl e)
  then show ?thesis unfolding createOrAdopt_def by (simp add: confined_Ret)
next
  case (Inr obj')
  have ref: "objKind obj' = objKind obj" "objNamed obj' = objNamed obj"
    using set_objRef [OF Inr] by (auto simp: objRef_def)
  have attempt: "always P (adoptAttempt r cr obj') (\<lambda>(err, s'). s' = obj')"
    unfolding adoptAttempt_def
    by (auto split: sum.splits simp: assms(3) ref objRef_def elim!: assms(2))
  have "confined P (lib_RetryOnConflict r (adoptAttempt r cr) obj')"
    by (rule confined_retry [where I = "\<lambda>s. s = obj'"]) (use attempt in auto)
  then show ?thesis unfolding createOrAdopt_def Inr
    by (auto intro!: contract_rules assms(1) [OF Inr] split: option.splits)
qed

lemma createOrAdopt_confined [contracts]:
  assumes "\<And>ob res. objRef ob = objRef obj \<Longrightarrow> lib_IsControlledBy r ob cr \<Longrightarrow>
      obj_body ob = obj_body obj \<Longrightarrow> P (EvCreate ob res)"
    and "\<And>ob res. objRef ob = objRef obj \<Longrightarrow> lib_IsControlledBy r ob cr \<Longrightarrow> P (EvUpdate ob res)"
    and "\<And>res. P (EvGet (objKind obj) (objNamed obj) res)"
  shows "confined P (createOrAdopt r cr obj)"
  by (rule createOrAdopt_stamped)
    (auto intro!: assms simp: set_objRef set_body set_isControlledBy)

lemma createOrUpdate_confined [contracts]:
  assumes "\<And>ob res. objRef ob = objRef obj \<Longrightarrow> lib_IsControlledBy r ob cr \<Longrightarrow>
      obj_body ob = obj_body obj \<Longrightarrow> P (EvCreate ob res)"
    and "\<And>ob res. objRef ob = objRef obj \<Longrightarrow> lib_IsControlledBy r ob cr \<Longrightarrow>
      obj_body ob = obj_body obj \<Longrightarrow> P (EvUpdate ob res)"
    and "\<And>res. P (EvGet (objKind obj) (objNamed obj) res)"
  shows "confined P (createOrUpdate r cr obj)"
proof (cases "lib_SetControllerReference r cr obj")
  case (Inl e)
  then show ?thesis unfolding createOrUpdate_def by (simp add: confined_Ret)
next
  case (Inr obj')
  let ?I = "\<lambda>s. objRef s = objRef obj \<and> lib_IsControlledBy r s cr \<and> obj_body s = obj_body obj"
  have I0: "?I obj'"
    using set_objRef [OF Inr] set_isControlledBy [OF Inr] set_body [OF Inr] by simp
  have attempt: "always P (updateAttempt s) (\<lambda>(err, s'). ?I s')" if "?I s" for s
  proof -
    have ref: "objKind s = objKind obj" "objNamed s = objNamed obj"
      using that by (auto simp: objRef_def)
    have I': "?I (setResourceVersion rv s)" for rv
      using that isControlledBy_owners [of "setResourceVersion rv s" s] by (simp add: object_simps)
    show ?thesis unfolding updateAttempt_def
      using that I' assms by (auto simp: ref Let_def split: sum.splits)
  qed
  have "confined P (lib_RetryOnConflict r updateAttempt obj')"
    by (rule confined_retry [where I = ?I]) (use I0 attempt in auto)
  then show ?thesis unfolding createOrUpdate_def Inr
    by (auto intro!: contract_rules)
qed

text \<open>What the helpers may write over what they read.\<close>

lemma updating_adopt:
  assumes "\<And>ex refs. objRef ex = objRef obj \<Longrightarrow> R ex (setOwners refs ex)"
  shows "updating R (createOrAdopt r cr obj)"
  unfolding updating_def
proof (intro allI impI)
  fix tr err assume ex: "exec (createOrAdopt r cr obj) tr err"
  have "confined (onUpdate (\<lambda>ob. objRef ob = objRef obj)) (createOrAdopt r cr obj)"
    by (rule createOrAdopt_confined) auto
  from updatesFollowGet_conj [OF createOrAdopt_updates [OF ex] confined_exec [OF this ex]]
  show "updatesFollowGet R tr"
    by (rule updatesFollowGet_mono) (auto simp: adopts_def object_simps intro!: assms)
qed

lemma updating_update:
  assumes "\<And>ex ob. objRef ob = objRef obj \<Longrightarrow> R ex ob"
  shows "updating R (createOrUpdate r cr obj)"
  unfolding updating_def
proof (intro allI impI)
  fix tr err assume ex: "exec (createOrUpdate r cr obj) tr err"
  have "confined (onUpdate (\<lambda>ob. objRef ob = objRef obj)) (createOrUpdate r cr obj)"
    by (rule createOrUpdate_confined) auto
  from updatesFollowGet_conj [OF createOrUpdate_updates [OF ex] confined_exec [OF this ex]]
  show "updatesFollowGet R tr"
    by (rule updatesFollowGet_mono) (auto intro!: assms)
qed

end

end
