(* ===== verification/Server.thy ===== *)
theory Server
  imports Apply
begin

text \<open>
  The API server as the operator relies on it.  It is code outside the repository, so it enters
  as a parameter (a record of answers, \<open>api\<close>) with its documented behaviour as the laws of two
  locales: \<open>kube_api\<close> says what a call that succeeds or fails does to the stored objects,
  \<open>reliable_api\<close> adds that calls that can succeed do.  Neither has concurrent writers; what holds
  with concurrent writers is proved on traces, where answers are arbitrary.  Both are idealised:
  the operator's client reads from a cache that may lag behind the server, and a write that returns
  an error (a timeout, say) may have taken effect, whereas here a read is current and a failed write
  changes nothing.
  \<open>objs w\<close> and \<open>crs w\<close> are the stored objects and the stored custom resources of a world \<open>w\<close>.
\<close>

section \<open>Laws\<close>

locale kube_api =
  fixes A :: "'w api"
    and objs :: "'w \<Rightarrow> ObjectRef \<Rightarrow> Object option"
    and crs :: "'w \<Rightarrow> NamespacedName \<Rightarrow> AlibabaCloudCSIDriver option"
  assumes keyed: "objs w ref = Some ob \<Longrightarrow> objRef ob = ref"
    and cr_keyed: "crs w n = Some cr \<Longrightarrow> crKey cr = n"
    and get_frame: "api_Get A kd n w = (res, w') \<Longrightarrow> objs w' = objs w \<and> crs w' = crs w"
    and get_found: "api_Get A kd n w = (Inr ob, w') \<Longrightarrow> objs w (kd, n) = Some ob"
    and get_missing: "api_Get A kd n w = (Inl e, w') \<Longrightarrow> err_Reason e = NotFound \<Longrightarrow>
      objs w (kd, n) = None"
    and getcr_frame: "api_GetCR A n w = (resc, w') \<Longrightarrow> objs w' = objs w \<and> crs w' = crs w"
    and getcr_found: "api_GetCR A n w = (Inr cr, w') \<Longrightarrow> crs w n = Some cr"
    and getcr_missing: "api_GetCR A n w = (Inl e, w') \<Longrightarrow> err_Reason e = NotFound \<Longrightarrow> crs w n = None"
    and create_ok: "api_Create A ob w = (None, w') \<Longrightarrow> objs w (objRef ob) = None \<and>
      (\<exists>ob'. sameDesired ob ob' \<and> objs w' = (objs w)(objRef ob \<mapsto> ob')) \<and> crs w' = crs w"
    and create_failed: "api_Create A ob w = (Some e, w') \<Longrightarrow> objs w' = objs w \<and> crs w' = crs w \<and>
      (err_Reason e = AlreadyExists \<longrightarrow> objs w (objRef ob) \<noteq> None)"
    and update_ok: "api_Update A ob w = (None, w') \<Longrightarrow>
      (\<exists>cur. objs w (objRef ob) = Some cur \<and> resourceVersion ob \<in> {[], resourceVersion cur}) \<and>
      (\<exists>ob'. sameDesired ob ob' \<and> objs w' = (objs w)(objRef ob \<mapsto> ob')) \<and> crs w' = crs w"
    and update_failed: "api_Update A ob w = (Some e, w') \<Longrightarrow> objs w' = objs w \<and> crs w' = crs w"
    and patch_frame: "api_Patch A kd n j w = (rese, w') \<Longrightarrow> patchesSpecOnly j \<Longrightarrow>
      (\<exists>f. (\<forall>ob. owners (f ob) = owners ob) \<and>
        objs w' = (objs w)((kd, n) := map_option f (objs w (kd, n)))) \<and> crs w' = crs w"
    and status_frame: "api_StatusPatch A c c' w = (rese, w') \<Longrightarrow> objs w' = objs w \<and>
      (\<forall>n. n \<noteq> crKey c' \<longrightarrow> crs w' n = crs w n) \<and>
      (\<exists>g. crs w' (crKey c') = map_option (\<lambda>x. x\<lparr>cr_Status := g x\<rparr>) (crs w (crKey c')))"
    and mapping_frame: "api_RESTMapping A g kd' w = (rese, w') \<Longrightarrow> objs w' = objs w \<and> crs w' = crs w"
    and discovery_frame:
      "api_NewDiscoveryClient A w = (rese, w') \<Longrightarrow> objs w' = objs w \<and> crs w' = crs w"
    and resources_frame:
      "api_ServerResources A gv w = (resl, w') \<Longrightarrow> objs w' = objs w \<and> crs w' = crs w"
    and now_frame: "api_Now A w = (t, w') \<Longrightarrow> objs w' = objs w \<and> crs w' = crs w"

text \<open>
  \<open>served\<close> are the kinds whose API is installed, \<open>accepts\<close> the objects that pass validation and
  admission.
\<close>

locale reliable_api = kube_api A objs crs
  for A :: "'w api" and objs :: "'w \<Rightarrow> ObjectRef \<Rightarrow> Object option"
    and crs :: "'w \<Rightarrow> NamespacedName \<Rightarrow> AlibabaCloudCSIDriver option" +
  fixes served :: "Kind \<Rightarrow> bool" and accepts :: "Object \<Rightarrow> bool"
  assumes get_present: "objs w (kd, n) = Some ob \<Longrightarrow> fst (api_Get A kd n w) = Inr ob"
    and get_absent: "objs w (kd, n) = None \<Longrightarrow>
      \<exists>e. fst (api_Get A kd n w) = Inl e \<and> err_Reason e = (if served kd then NotFound else NoMatch)"
    and getcr_present: "crs w n = Some cr \<Longrightarrow> fst (api_GetCR A n w) = Inr cr"
    and create_succeeds: "objs w (objRef ob) = None \<Longrightarrow> served (objKind ob) \<Longrightarrow> accepts ob \<Longrightarrow>
      resourceVersion ob = [] \<Longrightarrow> fst (api_Create A ob w) = None"
    and create_exists: "objs w (objRef ob) \<noteq> None \<Longrightarrow> 
      \<exists>e. fst (api_Create A ob w) = Some e \<and> err_Reason e = AlreadyExists"
    and create_unserved: "objs w (objRef ob) = None \<Longrightarrow> \<not> served (objKind ob) \<Longrightarrow>
      \<exists>e. fst (api_Create A ob w) = Some e \<and> err_Reason e = NoMatch"
    and update_succeeds: "objs w (objRef ob) = Some cur \<Longrightarrow>
      resourceVersion ob = resourceVersion cur \<Longrightarrow> accepts ob \<Longrightarrow> fst (api_Update A ob w) = None"
    and patch_succeeds: "objs w (kd, n) \<noteq> None \<Longrightarrow> fst (api_Patch A kd n j w) = None"

section \<open>Runs as traces\<close>

text \<open>\<open>answers A e w w'\<close>: in the world \<open>w\<close> the server gives the answer of \<open>e\<close> and goes to \<open>w'\<close>.\<close>

fun answers :: "'w api \<Rightarrow> event \<Rightarrow> 'w \<Rightarrow> 'w \<Rightarrow> bool" where
  "answers A (EvGetCR n r) w w' = (api_GetCR A n w = (r, w'))"
| "answers A (EvGet kd n r) w w' = (api_Get A kd n w = (r, w'))"
| "answers A (EvCreate ob r) w w' = (api_Create A ob w = (r, w'))"
| "answers A (EvUpdate ob r) w w' = (api_Update A ob w = (r, w'))"
| "answers A (EvPatch kd n j r) w w' = (api_Patch A kd n j w = (r, w'))"
| "answers A (EvStatusPatch c c' r) w w' = (api_StatusPatch A c c' w = (r, w'))"
| "answers A (EvRESTMapping g kd r) w w' = (api_RESTMapping A g kd w = (r, w'))"
| "answers A (EvNewDiscoveryClient r) w w' = (api_NewDiscoveryClient A w = (r, w'))"
| "answers A (EvServerResources gv r) w w' = (api_ServerResources A gv w = (r, w'))"
| "answers A (EvNow t) w w' = (api_Now A w = (t, w'))"

fun answersAll :: "'w api \<Rightarrow> event list \<Rightarrow> 'w \<Rightarrow> 'w \<Rightarrow> bool" where
  "answersAll A [] w w' = (w = w')"
| "answersAll A (e # tr) w w' = (\<exists>w1. answers A e w w1 \<and> answersAll A tr w1 w')"

lemma answersAll_invariant:
  "answersAll A tr w w' \<Longrightarrow> list_all P tr \<Longrightarrow> J w \<Longrightarrow>
   (\<And>e w w1. P e \<Longrightarrow> J w \<Longrightarrow> answers A e w w1 \<Longrightarrow> J w1) \<Longrightarrow> J w'"
  by (induction tr arbitrary: w) auto

context kube_api
begin

lemma answersGetCR_server: "api_GetCR A n w = (res, w1) \<Longrightarrow> answersGetCR n res"
  by (cases res) (auto dest: getcr_found cr_keyed)

lemma answersGet_server: "api_Get A kd n w = (res, w1) \<Longrightarrow> answersGet kd n res"
  by (cases res) (auto dest: get_found keyed)

lemma requests_step:
  "(\<And>tr. exec p tr a \<Longrightarrow> exec q (e # tr) a) \<Longrightarrow> answers A e w w1 \<Longrightarrow>
   exec p tr a \<and> answersAll A tr w1 w' \<Longrightarrow> exec q (e # tr) a \<and> answersAll A (e # tr) w w'"
  by auto

text \<open>Every run follows one of the traces, so what holds of all traces holds of runs.\<close>

lemma run_requests:
  "run A p w = (a, w') \<Longrightarrow> exec p (requests A p w) a \<and> answersAll A (requests A p w) w w'"
proof (induction p arbitrary: w)
  case (GetCR n k)
  then obtain res w1 where res: "api_GetCR A n w = (res, w1)" and rest: "run A (k res) w1 = (a, w')"
    by (auto simp only: run_iffs)
  from GetCR.IH [OF rangeI rest] show ?case
    by (auto intro: exec_GetCR answersGetCR_server [OF res] simp: res)
next
  case (GetObj kd n k)
  then obtain res w1 where res: "api_Get A kd n w = (res, w1)" and rest: "run A (k res) w1 = (a, w')"
    by (auto simp only: run_iffs)
  from GetObj.IH [OF rangeI rest] show ?case
    by (auto intro: exec_GetObj answersGet_server [OF res] simp: res)
next
  case (Ret x)
  then show ?case by (simp add: exec_Ret)
qed (simp only: run_iffs, elim exE conjE, simp only: requests.simps Let_def prod.case,
  rule requests_step, erule exec.intros, simp (no_asm_simp), simp)+

lemma run_trace: "run A p w = (a, w') \<Longrightarrow> \<exists>tr. exec p tr a \<and> answersAll A tr w w'"
  by (drule run_requests) (rule exI)

lemma run_always: "always P p Q \<Longrightarrow> run A p w = (a, w') \<Longrightarrow> Q a"
  by (blast dest: run_trace always_exec)

lemma run_invariant:
  assumes "run A p w = (a, w')" and "confined P p" and "J w"
    and "\<And>e w w1. P e \<Longrightarrow> J w \<Longrightarrow> answers A e w w1 \<Longrightarrow> J w1"
  shows "J w'"
proof -
  from run_trace [OF assms(1)] obtain tr where "exec p tr a" and tr: "answersAll A tr w w'"
    by blast
  with confined_exec [OF assms(2)] have "list_all P tr" by blast
  from answersAll_invariant [where J = J, OF tr this assms(3,4)] show ?thesis .
qed

text \<open>A program whose writes stay within \<open>T\<close> leaves every other object as it was.\<close>

lemma answers_writesWithin:
  assumes "writesWithin T e" and "answers A e w w1"
  shows "(\<forall>ref. ref \<notin> T \<longrightarrow> objs w1 ref = objs w ref) \<and> crs w1 = crs w"
proof (cases e)
  case (EvCreate ob res)
  with assms show ?thesis by (cases res) (auto dest!: create_ok create_failed)
next
  case (EvUpdate ob res)
  with assms show ?thesis by (cases res) (auto dest!: update_ok update_failed)
next
  case (EvPatch kd n j res)
  with assms have "api_Patch A kd n j w = (res, w1)" and "(kd, n) \<in> T" and "patchesSpecOnly j"
    by auto
  with patch_frame [of kd n j w res w1] show ?thesis by auto
qed (use assms in \<open>auto dest: getcr_frame get_frame mapping_frame discovery_frame
  resources_frame now_frame\<close>)

lemma run_confined:
  assumes "run A p w = (a, w')" and "confined (writesWithin T) p"
  shows "(\<forall>ref. ref \<notin> T \<longrightarrow> objs w' ref = objs w ref) \<and> crs w' = crs w"
  by (rule run_invariant [OF assms, where J = "\<lambda>x. (\<forall>ref. ref \<notin> T \<longrightarrow> objs x ref = objs w ref) \<and>
    crs x = crs w"]) (auto dest: answers_writesWithin)

end

text \<open>
  One retried attempt after another: an invariant of the world and of the captured object that
  every attempt keeps holds at the end, and what holds of the result of any attempt holds of
  the result.
\<close>

lemma run_retries_inv:
  assumes "retries f s p" and "run A p w = (res, w')" and "I s" and "J w"
    and "\<And>s w res w'. I s \<Longrightarrow> J w \<Longrightarrow> run A (f s) w = (res, w') \<Longrightarrow> J w' \<and> I (snd res) \<and> Q res w'"
  shows "J w' \<and> Q res w'"
  using assms(1-4)
proof (induction arbitrary: w res w' rule: retries.induct)
  case (last_attempt s)
  then show ?case using assms(5) by blast
next
  case (more_attempts again s)
  from more_attempts.prems(1) obtain err s1 w1 where first: "run A (f s) w = ((err, s1), w1)"
    and rest: "run A (if isConflict err then again s1 else Ret (err, s1)) w1 = (res, w')"
    by (auto simp: run_bind Let_def split: prod.splits)
  from assms(5) [OF more_attempts.prems(2,3) first]
  have *: "J w1" "I s1" "Q (err, s1) w1" by simp_all
  show ?case
  proof (cases "isConflict err")
    case True
    with rest have "run A (again s1) w1 = (res, w')" by simp
    then show ?thesis using more_attempts.IH * by blast
  next
    case False
    with rest * show ?thesis by auto
  qed
qed

section \<open>The operator against an API server\<close>

locale kube_operator = kube_api A objs crs + operator_libs r
  for A :: "'w api" and objs crs and r :: Reconciler
begin

definition controlledIn :: "'w \<Rightarrow> AlibabaCloudCSIDriver \<Rightarrow> ObjectRef \<Rightarrow> bool" where
  "controlledIn w cr ref \<longleftrightarrow> (\<exists>ob. objs w ref = Some ob \<and> lib_IsControlledBy r ob cr)"

lemma sameDesired_controlled:
  "sameDesired ob ob' \<Longrightarrow> lib_IsControlledBy r ob cr = lib_IsControlledBy r ob' cr"
  by (rule isControlledBy_owners) (rule sameDesired_owners)

text \<open>What is controlled by the resource stays so through a program whose writes are owned.\<close>

lemma answers_owned:
  assumes "ownedWrites r cr e" and "answers A e w w1" and "controlledIn w cr ref"
    and "fst ref \<noteq> KNamespace"
  shows "controlledIn w1 cr ref"
proof (cases e)
  case (EvCreate ob res)
  with assms show ?thesis
    by (cases res) (auto dest!: create_ok create_failed simp: controlledIn_def sameDesired_controlled)
next
  case (EvUpdate ob res)
  with assms show ?thesis
    by (cases res) (auto dest!: update_ok update_failed
      simp: controlledIn_def sameDesired_controlled objRef_def)
next
  case (EvPatch kd n j res)
  with assms have "api_Patch A kd n j w = (res, w1)" and "patchesSpecOnly j"
    by auto
  from patch_frame [OF this] obtain f where f: "\<And>ob. owners (f ob) = owners ob"
    and w1: "objs w1 = (objs w)((kd, n) := map_option f (objs w (kd, n)))" by blast
  show ?thesis
    using assms(3) isControlledBy_owners [OF f]
    by (cases "ref = (kd, n)") (auto simp: controlledIn_def w1)
next
  case (EvStatusPatch c c' res)
  with assms status_frame show ?thesis by (simp add: controlledIn_def)
next
  case (EvGetCR n res)
  with assms show ?thesis by (simp add: controlledIn_def getcr_frame)
next
  case (EvGet kd n res)
  with assms show ?thesis by (simp add: controlledIn_def get_frame)
next
  case (EvRESTMapping g kd res)
  with assms show ?thesis by (simp add: controlledIn_def mapping_frame)
next
  case (EvNewDiscoveryClient res)
  with assms show ?thesis by (simp add: controlledIn_def discovery_frame)
next
  case (EvServerResources gv res)
  with assms show ?thesis by (simp add: controlledIn_def resources_frame)
next
  case (EvNow t)
  with assms show ?thesis by (simp add: controlledIn_def now_frame)
qed

lemma run_keeps_controlled:
  assumes "run A p w = (a, w')" and "confined (ownedWrites r cr) p"
    and "controlledIn w cr ref" and "fst ref \<noteq> KNamespace"
  shows "controlledIn w' cr ref"
  by (rule run_invariant [OF assms(1,2), where J = "\<lambda>w. controlledIn w cr ref"])
    (use assms(3,4) answers_owned in auto)

end

end
