(* ===== verification/Converge.thy ===== *)
theory Converge
  imports Server
begin

text \<open>
  What the two apply helpers do to the stored objects, as a refinement: \<open>adoptStep\<close> and
  \<open>updateStep\<close> are the abstract effects on the store (up to the fields the server owns), the
  lemmas show that \<open>createOrAdopt\<close> and \<open>createOrUpdate\<close> implement them.
  \<open>establishes p T\<close> is the contract that composes: when \<open>p\<close> returns no error, every object of
  \<open>T\<close> exists and is controlled by the resource.
\<close>

section \<open>Abstract effects\<close>

type_synonym store = "ObjectRef \<Rightarrow> Object option"

definition puts :: "Object \<Rightarrow> store \<Rightarrow> store \<Rightarrow> bool" where
  "puts ob s s' \<longleftrightarrow> (\<exists>ob'. sameDesired ob ob' \<and> s' = s(objRef ob \<mapsto> ob'))"

definition adoptStep :: "Reconciler \<Rightarrow> AlibabaCloudCSIDriver \<Rightarrow> Object \<Rightarrow> store \<Rightarrow> store \<Rightarrow> bool" where
  "adoptStep r cr obj s s' \<longleftrightarrow> (case s (objRef obj) of
       None \<Rightarrow> (\<exists>st. lib_SetControllerReference r cr obj = Inr st \<and> puts st s s')
     | Some ex \<Rightarrow> if lib_IsControlledBy r ex cr then s' = s
         else (\<exists>st. lib_SetControllerReference r cr ex = Inr st \<and> puts st s s'))"

definition updateStep :: "Reconciler \<Rightarrow> AlibabaCloudCSIDriver \<Rightarrow> Object \<Rightarrow> store \<Rightarrow> store \<Rightarrow> bool" where
  "updateStep r cr obj s s' \<longleftrightarrow>
     (\<exists>st. lib_SetControllerReference r cr obj = Inr st \<and> puts st s s')"

text \<open>An object whose controller is another one, which adoption must leave alone.\<close>

definition takenByOther :: "Reconciler \<Rightarrow> AlibabaCloudCSIDriver \<Rightarrow> Object \<Rightarrow> bool" where
  "takenByOther r cr ob \<longleftrightarrow> foreign cr ob \<and> \<not> lib_IsControlledBy r ob cr"

text \<open>A stored object is the desired one: stamped with the owner, and otherwise as it was built.\<close>

definition asDesired :: "Reconciler \<Rightarrow> AlibabaCloudCSIDriver \<Rightarrow> Object \<Rightarrow> Object \<Rightarrow> bool" where
  "asDesired r cr desired ob = (case lib_SetControllerReference r cr desired of
       Inl _ \<Rightarrow> False
     | Inr st \<Rightarrow> sameDesired st ob)"

section \<open>Without assuming that calls succeed\<close>

context kube_operator
begin

lemma run_createOrAdopt:
  assumes "run A (createOrAdopt r cr obj) w = (err, w')"
    and "lib_SetControllerReference r cr obj = Inr st"
  obtains (created) w1 where "api_Create A st w = (None, w1)" "w' = w1" "err = None"
  | (failed) e where "api_Create A st w = (Some e, w')" "err_Reason e \<noteq> AlreadyExists"
      "err = Some (LibErr e)"
  | (exists_already) e w1 s' where "api_Create A st w = (Some e, w1)" "err_Reason e = AlreadyExists"
      "run A (lib_RetryOnConflict r (adoptAttempt r cr) st) w1 = ((err, s'), w')"
  using assms unfolding createOrAdopt_def
  by (auto simp: run_iffs run_bind_iff split: option.splits if_splits prod.splits)

text \<open>
  One attempt to adopt: either the store stays as it is, or the object of the reference is
  replaced by itself with the owner references changed.
\<close>

lemma run_adoptAttempt:
  assumes "run A (adoptAttempt r cr obj) w = ((err, s'), w')" and "objs w (objRef obj) = Some ex"
  shows "s' = obj \<and> (
      (objs w' = objs w \<and> (err = None \<longrightarrow> lib_IsControlledBy r ex cr))
      \<or> (\<not> lib_IsControlledBy r ex cr \<and>
         (\<exists>st. lib_SetControllerReference r cr ex = Inr st \<and> puts st (objs w) (objs w'))))"
proof -
  obtain res w1 where res: "api_Get A (objKind obj) (objNamed obj) w = (res, w1)"
    by (cases "api_Get A (objKind obj) (objNamed obj) w")
  note frame = get_frame [OF res]
  show ?thesis
  proof (cases res)
    case (Inl e)
    with assms(1) res frame show ?thesis by (auto simp: adoptAttempt_def run_simps)
  next
    case (Inr ex')
    with res get_found assms(2) have ex': "ex' = ex" by (auto simp: objRef_def)
    show ?thesis
    proof (cases "lib_IsControlledBy r ex cr")
      case True
      with assms(1) res frame Inr ex' show ?thesis by (auto simp: adoptAttempt_def run_simps)
    next
      case False
      show ?thesis
      proof (cases "lib_SetControllerReference r cr ex")
        case (Inl e)
        with False assms(1) res frame Inr ex' show ?thesis
          by (auto simp: adoptAttempt_def run_simps)
      next
        case set: (Inr st)
        obtain e w2 where upd: "api_Update A st w1 = (e, w2)" by (cases "api_Update A st w1")
        from False assms(1) res Inr ex' set upd
        have res': "err = map_option LibErr e" "s' = obj" "w' = w2"
          by (auto simp: adoptAttempt_def run_simps)
        show ?thesis
          using upd frame False set res'
          by (cases e) (auto dest!: update_ok update_failed simp: puts_def)
      qed
    qed
  qed
qed

lemma create_then:
  "api_Create A st w = (None, w1) \<Longrightarrow> lib_SetControllerReference r cr ob = Inr st \<Longrightarrow>
   puts st (objs w) (objs w1) \<and> controlledIn w1 cr (objRef ob)"
  by (auto dest!: create_ok simp: puts_def controlledIn_def set_objRef
    sameDesired_controlled [symmetric] set_isControlledBy)

lemma puts_adopted:
  assumes "puts st s s'" and "lib_SetControllerReference r cr ex = Inr st" and "objRef ex = ref"
    and "sameDesired (setOwners refs ex0) ex"
  shows "\<exists>refs' ob. s' ref = Some ob \<and> sameDesired (setOwners refs' ex0) ob
    \<and> lib_IsControlledBy r ob cr"
proof -
  from set_owners_only [OF assms(2)] obtain refs' where st: "st = setOwners refs' ex" by blast
  from assms(1) obtain ob where ob: "sameDesired st ob" and s': "s' = s(objRef st \<mapsto> ob)"
    by (auto simp: puts_def)
  have "sameDesired (setOwners refs' ex0) st"
    using sameDesired_setOwners [OF assms(4), of refs'] st by simp
  then have "sameDesired (setOwners refs' ex0) ob" using ob by (rule sameDesired_trans)
  moreover have "lib_IsControlledBy r ob cr"
    using set_isControlledBy [OF assms(2)] sameDesired_controlled [OF ob] by simp
  ultimately show ?thesis using s' assms(3) set_objRef [OF assms(2)] by auto
qed

text \<open>Adopting an existing object, whatever number of attempts it takes.\<close>

lemma run_adopt_loop:
  assumes "run A (lib_RetryOnConflict r (adoptAttempt r cr) st) w = ((err, s'), w')"
    and "objs w (objRef st) = Some ex"
  shows "(err = None \<longrightarrow> controlledIn w' cr (objRef st)) \<and>
    (\<exists>refs ob. objs w' (objRef st) = Some ob \<and> sameDesired (setOwners refs ex) ob)"
proof -
  let ?J = "\<lambda>x. \<exists>refs ob. objs x (objRef st) = Some ob \<and> sameDesired (setOwners refs ex) ob"
  let ?Q = "\<lambda>res x. fst res = None \<longrightarrow> controlledIn x cr (objRef st)"
  have J0: "?J w"
    using assms(2) by (intro exI [of _ "owners ex"] exI [of _ ex]) simp
  have "?J w' \<and> ?Q (err, s') w'"
  proof (rule run_retries_inv [where J = ?J and I = "\<lambda>s. s = st" and Q = ?Q, OF retries assms(1)])
    fix s x res x'
    assume s: "s = st" and J: "?J x" and one: "run A (adoptAttempt r cr s) x = (res, x')"
    obtain refs cur where cur: "objs x (objRef st) = Some cur"
      and same: "sameDesired (setOwners refs ex) cur" using J by blast
    have ref: "objRef cur = objRef st" using keyed [OF cur] .
    from one s have one': "run A (adoptAttempt r cr st) x = ((fst res, snd res), x')" by simp
    from run_adoptAttempt [OF one' cur] show "?J x' \<and> snd res = st \<and> ?Q res x'"
    proof (elim conjE disjE exE)
      assume "objs x' = objs x" and "fst res = None \<longrightarrow> lib_IsControlledBy r cur cr"
        and "snd res = st"
      with cur same show ?thesis by (auto simp: controlledIn_def)
    next
      fix st' assume set: "lib_SetControllerReference r cr cur = Inr st'"
        and put: "puts st' (objs x) (objs x')" and "snd res = st"
      from puts_adopted [OF put set ref same] \<open>snd res = st\<close> show ?thesis
        by (auto simp: controlledIn_def)
    qed
  qed (use J0 in auto)
  then show ?thesis by simp
qed

lemma run_adopt_loop_taken:
  assumes "run A (lib_RetryOnConflict r (adoptAttempt r cr) st) w = ((err, s'), w')"
    and "objs w (objRef st) = Some ex" and "takenByOther r cr ex"
  shows "err \<noteq> None \<and> objs w' = objs w"
proof -
  let ?J = "\<lambda>x. objs x = objs w"
  let ?Q = "\<lambda>res x. fst res \<noteq> None"
  have "?J w' \<and> ?Q (err, s') w'"
  proof (rule run_retries_inv [where J = ?J and I = "\<lambda>s. s = st" and Q = ?Q, OF retries assms(1)])
    fix s x res x'
    assume s: "s = st" and J: "?J x" and one: "run A (adoptAttempt r cr s) x = (res, x')"
    from J assms(2) have cur: "objs x (objRef st) = Some ex" by simp
    from one s have one': "run A (adoptAttempt r cr st) x = ((fst res, snd res), x')" by simp
    from run_adoptAttempt [OF one' cur] show "?J x' \<and> snd res = st \<and> ?Q res x'"
      using assms(3) J set_refuses [of cr ex] by (auto simp: takenByOther_def)
  qed auto
  then show ?thesis by simp
qed

lemma createOrAdopt_sound:
  assumes "run A (createOrAdopt r cr obj) w = (err, w')"
  shows createOrAdopt_controls: "err = None \<Longrightarrow> controlledIn w' cr (objRef obj)"
    and createOrAdopt_preserves: "objs w (objRef obj) = Some ex \<Longrightarrow>
      \<exists>refs ob. objs w' (objRef obj) = Some ob \<and> sameDesired (setOwners refs ex) ob"
    and createOrAdopt_refuses: "objs w (objRef obj) = Some ex \<Longrightarrow> takenByOther r cr ex \<Longrightarrow>
      err \<noteq> None \<and> objs w' = objs w"
proof -
  have unchanged: "objs w (objRef obj) = Some ex \<Longrightarrow>
      \<exists>refs ob. objs w (objRef obj) = Some ob \<and> sameDesired (setOwners refs ex) ob"
    by (intro exI [of _ "owners ex"] exI [of _ ex]) simp
  have all: "(err = None \<longrightarrow> controlledIn w' cr (objRef obj)) \<and>
    (objs w (objRef obj) = Some ex \<longrightarrow>
      (\<exists>refs ob. objs w' (objRef obj) = Some ob \<and> sameDesired (setOwners refs ex) ob)) \<and>
    (objs w (objRef obj) = Some ex \<longrightarrow> takenByOther r cr ex \<longrightarrow> err \<noteq> None \<and> objs w' = objs w)"
  proof (cases "lib_SetControllerReference r cr obj")
    case (Inl e)
    with assms unchanged show ?thesis unfolding createOrAdopt_def by auto
  next
    case set: (Inr st)
    have ref: "objRef st = objRef obj" by (rule set_objRef [OF set])
    from assms set show ?thesis
    proof (cases rule: run_createOrAdopt)
      case (created w1)
      with create_then [OF _ set] create_ok [of st w w1] ref show ?thesis by auto
    next
      case (failed e)
      with create_failed [of st w e w'] unchanged show ?thesis by auto
    next
      case (exists_already e w1 s')
      from create_failed [OF exists_already(1)] exists_already(2) ref obtain cur
        where w1: "objs w1 = objs w" and cur: "objs w1 (objRef st) = Some cur" by auto
      from run_adopt_loop [OF exists_already(3) cur] run_adopt_loop_taken [OF exists_already(3) cur]
        w1 cur ref show ?thesis by auto
    qed
  qed
  then show "err = None \<Longrightarrow> controlledIn w' cr (objRef obj)"
    and "objs w (objRef obj) = Some ex \<Longrightarrow>
      \<exists>refs ob. objs w' (objRef obj) = Some ob \<and> sameDesired (setOwners refs ex) ob"
    and "objs w (objRef obj) = Some ex \<Longrightarrow> takenByOther r cr ex \<Longrightarrow>
      err \<noteq> None \<and> objs w' = objs w"
    by blast+
qed

lemma run_updateAttempt:
  assumes "run A (updateAttempt obj) w = ((err, s'), w')"
  shows "sameDesired obj s' \<and> objRef s' = objRef obj \<and> crs w' = crs w \<and>
    (if err = None then puts obj (objs w) (objs w') else objs w' = objs w)"
proof -
  obtain res w1 where res: "api_Get A (objKind obj) (objNamed obj) w = (res, w1)"
    by (cases "api_Get A (objKind obj) (objNamed obj) w")
  note frame = get_frame [OF res]
  show ?thesis
  proof (cases res)
    case (Inl e)
    obtain e' w2 where cre: "api_Create A obj w1 = (e', w2)" by (cases "api_Create A obj w1")
    from assms res Inl cre frame show ?thesis
      by (cases "err_Reason e = NotFound"; cases e')
        (auto simp: updateAttempt_def run_simps puts_def dest!: create_ok create_failed)
  next
    case (Inr ex)
    let ?ob = "setResourceVersion (resourceVersion ex) obj"
    obtain e' w2 where upd: "api_Update A ?ob w1 = (e', w2)" by (cases "api_Update A ?ob w1")
    from assms res Inr upd frame show ?thesis
      by (cases e') (auto simp: updateAttempt_def run_simps puts_def object_simps Let_def
        dest!: update_ok update_failed)
  qed
qed

lemma createOrUpdate_sound:
  assumes "run A (createOrUpdate r cr obj) w = (None, w')"
  shows "\<exists>st ob. lib_SetControllerReference r cr obj = Inr st \<and>
    objs w' (objRef obj) = Some ob \<and> sameDesired st ob"
proof (cases "lib_SetControllerReference r cr obj")
  case (Inl e)
  with assms show ?thesis unfolding createOrUpdate_def by simp
next
  case set: (Inr st)
  let ?I = "\<lambda>s. sameDesired st s \<and> objRef s = objRef obj"
  let ?Q = "\<lambda>res x. fst res = None \<longrightarrow> (\<exists>ob. objs x (objRef obj) = Some ob \<and> sameDesired st ob)"
  from assms set obtain s' where
    loop: "run A (lib_RetryOnConflict r updateAttempt st) w = ((None, s'), w')"
    unfolding createOrUpdate_def by (auto simp: run_bind_iff)
  have "True \<and> ?Q (None :: goerror option, s') w'"
  proof (rule run_retries_inv [where J = "\<lambda>_. True" and I = ?I and Q = ?Q,
        OF retries [of updateAttempt st] loop])
    fix s x res x'
    assume I: "?I s" and one: "run A (updateAttempt s) x = (res, x')"
    from one have "run A (updateAttempt s) x = ((fst res, snd res), x')" by simp
    from run_updateAttempt [OF this] I show "True \<and> ?I (snd res) \<and> ?Q res x'"
      by (auto simp: puts_def intro: sameDesired_trans split: if_splits)
  qed (use set_objRef [OF set] in auto)
  with set show ?thesis by auto
qed

lemma createOrUpdate_controls:
  assumes "run A (createOrUpdate r cr obj) w = (None, w')"
  shows "controlledIn w' cr (objRef obj) \<and>
    (\<exists>ob. objs w' (objRef obj) = Some ob \<and> asDesired r cr obj ob)"
proof -
  from createOrUpdate_sound [OF assms] obtain st ob
    where set: "lib_SetControllerReference r cr obj = Inr st"
      and ob: "objs w' (objRef obj) = Some ob" and same: "sameDesired st ob" by blast
  from set same have "asDesired r cr obj ob" by (simp add: asDesired_def)
  moreover have "lib_IsControlledBy r ob cr"
    using set_isControlledBy [OF set] sameDesired_controlled [OF same] by simp
  ultimately show ?thesis using ob by (auto simp: controlledIn_def)
qed

text \<open>
  \<open>untaken w cr T\<close>: no object of \<open>T\<close> is controlled by another owner.  Owned writes keep it.
\<close>

definition untaken :: "'w \<Rightarrow> AlibabaCloudCSIDriver \<Rightarrow> ObjectRef set \<Rightarrow> bool" where
  "untaken w cr T \<longleftrightarrow> (\<forall>ref \<in> T. \<forall>ob. objs w ref = Some ob \<longrightarrow> \<not> takenByOther r cr ob)"

lemma untaken_mono: "untaken w cr T \<Longrightarrow> T' \<subseteq> T \<Longrightarrow> untaken w cr T'"
  by (auto simp: untaken_def)

lemma untaken_put:
  assumes "untaken w cr T" and "\<forall>ref \<in> T. fst ref \<noteq> KNamespace"
    and "objKind ob = KNamespace \<or> lib_IsControlledBy r ob cr"
    and "sameDesired ob ob'" and "objs w' = (objs w)(objRef ob \<mapsto> ob')"
  shows "untaken w' cr T"
  unfolding untaken_def
proof (intro ballI allI impI)
  fix ref x
  assume ref: "ref \<in> T" and x: "objs w' ref = Some x"
  show "\<not> takenByOther r cr x"
  proof (cases "ref = objRef ob")
    case True
    with assms(2,3) ref have "lib_IsControlledBy r ob cr" by (auto simp: objRef_def)
    with True x assms(4,5) sameDesired_controlled [OF assms(4), of cr] show ?thesis
      by (simp add: takenByOther_def)
  next
    case False
    with ref x assms(1,5) show ?thesis by (auto simp: untaken_def)
  qed
qed

lemma answers_untaken:
  assumes "ownedWrites r cr e" and "answers A e w w1" and "untaken w cr T"
    and "\<forall>ref \<in> T. fst ref \<noteq> KNamespace"
  shows "untaken w1 cr T"
proof (cases e)
  case (EvCreate ob res)
  show ?thesis
  proof (cases res)
    case None
    with EvCreate assms create_ok [of ob w w1] show ?thesis
      by (auto intro: untaken_put [OF assms(3,4)])
  next
    case (Some err)
    with EvCreate assms create_failed [of ob w err w1] show ?thesis by (simp add: untaken_def)
  qed
next
  case (EvUpdate ob res)
  show ?thesis
  proof (cases res)
    case None
    with EvUpdate assms update_ok [of ob w w1] show ?thesis
      by (auto intro: untaken_put [OF assms(3,4)])
  next
    case (Some err)
    with EvUpdate assms update_failed [of ob w err w1] show ?thesis by (simp add: untaken_def)
  qed
next
  case (EvPatch kd n j res)
  with assms have "api_Patch A kd n j w = (res, w1)" and "patchesSpecOnly j"
    by auto
  from patch_frame [OF this] obtain f where f: "\<And>ob. owners (f ob) = owners ob"
    and w1: "objs w1 = (objs w)((kd, n) := map_option f (objs w (kd, n)))" by blast
  have "takenByOther r cr (f ob) = takenByOther r cr ob" for ob
    using isControlledBy_owners [OF f] by (simp add: takenByOther_def foreign_def controllerOf_def f)
  with assms(3) show ?thesis by (auto simp: untaken_def w1)
next
  case (EvStatusPatch c c' res)
  with assms status_frame show ?thesis by (simp add: untaken_def)
next
  case (EvGetCR n res)
  with assms show ?thesis by (simp add: untaken_def getcr_frame)
next
  case (EvGet kd n res)
  with assms show ?thesis by (simp add: untaken_def get_frame)
next
  case (EvRESTMapping g kd res)
  with assms show ?thesis by (simp add: untaken_def mapping_frame)
next
  case (EvNewDiscoveryClient res)
  with assms show ?thesis by (simp add: untaken_def discovery_frame)
next
  case (EvServerResources gv res)
  with assms show ?thesis by (simp add: untaken_def resources_frame)
next
  case (EvNow t)
  with assms show ?thesis by (simp add: untaken_def now_frame)
qed

lemma run_keeps_untaken:
  assumes "run A p w = (a, w')" and "confined (ownedWrites r cr) p" and "untaken w cr T"
    and "\<forall>ref \<in> T. fst ref \<noteq> KNamespace"
  shows "untaken w' cr T"
  by (rule run_invariant [OF assms(1,2), where J = "\<lambda>w. untaken w cr T"])
    (use assms(3,4) answers_untaken in auto)

section \<open>Composition\<close>

definition establishes :: "AlibabaCloudCSIDriver \<Rightarrow> goerror option prog \<Rightarrow> ObjectRef set \<Rightarrow> bool" where
  "establishes cr p T \<longleftrightarrow> (\<forall>w w'. run A p w = (None, w') \<longrightarrow> (\<forall>ref \<in> T. controlledIn w' cr ref))"

lemma establishes_adopt [contract_rules]: "establishes cr (createOrAdopt r cr obj) {objRef obj}"
  by (auto simp: establishes_def dest: createOrAdopt_controls)

lemma establishes_update [contract_rules]: "establishes cr (createOrUpdate r cr obj) {objRef obj}"
  by (auto simp: establishes_def dest: createOrUpdate_controls)

lemma establishes_nothing [contract_rules]: "establishes cr p {}"
  by (simp add: establishes_def)

lemma establishes_mono: "establishes cr p T \<Longrightarrow> T' \<subseteq> T \<Longrightarrow> establishes cr p T'"
  by (auto simp: establishes_def)

lemma establishes_check [contract_rules]:
  assumes "establishes cr p T" and "establishes cr q T'" and "confined (ownedWrites r cr) q"
    and "\<And>ref. ref \<in> T \<Longrightarrow> fst ref \<noteq> KNamespace"
  shows "establishes cr (check p wrap q) (T \<union> T')"
  unfolding establishes_def
proof (intro allI impI ballI)
  fix w w' ref
  assume "run A (check p wrap q) w = (None, w')" and ref: "ref \<in> T \<union> T'"
  then obtain w1 where p: "run A p w = (None, w1)" and q: "run A q w1 = (None, w')"
    by (auto simp: run_check_None)
  show "controlledIn w' cr ref"
  proof (cases "ref \<in> T'")
    case True
    with assms(2) q show ?thesis by (auto simp: establishes_def)
  next
    case False
    with ref assms(1) p have "controlledIn w1 cr ref" by (auto simp: establishes_def)
    then show ?thesis using run_keeps_controlled [OF q assms(3)] assms(4) False ref by blast
  qed
qed

text \<open>
  \<open>provides p ref Q\<close>: when \<open>p\<close> returns no error, the object \<open>ref\<close> is stored and satisfies \<open>Q\<close>.
  A later program that does not write \<open>ref\<close> keeps it.
\<close>

definition provides :: "goerror option prog \<Rightarrow> ObjectRef \<Rightarrow> (Object \<Rightarrow> bool) \<Rightarrow> bool" where
  "provides p ref Q \<longleftrightarrow>
     (\<forall>w w'. run A p w = (None, w') \<longrightarrow> (\<exists>ob. objs w' ref = Some ob \<and> Q ob))"

lemma provides_update:
  "provides (createOrUpdate r cr obj) (objRef obj) (asDesired r cr obj)"
  by (auto simp: provides_def dest: createOrUpdate_controls)

lemma provides_first:
  assumes "provides p ref Q" and "confined (writesWithin T) q" and "ref \<notin> T"
  shows "provides (check p wrap q) ref Q"
  unfolding provides_def
proof (intro allI impI)
  fix w w' assume "run A (check p wrap q) w = (None, w')"
  then obtain w1 where p: "run A p w = (None, w1)" and q: "run A q w1 = (None, w')"
    by (auto simp: run_check_None)
  from assms(1) p obtain ob where "objs w1 ref = Some ob" "Q ob" by (auto simp: provides_def)
  with run_confined [OF q assms(2)] assms(3) show "\<exists>ob. objs w' ref = Some ob \<and> Q ob" by metis
qed

lemma provides_then: "provides q ref Q \<Longrightarrow> provides (check p wrap q) ref Q"
  by (auto simp: provides_def run_check_None)

end

section \<open>Against a reliable server\<close>

locale reliable_operator =
  reliable_api A objs crs served accepts + kube_operator A objs crs r
  for A :: "'w api" and objs and crs and served and accepts and r :: Reconciler
begin

text \<open>\<open>createOrAdopt\<close> succeeds and implements \<open>adoptStep\<close>.\<close>

lemma createOrAdopt_refines:
  assumes "cr_Namespace cr = []" and "owners obj = []" and "resourceVersion obj = []"
    and "served (objKind obj)" and "\<And>ob. objRef ob = objRef obj \<Longrightarrow> accepts ob"
    and "\<And>ex. objs w (objRef obj) = Some ex \<Longrightarrow> \<not> takenByOther r cr ex"
    and "run A (createOrAdopt r cr obj) w = (err, w')"
  shows "err = None \<and> adoptStep r cr obj (objs w) (objs w')"
proof -
  obtain st where set: "lib_SetControllerReference r cr obj = Inr st"
    using set_fresh assms(1,2) by blast
  note st = set_objRef [OF set] set_resourceVersion [OF set]
  have kind: "objKind st = objKind obj" using st(1) by (simp add: objRef_def)
  from assms(7) set show ?thesis
  proof (cases rule: run_createOrAdopt)
    case (created w1)
    with create_then [OF _ set] create_ok [of st w w1] set st show ?thesis
      by (auto simp: adoptStep_def)
  next
    case (failed e)
    then have "objs w (objRef st) \<noteq> None"
      using create_succeeds [of w st] assms(3,4,5) st kind by fastforce
    with create_exists [of w st] failed show ?thesis by auto
  next
    case (exists_already e w1 s')
    from create_failed [OF exists_already(1)] exists_already(2) st(1) obtain ex
      where w1: "objs w1 = objs w" and ex: "objs w1 (objRef st) = Some ex" by auto
    have named: "objs w1 (objKind st, objNamed st) = Some ex" using ex by (simp add: objRef_def)
    obtain w2 where get: "api_Get A (objKind st) (objNamed st) w1 = (Inr ex, w2)"
      using get_present [OF named] by (metis prod.collapse)
    from ex w1 assms(6) st(1) have free: "\<not> takenByOther r cr ex" by simp
    have "err = None \<and> adoptStep r cr obj (objs w) (objs w')"
    proof (cases "lib_IsControlledBy r ex cr")
      case True
      have "run A (adoptAttempt r cr st) w1 = ((None, st), w2)"
        by (simp add: adoptAttempt_def run_simps get True)
      from run_retry [where f = "adoptAttempt r cr" and s = st, OF this] exists_already(3) have "err = None" "w' = w2"
        by (auto simp: isConflict_def)
      with True ex w1 st(1) get_frame [OF get] show ?thesis by (simp add: adoptStep_def)
    next
      case False
      with free have "\<not> foreign cr ex" by (simp add: takenByOther_def)
      then obtain ex' where ex': "lib_SetControllerReference r cr ex = Inr ex'"
        using set_succeeds [of cr ex] assms(1) by (auto simp: namespaceOk_def)
      have refs: "objRef ex' = objRef obj"
        using set_objRef [OF ex'] keyed [OF ex] st(1) by simp
      obtain w3 where upd: "api_Update A ex' w2 = (None, w3)"
        using update_succeeds [of w2 ex' ex] ex refs st(1) get_frame [OF get] assms(5)
          set_resourceVersion [OF ex'] by (metis prod.collapse)
      have "run A (adoptAttempt r cr st) w1 = ((None, st), w3)"
        by (simp add: adoptAttempt_def run_simps get False ex' upd)
      from run_retry [where f = "adoptAttempt r cr" and s = st, OF this] exists_already(3) have "err = None" "w' = w3"
        by (auto simp: isConflict_def)
      with False ex' ex w1 st(1) get_frame [OF get] update_ok [OF upd] refs show ?thesis
        by (auto simp: adoptStep_def puts_def)
    qed
    then show ?thesis .
  qed
qed

text \<open>\<open>createOrUpdate\<close> succeeds and implements \<open>updateStep\<close>, whoever controls the object.\<close>

lemma createOrUpdate_refines:
  assumes "cr_Namespace cr = []" and "owners obj = []" and "resourceVersion obj = []"
    and "served (objKind obj)" and "\<And>ob. objRef ob = objRef obj \<Longrightarrow> accepts ob"
    and "run A (createOrUpdate r cr obj) w = (err, w')"
  shows "err = None \<and> updateStep r cr obj (objs w) (objs w')"
proof -
  obtain st where set: "lib_SetControllerReference r cr obj = Inr st"
    using set_fresh assms(1,2) by blast
  note st = set_objRef [OF set] set_resourceVersion [OF set]
  have kind: "objKind st = objKind obj" using st(1) by (simp add: objRef_def)
  have "\<exists>s' w1. run A (updateAttempt st) w = ((None, s'), w1)"
  proof (cases "objs w (objRef st)")
    case None
    then have "objs w (objKind st, objNamed st) = None" by (simp add: objRef_def)
    from get_absent [OF this] assms(4) kind obtain e w1 where
      get: "api_Get A (objKind st) (objNamed st) w = (Inl e, w1)" and e: "err_Reason e = NotFound"
      by (auto simp: prod_eq_iff)
    have "fst (api_Create A st w1) = None"
      by (rule create_succeeds) (use None get_frame [OF get] kind st assms in auto)
    then show ?thesis
      by (cases "api_Create A st w1") (simp add: updateAttempt_def run_simps get e)
  next
    case (Some ex)
    then have "objs w (objKind st, objNamed st) = Some ex" by (simp add: objRef_def)
    from get_present [OF this] obtain w1
      where get: "api_Get A (objKind st) (objNamed st) w = (Inr ex, w1)" by (metis prod.collapse)
    let ?ob = "setResourceVersion (resourceVersion ex) st"
    have "fst (api_Update A ?ob w1) = None"
      by (rule update_succeeds [where cur = ex])
        (use Some get_frame [OF get] st assms(5) in \<open>auto simp: object_simps\<close>)
    then show ?thesis
      by (cases "api_Update A ?ob w1") (simp add: updateAttempt_def run_simps get Let_def)
  qed
  then obtain s' w1 where one: "run A (updateAttempt st) w = ((None, s'), w1)" by blast
  from run_retry [where f = updateAttempt and s = st, OF this]
  have "run A (lib_RetryOnConflict r updateAttempt st) w = ((None, s'), w1)"
    by (simp add: isConflict_def)
  with assms(6) set have "err = None" "w' = w1"
    unfolding createOrUpdate_def by (auto simp: run_bind_iff)
  with run_updateAttempt [OF one] set show ?thesis by (auto simp: updateStep_def)
qed

text \<open>
  \<open>completes cr p T\<close>: when no object of \<open>T\<close> is taken by another owner, \<open>p\<close> returns no error.
  It composes over \<open>check\<close> like \<open>establishes\<close>.
\<close>

definition completes :: "AlibabaCloudCSIDriver \<Rightarrow> goerror option prog \<Rightarrow> ObjectRef set \<Rightarrow> bool" where
  "completes cr p T \<longleftrightarrow> (\<forall>w. untaken w cr T \<longrightarrow> fst (run A p w) = None)"

lemma completes_adopt [contract_rules]:
  assumes "cr_Namespace cr = []" and "owners obj = []" and "resourceVersion obj = []"
    and "served (objKind obj)" and "\<And>ob. objRef ob = objRef obj \<Longrightarrow> accepts ob"
  shows "completes cr (createOrAdopt r cr obj) {objRef obj}"
  unfolding completes_def
proof (intro allI impI)
  fix w assume free: "untaken w cr {objRef obj}"
  obtain err w' where run: "run A (createOrAdopt r cr obj) w = (err, w')"
    by (cases "run A (createOrAdopt r cr obj) w")
  from createOrAdopt_refines [OF assms _ run] free show "fst (run A (createOrAdopt r cr obj) w) = None"
    by (simp add: untaken_def run)
qed

lemma completes_update [contract_rules]:
  assumes "cr_Namespace cr = []" and "owners obj = []" and "resourceVersion obj = []"
    and "served (objKind obj)" and "\<And>ob. objRef ob = objRef obj \<Longrightarrow> accepts ob"
  shows "completes cr (createOrUpdate r cr obj) {}"
  unfolding completes_def
proof (intro allI impI)
  fix w
  obtain err w' where run: "run A (createOrUpdate r cr obj) w = (err, w')"
    by (cases "run A (createOrUpdate r cr obj) w")
  from createOrUpdate_refines [OF assms run] show "fst (run A (createOrUpdate r cr obj) w) = None"
    by (simp add: run)
qed

lemma completes_Ret [contract_rules]: "completes cr (Ret None) {}"
  by (simp add: completes_def)

lemma completes_mono: "completes cr p T \<Longrightarrow> T \<subseteq> T' \<Longrightarrow> completes cr p T'"
  by (auto simp: completes_def dest: untaken_mono)

lemma completes_check [contract_rules]:
  assumes "completes cr p T" and "completes cr q T'" and "confined (ownedWrites r cr) p"
    and "\<forall>ref \<in> T'. fst ref \<noteq> KNamespace"
  shows "completes cr (check p wrap q) (T \<union> T')"
  unfolding completes_def
proof (intro allI impI)
  fix w assume free: "untaken w cr (T \<union> T')"
  obtain err w1 where p: "run A p w = (err, w1)" by (cases "run A p w")
  have "err = None" using assms(1) untaken_mono [OF free, of T] p by (auto simp: completes_def)
  moreover have "untaken w1 cr T'"
    by (rule run_keeps_untaken [OF p assms(3) untaken_mono [OF free] assms(4)]) simp
  ultimately show "fst (run A (check p wrap q) w) = None"
    using assms(2) p by (simp add: run_check completes_def)
qed

end

end
