(* ===== verification/Rbac.thy ===== *)
theory Rbac
  imports Converge "HOL-Library.Multiset"
begin

text \<open>
  The shared access-control objects of the operator (\<open>ensureRBAC\<close> and what it calls): the service
  account, the driver's cluster role and its binding, and the admission of privileged pods, which
  is an OpenShift SCC binding or Pod Security Admission labels on the namespace, depending on
  what \<open>sccAvailable\<close> finds.
  \<open>operatorMarkers\<close> are the \<open>+kubebuilder:rbac\<close> directives of the reconciler, from which the
  operator's own cluster role is generated.
\<close>

section \<open>Names\<close>

definition diskDriverName :: string where
  "diskDriverName = ''diskplugin.csi.alibabacloud.com''"

definition nasDriverName :: string where
  "nasDriverName = ''nasplugin.csi.alibabacloud.com''"

definition serviceAccountName :: string where
  "serviceAccountName = ''alibaba-cloud-csi-sa''"

definition operatorNamespace :: string where
  "operatorNamespace = ''kube-system''"

section \<open>The objects\<close>

definition serviceAccount :: Object where
  "serviceAccount = fresh (named operatorNamespace serviceAccountName) ServiceAccountBody"

definition driverRules :: "PolicyRule list" where
  "driverRules =
    [ \<lparr>pr_APIGroups = [''''], pr_Resources = [''nodes'', ''namespaces'', ''pods'',
         ''persistentvolumes'', ''persistentvolumeclaims''],
       pr_Verbs = [''get'', ''list'', ''watch'', ''update'', ''patch''],
       pr_ResourceNames = []\<rparr>,
      \<lparr>pr_APIGroups = [''''], pr_Resources = [''configmaps''],
       pr_Verbs = [''get'', ''list'', ''watch''],
       pr_ResourceNames = []\<rparr>,
      \<lparr>pr_APIGroups = [''''], pr_Resources = [''persistentvolumes''],
       pr_Verbs = [''create'', ''delete''],
       pr_ResourceNames = []\<rparr>,
      \<lparr>pr_APIGroups = [''''], pr_Resources = [''events''],
       pr_Verbs = [''get'', ''list'', ''watch'', ''create'', ''update'', ''patch''],
       pr_ResourceNames = []\<rparr>,
      \<lparr>pr_APIGroups = [''storage.k8s.io''], pr_Resources = [''storageclasses'', ''csinodes'',
         ''csidrivers'', ''volumeattachments''],
       pr_Verbs = [''get'', ''list'', ''watch'', ''update'', ''patch''],
       pr_ResourceNames = []\<rparr>,
      \<lparr>pr_APIGroups = [''storage.k8s.io''], pr_Resources = [''volumeattachments/status''],
       pr_Verbs = [''patch''],
       pr_ResourceNames = []\<rparr>,
      \<lparr>pr_APIGroups = [''snapshot.storage.k8s.io''], pr_Resources = [''volumesnapshots'',
         ''volumesnapshotcontents'', ''volumesnapshotclasses''],
       pr_Verbs = [''get'', ''list'', ''watch'', ''create'', ''update'', ''patch'', ''delete''],
       pr_ResourceNames = []\<rparr>,
      \<lparr>pr_APIGroups = [''snapshot.storage.k8s.io''],
       pr_Resources = [''volumesnapshotcontents/status'', ''volumesnapshots/status''],
       pr_Verbs = [''get'', ''update'', ''patch''],
       pr_ResourceNames = []\<rparr>,
      \<lparr>pr_APIGroups = [''coordination.k8s.io''], pr_Resources = [''leases''],
       pr_Verbs = [''get'', ''list'', ''watch'', ''create'', ''update'', ''patch'', ''delete''],
       pr_ResourceNames = []\<rparr> ]"

definition driverClusterRole :: Object where
  "driverClusterRole = fresh (named [] ''alibaba-cloud-csi-role'') (ClusterRoleBody driverRules)"

definition driverSubject :: Subject where
  "driverSubject = \<lparr>sub_Kind = ''ServiceAccount'', sub_Name = serviceAccountName,
     sub_Namespace = operatorNamespace\<rparr>"

definition driverClusterRoleBinding :: Object where
  "driverClusterRoleBinding = fresh (named [] ''alibaba-cloud-csi-binding'')
     (ClusterRoleBindingBody \<lparr>rr_APIGroup = ''rbac.authorization.k8s.io'', rr_Kind = ''ClusterRole'',
        rr_Name = ''alibaba-cloud-csi-role''\<rparr> [driverSubject])"

definition sccBinding :: Object where
  "sccBinding = fresh (named [] ''alibabacloud-csi-privileged'')
     (ClusterRoleBindingBody \<lparr>rr_APIGroup = ''rbac.authorization.k8s.io'', rr_Kind = ''ClusterRole'',
        rr_Name = ''system:openshift:scc:privileged''\<rparr> [driverSubject])"

section \<open>Operations\<close>

definition ensureServiceAccount :: "Reconciler \<Rightarrow> AlibabaCloudCSIDriver \<Rightarrow> goerror option prog" where
  "ensureServiceAccount r cr = createOrAdopt r cr serviceAccount"

definition ensureClusterRole :: "Reconciler \<Rightarrow> AlibabaCloudCSIDriver \<Rightarrow> goerror option prog" where
  "ensureClusterRole r cr = createOrAdopt r cr driverClusterRole"

definition ensureClusterRoleBinding :: "Reconciler \<Rightarrow> AlibabaCloudCSIDriver \<Rightarrow>
    goerror option prog" where
  "ensureClusterRoleBinding r cr = createOrAdopt r cr driverClusterRoleBinding"

definition ensureSCCBinding :: "Reconciler \<Rightarrow> AlibabaCloudCSIDriver \<Rightarrow> goerror option prog" where
  "ensureSCCBinding r cr = createOrAdopt r cr sccBinding"

definition sccKind :: string where
  "sccKind = ''SecurityContextConstraints''"

definition sccAvailable :: "Reconciler \<Rightarrow> bool prog" where
  "sccAvailable r = RESTMapping ''security.openshift.io'' sccKind (\<lambda>err.
     if err = None then Ret True
     else if \<not> rec_Config r then Ret False
     else NewDiscoveryClient (\<lambda>err.
       if err \<noteq> None then Ret False
       else ServerResources ''security.openshift.io/v1'' (\<lambda>resList. case resList of
           Inl err \<Rightarrow> Ret False
         | Inr kinds \<Rightarrow> Ret (list_ex (\<lambda>kind. kind = sccKind) kinds))))"

text \<open>
  The labels of \<open>want\<close> are visited in the order a Go map iteration chooses; \<open>psaWant\<close> lists them
  in the order of the source, and \<open>labelLoop_order\<close> below shows that the order does not matter.
\<close>

definition psaWant :: "(string \<times> string) list" where
  "psaWant = [(''pod-security.kubernetes.io/enforce'', ''privileged''),
     (''pod-security.kubernetes.io/audit'', ''privileged''),
     (''pod-security.kubernetes.io/warn'', ''privileged'')]"

fun labelLoop :: "(string \<times> string) list \<Rightarrow> strmap \<Rightarrow> bool \<Rightarrow> strmap \<times> bool" where
  "labelLoop [] labels changed = (labels, changed)"
| "labelLoop ((k, v) # rest) labels changed =
     (if map_index labels k \<noteq> v then labelLoop rest (labels(k \<mapsto> v)) True
      else labelLoop rest labels changed)"

definition objLabels :: "Object \<Rightarrow> strmap" where
  "objLabels ob = map_or_empty (om_Labels (obj_meta ob))"

definition ensurePrivilegedNamespacePSA :: "goerror option prog" where
  "ensurePrivilegedNamespacePSA = GetObj KNamespace ([], operatorNamespace) (\<lambda>res. case res of
       Inl err \<Rightarrow>
         if err_Reason err = NotFound then Ret None
         else Ret (Some (Wrapped (''get namespace '' @ operatorNamespace @ '': '') (LibErr err)))
     | Inr ns \<Rightarrow>
         (case labelLoop psaWant (objLabels ns) False of (labels, changed) \<Rightarrow>
            if \<not> changed then Ret None
            else Update (setLabels labels ns) (\<lambda>err. Ret (map_option LibErr err))))"

definition ensureRBAC :: "Reconciler \<Rightarrow> AlibabaCloudCSIDriver \<Rightarrow> goerror option prog" where
  "ensureRBAC r cr =
     check (ensureServiceAccount r cr) id (
     check (ensureClusterRole r cr) id (
     check (ensureClusterRoleBinding r cr) id (
     bind (sccAvailable r) (\<lambda>available.
       if available then ensureSCCBinding r cr else ensurePrivilegedNamespacePSA))))"

section \<open>The operator's own permissions\<close>

text \<open>
  The \<open>+kubebuilder:rbac\<close> directives, from which the operator's own cluster role is generated.
\<close>

definition allVerbs :: "string list" where
  "allVerbs = [''get'', ''list'', ''watch'', ''create'', ''update'', ''patch'', ''delete'']"

definition operatorMarkers :: "PolicyRule list" where
  "operatorMarkers =
    [ \<lparr>pr_APIGroups = [''csi.alibabacloud.com''], pr_Resources = [''alibabacloudcsidrivers''],
       pr_Verbs = allVerbs,
       pr_ResourceNames = []\<rparr>,
      \<lparr>pr_APIGroups = [''csi.alibabacloud.com''], pr_Resources = [''alibabacloudcsidrivers/status''],
       pr_Verbs = [''get'', ''update'', ''patch''],
       pr_ResourceNames = []\<rparr>,
      \<lparr>pr_APIGroups = [''csi.alibabacloud.com''],
       pr_Resources = [''alibabacloudcsidrivers/finalizers''], pr_Verbs = [''update''],
       pr_ResourceNames = []\<rparr>,
      \<lparr>pr_APIGroups = [''storage.k8s.io''], pr_Resources = [''csidrivers''], pr_Verbs = allVerbs,
       pr_ResourceNames = []\<rparr>,
      \<lparr>pr_APIGroups = [''storage.k8s.io''], pr_Resources = [''storageclasses''], pr_Verbs = allVerbs,
       pr_ResourceNames = []\<rparr>,
      \<lparr>pr_APIGroups = [''apps''], pr_Resources = [''deployments'', ''daemonsets''], pr_Verbs = allVerbs,
       pr_ResourceNames = []\<rparr>,
      \<lparr>pr_APIGroups = [''''], pr_Resources = [''serviceaccounts''], pr_Verbs = allVerbs,
       pr_ResourceNames = []\<rparr>,
      \<lparr>pr_APIGroups = [''rbac.authorization.k8s.io''],
       pr_Resources = [''clusterroles'', ''clusterrolebindings''], pr_Verbs = allVerbs,
       pr_ResourceNames = []\<rparr>,
      \<lparr>pr_APIGroups = [''''], pr_Resources = [''events''],
       pr_Verbs = [''get'', ''list'', ''watch'', ''create'', ''update'', ''patch''],
       pr_ResourceNames = []\<rparr>,
      \<lparr>pr_APIGroups = [''snapshot.storage.k8s.io''], pr_Resources = [''volumesnapshotclasses''],
       pr_Verbs = allVerbs,
       pr_ResourceNames = []\<rparr>,
      \<lparr>pr_APIGroups = [''cdi.kubevirt.io''], pr_Resources = [''storageprofiles''],
       pr_Verbs = [''get'', ''list'', ''watch'', ''update'', ''patch''],
       pr_ResourceNames = []\<rparr>,
      \<lparr>pr_APIGroups = [''security.openshift.io''],
       pr_Resources = [''securitycontextconstraints''], pr_Verbs = [''use''],
       pr_ResourceNames = [''privileged'']\<rparr>,
      \<lparr>pr_APIGroups = [''''], pr_Resources = [''nodes'', ''namespaces'', ''pods'',
         ''persistentvolumes'', ''persistentvolumeclaims''],
       pr_Verbs = [''get'', ''list'', ''watch'', ''update'', ''patch''],
       pr_ResourceNames = []\<rparr>,
      \<lparr>pr_APIGroups = [''''], pr_Resources = [''configmaps''],
       pr_Verbs = [''get'', ''list'', ''watch''],
       pr_ResourceNames = []\<rparr>,
      \<lparr>pr_APIGroups = [''''], pr_Resources = [''persistentvolumes''],
       pr_Verbs = [''create'', ''delete''],
       pr_ResourceNames = []\<rparr>,
      \<lparr>pr_APIGroups = [''coordination.k8s.io''], pr_Resources = [''leases''], pr_Verbs = allVerbs,
       pr_ResourceNames = []\<rparr>,
      \<lparr>pr_APIGroups = [''storage.k8s.io''], pr_Resources = [''csinodes'', ''volumeattachments''],
       pr_Verbs = [''get'', ''list'', ''watch'', ''update'', ''patch''],
       pr_ResourceNames = []\<rparr>,
      \<lparr>pr_APIGroups = [''storage.k8s.io''], pr_Resources = [''volumeattachments/status''],
       pr_Verbs = [''patch''],
       pr_ResourceNames = []\<rparr>,
      \<lparr>pr_APIGroups = [''snapshot.storage.k8s.io''],
       pr_Resources = [''volumesnapshots'', ''volumesnapshotcontents''], pr_Verbs = allVerbs,
       pr_ResourceNames = []\<rparr>,
      \<lparr>pr_APIGroups = [''snapshot.storage.k8s.io''],
       pr_Resources = [''volumesnapshotcontents/status'', ''volumesnapshots/status''],
       pr_Verbs = [''get'', ''update'', ''patch''],
       pr_ResourceNames = []\<rparr> ]"

text \<open>
  RBAC rules are additive: a request (API group, resource, verb, name) is allowed when some rule
  lists its group, its resource, its verb, and its name if the rule lists names.  The empty name
  stands for a request or a grant that is not restricted to one object.
\<close>

type_synonym permission = "string \<times> string \<times> string \<times> string"

fun permits :: "PolicyRule list \<Rightarrow> permission \<Rightarrow> bool" where
  "permits rules (g, res, v, n) \<longleftrightarrow> list_ex (\<lambda>rule. List.member (pr_APIGroups rule) g \<and>
     List.member (pr_Resources rule) res \<and> List.member (pr_Verbs rule) v \<and>
     (pr_ResourceNames rule = [] \<or> List.member (pr_ResourceNames rule) n)) rules"

definition grants :: "PolicyRule list \<Rightarrow> permission list" where
  "grants rules = concat (map (\<lambda>rule. List.product (pr_APIGroups rule)
     (List.product (pr_Resources rule) (List.product (pr_Verbs rule)
       (if pr_ResourceNames rule = [] then [''''] else pr_ResourceNames rule)))) rules)"

text \<open>
  The permissions a request needs.  A typed read goes through the manager's cache, which lists
  and watches the kind.  Discovery is open to every authenticated account.
  \<^item> Who creates a cluster role must hold every permission that the role grants, and who creates
    a binding every permission of the role it refers to (unless the account holds the verbs
    \<open>escalate\<close> or \<open>bind\<close>, which the operator does not).  What the roles grant is read from the
    cluster: \<open>roles\<close> gives the rules of a cluster role by its name.
  \<^item> Who makes an owner reference that blocks the deletion of the owner must be allowed to update
    the \<open>finalizers\<close> of the owner.  References to other owners were there before and are exempt.
  \<^item> An update that changes nothing but the owner references grants nothing and is exempt from
    the first rule; \<open>ownersOnly\<close> says that the updates of roles and bindings are of this sort.
\<close>

type_synonym clusterRoles = "string \<Rightarrow> PolicyRule list"

fun kindResource :: "Kind \<Rightarrow> string \<times> string" where
  "kindResource KServiceAccount = ([], ''serviceaccounts'')"
| "kindResource KClusterRole = (''rbac.authorization.k8s.io'', ''clusterroles'')"
| "kindResource KClusterRoleBinding = (''rbac.authorization.k8s.io'', ''clusterrolebindings'')"
| "kindResource KNamespace = ([], ''namespaces'')"
| "kindResource KCSIDriver = (''storage.k8s.io'', ''csidrivers'')"
| "kindResource KDeployment = (''apps'', ''deployments'')"
| "kindResource KDaemonSet = (''apps'', ''daemonsets'')"
| "kindResource KStorageClass = (''storage.k8s.io'', ''storageclasses'')"
| "kindResource KVolumeSnapshotClass = (''snapshot.storage.k8s.io'', ''volumesnapshotclasses'')"
| "kindResource KStorageProfile = (''cdi.kubevirt.io'', ''storageprofiles'')"

fun verbsOn :: "string \<times> string \<Rightarrow> string list \<Rightarrow> permission list" where
  "verbsOn (g, res) vs = map (\<lambda>v. (g, res, v, [])) vs"

definition escalates :: "clusterRoles \<Rightarrow> Object \<Rightarrow> permission list" where
  "escalates roles ob = (case obj_body ob of
       ClusterRoleBody rules \<Rightarrow> grants rules
     | ClusterRoleBindingBody ref subjects \<Rightarrow> grants (roles (rr_Name ref))
     | _ \<Rightarrow> [])"

definition blocks :: "Object \<Rightarrow> permission list" where
  "blocks ob = map (\<lambda>ref. (ownerGroup, ''alibabacloudcsidrivers/finalizers'', ''update'', or_Name ref))
     (filter (\<lambda>ref. or_BlockOwnerDeletion ref \<and> apiGroup (or_APIVersion ref) = ownerGroup \<and>
        or_Kind ref = ownerKind) (owners ob))"

fun needs :: "clusterRoles \<Rightarrow> event \<Rightarrow> permission list" where
  "needs roles (EvGetCR n x) =
     verbsOn (''csi.alibabacloud.com'', ''alibabacloudcsidrivers'') [''get'', ''list'', ''watch'']"
| "needs roles (EvGet kd n x) = verbsOn (kindResource kd) [''get'', ''list'', ''watch'']"
| "needs roles (EvCreate ob x) =
     verbsOn (kindResource (objKind ob)) [''create''] @ escalates roles ob @ blocks ob"
| "needs roles (EvUpdate ob x) = verbsOn (kindResource (objKind ob)) [''update''] @ blocks ob"
| "needs roles (EvPatch kd n j x) = verbsOn (kindResource kd) [''patch'']"
| "needs roles (EvStatusPatch c c' x) =
     verbsOn (''csi.alibabacloud.com'', ''alibabacloudcsidrivers/status'') [''patch'']"
| "needs roles _ = []"

definition authorized :: "clusterRoles \<Rightarrow> event \<Rightarrow> bool" where
  "authorized roles ev \<longleftrightarrow> list_all (permits operatorMarkers) (needs roles ev)"

definition ownersOnly :: "Object \<Rightarrow> Object \<Rightarrow> bool" where
  "ownersOnly ex ob \<longleftrightarrow>
     (objKind ob \<in> {KClusterRole, KClusterRoleBinding} \<longrightarrow> ob = setOwners (owners ob) ex)"

text \<open>
  The cluster roles that the operator binds, as they are stored: the driver's role grants what this
  or an earlier version put in it, at most \<open>driverRules\<close>; the role of the privileged SCC, which
  OpenShift provides, grants the use of that SCC.
\<close>

definition boundRoles :: "clusterRoles \<Rightarrow> bool" where
  "boundRoles roles \<longleftrightarrow>
     list_all (List.member (grants driverRules)) (grants (roles ''alibaba-cloud-csi-role'')) \<and>
     list_all (List.member [(''security.openshift.io'', ''securitycontextconstraints'', ''use'', ''privileged'')])
       (grants (roles ''system:openshift:scc:privileged''))"

section \<open>Lemmas\<close>

lemma rbac_refs [object_simps]:
  "objRef serviceAccount = (KServiceAccount, operatorNamespace, serviceAccountName)"
  "objRef driverClusterRole = (KClusterRole, [], ''alibaba-cloud-csi-role'')"
  "objRef driverClusterRoleBinding = (KClusterRoleBinding, [], ''alibaba-cloud-csi-binding'')"
  "objRef sccBinding = (KClusterRoleBinding, [], ''alibabacloud-csi-privileged'')"
  by (simp_all add: serviceAccount_def driverClusterRole_def driverClusterRoleBinding_def
      sccBinding_def object_simps)

lemma rbac_kinds [object_simps]:
  "objKind serviceAccount = KServiceAccount" "objKind driverClusterRole = KClusterRole"
  "objKind driverClusterRoleBinding = KClusterRoleBinding" "objKind sccBinding = KClusterRoleBinding"
  using rbac_refs by (simp_all add: objRef_def)

lemma rbac_owners [object_simps]:
  "owners serviceAccount = []" "owners driverClusterRole = []"
  "owners driverClusterRoleBinding = []" "owners sccBinding = []"
  by (simp_all add: serviceAccount_def driverClusterRole_def driverClusterRoleBinding_def
      sccBinding_def object_simps)

lemma rbac_resourceVersion [object_simps]:
  "resourceVersion serviceAccount = []" "resourceVersion driverClusterRole = []"
  "resourceVersion driverClusterRoleBinding = []" "resourceVersion sccBinding = []"
  by (simp_all add: serviceAccount_def driverClusterRole_def driverClusterRoleBinding_def
      sccBinding_def object_simps)

subsection \<open>Permissions\<close>

definition allKinds :: "Kind list" where
  "allKinds = [KServiceAccount, KClusterRole, KClusterRoleBinding, KNamespace, KCSIDriver,
     KDeployment, KDaemonSet, KStorageClass, KVolumeSnapshotClass, KStorageProfile]"

lemma allKinds_all: "kd \<in> set allKinds"
  by (cases kd) (simp_all add: allKinds_def)

lemma permits_kinds:
  "list_all (\<lambda>kd. list_all (permits operatorMarkers)
     (verbsOn (kindResource kd) [''get'', ''list'', ''watch'', ''update'', ''patch''])) allKinds"
  by code_simp

lemma permits_create:
  "list_all (\<lambda>kd. permits operatorMarkers (fst (kindResource kd), snd (kindResource kd), ''create'', []))
     (filter (\<lambda>kd. kd \<noteq> KNamespace \<and> kd \<noteq> KStorageProfile) allKinds)"
  by code_simp

lemma permits_cr:
  "list_all (permits operatorMarkers)
     (verbsOn (''csi.alibabacloud.com'', ''alibabacloudcsidrivers'') [''get'', ''list'', ''watch''] @
      verbsOn (''csi.alibabacloud.com'', ''alibabacloudcsidrivers/status'') [''patch''])"
  by code_simp

lemma permits_kind:
  "v \<in> set [''get'', ''list'', ''watch'', ''update'', ''patch''] \<Longrightarrow>
   permits operatorMarkers (fst (kindResource kd), snd (kindResource kd), v, [])"
  using permits_kinds allKinds_all [of kd]
  by (cases "kindResource kd") (fastforce simp: list_all_iff)

lemma verbsOn_alt: "verbsOn gr vs = map (\<lambda>v. (fst gr, snd gr, v, [])) vs"
  by (cases gr) simp

lemma permits_driverRules: "list_all (permits operatorMarkers) (grants driverRules)"
  by code_simp

lemma permits_finalizers:
  "permits operatorMarkers (ownerGroup, ''alibabacloudcsidrivers/finalizers'', ''update'', n)"
  by (simp add: operatorMarkers_def ownerGroup_def)

lemma permits_scc: "permits operatorMarkers
    (''security.openshift.io'', ''securitycontextconstraints'', ''use'', ''privileged'')"
  by code_simp

lemma permits_blocks: "list_all (permits operatorMarkers) (blocks ob)"
  by (simp add: blocks_def list_all_iff permits_finalizers del: permits.simps)

text \<open>
  The bodies the operator may create: of a kind it holds the verb for, the driver's role, and
  bindings to the driver's role and to the role of the privileged SCC.
\<close>

definition creatable :: "Body \<Rightarrow> bool" where
  "creatable b \<longleftrightarrow> (case b of
       NamespaceBody \<Rightarrow> False | StorageProfileBody \<Rightarrow> False
     | ClusterRoleBody rules \<Rightarrow> rules = driverRules
     | ClusterRoleBindingBody ref subjects \<Rightarrow>
         rr_Name ref \<in> {''alibaba-cloud-csi-role'', ''system:openshift:scc:privileged''}
     | _ \<Rightarrow> True)"

lemma permits_boundRoles:
  assumes "boundRoles roles" and "n \<in> {''alibaba-cloud-csi-role'', ''system:openshift:scc:privileged''}"
  shows "list_all (permits operatorMarkers) (grants (roles n))"
  using assms permits_driverRules permits_scc
  by (auto simp: boundRoles_def list_all_iff simp del: permits.simps)

lemma escalates_creatable:
  "boundRoles roles \<Longrightarrow> creatable (obj_body ob) \<Longrightarrow> list_all (permits operatorMarkers) (escalates roles ob)"
  using permits_driverRules permits_boundRoles [of roles]
  by (cases "obj_body ob") (simp_all add: creatable_def escalates_def del: permits.simps)

lemma creatable_kind: "creatable b \<Longrightarrow> body_kind b \<notin> {KNamespace, KStorageProfile}"
  by (cases b) (simp_all add: creatable_def)

lemma rbac_creatable [object_simps]:
  "creatable (obj_body serviceAccount)" "creatable (obj_body driverClusterRole)"
  "creatable (obj_body driverClusterRoleBinding)" "creatable (obj_body sccBinding)"
  by (simp_all add: creatable_def serviceAccount_def driverClusterRole_def
      driverClusterRoleBinding_def sccBinding_def object_simps)

text \<open>What is created may be created; every other request of a managed kind is permitted anyway.\<close>

fun creates :: "(Body \<Rightarrow> bool) \<Rightarrow> event \<Rightarrow> bool" where
  "creates P (EvCreate ob _) = P (obj_body ob)"
| "creates P _ = True"

lemma authorized_creates:
  assumes "boundRoles roles" and "creates creatable ev"
  shows "authorized roles ev"
proof (cases ev)
  case (EvCreate ob x)
  with assms(2) have body: "creatable (obj_body ob)" by simp
  then have "permits operatorMarkers (fst (kindResource (objKind ob)), snd (kindResource (objKind ob)), ''create'', [])"
    using permits_create allKinds_all [of "objKind ob"] creatable_kind [OF body]
    by (auto simp: list_all_iff objKind_def simp del: permits.simps)
  then show ?thesis
    using EvCreate escalates_creatable [OF assms(1) body] permits_blocks [of ob]
    by (simp add: authorized_def verbsOn_alt del: permits.simps)
qed (use permits_cr permits_blocks in
  \<open>simp_all add: authorized_def verbsOn_alt permits_kind del: permits.simps\<close>)

subsection \<open>Labels\<close>

lemma setLabels_simps [object_simps]:
  "resourceVersion (setLabels ls ob) = resourceVersion ob" "objLabels (setLabels ls ob) = ls"
  by (simp_all add: resourceVersion_def setLabels_def objLabels_def)

lemma setLabels_kind: "objKind (setLabels ls ob) = objKind ob"
  by (simp add: objKind_def setLabels_def)

lemma sameDesired_labels: "sameDesired ob ob' \<Longrightarrow> objLabels ob' = objLabels ob"
  by (cases "obj_meta ob"; cases "obj_meta ob'")
    (auto simp: sameDesired_def objLabels_def setRest_def setResourceVersion_def
      dest!: arg_cong [of _ _ obj_meta])

lemma map_index_Some: "v \<noteq> [] \<Longrightarrow> map_index m k = v \<longleftrightarrow> m k = Some v"
  by (auto simp: map_index_def split: option.splits)

text \<open>
  Whatever the order in which distinct labels are visited, the loop sets them all, keeps the
  others, and reports a change exactly when one of them was missing or different.
\<close>

lemma labelLoop_changed:
  "distinct (map fst want) \<Longrightarrow>
   snd (labelLoop want labels changed) \<longleftrightarrow> changed \<or> (\<exists>(k, v) \<in> set want. map_index labels k \<noteq> v)"
proof (induction want arbitrary: labels changed)
  case (Cons kv rest)
  obtain k v where kv: "kv = (k, v)" by (cases kv)
  have "(\<exists>(k', v') \<in> set rest. map_index (labels(k \<mapsto> v)) k' \<noteq> v') \<longleftrightarrow>
      (\<exists>(k', v') \<in> set rest. map_index labels k' \<noteq> v')"
    using Cons.prems unfolding kv by (intro bex_cong refl) (force simp: split_beta)
  then show ?case
    using Cons.IH Cons.prems unfolding kv by (simp add: split_beta)
qed simp

lemma labelLoop_labels:
  "distinct (map fst want) \<Longrightarrow> fst (labelLoop want labels changed) k' =
    (case map_of want k' of Some v \<Rightarrow> if map_index labels k' \<noteq> v then Some v else labels k'
     | None \<Rightarrow> labels k')"
proof (induction want arbitrary: labels changed)
  case (Cons kv rest)
  obtain k v where kv: "kv = (k, v)" by (cases kv)
  have none: "map_of rest k = None" using Cons.prems by (simp add: map_of_eq_None_iff kv)
  have IH: "fst (labelLoop rest labels' changed') k' =
      (case map_of rest k' of Some v \<Rightarrow> if map_index labels' k' \<noteq> v then Some v else labels' k'
       | None \<Rightarrow> labels' k')" for labels' changed'
    by (rule Cons.IH) (use Cons.prems in simp)
  show ?case
  proof (cases "k' = k")
    case True
    with IH none have "fst (labelLoop rest labels' changed') k = labels' k" for labels' changed'
      by simp
    with True show ?thesis by (simp add: kv)
  next
    case False
    with IH show ?thesis by (simp add: kv split: option.split)
  qed
qed simp

lemma labelLoop_order:
  assumes "mset want = mset want'" and "distinct (map fst want)"
  shows "labelLoop want labels changed = labelLoop want' labels changed"
proof -
  from assms have "distinct (map fst want')"
    by (metis mset_eq_imp_distinct_iff mset_map)
  moreover have "map_of want = map_of want'"
    using assms calculation by (metis map_of_inject_set mset_eq_setD)
  moreover have "set want = set want'" using assms(1) by (rule mset_eq_setD)
  ultimately show ?thesis
    using assms(2) by (intro prod_eqI ext) (auto simp: labelLoop_labels labelLoop_changed)
qed

lemma psaWant_distinct: "distinct (map fst psaWant)"
  by (simp add: psaWant_def)

text \<open>
  C19: Kubernetes lets an account grant only permissions it holds.  Every permission (API group,
  resource, verb, name) that the operator puts in the driver's cluster role is one its own
  \<open>+kubebuilder:rbac\<close> directives give it; for the binding to the privileged SCC it holds the
  permission to use that SCC, and no other SCC.
\<close>

theorem driver_role_covered:
  "list_all (permits operatorMarkers) (grants driverRules) \<and>
   permits operatorMarkers (''security.openshift.io'', ''securitycontextconstraints'', ''use'', scc) =
     (scc = ''privileged'')"
  using permits_driverRules by (simp add: operatorMarkers_def allVerbs_def)

section \<open>Behaviour on traces\<close>

text \<open>
  C20: the platform detection, for every outcome of its requests.  The mapper is asked first and a
  hit is final; a miss is confirmed by a fresh discovery client if there is a configuration; any
  error of the discovery counts as "not OpenShift", and otherwise the answer is whether the
  resource kinds of the group contain \<open>SecurityContextConstraints\<close>.
\<close>

theorem sccAvailable_outcomes:
  "exec (sccAvailable r) tr available \<longleftrightarrow>
    (tr = [EvRESTMapping ''security.openshift.io'' sccKind None] \<and> available) \<or>
    (\<exists>e. tr = [EvRESTMapping ''security.openshift.io'' sccKind (Some e)] \<and> \<not> rec_Config r \<and>
       \<not> available) \<or>
    (\<exists>e e'. tr = [EvRESTMapping ''security.openshift.io'' sccKind (Some e),
         EvNewDiscoveryClient (Some e')] \<and> rec_Config r \<and> \<not> available) \<or>
    (\<exists>e e'. tr = [EvRESTMapping ''security.openshift.io'' sccKind (Some e),
         EvNewDiscoveryClient None, EvServerResources ''security.openshift.io/v1'' (Inl e')] \<and>
       rec_Config r \<and> \<not> available) \<or>
    (\<exists>e kinds. tr = [EvRESTMapping ''security.openshift.io'' sccKind (Some e),
         EvNewDiscoveryClient None, EvServerResources ''security.openshift.io/v1'' (Inr kinds)] \<and>
       rec_Config r \<and> available = (sccKind \<in> set kinds))"
  unfolding sccAvailable_def
  by (auto simp: exec_iffs list_ex_iff split_sum_ex split_option_ex)

text \<open>What the answers say about the platform: one of them shows the SCC API.\<close>

fun sccFound :: "event \<Rightarrow> bool" where
  "sccFound (EvRESTMapping g kind answer) =
     (g = ''security.openshift.io'' \<and> kind = sccKind \<and> answer = None)"
| "sccFound (EvServerResources gv (Inr kinds)) =
     (gv = ''security.openshift.io/v1'' \<and> List.member kinds sccKind)"
| "sccFound _ = False"

definition sccDetected :: "event list \<Rightarrow> bool" where
  "sccDetected tr \<longleftrightarrow> list_ex sccFound tr"

lemma sccDetected_append [simp]: "sccDetected (tr1 @ tr2) \<longleftrightarrow> sccDetected tr1 \<or> sccDetected tr2"
  by (simp add: sccDetected_def)

lemma sccDetected_quiet: "list_all (\<lambda>ev. \<not> sccFound ev) tr \<Longrightarrow> \<not> sccDetected tr"
  by (auto simp: sccDetected_def list_all_iff list_ex_iff)

lemma exec_sccAvailable: "exec (sccAvailable r) tr available \<Longrightarrow> sccDetected tr = available"
  unfolding sccAvailable_def
  by (auto simp: exec_iffs list_ex_iff split_sum_ex sccDetected_def split: if_splits)

definition psaLabels :: "strmap \<Rightarrow> strmap" where
  "psaLabels labels = labels ++ map_of psaWant"

lemma labelLoop_spec:
  assumes "distinct (map fst want)" and "[] \<notin> snd ` set want"
  shows "labelLoop want labels False = (labels ++ map_of want, labels ++ map_of want \<noteq> labels)"
proof -
  have ne: "v \<noteq> []" if "map_of want k = Some v" for k v
    using map_of_SomeD [OF that] assms(2) by force
  have "fst (labelLoop want labels False) k = (labels ++ map_of want) k" for k
    by (auto simp: labelLoop_labels [OF assms(1)] map_add_def map_index_Some ne split: option.split)
  moreover have "snd (labelLoop want labels False) \<longleftrightarrow> labels ++ map_of want \<noteq> labels"
  proof -
    have "labels ++ map_of want = labels \<longleftrightarrow> (\<forall>(k, v) \<in> set want. labels k = Some v)"
      by (rule map_add_absorb [OF assms(1)])
    also have "\<dots> \<longleftrightarrow> (\<forall>(k, v) \<in> set want. map_index labels k = v)"
    proof (rule ball_cong [OF refl])
      fix kv assume "kv \<in> set want"
      then have "snd kv \<noteq> []" using assms(2) by force
      then show "(case kv of (k, v) \<Rightarrow> labels k = Some v) = (case kv of (k, v) \<Rightarrow> map_index labels k = v)"
        by (simp add: split_beta map_index_Some)
    qed
    finally show ?thesis by (force simp: labelLoop_changed [OF assms(1)])
  qed
  ultimately show ?thesis by (intro prod_eqI ext) simp_all
qed

lemma labelLoop_psa: "labelLoop psaWant labels False = (psaLabels labels, psaLabels labels \<noteq> labels)"
  unfolding psaLabels_def by (rule labelLoop_spec) (auto simp: psaWant_def)

text \<open>
  C21: what \<open>ensurePrivilegedNamespacePSA\<close> requests and returns, for every answer.  A missing
  namespace is ignored, another read error is wrapped; a namespace that has the three labels is
  not written; otherwise it is written once with the three labels set, every other label and
  field as read, and the error of that update is returned.
\<close>

theorem psa_outcomes:
  "exec ensurePrivilegedNamespacePSA tr err \<longleftrightarrow>
    (\<exists>e. tr = [EvGet KNamespace ([], operatorNamespace) (Inl e)] \<and>
       err = (if err_Reason e = NotFound then None
         else Some (Wrapped (''get namespace '' @ operatorNamespace @ '': '') (LibErr e)))) \<or>
    (\<exists>ns. objRef ns = (KNamespace, [], operatorNamespace) \<and>
       psaLabels (objLabels ns) = objLabels ns \<and>
       tr = [EvGet KNamespace ([], operatorNamespace) (Inr ns)] \<and> err = None) \<or>
    (\<exists>ns e. objRef ns = (KNamespace, [], operatorNamespace) \<and>
       psaLabels (objLabels ns) \<noteq> objLabels ns \<and>
       tr = [EvGet KNamespace ([], operatorNamespace) (Inr ns),
         EvUpdate (setLabels (psaLabels (objLabels ns)) ns) e] \<and> err = map_option LibErr e)"
  unfolding ensurePrivilegedNamespacePSA_def
  by (auto simp: exec_iffs split_sum_ex labelLoop_psa simp flip: append_assoc)

text \<open>
  What an update may change of the object read just before: the Pod Security labels of a
  namespace, everything in a workload, and only the owner references in any other object.
\<close>

definition minimalUpdate :: "Object \<Rightarrow> Object \<Rightarrow> bool" where
  "minimalUpdate ex ob \<longleftrightarrow>
     (if objKind ob = KNamespace then ob = setLabels (psaLabels (objLabels ex)) ex
      else objKind ob \<in> {KDeployment, KDaemonSet} \<or> ob = setOwners (owners ob) ex)"

lemma minimalUpdate_owners: "minimalUpdate ex ob \<Longrightarrow> ownersOnly ex ob"
  by (auto simp: minimalUpdate_def ownersOnly_def)

lemma psa_updating: "updating minimalUpdate ensurePrivilegedNamespacePSA"
  unfolding updating_def ensurePrivilegedNamespacePSA_def
  by (auto simp: exec_iffs split_sum_ex labelLoop_psa minimalUpdate_def objRef_def setLabels_kind)

text \<open>
  C22: Go leaves the order of the iteration over the wanted labels open; in whatever order they
  are visited, the loop yields the same labels, the wanted ones over the old ones, and reports a
  change exactly when that differs from what was there.
\<close>

theorem psa_label_order:
  assumes "mset want = mset psaWant"
  shows "labelLoop want labels False = (psaLabels labels, psaLabels labels \<noteq> labels)"
proof -
  have "distinct (map fst want)"
    by (metis assms mset_eq_imp_distinct_iff mset_map psaWant_distinct)
  then show ?thesis
    using labelLoop_order [OF assms] by (simp add: labelLoop_psa)
qed

theorem psa_label_order_witness:
  "labelLoop (rev psaWant) [''team'' \<mapsto> ''storage''] False =
     (psaLabels [''team'' \<mapsto> ''storage''],
      psaLabels [''team'' \<mapsto> ''storage''] \<noteq> [''team'' \<mapsto> ''storage''])"
  by (rule psa_label_order) simp

section \<open>Contracts\<close>

text \<open>
  \<open>managed r cr T\<close> is the contract every operation of the operator has on all paths: it writes
  objects of \<open>T\<close> only, what it creates or replaces is controlled by \<open>cr\<close> (but for a namespace), and
  what it creates is something the operator's role lets it create.
\<close>

definition managed :: "Reconciler \<Rightarrow> AlibabaCloudCSIDriver \<Rightarrow> ObjectRef set \<Rightarrow> event \<Rightarrow> bool" where
  "managed r cr T ev \<longleftrightarrow> writesWithin T ev \<and> ownedWrites r cr ev \<and> creates creatable ev"

lemma objKind_ref: "objKind ob = fst (objRef ob)"
  by (simp add: objRef_def)

lemma managed_mono: "managed r cr T ev \<Longrightarrow> T \<subseteq> T' \<Longrightarrow> managed r cr T' ev"
  by (auto simp: managed_def intro: writesWithin_mono)

lemma managed_reads [simp]:
  "managed r cr T (EvGet kd n x)" "managed r cr T (EvRESTMapping g kd' y)"
  "managed r cr T (EvNewDiscoveryClient y)" "managed r cr T (EvServerResources gv z)"
  "managed r cr T (EvNow t)" "managed r cr T (EvGetCR n u)"
  by (simp_all add: managed_def)

lemma confined_managed:
  assumes "confined (managed r cr T) p"
  shows managed_writesWithin: "confined (writesWithin T) p"
    and managed_ownedWrites: "confined (ownedWrites r cr) p"
    and managed_creates: "confined (creates creatable) p"
    and managed_subset: "T \<subseteq> T' \<Longrightarrow> confined (managed r cr T') p"
  using assms by (auto elim!: confined_mono simp: managed_def intro: writesWithin_mono)

definition adoptedRBAC :: "ObjectRef set" where
  "adoptedRBAC = {(KServiceAccount, operatorNamespace, serviceAccountName),
     (KClusterRole, [], ''alibaba-cloud-csi-role''),
     (KClusterRoleBinding, [], ''alibaba-cloud-csi-binding'')}"

definition managedRBAC :: "ObjectRef set" where
  "managedRBAC = adoptedRBAC \<union> {(KClusterRoleBinding, [], ''alibabacloud-csi-privileged''),
     (KNamespace, [], operatorNamespace)}"

context operator_libs
begin

lemma createOrAdopt_managed [contracts]:
  assumes "objRef obj \<in> T" and "creatable (obj_body obj)"
  shows "confined (managed r cr T) (createOrAdopt r cr obj)"
  by (rule createOrAdopt_confined)
    (use assms in \<open>auto simp: managed_def objKind_ref\<close>)

lemma createOrUpdate_managed [contracts]:
  assumes "objRef obj \<in> T" and "creatable (obj_body obj)"
  shows "confined (managed r cr T) (createOrUpdate r cr obj)"
  by (rule createOrUpdate_confined)
    (use assms in \<open>auto simp: managed_def objKind_ref\<close>)

lemma sccAvailable_managed [contracts]: "confined (managed r cr T) (sccAvailable r)"
  unfolding sccAvailable_def by (auto intro!: contract_rules split: sum.splits)

lemma psa_managed [contracts]:
  assumes "(KNamespace, [], operatorNamespace) \<in> T"
  shows "confined (managed r cr T) ensurePrivilegedNamespacePSA"
  unfolding ensurePrivilegedNamespacePSA_def using assms
  by (auto intro!: contract_rules simp: object_simps managed_def objKind_ref
      split: sum.splits prod.splits)

lemma ensureRBAC_managed [contracts]: "confined (managed r cr managedRBAC) (ensureRBAC r cr)"
  unfolding ensureRBAC_def ensureServiceAccount_def ensureClusterRole_def
    ensureClusterRoleBinding_def ensureSCCBinding_def
  by (intro contract_rules contracts)
    (simp_all add: object_simps managedRBAC_def adoptedRBAC_def)

text \<open>Updates, and the platform detection, on all paths.\<close>

lemma createOrAdopt_minimal:
  "objKind obj \<noteq> KNamespace \<Longrightarrow> updating minimalUpdate (createOrAdopt r cr obj)"
  by (rule updating_adopt) (auto simp: minimalUpdate_def objKind_ref object_simps)

lemma createOrUpdate_minimal:
  "objKind obj \<in> {KDeployment, KDaemonSet} \<Longrightarrow> updating minimalUpdate (createOrUpdate r cr obj)"
  by (rule updating_update) (auto simp: minimalUpdate_def objKind_ref)

lemma ensureRBAC_updating: "updating minimalUpdate (ensureRBAC r cr)"
  unfolding ensureRBAC_def ensureServiceAccount_def ensureClusterRole_def
    ensureClusterRoleBinding_def ensureSCCBinding_def sccAvailable_def
  by (intro updating_check updating_bind updating_if createOrAdopt_minimal psa_updating updating_none)
    (auto intro!: contract_rules simp: object_simps split: sum.splits)

lemma helpers_quiet:
  "confined (\<lambda>ev. \<not> sccFound ev) (createOrAdopt r cr obj)"
  "confined (\<lambda>ev. \<not> sccFound ev) (createOrUpdate r cr obj)"
  by (rule createOrAdopt_confined createOrUpdate_confined; simp)+

lemma psa_quiet: "confined (\<lambda>ev. \<not> sccFound ev) ensurePrivilegedNamespacePSA"
  unfolding ensurePrivilegedNamespacePSA_def by (auto intro!: contract_rules split: sum.splits prod.splits)

end

text \<open>The namespace lets privileged pods in: the three modes of Pod Security ask for that level.\<close>

definition namespaceAdmits :: "store \<Rightarrow> bool" where
  "namespaceAdmits s \<longleftrightarrow> (case s (KNamespace, [], operatorNamespace) of
       None \<Rightarrow> False
     | Some ns \<Rightarrow> list_all (\<lambda>mode. objLabels ns (''pod-security.kubernetes.io/'' @ mode) = Some ''privileged'')
         [''enforce'', ''audit'', ''warn''])"

lemma psaLabels_eq: "psaLabels ls = ls \<longleftrightarrow> list_all (\<lambda>(k, v). ls k = Some v) psaWant"
  by (simp add: psaLabels_def map_add_absorb [OF psaWant_distinct] list_all_iff)

lemma namespaceAdmits_iff: "namespaceAdmits s \<longleftrightarrow>
    (\<exists>ns. s (KNamespace, [], operatorNamespace) = Some ns \<and> psaLabels (objLabels ns) = objLabels ns)"
  by (auto simp: namespaceAdmits_def psaLabels_eq psaWant_def split: option.split)

context kube_operator
begin

lemma ensureRBAC_establishes [contracts]: "establishes cr (ensureRBAC r cr) adoptedRBAC"
proof -
  note adopt = establishes_adopt [of cr]
  have rest: "confined (ownedWrites r cr) (bind (sccAvailable r) (\<lambda>available.
      if available then ensureSCCBinding r cr else ensurePrivilegedNamespacePSA))"
    unfolding ensureSCCBinding_def
    by (rule managed_ownedWrites [where T = managedRBAC], intro contract_rules contracts)
      (simp_all add: object_simps managedRBAC_def)
  have "establishes cr (ensureRBAC r cr) ({objRef serviceAccount} \<union>
      ({objRef driverClusterRole} \<union> ({objRef driverClusterRoleBinding} \<union> {})))"
    unfolding ensureRBAC_def ensureServiceAccount_def ensureClusterRole_def
      ensureClusterRoleBinding_def
    by (intro establishes_check adopt establishes_nothing confined_check rest
        managed_ownedWrites [where T = managedRBAC] createOrAdopt_managed)
      (auto simp: object_simps managedRBAC_def adoptedRBAC_def)
  then show ?thesis by (rule establishes_mono) (auto simp: adoptedRBAC_def object_simps)
qed

text \<open>
  When \<open>ensureRBAC\<close> succeeds, privileged pods are admitted in the way of the platform that was
  detected: with the SCC API the binding to the privileged SCC is in place, without it the
  namespace, if there is one, carries the three labels.
\<close>

lemma psaLabels_idem [simp]: "psaLabels (psaLabels ls) = psaLabels ls"
  by (rule ext) (simp add: psaLabels_def map_add_def split: option.split)

lemma psa_sound:
  assumes "run A ensurePrivilegedNamespacePSA w = (None, w')"
    and "objs w (KNamespace, [], operatorNamespace) \<noteq> None"
  shows "namespaceAdmits (objs w')"
proof -
  obtain res w1 where get: "api_Get A KNamespace ([], operatorNamespace) w = (res, w1)"
    by (cases "api_Get A KNamespace ([], operatorNamespace) w")
  show ?thesis
  proof (cases res)
    case (Inl e)
    with assms get_missing [of KNamespace _ w e w1] get_frame [OF get] get show ?thesis
      by (auto simp: ensurePrivilegedNamespacePSA_def run_simps split: if_splits)
  next
    case (Inr ns0)
    note ref = keyed [OF get_found [OF get [unfolded Inr]]]
    show ?thesis
    proof (cases "psaLabels (objLabels ns0) = objLabels ns0")
      case True
      with assms Inr get get_frame [OF get] get_found [OF get [unfolded Inr]] show ?thesis
        by (auto simp: ensurePrivilegedNamespacePSA_def run_simps labelLoop_psa namespaceAdmits_iff)
    next
      case False
      let ?ob = "setLabels (psaLabels (objLabels ns0)) ns0"
      from assms(1) Inr get False have "api_Update A ?ob w1 = (None, w')"
        by (auto simp: ensurePrivilegedNamespacePSA_def run_simps labelLoop_psa split: prod.splits)
      from update_ok [OF this] ref obtain ns where "sameDesired ?ob ns"
        and "objs w' (KNamespace, [], operatorNamespace) = Some ns" by (auto simp: object_simps)
      then show ?thesis by (simp add: namespaceAdmits_iff sameDesired_labels object_simps)
    qed
  qed
qed

text \<open>\<open>admitted cr scc w w'\<close>: what a run from \<open>w\<close> to \<open>w'\<close> that detected (or not) the SCC API provides.\<close>

definition admitted :: "AlibabaCloudCSIDriver \<Rightarrow> bool \<Rightarrow> 'w \<Rightarrow> 'w \<Rightarrow> bool" where
  "admitted cr scc w w' \<longleftrightarrow> (if scc then controlledIn w' cr (objRef sccBinding)
     else objs w (KNamespace, [], operatorNamespace) \<noteq> None \<longrightarrow> namespaceAdmits (objs w'))"

lemma run_confined_requests:
  "run A p w = (a, w') \<Longrightarrow> confined P p \<Longrightarrow> list_all P (requests A p w)"
  by (drule run_requests) (rule confined_exec, assumption, erule conjunct1)

lemma run_quiet:
  "run A p w = (a, w') \<Longrightarrow> confined (\<lambda>ev. \<not> sccFound ev) p \<Longrightarrow> \<not> sccDetected (requests A p w)"
  by (rule sccDetected_quiet) (rule run_confined_requests)

lemma admit_step:
  assumes "run A (bind (sccAvailable r) (\<lambda>available.
      if available then ensureSCCBinding r cr else ensurePrivilegedNamespacePSA)) w = (None, w')"
  shows "admitted cr (sccDetected (requests A (bind (sccAvailable r) (\<lambda>available.
      if available then ensureSCCBinding r cr else ensurePrivilegedNamespacePSA)) w)) w w'"
proof -
  obtain b w1 where scc: "run A (sccAvailable r) w = (b, w1)"
    and rest: "run A (if b then ensureSCCBinding r cr else ensurePrivilegedNamespacePSA) w1 = (None, w')"
    using assms by (auto simp: run_bind_iff)
  have "confined (\<lambda>ev. \<not> sccFound ev) (if b then ensureSCCBinding r cr else ensurePrivilegedNamespacePSA)"
    by (simp add: ensureSCCBinding_def helpers_quiet psa_quiet)
  then have "\<not> sccDetected (requests A (if b then ensureSCCBinding r cr else ensurePrivilegedNamespacePSA) w1)"
    by (rule run_quiet [OF rest])
  moreover have "sccDetected (requests A (sccAvailable r) w) = b"
    using run_requests [OF scc] by (rule exec_sccAvailable [OF conjunct1])
  ultimately have "sccDetected (requests A (bind (sccAvailable r) (\<lambda>available.
      if available then ensureSCCBinding r cr else ensurePrivilegedNamespacePSA)) w) = b"
    by (simp add: requests_bind scc)
  moreover have "objs w1 = objs w"
    using run_confined [OF scc managed_writesWithin [where r = r and cr = cr and T = "{}"]]
    by (auto simp: sccAvailable_managed intro!: ext)
  ultimately show ?thesis
    using rest psa_sound [of w1 w'] createOrAdopt_controls [of cr sccBinding w1 None w']
    by (auto simp: admitted_def ensureSCCBinding_def)
qed

lemma ensureRBAC_admits:
  assumes "run A (ensureRBAC r cr) w = (None, w')"
  shows "admitted cr (sccDetected (requests A (ensureRBAC r cr) w)) w w'"
proof -
  let ?rest = "bind (sccAvailable r) (\<lambda>available.
    if available then ensureSCCBinding r cr else ensurePrivilegedNamespacePSA)"
  from assms obtain w1 w2 w3 where
    runs: "run A (ensureServiceAccount r cr) w = (None, w1)" "run A (ensureClusterRole r cr) w1 = (None, w2)"
      "run A (ensureClusterRoleBinding r cr) w2 = (None, w3)" and rest: "run A ?rest w3 = (None, w')"
    unfolding ensureRBAC_def by (auto simp only: run_check_None)
  note parts = ensureServiceAccount_def ensureClusterRole_def ensureClusterRoleBinding_def
  have "sccDetected (requests A (ensureRBAC r cr) w) = sccDetected (requests A ?rest w3)"
    using runs run_quiet [OF runs(1)] run_quiet [OF runs(2)] run_quiet [OF runs(3)]
    by (simp add: ensureRBAC_def requests_check parts helpers_quiet)
  moreover have kept: "objs y (KNamespace, [], operatorNamespace) = objs x (KNamespace, [], operatorNamespace)"
    if "run A (createOrAdopt r cr obj) x = (e, y)" and "objKind obj \<noteq> KNamespace" and "creatable (obj_body obj)"
    for obj x y e
    using run_confined [OF that(1) managed_writesWithin [OF createOrAdopt_managed [where T = "{objRef obj}"]]]
      that(2,3) by (auto simp: objRef_def)
  then have "objs w3 (KNamespace, [], operatorNamespace) = objs w (KNamespace, [], operatorNamespace)"
    using runs [unfolded parts] by (simp add: object_simps)
  ultimately show ?thesis using admit_step [OF rest] by (simp add: admitted_def)
qed

end

context reliable_operator
begin

lemma psa_completes [contracts]:
  assumes "served KNamespace" and "\<And>ob. objRef ob = (KNamespace, [], operatorNamespace) \<Longrightarrow> accepts ob"
  shows "completes cr ensurePrivilegedNamespacePSA {}"
  unfolding completes_def
proof (intro allI impI)
  fix w
  obtain res w1 where get: "api_Get A KNamespace ([], operatorNamespace) w = (res, w1)"
    by (cases "api_Get A KNamespace ([], operatorNamespace) w")
  show "fst (run A ensurePrivilegedNamespacePSA w) = None"
  proof (cases "objs w (KNamespace, [], operatorNamespace)")
    case None
    from get_absent [OF None] get assms(1) show ?thesis
      by (auto simp: ensurePrivilegedNamespacePSA_def run_simps)
  next
    case (Some ns)
    with get get_present [OF Some] have res: "res = Inr ns" by simp
    let ?ob = "setLabels (psaLabels (objLabels ns)) ns"
    have "fst (api_Update A ?ob w1) = None"
      by (rule update_succeeds [where cur = ns])
        (use Some keyed [OF Some] get_frame [OF get] assms(2) in \<open>auto simp: object_simps\<close>)
    then show ?thesis
      by (cases "api_Update A ?ob w1")
        (simp add: ensurePrivilegedNamespacePSA_def run_simps get res labelLoop_psa)
  qed
qed

lemma ensureRBAC_completes [contracts]:
  assumes "cr_Namespace cr = []"
    and "\<And>kd. kd \<in> {KServiceAccount, KClusterRole, KClusterRoleBinding, KNamespace} \<Longrightarrow> served kd"
    and "\<And>ob. objRef ob \<in> managedRBAC \<Longrightarrow> accepts ob"
  shows "completes cr (ensureRBAC r cr) managedRBAC"
proof -
  let ?T = "{objRef sccBinding}"
  have admit: "completes cr (bind (sccAvailable r) (\<lambda>available.
      if available then ensureSCCBinding r cr else ensurePrivilegedNamespacePSA)) ?T"
    unfolding completes_def
  proof (intro allI impI)
    fix w assume free: "untaken w cr ?T"
    obtain b w1 where scc: "run A (sccAvailable r) w = (b, w1)" by (cases "run A (sccAvailable r) w")
    have free1: "untaken w1 cr ?T"
      by (rule run_keeps_untaken [OF scc managed_ownedWrites [OF sccAvailable_managed] free])
        (simp add: object_simps)
    have "completes cr (createOrAdopt r cr sccBinding) ?T"
      by (rule completes_adopt) (use assms in \<open>auto simp: object_simps managedRBAC_def\<close>)
    moreover have "completes cr ensurePrivilegedNamespacePSA {}"
      by (rule psa_completes) (use assms in \<open>auto simp: managedRBAC_def\<close>)
    ultimately show "fst (run A (bind (sccAvailable r) (\<lambda>available.
      if available then ensureSCCBinding r cr else ensurePrivilegedNamespacePSA)) w) = None"
      using free1 by (simp add: run_bind scc ensureSCCBinding_def completes_def untaken_def)
  qed
  have "completes cr (ensureRBAC r cr) ({objRef serviceAccount} \<union>
      ({objRef driverClusterRole} \<union> ({objRef driverClusterRoleBinding} \<union> ?T)))"
    unfolding ensureRBAC_def ensureServiceAccount_def ensureClusterRole_def
      ensureClusterRoleBinding_def
    by (intro completes_check completes_adopt admit assms(1) managed_ownedWrites [where T = managedRBAC]
        createOrAdopt_managed)
      (use assms(2,3) in \<open>auto simp: object_simps managedRBAC_def adoptedRBAC_def\<close>)
  then show ?thesis
    by (rule completes_mono) (auto simp: managedRBAC_def adoptedRBAC_def object_simps)
qed

end

end
