(* ===== verification/Profiles.thy ===== *)
theory Profiles
  imports Rbac
begin

text \<open>
  The two objects that belong to other projects and may not be installed: the
  \<open>VolumeSnapshotClass\<close> of the external snapshotter, which the operator creates, and the
  \<open>StorageProfile\<close> of CDI, which it patches.
\<close>

section \<open>VolumeSnapshotClass\<close>

definition defaultDiskSnapClassName :: string where
  "defaultDiskSnapClassName = ''alibaba-cloud-disk-snapclass''"

definition volumeSnapshotClass :: "string \<Rightarrow> string \<Rightarrow> Object" where
  "volumeSnapshotClass className driverName = fresh
     ((named [] className)\<lparr>om_Annotations :=
        Some [''snapshot.storage.kubernetes.io/is-default-class'' \<mapsto> ''true'']\<rparr>)
     (VolumeSnapshotClassBody driverName ''Delete'')"

definition ensureVolumeSnapshotClass :: "Reconciler \<Rightarrow> AlibabaCloudCSIDriver \<Rightarrow> string \<Rightarrow>
    SnapshotConfig \<Rightarrow> goerror option prog" where
  "ensureVolumeSnapshotClass r cr driverName cfg =
     (if \<not> snap_Enabled cfg then Ret None
      else let className = ifEmpty (snap_ClassName cfg) defaultDiskSnapClassName
        in case lib_SetControllerReference r cr (volumeSnapshotClass className driverName) of
            Inl err \<Rightarrow> Ret (Some (LibErr err))
          | Inr u \<Rightarrow> Create u (\<lambda>err. case err of
                None \<Rightarrow> Ret None
              | Some err \<Rightarrow>
                  if err_Reason err = NoMatch then Ret None
                  else if err_Reason err = AlreadyExists then Ret None
                  else Ret (Some (LibErr err))))"

section \<open>StorageProfile\<close>

text \<open>
  \<open>strings.EqualFold(s, t)\<close> for a \<open>t\<close> of ASCII letters: simple case folding on the UTF-8 runes of
  \<open>s\<close>.  Beyond the two cases of a letter, folding makes the Kelvin sign U+212A equal to k and the
  long s U+017F equal to s; no other rune, and no invalid encoding, folds to an ASCII letter.
\<close>

definition asciiLower :: "char \<Rightarrow> char" where
  "asciiLower c = (let n = of_char c :: nat
     in if 65 \<le> n \<and> n \<le> 90 then char_of (n + 32) else c)"

fun stripBytes :: "string \<Rightarrow> string \<Rightarrow> string option" where
  "stripBytes [] s = Some s"
| "stripBytes (p # ps) [] = None"
| "stripBytes (p # ps) (c # s) = (if c = p then stripBytes ps s else None)"

primrec EqualFold :: "string \<Rightarrow> string \<Rightarrow> bool" where
  "EqualFold [] s = (s = [])"
| "EqualFold (c # t) s = (case s of
       [] \<Rightarrow> False
     | d # s' \<Rightarrow>
         if asciiLower d = asciiLower c then EqualFold t s'
         else if asciiLower c = CHR ''k'' then
           (case stripBytes [CHR 0xE2, CHR 0x84, CHR 0xAA] s of
              Some rest \<Rightarrow> EqualFold t rest | None \<Rightarrow> False)
         else if asciiLower c = CHR ''s'' then
           (case stripBytes [CHR 0xC5, CHR 0xBF] s of
              Some rest \<Rightarrow> EqualFold t rest | None \<Rightarrow> False)
         else False)"

definition diskClaimPropertySets :: "string \<Rightarrow> json list" where
  "diskClaimPropertySets volumeMode =
     (let mode = (if EqualFold ''Block'' volumeMode then ''Block'' else ''Filesystem'')
      in [JObject [(''accessModes'', JArray [JString ''ReadWriteOnce'']), (''volumeMode'', JString mode)]])"

definition nasClaimPropertySets :: "json list" where
  "nasClaimPropertySets =
     [JObject [(''accessModes'', JArray [JString ''ReadWriteMany'']),
        (''volumeMode'', JString ''Filesystem'')],
      JObject [(''accessModes'', JArray [JString ''ReadWriteOnce'']),
        (''volumeMode'', JString ''Filesystem'')]]"

text \<open>
  The patch is a tree of maps, slices and strings, for which \<open>json.Marshal\<close> returns no error: the
  branch that wraps such an error has no counterpart.
\<close>

definition storageProfilePatch :: "StorageProfileConfig \<Rightarrow> json list \<Rightarrow> string \<Rightarrow> json" where
  "storageProfilePatch cfg claimPropertySets snapClassName =
     (let cloneStrategy = ifEmpty (sp_CloneStrategy cfg) ''csi-clone'';
          specPatch = [(''claimPropertySets'', JArray claimPropertySets),
            (''cloneStrategy'', JString cloneStrategy)]
      in JObject [(''spec'', JObject (if snapClassName \<noteq> []
           then specPatch @ [(''snapshotClass'', JString snapClassName)] else specPatch))])"

definition ensureStorageProfile :: "string \<Rightarrow> StorageProfileConfig \<Rightarrow> json list \<Rightarrow> string \<Rightarrow>
    goerror option prog" where
  "ensureStorageProfile name cfg claimPropertySets snapClassName =
     (if \<not> sp_Patch cfg then Ret None
      else GetObj KStorageProfile ([], name) (\<lambda>res. case res of
          Inl err \<Rightarrow>
            if err_Reason err = NoMatch then Ret None
            else if err_Reason err = NotFound then Ret None
            else Ret (Some (LibErr err))
        | Inr sp \<Rightarrow> MergePatch (objKind sp) (objNamed sp)
            (storageProfilePatch cfg claimPropertySets snapClassName)
            (\<lambda>err. Ret (map_option LibErr err))))"

section \<open>Lemmas\<close>

lemma volumeSnapshotClass_simps [object_simps]:
  "objRef (volumeSnapshotClass n d) = (KVolumeSnapshotClass, [], n)"
  "objKind (volumeSnapshotClass n d) = KVolumeSnapshotClass" "creatable (obj_body (volumeSnapshotClass n d))"
  "owners (volumeSnapshotClass n d) = []" "resourceVersion (volumeSnapshotClass n d) = []"
  by (simp_all add: volumeSnapshotClass_def creatable_def object_simps objKind_ref)

lemma storageProfilePatch_spec [simp]: "patchesSpecOnly (storageProfilePatch cfg sets snap)"
  by (simp add: storageProfilePatch_def patchesSpecOnly_def Let_def)

text \<open>The errors an operation takes for "nothing to do".\<close>

definition skips :: "ErrReason set \<Rightarrow> LibError option \<Rightarrow> goerror option" where
  "skips R err = (case err of None \<Rightarrow> None
     | Some e \<Rightarrow> if err_Reason e \<in> R then None else Some (LibErr e))"

text \<open>
  C25: the two operations on APIs that may not be installed, for every outcome.  With snapshots
  enabled \<open>ensureVolumeSnapshotClass\<close> sends one create of the stamped class under the configured or
  the default name, and a missing API or an existing class is not an error: an existing class is
  neither read nor written, so it is not adopted, although \<open>CHANGELOG.md\<close> lists the class among the
  resources whose owner reference is added on the next reconcile.  With patching enabled
  \<open>ensureStorageProfile\<close> skips a profile that does not exist, or whose API is not installed, and
  otherwise sends one merge patch with the computed content.  Every other error is returned.
\<close>

theorem optional_api_outcomes:
  "(exec (ensureVolumeSnapshotClass r cr driverName snapshot) tr err \<longleftrightarrow>
    (if \<not> snap_Enabled snapshot then tr = [] \<and> err = None
     else case lib_SetControllerReference r cr
         (volumeSnapshotClass (ifEmpty (snap_ClassName snapshot) defaultDiskSnapClassName) driverName) of
       Inl e \<Rightarrow> tr = [] \<and> err = Some (LibErr e)
     | Inr u \<Rightarrow> \<exists>res. tr = [EvCreate u res] \<and> err = skips {NoMatch, AlreadyExists} res)) \<and>
   (exec (ensureStorageProfile name cfg sets snap) tr' err' \<longleftrightarrow>
    (if \<not> sp_Patch cfg then tr' = [] \<and> err' = None
     else (\<exists>e. tr' = [EvGet KStorageProfile ([], name) (Inl e)] \<and>
              err' = skips {NoMatch, NotFound} (Some e)) \<or>
          (\<exists>sp res. objRef sp = (KStorageProfile, [], name) \<and>
              tr' = [EvGet KStorageProfile ([], name) (Inr sp),
                EvPatch KStorageProfile ([], name) (storageProfilePatch cfg sets snap) res] \<and>
              err' = map_option LibErr res)))"
proof (rule conjI)
  show "exec (ensureVolumeSnapshotClass r cr driverName snapshot) tr err \<longleftrightarrow>
    (if \<not> snap_Enabled snapshot then tr = [] \<and> err = None
     else case lib_SetControllerReference r cr
         (volumeSnapshotClass (ifEmpty (snap_ClassName snapshot) defaultDiskSnapClassName) driverName) of
       Inl e \<Rightarrow> tr = [] \<and> err = Some (LibErr e)
     | Inr u \<Rightarrow> \<exists>res. tr = [EvCreate u res] \<and> err = skips {NoMatch, AlreadyExists} res)"
    unfolding ensureVolumeSnapshotClass_def
    by (cases "lib_SetControllerReference r cr
        (volumeSnapshotClass (ifEmpty (snap_ClassName snapshot) defaultDiskSnapClassName) driverName)")
      (auto simp: exec_iffs skips_def split_option_ex)
qed (auto simp: ensureStorageProfile_def exec_iffs skips_def split_sum_ex objRef_def)

text \<open>On ASCII the comparison is the one of the lower-case letters.\<close>

lemma EqualFold_ascii:
  "list_all (\<lambda>c. of_char c < (128 :: nat)) s \<Longrightarrow> EqualFold t s \<longleftrightarrow> map asciiLower t = map asciiLower s"
proof (induction t arbitrary: s)
  case (Cons c t)
  show ?case
  proof (cases s)
    case (Cons d s')
    with Cons.prems have "d \<noteq> CHR 0xE2" "d \<noteq> CHR 0xC5" by auto
    with Cons Cons.prems Cons.IH [of s'] show ?thesis by (auto split: if_splits)
  qed simp
qed auto

lemma claimSets_ascii:
  assumes "list_all (\<lambda>c. of_char c < (128 :: nat)) volumeMode"
  shows "diskClaimPropertySets volumeMode = [JObject [(''accessModes'', JArray [JString ''ReadWriteOnce'']),
    (''volumeMode'', JString (if map asciiLower volumeMode = ''block'' then ''Block'' else ''Filesystem''))]]"
proof -
  have "map asciiLower ''Block'' = ''block''" by code_simp
  with EqualFold_ascii [OF assms, of "''Block''"] show ?thesis
    by (simp add: diskClaimPropertySets_def eq_commute)
qed

text \<open>
  C26: the claim property set of a disk class that passes the validation of its markers offers
  \<open>ReadWriteOnce\<close> in exactly the volume mode of the class.  A class that bypassed the validation gets
  \<open>Block\<close> if its mode is that word in any case, and \<open>Filesystem\<close> for every other ASCII text.
\<close>

theorem disk_volume_mode:
  "(valid_DiskStorageClassSpec sc \<longrightarrow> diskClaimPropertySets (dsc_VolumeMode sc) =
     [JObject [(''accessModes'', JArray [JString ''ReadWriteOnce'']),
       (''volumeMode'', JString (dsc_VolumeMode sc))]]) \<and>
   (list_all (\<lambda>c. of_char c < (128 :: nat)) (dsc_VolumeMode sc) \<longrightarrow>
     diskClaimPropertySets (dsc_VolumeMode sc) =
     [JObject [(''accessModes'', JArray [JString ''ReadWriteOnce'']),
       (''volumeMode'', JString (if map asciiLower (dsc_VolumeMode sc) = ''block'' then ''Block''
          else ''Filesystem''))]])"
proof (intro conjI impI claimSets_ascii)
  have "map asciiLower ''Block'' = ''block''" "map asciiLower ''Filesystem'' = ''filesystem''" by code_simp+
  moreover assume "valid_DiskStorageClassSpec sc"
  ultimately show "diskClaimPropertySets (dsc_VolumeMode sc) =
     [JObject [(''accessModes'', JArray [JString ''ReadWriteOnce'']),
       (''volumeMode'', JString (dsc_VolumeMode sc))]]"
    by (auto simp: valid_DiskStorageClassSpec_def claimSets_ascii)
qed

text \<open>A class for virtual machine disks, and the same one with a mode the validation refuses.\<close>

definition vmDiskClass :: "string \<Rightarrow> DiskStorageClassSpec" where
  "vmDiskClass mode = \<lparr>dsc_Name = ''disk-vm'', dsc_Type = ''cloud_essd'', dsc_ReclaimPolicy = ''Delete'',
     dsc_AllowVolumeExpansion = True, dsc_VirtDefault = True, dsc_Encrypted = False,
     dsc_VolumeMode = mode\<rparr>"

theorem disk_volume_mode_witness:
  "valid_DiskStorageClassSpec (vmDiskClass ''Block'') \<and>
   diskClaimPropertySets (dsc_VolumeMode (vmDiskClass ''Block'')) =
     [JObject [(''accessModes'', JArray [JString ''ReadWriteOnce'']), (''volumeMode'', JString ''Block'')]] \<and>
   diskClaimPropertySets (dsc_VolumeMode (vmDiskClass ''bLOCK'')) =
     [JObject [(''accessModes'', JArray [JString ''ReadWriteOnce'']), (''volumeMode'', JString ''Block'')]]"
proof (intro conjI)
  show valid: "valid_DiskStorageClassSpec (vmDiskClass ''Block'')"
    by (simp add: valid_DiskStorageClassSpec_def vmDiskClass_def)
  with disk_volume_mode [of "vmDiskClass ''Block''"]
  show "diskClaimPropertySets (dsc_VolumeMode (vmDiskClass ''Block'')) =
     [JObject [(''accessModes'', JArray [JString ''ReadWriteOnce'']), (''volumeMode'', JString ''Block'')]]"
    by (simp add: vmDiskClass_def)
  have "map asciiLower ''bLOCK'' = ''block''" by code_simp
  with disk_volume_mode [of "vmDiskClass ''bLOCK''"]
  show "diskClaimPropertySets (dsc_VolumeMode (vmDiskClass ''bLOCK'')) =
     [JObject [(''accessModes'', JArray [JString ''ReadWriteOnce'']), (''volumeMode'', JString ''Block'')]]"
    by (simp add: vmDiskClass_def)
qed

section \<open>Contracts\<close>

text \<open>\<open>does P p\<close>: when \<open>p\<close> returns no error, one of its requests satisfied \<open>P\<close>.\<close>

definition does :: "(event \<Rightarrow> bool) \<Rightarrow> goerror option prog \<Rightarrow> bool" where
  "does P p \<longleftrightarrow> (\<forall>tr. exec p tr None \<longrightarrow> list_ex P tr)"

lemma exec_check_None: "exec (check p wrap q) tr None \<longleftrightarrow>
    (\<exists>tr1 tr2. tr = tr1 @ tr2 \<and> exec p tr1 None \<and> exec q tr2 None)"
  by (auto simp: check_def exec_bind_iff split_option_ex)

lemma does_first: "does P p \<Longrightarrow> does P (check p wrap q)"
  unfolding does_def exec_check_None by auto

lemma does_then: "does P q \<Longrightarrow> does P (check p wrap q)"
  unfolding does_def exec_check_None by auto

text \<open>The StorageProfile of a class was patched, or found missing.\<close>

definition handlesProfile :: "string \<Rightarrow> json \<Rightarrow> event \<Rightarrow> bool" where
  "handlesProfile name patch ev \<longleftrightarrow> (case ev of
       EvGet kd n (Inl e) \<Rightarrow> kd = KStorageProfile \<and> n = ([], name) \<and> err_Reason e \<in> {NoMatch, NotFound}
     | EvPatch kd n j None \<Rightarrow> kd = KStorageProfile \<and> n = ([], name) \<and> j = patch
     | _ \<Rightarrow> False)"

lemma ensureStorageProfile_does:
  assumes "sp_Patch cfg"
  shows "does (handlesProfile name (storageProfilePatch cfg sets snap)) (ensureStorageProfile name cfg sets snap)"
  using assms unfolding does_def ensureStorageProfile_def
  by (auto simp: exec_iffs split_sum_ex handlesProfile_def objRef_def split: if_splits)

context operator_libs
begin

lemma ensureVolumeSnapshotClass_managed [contracts]:
  assumes "(KVolumeSnapshotClass, [], ifEmpty (snap_ClassName cfg) defaultDiskSnapClassName) \<in> T"
  shows "confined (managed r cr T) (ensureVolumeSnapshotClass r cr driverName cfg)"
proof (cases "lib_SetControllerReference r cr
    (volumeSnapshotClass (ifEmpty (snap_ClassName cfg) defaultDiskSnapClassName) driverName)")
  case (Inl e)
  then show ?thesis
    unfolding ensureVolumeSnapshotClass_def by (auto intro!: contract_rules simp: Let_def)
next
  case (Inr u)
  have "managed r cr T (EvCreate u res)" for res
    using assms set_objRef [OF Inr] set_isControlledBy [OF Inr] set_body [OF Inr]
    by (auto simp: managed_def object_simps)
  with Inr show ?thesis
    unfolding ensureVolumeSnapshotClass_def
    by (auto intro!: contract_rules simp: Let_def split: option.splits)
qed

lemma ensureStorageProfile_managed [contracts]:
  assumes "(KStorageProfile, [], name) \<in> T"
  shows "confined (managed r cr T) (ensureStorageProfile name cfg sets snap)"
  unfolding ensureStorageProfile_def using assms
  by (auto intro!: contract_rules simp: managed_def objRef_def split: sum.splits)

lemma optional_quiet:
  "confined (\<lambda>ev. \<not> sccFound ev) (ensureVolumeSnapshotClass r cr d snapshot)"
  "confined (\<lambda>ev. \<not> sccFound ev) (ensureStorageProfile name cfg sets snap)"
  unfolding ensureVolumeSnapshotClass_def ensureStorageProfile_def
  by (auto intro!: contract_rules simp: Let_def split: sum.splits option.splits)

lemma optional_updating:
  "updating R (ensureVolumeSnapshotClass r cr d snapshot)"
  "updating R (ensureStorageProfile name cfg sets snap)"
  unfolding ensureVolumeSnapshotClass_def ensureStorageProfile_def
  by (rule updating_none, auto intro!: contract_rules simp: Let_def split: sum.splits option.splits)+

end

text \<open>The API server answered that it does not know the kind of the object to be created.\<close>

definition apiMissing :: "ObjectRef \<Rightarrow> event list \<Rightarrow> bool" where
  "apiMissing ref tr \<longleftrightarrow> list_ex (\<lambda>ev. case ev of
     EvCreate ob (Some e) \<Rightarrow> objRef ob = ref \<and> err_Reason e = NoMatch | _ \<Rightarrow> False) tr"

lemma apiMissing_append [simp]: "apiMissing ref (tr1 @ tr2) \<longleftrightarrow> apiMissing ref tr1 \<or> apiMissing ref tr2"
  by (simp add: apiMissing_def)

text \<open>
  \<open>placesOptional cr optional ref p\<close>: when \<open>p\<close> returns no error, the object \<open>ref\<close> exists, controlled
  by the resource if it did not exist before, or it is optional and its API is not installed.
\<close>

context kube_operator
begin

definition placesOptional :: "AlibabaCloudCSIDriver \<Rightarrow> bool \<Rightarrow> ObjectRef \<Rightarrow> goerror option prog \<Rightarrow> bool" where
  "placesOptional cr optional ref p \<longleftrightarrow> (\<forall>w w'. run A p w = (None, w') \<longrightarrow>
     (optional \<and> apiMissing ref (requests A p w)) \<or>
     (objs w' ref \<noteq> None \<and> (objs w ref = None \<longrightarrow> controlledIn w' cr ref)))"

lemma placesOptional_class:
  assumes "snap_Enabled snapshot"
  shows "placesOptional cr True (KVolumeSnapshotClass, [],
    ifEmpty (snap_ClassName snapshot) defaultDiskSnapClassName) (ensureVolumeSnapshotClass r cr d snapshot)"
  unfolding placesOptional_def simp_thms
proof (intro allI impI)
  let ?name = "ifEmpty (snap_ClassName snapshot) defaultDiskSnapClassName"
  fix w w' assume run: "run A (ensureVolumeSnapshotClass r cr d snapshot) w = (None, w')"
  then obtain u where set: "lib_SetControllerReference r cr (volumeSnapshotClass ?name d) = Inr u"
    using assms by (cases "lib_SetControllerReference r cr (volumeSnapshotClass ?name d)")
      (auto simp: ensureVolumeSnapshotClass_def)
  have ref: "objRef u = (KVolumeSnapshotClass, [], ?name)"
    using set_objRef [OF set] by (simp add: object_simps)
  obtain res w1 where create: "api_Create A u w = (res, w1)" by (cases "api_Create A u w")
  show "apiMissing (KVolumeSnapshotClass, [], ?name) (requests A (ensureVolumeSnapshotClass r cr d snapshot) w) \<or>
    (objs w' (KVolumeSnapshotClass, [], ?name) \<noteq> None \<and>
     (objs w (KVolumeSnapshotClass, [], ?name) = None \<longrightarrow>
        controlledIn w' cr (KVolumeSnapshotClass, [], ?name)))"
  proof (cases res)
    case None
    with run assms set create have "w' = w1" by (simp add: ensureVolumeSnapshotClass_def run_simps)
    with create_then [OF create [unfolded None] set] show ?thesis
      by (auto simp: object_simps controlledIn_def)
  next
    case (Some e)
    with run assms set create have "w' = w1" "err_Reason e = NoMatch \<or> err_Reason e = AlreadyExists"
      by (auto simp: ensureVolumeSnapshotClass_def run_simps split: if_splits)
    with create_failed [OF create [unfolded Some]] assms set create Some ref show ?thesis
      by (auto simp: ensureVolumeSnapshotClass_def apiMissing_def)
  qed
qed

lemma placesOptional_first:
  assumes "placesOptional cr optional ref p" and "confined (managed r cr T) q" and "ref \<notin> T"
  shows "placesOptional cr optional ref (check p wrap q)"
  unfolding placesOptional_def
proof (intro allI impI)
  fix w w' assume "run A (check p wrap q) w = (None, w')"
  then obtain w1 where p: "run A p w = (None, w1)" and q: "run A q w1 = (None, w')"
    by (auto simp: run_check_None)
  have "objs w' ref = objs w1 ref"
    using run_confined [OF q managed_writesWithin [OF assms(2)]] assms(3) by blast
  then show "(optional \<and> apiMissing ref (requests A (check p wrap q) w)) \<or>
      (objs w' ref \<noteq> None \<and> (objs w ref = None \<longrightarrow> controlledIn w' cr ref))"
    using assms(1) p by (auto simp: placesOptional_def requests_check controlledIn_def)
qed

lemma placesOptional_then:
  assumes "placesOptional cr optional ref q" and "confined (managed r cr T) p" and "ref \<notin> T"
  shows "placesOptional cr optional ref (check p wrap q)"
  unfolding placesOptional_def
proof (intro allI impI)
  fix w w' assume "run A (check p wrap q) w = (None, w')"
  then obtain w1 where p: "run A p w = (None, w1)" and q: "run A q w1 = (None, w')"
    by (auto simp: run_check_None)
  have "objs w1 ref = objs w ref"
    using run_confined [OF p managed_writesWithin [OF assms(2)]] assms(3) by blast
  moreover have "(optional \<and> apiMissing ref (requests A q w1)) \<or>
      (objs w' ref \<noteq> None \<and> (objs w1 ref = None \<longrightarrow> controlledIn w' cr ref))"
    using assms(1) q unfolding placesOptional_def by blast
  ultimately show "(optional \<and> apiMissing ref (requests A (check p wrap q) w)) \<or>
      (objs w' ref \<noteq> None \<and> (objs w ref = None \<longrightarrow> controlledIn w' cr ref))"
    using p by (auto simp: requests_check)
qed

end

context reliable_operator
begin

lemma ensureVolumeSnapshotClass_completes [contracts]:
  assumes "cr_Namespace cr = []"
    and "\<And>ob. objRef ob = (KVolumeSnapshotClass, [],
      ifEmpty (snap_ClassName cfg) defaultDiskSnapClassName) \<Longrightarrow> accepts ob"
  shows "completes cr (ensureVolumeSnapshotClass r cr driverName cfg) {}"
  unfolding completes_def
proof (intro allI impI)
  fix w
  let ?ob = "volumeSnapshotClass (ifEmpty (snap_ClassName cfg) defaultDiskSnapClassName) driverName"
  obtain u where set: "lib_SetControllerReference r cr ?ob = Inr u"
    using set_fresh [OF assms(1), of ?ob] by (auto simp: object_simps)
  note u = set_objRef [OF set] set_resourceVersion [OF set]
  have ref: "objRef u = (KVolumeSnapshotClass, [], ifEmpty (snap_ClassName cfg) defaultDiskSnapClassName)"
    using u(1) by (simp add: object_simps)
  then have kind: "objKind u = KVolumeSnapshotClass" by (simp add: objKind_ref)
  have "skips {NoMatch, AlreadyExists} (fst (api_Create A u w)) = None"
  proof (cases "objs w (objRef u) = None")
    case True
    then show ?thesis
      using create_succeeds [of w u] create_unserved [of w u] assms(2) [OF ref] kind u(2)
      by (cases "served KVolumeSnapshotClass") (auto simp: skips_def object_simps)
  next
    case False
    with create_exists [of w u] show ?thesis by (auto simp: skips_def)
  qed
  then show "fst (run A (ensureVolumeSnapshotClass r cr driverName cfg) w) = None"
    by (auto simp: ensureVolumeSnapshotClass_def set run_simps Let_def skips_def
        split: option.splits prod.splits if_splits)
qed

text \<open>Where the snapshot API is served, the class is there.\<close>

lemma placesOptional_served:
  assumes "snap_Enabled snapshot" and "served KVolumeSnapshotClass"
    and "\<And>ob. objRef ob = (KVolumeSnapshotClass, [],
      ifEmpty (snap_ClassName snapshot) defaultDiskSnapClassName) \<Longrightarrow> accepts ob"
  shows "placesOptional cr False (KVolumeSnapshotClass, [],
    ifEmpty (snap_ClassName snapshot) defaultDiskSnapClassName) (ensureVolumeSnapshotClass r cr d snapshot)"
  unfolding placesOptional_def simp_thms
proof (intro allI impI)
  let ?ref = "(KVolumeSnapshotClass, [], ifEmpty (snap_ClassName snapshot) defaultDiskSnapClassName)"
  fix w w' assume run: "run A (ensureVolumeSnapshotClass r cr d snapshot) w = (None, w')"
  have "apiMissing ?ref (requests A (ensureVolumeSnapshotClass r cr d snapshot) w) \<Longrightarrow> False"
  proof -
    assume "apiMissing ?ref (requests A (ensureVolumeSnapshotClass r cr d snapshot) w)"
    then obtain u e w1 where set: "lib_SetControllerReference r cr (volumeSnapshotClass (snd (snd ?ref)) d) = Inr u"
      and create: "api_Create A u w = (Some e, w1)" and e: "err_Reason e = NoMatch"
      using assms(1)
      by (cases "lib_SetControllerReference r cr (volumeSnapshotClass (snd (snd ?ref)) d)")
        (auto simp: ensureVolumeSnapshotClass_def apiMissing_def split: prod.splits option.splits if_splits)
    have u: "objRef u = ?ref" "resourceVersion u = []"
      using set_objRef [OF set] set_resourceVersion [OF set] by (simp_all add: object_simps)
    then have "objKind u = KVolumeSnapshotClass" by (simp add: objKind_ref)
    with assms(2) u assms(3) [OF u(1)] create_succeeds [of w u] create_exists [of w u] create e
    show False by (cases "objs w ?ref") auto
  qed
  with placesOptional_class [OF assms(1), of cr d] run
  show "objs w' ?ref \<noteq> None \<and> (objs w ?ref = None \<longrightarrow> controlledIn w' cr ?ref)"
    unfolding placesOptional_def by blast
qed

lemma ensureStorageProfile_completes [contracts]:
  "completes cr (ensureStorageProfile name cfg sets snap) {}"
  unfolding completes_def
proof (intro allI impI)
  fix w
  obtain res w1 where get: "api_Get A KStorageProfile ([], name) w = (res, w1)"
    by (cases "api_Get A KStorageProfile ([], name) w")
  show "fst (run A (ensureStorageProfile name cfg sets snap) w) = None"
  proof (cases "objs w (KStorageProfile, [], name)")
    case None
    from get_absent [OF None] get show ?thesis
      by (auto simp: ensureStorageProfile_def run_simps split: if_splits)
  next
    case (Some sp)
    with get get_present [OF Some] have res: "res = Inr sp" by simp
    have ref: "objKind sp = KStorageProfile" "objNamed sp = ([], name)"
      using keyed [OF Some] by (simp_all add: objRef_def)
    have "fst (api_Patch A KStorageProfile ([], name) j w1) = None" for j
      by (rule patch_succeeds) (use Some get_frame [OF get] in simp)
    then show ?thesis
      by (auto simp: ensureStorageProfile_def run_simps get res ref split: prod.split)
        (metis fst_conv)
  qed
qed

end

end
