(* ===== verification/Samples.thy ===== *)
theory Samples
  imports ApiTypes
begin

text \<open>
  A custom resource that uses most of what the operator supports, modelled on
  \<open>config/samples\<close>: the concrete input at which the witnesses of the properties apply them.
\<close>

definition sampleDiskClasses :: "DiskStorageClassSpec list" where
  "sampleDiskClasses =
    [ \<lparr>dsc_Name = ''disk-essd'', dsc_Type = ''cloud_essd'', dsc_ReclaimPolicy = ''Delete'',
       dsc_AllowVolumeExpansion = True, dsc_VirtDefault = True, dsc_Encrypted = False,
       dsc_VolumeMode = ''Block''\<rparr>,
      \<lparr>dsc_Name = ''disk-general'', dsc_Type = ''cloud_auto'', dsc_ReclaimPolicy = ''Retain'',
       dsc_AllowVolumeExpansion = True, dsc_VirtDefault = False, dsc_Encrypted = True,
       dsc_VolumeMode = ''Filesystem''\<rparr> ]"

definition sampleNASClass :: NASStorageClassSpec where
  "sampleNASClass = \<lparr>nsc_Name = ''nas-subpath'', nsc_VolumeAs = ''subpath'',
     nsc_StorageType = ''Performance'', nsc_FileSystemType = ''standard'', nsc_RegionID = [],
     nsc_ZoneID = [], nsc_VpcID = [], nsc_VSwitchID = [],
     nsc_Server = ''nas.example:/share'', nsc_MountProtocol = ''nfs'',
     nsc_ReclaimPolicy = ''Delete'', nsc_AllowVolumeExpansion = True, nsc_VirtDefault = False\<rparr>"

definition sampleExtraEnv :: "EnvVarSpec list" where
  "sampleExtraEnv =
    [ \<lparr>evs_Name = ''NAS_ENDPOINT'', evs_Value = ''nas.example'', evs_SecretKeyRef = None\<rparr>,
      \<lparr>evs_Name = ''ACCESS_KEY_ID'', evs_Value = [],
       evs_SecretKeyRef = Some \<lparr>sks_Name = ''alibaba-creds'', sks_Key = ''id''\<rparr>\<rparr> ]"

definition sampleSpec :: AlibabaCloudCSIDriverSpec where
  "sampleSpec = \<lparr>
     spec_Disk = \<lparr>disk_Enabled = True, disk_DefaultStorageClass = True,
       disk_StorageClasses = sampleDiskClasses,
       disk_Snapshot = \<lparr>snap_Enabled = True, snap_ClassName = []\<rparr>,
       disk_StorageProfile = \<lparr>sp_Patch = True, sp_CloneStrategy = []\<rparr>\<rparr>,
     spec_NAS = \<lparr>nas_Enabled = True, nas_StorageClasses = [sampleNASClass],
       nas_StorageProfile = \<lparr>sp_Patch = True, sp_CloneStrategy = ''copy''\<rparr>\<rparr>,
     spec_OSS = \<lparr>oss_Enabled = False\<rparr>,
     spec_ImageTag = [], spec_ECSEndpoint = ''ecs-vpc.cn-hangzhou.aliyuncs.com'',
     spec_ExtraEnv = sampleExtraEnv, spec_Auth = \<lparr>auth_RAMToken = []\<rparr>,
     spec_Controller = \<lparr>ctl_Replicas = 0, ctl_NodeSelector = None, ctl_Tolerations = []\<rparr>\<rparr>"

definition sampleCR :: AlibabaCloudCSIDriver where
  "sampleCR = \<lparr>cr_Name = ''cluster'', cr_Namespace = [], cr_UID = ''uid-1'', cr_Generation = 1,
     cr_Spec = sampleSpec,
     cr_Status = \<lparr>st_ObservedGeneration = 0, st_Conditions = [], st_DiskDriverReady = False,
       st_NASDriverReady = False, st_OSSDriverReady = False\<rparr>\<rparr>"

lemma sampleCR_simps [simp]:
  "cr_Name sampleCR = ''cluster''" "cr_Namespace sampleCR = []" "cr_UID sampleCR = ''uid-1''"
  "cr_Spec sampleCR = sampleSpec" "crKey sampleCR = ([], ''cluster'')"
  by (simp_all add: sampleCR_def crKey_def)

lemma sampleSpec_simps [simp]:
  "spec_ExtraEnv sampleSpec = sampleExtraEnv"
  "spec_ECSEndpoint sampleSpec = ''ecs-vpc.cn-hangzhou.aliyuncs.com''"
  "disk_Enabled (spec_Disk sampleSpec)" "nas_Enabled (spec_NAS sampleSpec)"
  "disk_DefaultStorageClass (spec_Disk sampleSpec)"
  "disk_StorageClasses (spec_Disk sampleSpec) = sampleDiskClasses"
  "nas_StorageClasses (spec_NAS sampleSpec) = [sampleNASClass]"
  "snap_ClassName (disk_Snapshot (spec_Disk sampleSpec)) = []"
  "snap_Enabled (disk_Snapshot (spec_Disk sampleSpec))"
  by (simp_all add: sampleSpec_def)

text \<open>The sample passes the validation the API server applies.\<close>

lemma sample_valid:
  "list_all valid_DiskStorageClassSpec sampleDiskClasses" "valid_NASStorageClassSpec sampleNASClass"
  "valid_ExtraEnv sampleExtraEnv"
  by (simp_all add: sampleDiskClasses_def sampleNASClass_def sampleExtraEnv_def
      valid_DiskStorageClassSpec_def valid_NASStorageClassSpec_def valid_ExtraEnv_def
      valid_EnvVarSpec_def)

end
