(* ===== verification/Workload.thy ===== *)
theory Workload
  imports KubeObjects Samples
begin

text \<open>
  The pure helpers that the pod templates of the disk and the NAS driver share: images, tolerations,
  anti-affinity, the start-up probe of the node plugin and the environment of every plugin
  container.  Images are resolved once, when the operator starts, from the environment of its
  process (\<open>getenv\<close>).
\<close>

section \<open>Images\<close>

definition csiImage :: string where
  "csiImage = ''registry.cn-hangzhou.aliyuncs.com/acs/csi-plugin''"

definition imageFor :: "(string \<Rightarrow> string) \<Rightarrow> string \<Rightarrow> string \<Rightarrow> string" where
  "imageFor getenv env def = (let v = getenv env in if v \<noteq> [] then v else def)"

definition csiProvisionerImage :: "(string \<Rightarrow> string) \<Rightarrow> string" where
  "csiProvisionerImage getenv = imageFor getenv ''RELATED_IMAGE_CSI_PROVISIONER''
     ''registry.k8s.io/sig-storage/csi-provisioner@sha256:d078dc174323407e8cc6f0f9abd4efaac5db27838f1564d0253d5e3233e3f17f''"

definition csiAttacherImage :: "(string \<Rightarrow> string) \<Rightarrow> string" where
  "csiAttacherImage getenv = imageFor getenv ''RELATED_IMAGE_CSI_ATTACHER''
     ''registry.k8s.io/sig-storage/csi-attacher@sha256:4eb73137b66381b7b5dfd4d21d460f4b4095347ab6ed4626e0199c29d8d021af''"

definition csiResizerImage :: "(string \<Rightarrow> string) \<Rightarrow> string" where
  "csiResizerImage getenv = imageFor getenv ''RELATED_IMAGE_CSI_RESIZER''
     ''registry.k8s.io/sig-storage/csi-resizer@sha256:2e2b44393539d744a55b9370b346e8ebd95a77573064f3f9a8caf18c22f4d0d0''"

definition csiSnapshotterImage :: "(string \<Rightarrow> string) \<Rightarrow> string" where
  "csiSnapshotterImage getenv = imageFor getenv ''RELATED_IMAGE_CSI_SNAPSHOTTER''
     ''registry.k8s.io/sig-storage/csi-snapshotter@sha256:93fbf54dd67f586428ea339743160e1a5110c058afde3c2e824f11fbc6efae53''"

definition nodeRegistrarImage :: "(string \<Rightarrow> string) \<Rightarrow> string" where
  "nodeRegistrarImage getenv = imageFor getenv ''RELATED_IMAGE_CSI_NODE_DRIVER_REGISTRAR''
     ''registry.k8s.io/sig-storage/csi-node-driver-registrar@sha256:f6717ce72a2615c7fbc746b4068f788e78579c54c43b8716e5ce650d97af2df1''"

definition livenessProbeImage :: "(string \<Rightarrow> string) \<Rightarrow> string" where
  "livenessProbeImage getenv = imageFor getenv ''RELATED_IMAGE_LIVENESSPROBE''
     ''registry.k8s.io/sig-storage/livenessprobe@sha256:4dc0b87ccd69f9865b89234d8555d3a614ab0a16ed94a3016ffd27f8106132ce''"

text \<open>\<open>fmt.Sprintf("%s:%s", csiImage, imageTag)\<close> with the default tag of both drivers.\<close>

definition pluginImageFor :: "AlibabaCloudCSIDriver \<Rightarrow> string" where
  "pluginImageFor cr = (let imageTag = ifEmpty (spec_ImageTag (cr_Spec cr)) ''v1.35.3''
     in csiImage @ '':'' @ imageTag)"

section \<open>Scheduling\<close>

definition toCoreTolerations :: "TolerationSpec list \<Rightarrow> Toleration list" where
  "toCoreTolerations ts = foldl (\<lambda>out t. out @ [\<lparr>tol_Key = ts_Key t, tol_Operator = ts_Operator t,
     tol_Value = ts_Value t, tol_Effect = ts_Effect t\<rparr>]) [] ts"

definition controllerPodAntiAffinity :: "string \<Rightarrow> PodAffinityTerm list" where
  "controllerPodAntiAffinity appLabel = [\<lparr>pat_Weight = 100,
     pat_TopologyKey = ''kubernetes.io/hostname'', pat_MatchLabels = [''app'' \<mapsto> appLabel]\<rparr>]"

text \<open>
  The defaults both controller Deployments apply to \<open>spec.controller\<close> and \<open>spec.auth\<close>.
\<close>

definition controllerReplicas :: "AlibabaCloudCSIDriver \<Rightarrow> int32" where
  "controllerReplicas cr = (let replicas = ctl_Replicas (spec_Controller (cr_Spec cr))
     in if replicas = 0 then 2 else replicas)"

definition controllerNodeSelector :: "AlibabaCloudCSIDriver \<Rightarrow> strmap" where
  "controllerNodeSelector cr = (case ctl_NodeSelector (spec_Controller (cr_Spec cr)) of
       None \<Rightarrow> [''node-role.kubernetes.io/master'' \<mapsto> '''']
     | Some nodeSelector \<Rightarrow> nodeSelector)"

definition controllerTolerations :: "AlibabaCloudCSIDriver \<Rightarrow> Toleration list" where
  "controllerTolerations cr =
     (let tolerations = toCoreTolerations (ctl_Tolerations (spec_Controller (cr_Spec cr)))
      in if length tolerations = 0
         then [\<lparr>tol_Key = ''node-role.kubernetes.io/master'', tol_Operator = '''', tol_Value = '''',
                tol_Effect = ''NoSchedule''\<rparr>]
         else tolerations)"

definition ramTokenVersion :: "AlibabaCloudCSIDriver \<Rightarrow> string" where
  "ramTokenVersion cr = ifEmpty (auth_RAMToken (spec_Auth (cr_Spec cr))) ''v2''"

section \<open>Probes\<close>

definition registrarHealthzStartupProbe :: "int32 \<Rightarrow> Probe" where
  "registrarHealthzStartupProbe port = \<lparr>
     pb_HTTPGet = \<lparr>hg_Path = ''/healthz'', hg_Port = port, hg_Host = ''127.0.0.1''\<rparr>,
     pb_InitialDelaySeconds = 10, pb_PeriodSeconds = 10, pb_FailureThreshold = 6\<rparr>"

section \<open>Environment\<close>

definition envLit :: "string \<Rightarrow> string \<Rightarrow> EnvVar" where
  "envLit n v = \<lparr>ev_Name = n, ev_Value = v, ev_ValueFrom = None\<rparr>"

definition envVarOf :: "EnvVarSpec \<Rightarrow> EnvVar" where
  "envVarOf e = (case evs_SecretKeyRef e of
       Some ref \<Rightarrow> \<lparr>ev_Name = evs_Name e, ev_Value = [],
                    ev_ValueFrom = Some (SecretKeyRef (sks_Name ref) (sks_Key ref))\<rparr>
     | None \<Rightarrow> envLit (evs_Name e) (evs_Value e))"

definition extraEnv :: "AlibabaCloudCSIDriver \<Rightarrow> EnvVar list" where
  "extraEnv cr = (if length (spec_ExtraEnv (cr_Spec cr)) = 0 then []
     else foldl (\<lambda>env e. env @ [envVarOf e]) [] (spec_ExtraEnv (cr_Spec cr)))"

definition driverEnv :: "AlibabaCloudCSIDriver \<Rightarrow> EnvVar list" where
  "driverEnv cr = (let env = extraEnv cr
     in if spec_ECSEndpoint (cr_Spec cr) \<noteq> []
        then env @ [envLit ''ECS_ENDPOINT'' (spec_ECSEndpoint (cr_Spec cr))] else env)"

section \<open>Reading a pod\<close>

text \<open>
  The kubelet gives a container the last of several variables of one name.  A variable whose
  value comes from elsewhere has no literal value.
\<close>

definition effectiveEnv :: "EnvVar list \<Rightarrow> string \<Rightarrow> EnvVar option" where
  "effectiveEnv env n = find (\<lambda>v. ev_Name v = n) (rev env)"

text \<open>What the API server requires of a pod template: names distinct, every mount backed by a volume.\<close>

definition podWellFormed :: "PodSpec \<Rightarrow> bool" where
  "podWellFormed p \<longleftrightarrow> distinct (map ct_Name (ps_Containers p)) \<and>
     distinct (map vol_Name (ps_Volumes p)) \<and>
     list_all (\<lambda>c. list_all (\<lambda>m. List.member (map vol_Name (ps_Volumes p)) (vm_Name m))
       (ct_VolumeMounts c) \<and> distinct (map vm_MountPath (ct_VolumeMounts c))) (ps_Containers p)"

section \<open>Lemmas\<close>

lemma foldl_append_map: "foldl (\<lambda>out t. out @ [f t]) acc ts = acc @ map f ts"
  by (induction ts arbitrary: acc) simp_all

lemma toCoreTolerations_map: "toCoreTolerations ts = map (\<lambda>t. \<lparr>tol_Key = ts_Key t,
    tol_Operator = ts_Operator t, tol_Value = ts_Value t, tol_Effect = ts_Effect t\<rparr>) ts"
  by (simp add: toCoreTolerations_def foldl_append_map)

lemma extraEnv_map: "extraEnv cr = map envVarOf (spec_ExtraEnv (cr_Spec cr))"
  by (simp add: extraEnv_def foldl_append_map)

lemma envVarOf_name [simp]: "ev_Name (envVarOf e) = evs_Name e"
  by (simp add: envVarOf_def envLit_def split: option.split)

lemma envLit_name [simp]: "ev_Name (envLit n v) = n" "ev_Value (envLit n v) = v"
    "ev_ValueFrom (envLit n v) = None"
  by (simp_all add: envLit_def)

lemma effectiveEnv_append:
  "effectiveEnv (xs @ ys) n = (case effectiveEnv ys n of Some v \<Rightarrow> Some v | None \<Rightarrow> effectiveEnv xs n)"
proof -
  have "find P (as @ bs) = (case find P as of Some v \<Rightarrow> Some v | None \<Rightarrow> find P bs)"
    for P and as bs :: "EnvVar list"
    by (induction as) auto
  then show ?thesis by (simp add: effectiveEnv_def split: option.split)
qed

lemma effectiveEnv_single: "effectiveEnv [v] n = (if ev_Name v = n then Some v else None)"
  by (simp add: effectiveEnv_def)

lemma effectiveEnv_Nil: "effectiveEnv [] n = None"
  by (simp add: effectiveEnv_def)

lemma effectiveEnv_Cons: "effectiveEnv (v # env) n =
    (case effectiveEnv env n of Some u \<Rightarrow> Some u | None \<Rightarrow> if ev_Name v = n then Some v else None)"
  using effectiveEnv_append [of "[v]" env n] by (simp add: effectiveEnv_single split: option.split)

lemma effectiveEnv_None: "effectiveEnv env n = None \<longleftrightarrow> n \<notin> ev_Name ` set env"
  by (auto simp: effectiveEnv_def find_None_iff_set)

lemma effectiveEnv_distinct:
  assumes "distinct (map ev_Name env)" and "v \<in> set env"
  shows "effectiveEnv env (ev_Name v) = Some v"
proof -
  obtain u where u: "effectiveEnv env (ev_Name v) = Some u"
    using assms(2) effectiveEnv_None [of env "ev_Name v"] by (cases "effectiveEnv env (ev_Name v)") auto
  with find_SomeD have "u \<in> set env" "ev_Name u = ev_Name v"
    unfolding effectiveEnv_def by fastforce+
  with assms have "u = v" by (metis distinct_map inj_on_eq_iff)
  with u show ?thesis by simp
qed

text \<open>
  The environment a plugin container ends up with: \<open>spec.ecsEndpoint\<close> wins over everything, then
  the extra variables, then the ones the operator sets itself.
\<close>

lemma effectiveEnv_driverEnv:
  "effectiveEnv (driverEnv cr) n =
    (if n = ''ECS_ENDPOINT'' \<and> spec_ECSEndpoint (cr_Spec cr) \<noteq> []
     then Some (envLit n (spec_ECSEndpoint (cr_Spec cr)))
     else effectiveEnv (extraEnv cr) n)"
  by (auto simp: driverEnv_def effectiveEnv_append effectiveEnv_single Let_def split: option.split)

lemma effectiveEnv_extra:
  assumes "distinct (map evs_Name es)"
  shows "effectiveEnv (map envVarOf es) n = map_option envVarOf (find (\<lambda>e. evs_Name e = n) es)"
proof (cases "find (\<lambda>e. evs_Name e = n) es")
  case None
  then have "\<forall>e \<in> set es. evs_Name e \<noteq> n" by (simp add: find_None_iff_set)
  with None show ?thesis by (force simp: effectiveEnv_None)
next
  case (Some e)
  then have "e \<in> set es" "evs_Name e = n" by (auto dest: find_SomeD)
  moreover have "distinct (map ev_Name (map envVarOf es))" using assms by (simp add: comp_def)
  ultimately show ?thesis
    using effectiveEnv_distinct [of "map envVarOf es" "envVarOf e"] Some by simp
qed

text \<open>
  C30: the environment a plugin container ends up with, given an \<open>extraEnv\<close> the API server
  accepts.  \<open>spec.ecsEndpoint\<close> decides \<open>ECS_ENDPOINT\<close>; otherwise an extra variable of the name, as
  a literal or a secret reference, overrides the value the operator would set itself; and any
  other variable keeps that value.
\<close>

theorem plugin_environment:
  assumes "valid_ExtraEnv (spec_ExtraEnv (cr_Spec cr))"
  shows "effectiveEnv (base @ driverEnv cr) n =
    (if n = ''ECS_ENDPOINT'' \<and> spec_ECSEndpoint (cr_Spec cr) \<noteq> []
     then Some (envLit n (spec_ECSEndpoint (cr_Spec cr)))
     else case find (\<lambda>e. evs_Name e = n) (spec_ExtraEnv (cr_Spec cr)) of
         Some e \<Rightarrow> Some (envVarOf e)
       | None \<Rightarrow> effectiveEnv base n)"
proof -
  have "effectiveEnv (extraEnv cr) n =
      map_option envVarOf (find (\<lambda>e. evs_Name e = n) (spec_ExtraEnv (cr_Spec cr)))"
    using assms by (simp add: extraEnv_map effectiveEnv_extra valid_ExtraEnv_def)
  then show ?thesis
    by (simp add: effectiveEnv_append effectiveEnv_driverEnv split: option.split)
qed

theorem plugin_environment_witness:
  "effectiveEnv ([envLit ''NAS_ENDPOINT'' ''default''] @ driverEnv sampleCR) ''NAS_ENDPOINT'' =
     Some (envLit ''NAS_ENDPOINT'' ''nas.example'')"
  by (subst plugin_environment, simp add: sample_valid)
    (simp add: sampleExtraEnv_def envVarOf_def)

end
