(* ===== verification/Disk.thy ===== *)
theory Disk
  imports Profiles Workload
begin

text \<open>
  The disk driver (\<open>ensureDiskDriver\<close> and what it calls): the CSIDriver object, the controller
  Deployment, the node DaemonSet, the storage classes with their CDI profiles, and the snapshot
  class.  The container, volume and storage-class helpers of this theory are those of the NAS
  driver too.
\<close>

section \<open>Containers and volumes\<close>

text \<open>A container with the zero value in every field the composite literal leaves out.\<close>

definition container :: "string \<Rightarrow> string \<Rightarrow> string list \<Rightarrow> EnvVar list \<Rightarrow> VolumeMount list \<Rightarrow> Container" where
  "container n img args env mounts = \<lparr>ct_Name = n, ct_Image = img, ct_Args = args,
     ct_Privileged = False, ct_Env = env, ct_VolumeMounts = mounts, ct_Resources = None,
     ct_StartupProbe = None\<rparr>"

definition mount :: "string \<Rightarrow> string \<Rightarrow> VolumeMount" where
  "mount n path = \<lparr>vm_Name = n, vm_MountPath = path, vm_MountPropagation = None\<rparr>"

definition socketMount :: VolumeMount where
  "socketMount = mount ''socket-dir'' ''/csi''"

definition hostPathVolume :: "string \<Rightarrow> string \<Rightarrow> HostPathType \<Rightarrow> Volume" where
  "hostPathVolume n path t = \<lparr>vol_Name = n, vol_Source = HostPath path t\<rparr>"

definition pluginResources :: ResourceRequirements where
  "pluginResources = \<lparr>rq_RequestCPU = ''100m'', rq_RequestMemory = ''128Mi'',
     rq_LimitCPU = ''500m'', rq_LimitMemory = ''512Mi''\<rparr>"

definition tolerateAll :: "Toleration list" where
  "tolerateAll = [\<lparr>tol_Key = [], tol_Operator = ''Exists'', tol_Value = [], tol_Effect = []\<rparr>]"

section \<open>CSIDriver\<close>

definition diskCSIDriver :: Object where
  "diskCSIDriver = fresh (named [] diskDriverName) (CSIDriverBody \<lparr>cd_AttachRequired = True,
     cd_PodInfoOnMount = True, cd_FSGroupPolicy = ''File'', cd_SELinuxMount = True\<rparr>)"

definition ensureDiskCSIDriver :: "Reconciler \<Rightarrow> AlibabaCloudCSIDriver \<Rightarrow> goerror option prog" where
  "ensureDiskCSIDriver r cr = createOrAdopt r cr diskCSIDriver"

section \<open>Controller Deployment\<close>

definition diskControllerContainers :: "(string \<Rightarrow> string) \<Rightarrow> AlibabaCloudCSIDriver \<Rightarrow> string \<Rightarrow>
    Container list" where
  "diskControllerContainers getenv cr pluginImage =
    [ (container ''csi-plugin'' pluginImage
         [''--endpoint=$(CSI_ENDPOINT)'', ''--v=5'', ''--driver=diskplugin.csi.alibabacloud.com'',
          ''--run-node-service=false'']
         ([envLit ''CSI_ENDPOINT'' ''unix:///csi/csi.sock'',
           envLit ''MAX_VOLUMES_PERNODE'' ''15'',
           envLit ''RAM_ROLE_TOKEN'' (ramTokenVersion cr)] @ driverEnv cr)
         [socketMount])\<lparr>ct_Resources := Some pluginResources\<rparr>,
      container ''csi-provisioner'' (csiProvisionerImage getenv)
         [''--csi-address=$(ADDRESS)'', ''--v=5'', ''--feature-gates=Topology=True'',
          ''--extra-create-metadata=true'', ''--leader-election=true'']
         [envLit ''ADDRESS'' ''/csi/csi.sock''] [socketMount],
      container ''csi-attacher'' (csiAttacherImage getenv)
         [''--v=5'', ''--csi-address=$(ADDRESS)'', ''--leader-election=true'']
         [envLit ''ADDRESS'' ''/csi/csi.sock''] [socketMount],
      container ''csi-resizer'' (csiResizerImage getenv)
         [''--v=5'', ''--csi-address=$(ADDRESS)'', ''--leader-election=true'']
         [envLit ''ADDRESS'' ''/csi/csi.sock''] [socketMount],
      container ''csi-snapshotter'' (csiSnapshotterImage getenv)
         [''--v=5'', ''--csi-address=$(ADDRESS)'', ''--leader-election=true'']
         [envLit ''ADDRESS'' ''/csi/csi.sock''] [socketMount] ]"

definition controllerDeploymentSpec :: "AlibabaCloudCSIDriver \<Rightarrow> string \<Rightarrow> Container list \<Rightarrow>
    DeploymentSpec" where
  "controllerDeploymentSpec cr app containers = (let labels = [''app'' \<mapsto> app] in
     \<lparr>dep_Replicas = controllerReplicas cr, dep_Selector = labels, dep_TemplateLabels = labels,
      dep_PodSpec = \<lparr>ps_ServiceAccountName = serviceAccountName, ps_HostNetwork = False,
        ps_HostPID = False, ps_NodeSelector = Some (controllerNodeSelector cr),
        ps_Tolerations = controllerTolerations cr,
        ps_PreferredAntiAffinity = controllerPodAntiAffinity (map_index labels ''app''),
        ps_Containers = containers,
        ps_Volumes = [\<lparr>vol_Name = ''socket-dir'', vol_Source = EmptyDir\<rparr>]\<rparr>\<rparr>)"

definition diskControllerDeployment :: "(string \<Rightarrow> string) \<Rightarrow> AlibabaCloudCSIDriver \<Rightarrow> string \<Rightarrow> Object"
  where
  "diskControllerDeployment getenv cr pluginImage =
     fresh (named operatorNamespace ''csi-disk-controller'') (DeploymentBody
       (controllerDeploymentSpec cr ''csi-disk-controller''
          (diskControllerContainers getenv cr pluginImage)))"

definition ensureDiskControllerDeployment :: "Reconciler \<Rightarrow> AlibabaCloudCSIDriver \<Rightarrow> string \<Rightarrow>
    goerror option prog" where
  "ensureDiskControllerDeployment r cr pluginImage =
     createOrUpdate r cr (diskControllerDeployment (rec_Getenv r) cr pluginImage)"

section \<open>Node DaemonSet\<close>

definition diskNodeContainers :: "(string \<Rightarrow> string) \<Rightarrow> AlibabaCloudCSIDriver \<Rightarrow> string \<Rightarrow>
    Container list" where
  "diskNodeContainers getenv cr pluginImage =
    [ (container ''csi-plugin'' pluginImage
         [''--endpoint=$(CSI_ENDPOINT)'', ''--v=5'', ''--driver=diskplugin.csi.alibabacloud.com'',
          ''--run-controller-service=false'']
         ([envLit ''CSI_ENDPOINT''
             ''unix:///var/lib/kubelet/plugins/diskplugin.csi.alibabacloud.com/csi.sock'',
           envLit ''RAM_ROLE_TOKEN'' (ramTokenVersion cr),
           envLit ''SERVICE_PORT'' ''11260'',
           envLit ''MAX_VOLUMES_PERNODE'' ''15'',
           envLit ''DISK_ALLOW_ALL_TYPE'' ''true'',
           \<lparr>ev_Name = ''KUBE_NODE_NAME'', ev_Value = [],
            ev_ValueFrom = Some (FieldRef ''spec.nodeName'')\<rparr>] @ driverEnv cr)
         [(mount ''kubelet-dir'' ''/var/lib/kubelet'')
            \<lparr>vm_MountPropagation := Some ''Bidirectional''\<rparr>,
          mount ''plugin-dir'' ''/var/lib/kubelet/plugins/diskplugin.csi.alibabacloud.com'',
          mount ''registration-dir'' ''/registration'',
          mount ''dev'' ''/dev'',
          mount ''sys'' ''/sys''])
        \<lparr>ct_Privileged := True, ct_StartupProbe := Some (registrarHealthzStartupProbe 9810)\<rparr>,
      container ''node-driver-registrar'' (nodeRegistrarImage getenv)
         [''--v=5'',
          ''--csi-address=/var/lib/kubelet/plugins/diskplugin.csi.alibabacloud.com/csi.sock'',
          ''--kubelet-registration-path=/var/lib/kubelet/plugins/diskplugin.csi.alibabacloud.com/csi.sock'',
          ''--http-endpoint=:9810'']
         []
         [mount ''plugin-dir'' ''/var/lib/kubelet/plugins/diskplugin.csi.alibabacloud.com'',
          mount ''registration-dir'' ''/registration''],
      container ''liveness-probe'' (livenessProbeImage getenv)
         [''--csi-address=/var/lib/kubelet/plugins/diskplugin.csi.alibabacloud.com/csi.sock'',
          ''--health-port=9808'']
         []
         [mount ''plugin-dir'' ''/var/lib/kubelet/plugins/diskplugin.csi.alibabacloud.com''] ]"

definition diskNodePod :: "(string \<Rightarrow> string) \<Rightarrow> AlibabaCloudCSIDriver \<Rightarrow> string \<Rightarrow> PodSpec" where
  "diskNodePod getenv cr pluginImage = \<lparr>ps_ServiceAccountName = serviceAccountName,
     ps_HostNetwork = True, ps_HostPID = True, ps_NodeSelector = None,
     ps_Tolerations = tolerateAll, ps_PreferredAntiAffinity = [],
     ps_Containers = diskNodeContainers getenv cr pluginImage,
     ps_Volumes =
       [hostPathVolume ''kubelet-dir'' ''/var/lib/kubelet'' HostPathDirectory,
        hostPathVolume ''plugin-dir'' ''/var/lib/kubelet/plugins/diskplugin.csi.alibabacloud.com''
          HostPathDirectoryOrCreate,
        hostPathVolume ''registration-dir'' ''/var/lib/kubelet/plugins_registry'' HostPathDirectory,
        hostPathVolume ''dev'' ''/dev'' HostPathDirectory,
        hostPathVolume ''sys'' ''/sys'' HostPathDirectory]\<rparr>"

definition diskNodeDaemonSet :: "(string \<Rightarrow> string) \<Rightarrow> AlibabaCloudCSIDriver \<Rightarrow> string \<Rightarrow> Object" where
  "diskNodeDaemonSet getenv cr pluginImage = (let labels = [''app'' \<mapsto> ''csi-disk-node''] in
     fresh (named operatorNamespace ''csi-disk-node'') (DaemonSetBody
       \<lparr>ds_Selector = labels, ds_TemplateLabels = labels,
        ds_PodSpec = diskNodePod getenv cr pluginImage\<rparr>))"

definition ensureDiskNodeDaemonSet :: "Reconciler \<Rightarrow> AlibabaCloudCSIDriver \<Rightarrow> string \<Rightarrow>
    goerror option prog" where
  "ensureDiskNodeDaemonSet r cr pluginImage =
     createOrUpdate r cr (diskNodeDaemonSet (rec_Getenv r) cr pluginImage)"

section \<open>Storage classes\<close>

definition reclaimPolicyOf :: "string \<Rightarrow> ReclaimPolicy" where
  "reclaimPolicyOf policy = (if policy = ''Retain'' then ReclaimRetain else ReclaimDelete)"

definition diskAnnotations :: "DiskStorageClassSpec \<Rightarrow> bool \<Rightarrow> strmap" where
  "diskAnnotations sc isDefault =
     (let annotations = Map.empty;
          annotations = (if isDefault
            then annotations(''storageclass.kubernetes.io/is-default-class'' \<mapsto> ''true'')
            else annotations)
      in if dsc_VirtDefault sc
         then annotations(''storageclass.kubevirt.io/is-default-virt-class'' \<mapsto> ''true'')
         else annotations)"

definition diskParameters :: "DiskStorageClassSpec \<Rightarrow> strmap" where
  "diskParameters sc = (let params = [''type'' \<mapsto> dsc_Type sc]
     in if dsc_Encrypted sc then params(''encrypted'' \<mapsto> ''true'') else params)"

definition diskStorageClass :: "DiskStorageClassSpec \<Rightarrow> bool \<Rightarrow> Object" where
  "diskStorageClass sc isDefault = fresh
     ((named [] (dsc_Name sc))\<lparr>om_Annotations := Some (diskAnnotations sc isDefault)\<rparr>)
     (StorageClassBody \<lparr>scl_Provisioner = diskDriverName,
        scl_ReclaimPolicy = reclaimPolicyOf (dsc_ReclaimPolicy sc),
        scl_AllowVolumeExpansion = dsc_AllowVolumeExpansion sc,
        scl_Parameters = diskParameters sc,
        scl_VolumeBindingMode = BindingWaitForFirstConsumer\<rparr>)"

definition ensureDiskStorageClass :: "Reconciler \<Rightarrow> AlibabaCloudCSIDriver \<Rightarrow> DiskStorageClassSpec \<Rightarrow>
    bool \<Rightarrow> goerror option prog" where
  "ensureDiskStorageClass r cr sc isDefault = createOrAdopt r cr (diskStorageClass sc isDefault)"

section \<open>The driver\<close>

fun diskClassLoop :: "Reconciler \<Rightarrow> AlibabaCloudCSIDriver \<Rightarrow> string \<Rightarrow> nat \<Rightarrow>
    DiskStorageClassSpec list \<Rightarrow> goerror option prog" where
  "diskClassLoop r cr snapClassName i [] = Ret None"
| "diskClassLoop r cr snapClassName i (sc # scs) =
     (let isDefault = disk_DefaultStorageClass (spec_Disk (cr_Spec cr)) \<and> i = 0 in
      check (ensureDiskStorageClass r cr sc isDefault)
        (Wrapped (''StorageClass '' @ dsc_Name sc @ '': '')) (
      let claimSets = diskClaimPropertySets (dsc_VolumeMode sc) in
      check (ensureStorageProfile (dsc_Name sc) (disk_StorageProfile (spec_Disk (cr_Spec cr)))
          claimSets snapClassName)
        (Wrapped (''StorageProfile '' @ dsc_Name sc @ '': '')) (
      diskClassLoop r cr snapClassName (i + 1) scs)))"

definition diskSnapClassName :: "AlibabaCloudCSIDriver \<Rightarrow> string" where
  "diskSnapClassName cr = (let snapClassName = snap_ClassName (disk_Snapshot (spec_Disk (cr_Spec cr)))
     in if snap_Enabled (disk_Snapshot (spec_Disk (cr_Spec cr))) \<and> snapClassName = []
        then defaultDiskSnapClassName else snapClassName)"

definition ensureDiskDriver :: "Reconciler \<Rightarrow> AlibabaCloudCSIDriver \<Rightarrow> goerror option prog" where
  "ensureDiskDriver r cr = (let pluginImage = pluginImageFor cr in
     check (ensureDiskCSIDriver r cr) (Wrapped ''CSIDriver: '') (
     check (ensureDiskControllerDeployment r cr pluginImage) (Wrapped ''controller Deployment: '') (
     check (ensureDiskNodeDaemonSet r cr pluginImage) (Wrapped ''node DaemonSet: '') (
     check (ensureVolumeSnapshotClass r cr diskDriverName (disk_Snapshot (spec_Disk (cr_Spec cr))))
       (Wrapped ''VolumeSnapshotClass: '') (
     diskClassLoop r cr (diskSnapClassName cr) 0 (disk_StorageClasses (spec_Disk (cr_Spec cr))))))))"

section \<open>Reading the pod templates\<close>

lemma container_simps [simp]:
  "ct_Name (container n img args env mounts) = n" "ct_Image (container n img args env mounts) = img"
  "ct_Args (container n img args env mounts) = args" "ct_Env (container n img args env mounts) = env"
  "ct_VolumeMounts (container n img args env mounts) = mounts"
  "ct_Privileged (container n img args env mounts) = False"
  "ct_StartupProbe (container n img args env mounts) = None"
  by (simp_all add: container_def)

lemma mount_simps [simp]: "vm_Name (mount n p) = n" "vm_MountPath (mount n p) = p"
  by (simp_all add: mount_def)

lemma hostPathVolume_name [simp]: "vol_Name (hostPathVolume n p t) = n"
  by (simp add: hostPathVolume_def)

text \<open>
  The ports a container of a host-network pod listens on: the one of the environment variable
  \<open>SERVICE_PORT\<close>, which the plugin reads, and those in the arguments of the two sidecars.
\<close>

definition argPorts :: "string \<Rightarrow> string list \<Rightarrow> string list" where
  "argPorts prefix args = List.map_filter (stripBytes prefix) args"

definition containerPorts :: "Container \<Rightarrow> string list" where
  "containerPorts c =
     (case effectiveEnv (ct_Env c) ''SERVICE_PORT'' of Some v \<Rightarrow> [ev_Value v] | None \<Rightarrow> []) @
     argPorts ''--http-endpoint=:'' (ct_Args c) @ argPorts ''--health-port='' (ct_Args c)"

definition hostPorts :: "PodSpec \<Rightarrow> string list" where
  "hostPorts p = concat (map containerPorts (ps_Containers p))"

definition showDigit :: "nat \<Rightarrow> char" where
  "showDigit d = ''0123456789'' ! d"

fun showNat :: "nat \<Rightarrow> string" where
  "showNat n = (if n < 10 then [showDigit n] else showNat (n div 10) @ [showDigit (n mod 10)])"

declare showNat.simps [simp del]

text \<open>The port of every start-up probe is the one the registrar in the same pod serves.\<close>

definition probesRegistrar :: "PodSpec \<Rightarrow> bool" where
  "probesRegistrar p \<longleftrightarrow> list_all (\<lambda>c. case ct_StartupProbe c of None \<Rightarrow> True
     | Some pb \<Rightarrow> list_ex (\<lambda>d. ct_Name d = ''node-driver-registrar'' \<and>
         argPorts ''--http-endpoint=:'' (ct_Args d) = [showNat (unat (hg_Port (pb_HTTPGet pb)))])
       (ps_Containers p)) (ps_Containers p)"

lemma diskController_wellFormed:
  "podWellFormed (dep_PodSpec (controllerDeploymentSpec cr ''csi-disk-controller''
     (diskControllerContainers getenv cr pluginImage)))"
  by (simp add: podWellFormed_def controllerDeploymentSpec_def diskControllerContainers_def
      socketMount_def Let_def)

lemma diskNodePod_wellFormed: "podWellFormed (diskNodePod getenv cr pluginImage)"
  by (simp add: podWellFormed_def diskNodePod_def diskNodeContainers_def)

lemma diskNodePod_probes: "probesRegistrar (diskNodePod getenv cr pluginImage)"
  by (simp add: probesRegistrar_def diskNodePod_def diskNodeContainers_def argPorts_def
      registrarHealthzStartupProbe_def map_filter_simps showNat.simps showDigit_def)

lemma diskNodePod_ports:
  assumes "''SERVICE_PORT'' \<notin> set (map evs_Name (spec_ExtraEnv (cr_Spec cr)))"
  shows "hostPorts (diskNodePod getenv cr pluginImage) = [''11260'', ''9810'', ''9808'']"
proof -
  have "effectiveEnv (extraEnv cr) ''SERVICE_PORT'' = None"
    using assms by (auto simp: effectiveEnv_None extraEnv_map)
  then show ?thesis
    by (simp add: hostPorts_def containerPorts_def diskNodePod_def diskNodeContainers_def argPorts_def
        map_filter_simps effectiveEnv_driverEnv effectiveEnv_Cons effectiveEnv_Nil)
qed

text \<open>
  A node plugin as the cluster sees it: a host-network pod template that the API server accepts,
  whose start-up probe watches its own registrar and whose ports are fixed unless the user sets
  \<open>SERVICE_PORT\<close>.  Two of them can share a node when their ports differ.
\<close>

locale node_plugin =
  fixes pod :: "(string \<Rightarrow> string) \<Rightarrow> AlibabaCloudCSIDriver \<Rightarrow> string \<Rightarrow> PodSpec"
    and ports :: "string list"
  assumes pod_wellFormed: "podWellFormed (pod getenv cr img)"
    and pod_probes: "probesRegistrar (pod getenv cr img)"
    and pod_host: "ps_HostNetwork (pod getenv cr img)"
    and pod_ports: "''SERVICE_PORT'' \<notin> set (map evs_Name (spec_ExtraEnv (cr_Spec cr))) \<Longrightarrow>
      hostPorts (pod getenv cr img) = ports"

locale node_plugins = a: node_plugin pod ports + b: node_plugin pod' ports'
  for pod ports pod' ports' +
  assumes ports_distinct: "distinct (ports @ ports')"
begin

lemma no_collision:
  assumes "''SERVICE_PORT'' \<notin> set (map evs_Name (spec_ExtraEnv (cr_Spec cr)))"
  shows "distinct (hostPorts (pod getenv cr img) @ hostPorts (pod' getenv cr img'))"
  unfolding a.pod_ports [OF assms] b.pod_ports [OF assms] by (rule ports_distinct)

end

interpretation disk_node: node_plugin diskNodePod "[''11260'', ''9810'', ''9808'']"
  by (unfold_locales, rule diskNodePod_wellFormed, rule diskNodePod_probes, simp add: diskNodePod_def)
    (rule diskNodePod_ports)

section \<open>Contracts\<close>

lemma disk_refs [object_simps]:
  "objRef diskCSIDriver = (KCSIDriver, [], diskDriverName)"
  "objRef (diskControllerDeployment g cr img) = (KDeployment, operatorNamespace, ''csi-disk-controller'')"
  "objRef (diskNodeDaemonSet g cr img) = (KDaemonSet, operatorNamespace, ''csi-disk-node'')"
  "objRef (diskStorageClass sc d) = (KStorageClass, [], dsc_Name sc)"
  by (simp_all add: diskCSIDriver_def diskControllerDeployment_def diskNodeDaemonSet_def Let_def
      diskStorageClass_def object_simps)

lemma disk_kinds [object_simps]:
  "objKind diskCSIDriver = KCSIDriver" "objKind (diskControllerDeployment g cr img) = KDeployment"
  "objKind (diskNodeDaemonSet g cr img) = KDaemonSet" "objKind (diskStorageClass sc d) = KStorageClass"
  by (simp_all add: objKind_ref disk_refs)

lemma disk_creatable [object_simps]:
  "creatable (obj_body diskCSIDriver)" "creatable (obj_body (diskControllerDeployment g cr img))"
  "creatable (obj_body (diskNodeDaemonSet g cr img))" "creatable (obj_body (diskStorageClass sc d))"
  by (simp_all add: creatable_def diskCSIDriver_def diskControllerDeployment_def
      diskNodeDaemonSet_def Let_def diskStorageClass_def object_simps)

lemma disk_fresh [object_simps]:
  "owners diskCSIDriver = []" "owners (diskControllerDeployment g cr img) = []"
  "owners (diskNodeDaemonSet g cr img) = []" "owners (diskStorageClass sc d) = []"
  "resourceVersion diskCSIDriver = []" "resourceVersion (diskControllerDeployment g cr img) = []"
  "resourceVersion (diskNodeDaemonSet g cr img) = []" "resourceVersion (diskStorageClass sc d) = []"
  by (simp_all add: diskCSIDriver_def diskControllerDeployment_def diskNodeDaemonSet_def Let_def
      diskStorageClass_def object_simps)

definition classRefs :: "string list \<Rightarrow> ObjectRef set" where
  "classRefs ns = (\<lambda>n. (KStorageClass, [], n)) ` set ns"

definition profileRefs :: "string list \<Rightarrow> ObjectRef set" where
  "profileRefs ns = (\<lambda>n. (KStorageProfile, [], n)) ` set ns"

definition diskClassNames :: "AlibabaCloudCSIDriver \<Rightarrow> string list" where
  "diskClassNames cr = map dsc_Name (disk_StorageClasses (spec_Disk (cr_Spec cr)))"

text \<open>The objects that are adopted, those that are replaced, and all that may be written.\<close>

definition adoptedDisk :: "AlibabaCloudCSIDriver \<Rightarrow> ObjectRef set" where
  "adoptedDisk cr = {(KCSIDriver, [], diskDriverName)} \<union> classRefs (diskClassNames cr)"

definition replacedDisk :: "ObjectRef set" where
  "replacedDisk = {(KDeployment, operatorNamespace, ''csi-disk-controller''),
     (KDaemonSet, operatorNamespace, ''csi-disk-node'')}"

definition managedDisk :: "AlibabaCloudCSIDriver \<Rightarrow> ObjectRef set" where
  "managedDisk cr = adoptedDisk cr \<union> replacedDisk \<union> profileRefs (diskClassNames cr) \<union>
     {(KVolumeSnapshotClass, [],
       ifEmpty (snap_ClassName (disk_Snapshot (spec_Disk (cr_Spec cr)))) defaultDiskSnapClassName)}"

text \<open>The snapshot class, where snapshots are enabled.\<close>

definition snapshotClassRef :: "AlibabaCloudCSIDriver \<Rightarrow> ObjectRef" where
  "snapshotClassRef cr = (KVolumeSnapshotClass, [], diskSnapClassName cr)"

lemma snapshotClassRef_enabled: "snap_Enabled (disk_Snapshot (spec_Disk (cr_Spec cr))) \<Longrightarrow>
    snapshotClassRef cr = (KVolumeSnapshotClass, [],
      ifEmpty (snap_ClassName (disk_Snapshot (spec_Disk (cr_Spec cr)))) defaultDiskSnapClassName)"
  by (simp add: snapshotClassRef_def diskSnapClassName_def ifEmpty_def)

lemma classRefs_simps [simp]:
  "classRefs [] = {}" "classRefs (n # ns) = insert (KStorageClass, [], n) (classRefs ns)"
  by (auto simp: classRefs_def)

lemma classRefs_kind: "ref \<in> classRefs ns \<Longrightarrow> fst ref = KStorageClass"
  by (auto simp: classRefs_def)

text \<open>What CDI is told about a disk class.\<close>

definition diskProfilePatch :: "AlibabaCloudCSIDriver \<Rightarrow> DiskStorageClassSpec \<Rightarrow> json" where
  "diskProfilePatch cr sc = storageProfilePatch (disk_StorageProfile (spec_Disk (cr_Spec cr)))
     (diskClaimPropertySets (dsc_VolumeMode sc)) (diskSnapClassName cr)"

lemma diskClassLoop_profiles:
  assumes "sp_Patch (disk_StorageProfile (spec_Disk (cr_Spec cr)))" and "sc \<in> set scs"
  shows "does (handlesProfile (dsc_Name sc) (diskProfilePatch cr sc))
    (diskClassLoop r cr (diskSnapClassName cr) i scs)"
  using assms(2)
proof (induction scs arbitrary: i)
  case (Cons sc' scs)
  show ?case
  proof (cases "sc = sc'")
    case True
    show ?thesis
      unfolding diskClassLoop.simps Let_def True diskProfilePatch_def
      by (rule does_then, rule does_first, rule ensureStorageProfile_does [OF assms(1)])
  next
    case False
    with Cons show ?thesis
      unfolding diskClassLoop.simps Let_def by (intro does_then Cons.IH) simp
  qed
qed simp

lemma ensureDiskDriver_profiles:
  assumes "sp_Patch (disk_StorageProfile (spec_Disk (cr_Spec cr)))"
    and "sc \<in> set (disk_StorageClasses (spec_Disk (cr_Spec cr)))"
  shows "does (handlesProfile (dsc_Name sc) (diskProfilePatch cr sc)) (ensureDiskDriver r cr)"
  unfolding ensureDiskDriver_def Let_def by (intro does_then diskClassLoop_profiles assms)

context operator_libs
begin

lemma diskClassLoop_managed:
  assumes "classRefs (map dsc_Name scs) \<subseteq> T" and "profileRefs (map dsc_Name scs) \<subseteq> T"
  shows "confined (managed r cr T) (diskClassLoop r cr snap i scs)"
  using assms
proof (induction scs arbitrary: i)
  case (Cons sc scs)
  then show ?case
    unfolding diskClassLoop.simps ensureDiskStorageClass_def Let_def
    by (intro contract_rules contracts)
      (auto simp: object_simps classRefs_def profileRefs_def)
qed (simp add: contract_rules)

lemma ensureDiskDriver_managed [contracts]:
  "confined (managed r cr (managedDisk cr)) (ensureDiskDriver r cr)"
  unfolding ensureDiskDriver_def ensureDiskCSIDriver_def ensureDiskControllerDeployment_def
    ensureDiskNodeDaemonSet_def Let_def
  by (intro contract_rules contracts diskClassLoop_managed)
    (auto simp: object_simps managedDisk_def adoptedDisk_def replacedDisk_def diskClassNames_def)

end

context operator_libs
begin

lemma diskClassLoop_quiet: "confined (\<lambda>ev. \<not> sccFound ev) (diskClassLoop r cr snap i scs)"
  by (induction scs arbitrary: i)
    (simp_all add: Let_def ensureDiskStorageClass_def confined_check helpers_quiet optional_quiet
      confined_Ret)

lemma ensureDiskDriver_quiet: "confined (\<lambda>ev. \<not> sccFound ev) (ensureDiskDriver r cr)"
  unfolding ensureDiskDriver_def ensureDiskCSIDriver_def ensureDiskControllerDeployment_def
    ensureDiskNodeDaemonSet_def Let_def
  by (intro confined_check helpers_quiet optional_quiet diskClassLoop_quiet)

lemma diskClassLoop_updating: "updating minimalUpdate (diskClassLoop r cr snap i scs)"
  by (induction scs arbitrary: i)
    (simp_all add: Let_def ensureDiskStorageClass_def updating_check createOrAdopt_minimal
      optional_updating updating_Ret disk_kinds)

lemma ensureDiskDriver_updating: "updating minimalUpdate (ensureDiskDriver r cr)"
  unfolding ensureDiskDriver_def ensureDiskCSIDriver_def ensureDiskControllerDeployment_def
    ensureDiskNodeDaemonSet_def Let_def
  by (intro updating_check createOrAdopt_minimal createOrUpdate_minimal optional_updating
      diskClassLoop_updating) (simp_all add: disk_kinds)

lemma diskClasses_managed:
  "confined (managed r cr (managedDisk cr))
     (diskClassLoop r cr snap i (disk_StorageClasses (spec_Disk (cr_Spec cr))))"
  by (rule diskClassLoop_managed) (auto simp: managedDisk_def adoptedDisk_def diskClassNames_def)

end

context kube_operator
begin

lemma diskClassLoop_establishes:
  "establishes cr (diskClassLoop r cr snap i scs) (classRefs (map dsc_Name scs))"
proof (induction scs arbitrary: i)
  case (Cons sc scs)
  let ?T = "classRefs (map dsc_Name (sc # scs)) \<union> profileRefs (map dsc_Name (sc # scs))"
  have loop: "confined (ownedWrites r cr) (diskClassLoop r cr snap j scs)" for j
    by (rule managed_ownedWrites [where T = ?T], rule diskClassLoop_managed)
      (auto simp: profileRefs_def)
  have profile: "confined (ownedWrites r cr) (ensureStorageProfile (dsc_Name sc) cfg sets snap)"
    for cfg sets
    by (rule managed_ownedWrites [where T = ?T], rule ensureStorageProfile_managed)
      (simp add: profileRefs_def)
  have "establishes cr (diskClassLoop r cr snap i (sc # scs))
      ({objRef (diskStorageClass sc d)} \<union> ({} \<union> classRefs (map dsc_Name scs)))" for d
    unfolding diskClassLoop.simps Let_def ensureDiskStorageClass_def
    by (intro establishes_check establishes_nothing Cons.IH loop profile confined_check)
      (auto intro: establishes_adopt [THEN establishes_mono] simp: object_simps)
  then show ?case by (simp add: object_simps)
qed (simp add: establishes_nothing)

lemma ensureDiskDriver_establishes [contracts]:
  "establishes cr (ensureDiskDriver r cr) (adoptedDisk cr \<union> replacedDisk)"
proof -
  let ?d = "diskControllerDeployment (rec_Getenv r) cr (pluginImageFor cr)"
  let ?n = "diskNodeDaemonSet (rec_Getenv r) cr (pluginImageFor cr)"
  have "establishes cr (ensureDiskDriver r cr) ({objRef diskCSIDriver} \<union> ({objRef ?d} \<union>
      ({objRef ?n} \<union> ({} \<union> classRefs (diskClassNames cr)))))"
    unfolding ensureDiskDriver_def ensureDiskCSIDriver_def ensureDiskControllerDeployment_def
      ensureDiskNodeDaemonSet_def Let_def diskClassNames_def
    by (intro establishes_check establishes_adopt establishes_update establishes_nothing
        diskClassLoop_establishes confined_check managed_ownedWrites [where T = "managedDisk cr"]
        createOrUpdate_managed ensureVolumeSnapshotClass_managed diskClasses_managed)
      (auto simp: object_simps managedDisk_def replacedDisk_def)
  then show ?thesis
    by (rule establishes_mono) (auto simp: object_simps adoptedDisk_def replacedDisk_def)
qed

lemma ensureDiskDriver_provides:
  shows ensureDiskDriver_provides_deployment: "provides (ensureDiskDriver r cr)
      (KDeployment, operatorNamespace, ''csi-disk-controller'')
      (asDesired r cr (diskControllerDeployment (rec_Getenv r) cr (pluginImageFor cr)))"
    and ensureDiskDriver_provides_daemonset: "provides (ensureDiskDriver r cr)
      (KDaemonSet, operatorNamespace, ''csi-disk-node'')
      (asDesired r cr (diskNodeDaemonSet (rec_Getenv r) cr (pluginImageFor cr)))"
proof -
  let ?d = "diskControllerDeployment (rec_Getenv r) cr (pluginImageFor cr)"
  let ?n = "diskNodeDaemonSet (rec_Getenv r) cr (pluginImageFor cr)"
  note d = provides_update [of cr ?d, unfolded disk_refs]
  note n = provides_update [of cr ?n, unfolded disk_refs]
  note parts = ensureDiskDriver_def ensureDiskCSIDriver_def ensureDiskControllerDeployment_def
      ensureDiskNodeDaemonSet_def Let_def
  let ?T = "managedDisk cr - {objRef ?d}" and ?T' = "managedDisk cr - {objRef ?n}"
  show "provides (ensureDiskDriver r cr) (KDeployment, operatorNamespace, ''csi-disk-controller'')
      (asDesired r cr ?d)"
    unfolding parts
    by (rule provides_then, rule provides_first [OF d, where T = ?T],
        rule managed_writesWithin [where r = r and cr = cr], intro confined_check
        createOrUpdate_managed ensureVolumeSnapshotClass_managed diskClassLoop_managed)
      (auto simp: object_simps managedDisk_def adoptedDisk_def replacedDisk_def classRefs_def
        profileRefs_def diskClassNames_def)
  show "provides (ensureDiskDriver r cr) (KDaemonSet, operatorNamespace, ''csi-disk-node'')
      (asDesired r cr ?n)"
    unfolding parts
    by (rule provides_then, rule provides_then, rule provides_first [OF n, where T = ?T'],
        rule managed_writesWithin [where r = r and cr = cr], intro confined_check
        ensureVolumeSnapshotClass_managed diskClassLoop_managed)
      (auto simp: object_simps managedDisk_def adoptedDisk_def replacedDisk_def classRefs_def
        profileRefs_def diskClassNames_def)
qed

lemma ensureDiskDriver_snapshotClass:
  assumes "snap_Enabled (disk_Snapshot (spec_Disk (cr_Spec cr)))"
    and "\<And>d. placesOptional cr optional (snapshotClassRef cr)
      (ensureVolumeSnapshotClass r cr d (disk_Snapshot (spec_Disk (cr_Spec cr))))"
  shows "placesOptional cr optional (snapshotClassRef cr) (ensureDiskDriver r cr)"
proof -
  let ?T = "managedDisk cr - {snapshotClassRef cr}"
  note name = snapshotClassRef_enabled [OF assms(1)]
  note T = managedDisk_def adoptedDisk_def replacedDisk_def classRefs_def profileRefs_def
    diskClassNames_def
  have loop: "confined (managed r cr ?T) (diskClassLoop r cr snap 0
      (disk_StorageClasses (spec_Disk (cr_Spec cr))))" for snap
    unfolding name by (rule diskClassLoop_managed) (auto simp: T)
  have csi: "confined (managed r cr ?T) (createOrAdopt r cr diskCSIDriver)"
    unfolding name by (rule createOrAdopt_managed) (auto simp: object_simps T)
  have dep: "confined (managed r cr ?T) (createOrUpdate r cr (diskControllerDeployment g cr img))"
    and ds: "confined (managed r cr ?T) (createOrUpdate r cr (diskNodeDaemonSet g cr img))" for g img
    unfolding name by (rule createOrUpdate_managed; auto simp: object_simps T)+
  show ?thesis
    unfolding ensureDiskDriver_def ensureDiskCSIDriver_def ensureDiskControllerDeployment_def
      ensureDiskNodeDaemonSet_def Let_def
    by (rule placesOptional_then [OF placesOptional_then [OF placesOptional_then [OF
          placesOptional_first [OF assms(2) loop] ds] dep] csi]) simp_all
qed

end

context reliable_operator
begin

lemma diskClassLoop_completes:
  assumes "cr_Namespace cr = []" and "served KStorageClass"
    and "\<And>ob. objRef ob \<in> classRefs (map dsc_Name scs) \<Longrightarrow> accepts ob"
  shows "completes cr (diskClassLoop r cr snap i scs) (classRefs (map dsc_Name scs))"
  using assms(3)
proof (induction scs arbitrary: i)
  case (Cons sc scs)
  let ?T = "classRefs (map dsc_Name (sc # scs)) \<union> profileRefs (map dsc_Name (sc # scs))"
  have "completes cr (diskClassLoop r cr snap i (sc # scs))
      ({objRef (diskStorageClass sc d)} \<union> ({} \<union> classRefs (map dsc_Name scs)))" for d
    unfolding diskClassLoop.simps Let_def ensureDiskStorageClass_def
    by (intro completes_check ensureStorageProfile_completes Cons.IH
        managed_ownedWrites [where T = ?T] createOrAdopt_managed ensureStorageProfile_managed)
      (use assms(1,2) Cons.prems in \<open>auto intro!: completes_adopt [THEN completes_mono]
        simp: object_simps profileRefs_def classRefs_kind\<close>)
  then show ?case by (simp add: object_simps)
qed (simp add: completes_Ret)

lemma ensureDiskDriver_completes [contracts]:
  assumes "cr_Namespace cr = []"
    and "\<And>kd. kd \<in> {KCSIDriver, KDeployment, KDaemonSet, KStorageClass} \<Longrightarrow> served kd"
    and "\<And>ob. objRef ob \<in> managedDisk cr \<Longrightarrow> accepts ob"
  shows "completes cr (ensureDiskDriver r cr) (adoptedDisk cr)"
proof -
  have "completes cr (ensureDiskDriver r cr) ({objRef diskCSIDriver} \<union> ({} \<union> ({} \<union>
      ({} \<union> classRefs (diskClassNames cr)))))"
    unfolding ensureDiskDriver_def ensureDiskCSIDriver_def ensureDiskControllerDeployment_def
      ensureDiskNodeDaemonSet_def Let_def diskClassNames_def
    by (intro completes_check completes_adopt completes_update ensureVolumeSnapshotClass_completes
        diskClassLoop_completes managed_ownedWrites [where T = "managedDisk cr"]
        createOrUpdate_managed createOrAdopt_managed ensureVolumeSnapshotClass_managed)
      (use assms in \<open>auto simp: object_simps managedDisk_def adoptedDisk_def replacedDisk_def
        diskClassNames_def classRefs_kind objKind_ref\<close>)
  then show ?thesis by (rule completes_mono) (simp add: object_simps adoptedDisk_def)
qed

end

section \<open>What the storage classes are created with\<close>

text \<open>
  \<open>specifiedDiskClass cr i ob\<close>: \<open>ob\<close> is the StorageClass that entry \<open>i\<close> of the specification
  describes, written out field by field; a map is given by its entries, \<open>flags\<close> being those whose
  condition holds, all with the value \<open>true\<close>.
\<close>

definition flags :: "(string \<times> bool) list \<Rightarrow> (string \<times> string) list" where
  "flags ks = map (\<lambda>kb. (fst kb, ''true'')) (filter snd ks)"

definition specifiedDiskClass :: "AlibabaCloudCSIDriver \<Rightarrow> nat \<Rightarrow> Object \<Rightarrow> bool" where
  "specifiedDiskClass cr i ob \<longleftrightarrow>
     (let disk = spec_Disk (cr_Spec cr); sc = disk_StorageClasses disk ! i in
      objNamed ob = ([], dsc_Name sc) \<and> om_Labels (obj_meta ob) = None \<and>
      om_Annotations (obj_meta ob) = Some (map_of (flags
        [(''storageclass.kubernetes.io/is-default-class'', i = 0 \<and> disk_DefaultStorageClass disk),
         (''storageclass.kubevirt.io/is-default-virt-class'', dsc_VirtDefault sc)])) \<and>
      (case obj_body ob of
         StorageClassBody b \<Rightarrow>
           scl_Provisioner b = ''diskplugin.csi.alibabacloud.com'' \<and>
           (scl_ReclaimPolicy b = ReclaimRetain \<longleftrightarrow> dsc_ReclaimPolicy sc = ''Retain'') \<and>
           scl_AllowVolumeExpansion b = dsc_AllowVolumeExpansion sc \<and>
           scl_Parameters b = map_of ((''type'', dsc_Type sc) #
             flags [(''encrypted'', dsc_Encrypted sc)]) \<and>
           scl_VolumeBindingMode b = BindingWaitForFirstConsumer
       | _ \<Rightarrow> False))"

text \<open>\<open>createsDiskClass cr\<close>: a StorageClass that is created is one of the specification.\<close>

definition createsDiskClass :: "AlibabaCloudCSIDriver \<Rightarrow> event \<Rightarrow> bool" where
  "createsDiskClass cr ev \<longleftrightarrow> (case ev of
     EvCreate ob res \<Rightarrow> objKind ob = KStorageClass \<longrightarrow>
       list_ex (\<lambda>i. specifiedDiskClass cr i ob)
         [0..<length (disk_StorageClasses (spec_Disk (cr_Spec cr)))]
   | _ \<Rightarrow> True)"

lemma diskStorageClass_specified:
  assumes "ob = setOwners rs (diskStorageClass (disk_StorageClasses (spec_Disk (cr_Spec cr)) ! i)
      (disk_DefaultStorageClass (spec_Disk (cr_Spec cr)) \<and> i = 0))"
  shows "specifiedDiskClass cr i ob"
  unfolding assms
  by (auto simp: specifiedDiskClass_def diskStorageClass_def Let_def setOwners_def fresh_def
      objNamed_def named_def diskAnnotations_def diskParameters_def flags_def reclaimPolicyOf_def
      diskDriverName_def)

lemma createsDiskClass_simps [simp]:
  "objKind ob \<noteq> KStorageClass \<Longrightarrow> createsDiskClass cr (EvCreate ob res)"
  "createsDiskClass cr (EvGet kd n x)" "createsDiskClass cr (EvUpdate ob res)"
  "createsDiskClass cr (EvPatch kd n j res)"
  by (simp_all add: createsDiskClass_def)

context operator_libs
begin

lemma other_creates: "objKind obj \<noteq> KStorageClass \<Longrightarrow>
    confined (createsDiskClass cr) (createOrAdopt r cr obj) \<and>
    confined (createsDiskClass cr) (createOrUpdate r cr obj)"
  by (intro conjI createOrAdopt_confined createOrUpdate_confined) (auto simp: objKind_ref)

lemma diskClassLoop_creates:
  assumes "scs = drop i (disk_StorageClasses (spec_Disk (cr_Spec cr)))"
  shows "confined (createsDiskClass cr) (diskClassLoop r cr snap i scs)"
  using assms
proof (induction scs arbitrary: i)
  case (Cons sc scs)
  let ?scs = "disk_StorageClasses (spec_Disk (cr_Spec cr))"
  let ?d = "disk_DefaultStorageClass (spec_Disk (cr_Spec cr)) \<and> i = 0"
  from Cons.prems have i: "i < length ?scs" "sc = ?scs ! i" "scs = drop (i + 1) ?scs"
    by (metis drop_eq_Nil2 linorder_not_le list.distinct(1),
        metis hd_drop_conv_nth drop_eq_Nil2 linorder_not_le list.distinct(1) list.sel(1),
        metis Suc_eq_plus1 drop_Suc list.sel(3) tl_drop)
  have "confined (createsDiskClass cr) (createOrAdopt r cr (diskStorageClass sc ?d))"
  proof (rule createOrAdopt_stamped)
    fix st res assume "lib_SetControllerReference r cr (diskStorageClass sc ?d) = Inr st"
    from set_owners_only [OF this] have "st = setOwners (owners st) (diskStorageClass sc ?d)"
      by (auto simp: object_simps)
    with i show "createsDiskClass cr (EvCreate st res)"
      by (auto simp: createsDiskClass_def list_ex_iff intro!: bexI [of _ i] diskStorageClass_specified)
  qed simp_all
  moreover have "confined (createsDiskClass cr) (ensureStorageProfile n cfg sets snap)" for n cfg sets
    unfolding ensureStorageProfile_def by (auto intro!: contract_rules split: sum.splits)
  ultimately show ?case
    unfolding diskClassLoop.simps Let_def ensureDiskStorageClass_def
    by (intro confined_check Cons.IH i(3))
qed (simp add: confined_Ret)

lemma ensureVolumeSnapshotClass_creates:
  "confined (createsDiskClass cr) (ensureVolumeSnapshotClass r cr d cfg)"
  unfolding ensureVolumeSnapshotClass_def
  by (auto intro!: contract_rules simp: Let_def object_simps objKind_ref dest!: set_objRef
      split: sum.splits option.splits)

lemma ensureDiskDriver_creates: "confined (createsDiskClass cr) (ensureDiskDriver r cr)"
  unfolding ensureDiskDriver_def ensureDiskCSIDriver_def ensureDiskControllerDeployment_def
    ensureDiskNodeDaemonSet_def Let_def
  by (intro confined_check diskClassLoop_creates ensureVolumeSnapshotClass_creates
      other_creates [THEN conjunct1] other_creates [THEN conjunct2]) (simp_all add: object_simps)

end

end
