(* ===== verification/Nas.thy ===== *)
theory Nas
  imports Disk
begin

text \<open>
  The NAS driver (\<open>ensureNASDriver\<close> and what it calls): the CSIDriver object, the controller
  Deployment, the node DaemonSet and the storage classes with their parameters and CDI profiles.
  It has no snapshot class.
\<close>

section \<open>CSIDriver\<close>

definition nasCSIDriver :: Object where
  "nasCSIDriver = fresh (named [] nasDriverName) (CSIDriverBody \<lparr>cd_AttachRequired = False,
     cd_PodInfoOnMount = True, cd_FSGroupPolicy = ''File'', cd_SELinuxMount = False\<rparr>)"

definition ensureNASCSIDriver :: "Reconciler \<Rightarrow> AlibabaCloudCSIDriver \<Rightarrow> goerror option prog" where
  "ensureNASCSIDriver r cr = createOrAdopt r cr nasCSIDriver"

section \<open>Controller Deployment\<close>

definition nasControllerContainers :: "(string \<Rightarrow> string) \<Rightarrow> AlibabaCloudCSIDriver \<Rightarrow> string \<Rightarrow>
    Container list" where
  "nasControllerContainers getenv cr pluginImage =
    [ (container ''csi-plugin'' pluginImage
         [''--endpoint=$(CSI_ENDPOINT)'', ''--v=5'', ''--driver=nasplugin.csi.alibabacloud.com'',
          ''--run-node-service=false'']
         ([envLit ''CSI_ENDPOINT'' ''unix:///csi/csi.sock'',
           envLit ''RAM_ROLE_TOKEN'' (ramTokenVersion cr)] @ driverEnv cr)
         [socketMount])\<lparr>ct_Resources := Some pluginResources\<rparr>,
      container ''csi-provisioner'' (csiProvisionerImage getenv)
         [''--csi-address=$(ADDRESS)'', ''--v=5'', ''--extra-create-metadata=true'',
          ''--leader-election=true'']
         [envLit ''ADDRESS'' ''/csi/csi.sock''] [socketMount] ]"

definition nasControllerDeployment :: "(string \<Rightarrow> string) \<Rightarrow> AlibabaCloudCSIDriver \<Rightarrow> string \<Rightarrow> Object"
  where
  "nasControllerDeployment getenv cr pluginImage =
     fresh (named operatorNamespace ''csi-nas-controller'') (DeploymentBody
       (controllerDeploymentSpec cr ''csi-nas-controller''
          (nasControllerContainers getenv cr pluginImage)))"

definition ensureNASControllerDeployment :: "Reconciler \<Rightarrow> AlibabaCloudCSIDriver \<Rightarrow> string \<Rightarrow>
    goerror option prog" where
  "ensureNASControllerDeployment r cr pluginImage =
     createOrUpdate r cr (nasControllerDeployment (rec_Getenv r) cr pluginImage)"

section \<open>Node DaemonSet\<close>

definition nasNodeContainers :: "(string \<Rightarrow> string) \<Rightarrow> AlibabaCloudCSIDriver \<Rightarrow> string \<Rightarrow>
    Container list" where
  "nasNodeContainers getenv cr pluginImage =
    [ (container ''csi-plugin'' pluginImage
         [''--endpoint=$(CSI_ENDPOINT)'', ''--v=5'', ''--driver=nasplugin.csi.alibabacloud.com'',
          ''--run-controller-service=false'']
         ([envLit ''CSI_ENDPOINT''
             ''unix:///var/lib/kubelet/plugins/nasplugin.csi.alibabacloud.com/csi.sock'',
           envLit ''RAM_ROLE_TOKEN'' (ramTokenVersion cr),
           envLit ''SERVICE_PORT'' ''11261'',
           \<lparr>ev_Name = ''KUBE_NODE_NAME'', ev_Value = [],
            ev_ValueFrom = Some (FieldRef ''spec.nodeName'')\<rparr>] @ driverEnv cr)
         [(mount ''kubelet-dir'' ''/var/lib/kubelet'')
            \<lparr>vm_MountPropagation := Some ''Bidirectional''\<rparr>,
          mount ''plugin-dir'' ''/var/lib/kubelet/plugins/nasplugin.csi.alibabacloud.com'',
          mount ''registration-dir'' ''/registration''])
        \<lparr>ct_Privileged := True, ct_StartupProbe := Some (registrarHealthzStartupProbe 9811)\<rparr>,
      container ''node-driver-registrar'' (nodeRegistrarImage getenv)
         [''--v=5'',
          ''--csi-address=/var/lib/kubelet/plugins/nasplugin.csi.alibabacloud.com/csi.sock'',
          ''--kubelet-registration-path=/var/lib/kubelet/plugins/nasplugin.csi.alibabacloud.com/csi.sock'',
          ''--http-endpoint=:9811'']
         []
         [mount ''plugin-dir'' ''/var/lib/kubelet/plugins/nasplugin.csi.alibabacloud.com'',
          mount ''registration-dir'' ''/registration''],
      container ''liveness-probe'' (livenessProbeImage getenv)
         [''--csi-address=/var/lib/kubelet/plugins/nasplugin.csi.alibabacloud.com/csi.sock'',
          ''--health-port=9809'']
         []
         [mount ''plugin-dir'' ''/var/lib/kubelet/plugins/nasplugin.csi.alibabacloud.com''] ]"

definition nasNodePod :: "(string \<Rightarrow> string) \<Rightarrow> AlibabaCloudCSIDriver \<Rightarrow> string \<Rightarrow> PodSpec" where
  "nasNodePod getenv cr pluginImage = \<lparr>ps_ServiceAccountName = serviceAccountName,
     ps_HostNetwork = True, ps_HostPID = False, ps_NodeSelector = None,
     ps_Tolerations = tolerateAll, ps_PreferredAntiAffinity = [],
     ps_Containers = nasNodeContainers getenv cr pluginImage,
     ps_Volumes =
       [hostPathVolume ''kubelet-dir'' ''/var/lib/kubelet'' HostPathDirectory,
        hostPathVolume ''plugin-dir'' ''/var/lib/kubelet/plugins/nasplugin.csi.alibabacloud.com''
          HostPathDirectoryOrCreate,
        hostPathVolume ''registration-dir'' ''/var/lib/kubelet/plugins_registry'' HostPathDirectory]\<rparr>"

definition nasNodeDaemonSet :: "(string \<Rightarrow> string) \<Rightarrow> AlibabaCloudCSIDriver \<Rightarrow> string \<Rightarrow> Object" where
  "nasNodeDaemonSet getenv cr pluginImage = (let labels = [''app'' \<mapsto> ''csi-nas-node''] in
     fresh (named operatorNamespace ''csi-nas-node'') (DaemonSetBody
       \<lparr>ds_Selector = labels, ds_TemplateLabels = labels,
        ds_PodSpec = nasNodePod getenv cr pluginImage\<rparr>))"

definition ensureNASNodeDaemonSet :: "Reconciler \<Rightarrow> AlibabaCloudCSIDriver \<Rightarrow> string \<Rightarrow>
    goerror option prog" where
  "ensureNASNodeDaemonSet r cr pluginImage =
     createOrUpdate r cr (nasNodeDaemonSet (rec_Getenv r) cr pluginImage)"

section \<open>Storage classes\<close>

text \<open>
  The loop over the four network fields: a field that is set becomes a parameter, one that is
  not is reported as missing.
\<close>

fun fieldLoop :: "(string \<times> string) list \<Rightarrow> strmap \<Rightarrow> string list \<Rightarrow> strmap \<times> string list" where
  "fieldLoop [] params missing = (params, missing)"
| "fieldLoop ((key, val) # fs) params missing =
     (if val \<noteq> [] then fieldLoop fs (params(key \<mapsto> val)) missing
      else fieldLoop fs params (missing @ [key]))"

definition nasStorageClassParameters :: "NASStorageClassSpec \<Rightarrow> strmap \<times> string list" where
  "nasStorageClassParameters sc =
     (let volumeAs = ifEmpty (nsc_VolumeAs sc) ''filesystem'';
          params = [''volumeAs'' \<mapsto> volumeAs]
      in if volumeAs = ''subpath'' then
           (let params = params(''mountType'' \<mapsto> ifEmpty (nsc_MountProtocol sc) ''nfs'');
                (params, missing) = (if nsc_Server sc \<noteq> []
                   then (params(''server'' \<mapsto> nsc_Server sc), []) else (params, [''server'']));
                params = (if nsc_StorageType sc \<noteq> []
                   then params(''storageType'' \<mapsto> nsc_StorageType sc) else params)
            in (params, missing))
         else
           (let params = params(''fileSystemType'' \<mapsto> ifEmpty (nsc_FileSystemType sc) ''standard'');
                params = (if nsc_StorageType sc \<noteq> []
                   then params(''storageType'' \<mapsto> nsc_StorageType sc) else params)
            in fieldLoop [(''regionId'', nsc_RegionID sc), (''zoneId'', nsc_ZoneID sc),
                 (''vpcId'', nsc_VpcID sc), (''vSwitchId'', nsc_VSwitchID sc)] params []))"

definition nasAnnotations :: "NASStorageClassSpec \<Rightarrow> strmap" where
  "nasAnnotations sc = (if nsc_VirtDefault sc
     then Map.empty(''storageclass.kubevirt.io/is-default-virt-class'' \<mapsto> ''true'') else Map.empty)"

definition nasStorageClass :: "NASStorageClassSpec \<Rightarrow> Object" where
  "nasStorageClass sc = fresh
     ((named [] (nsc_Name sc))\<lparr>om_Annotations := Some (nasAnnotations sc)\<rparr>)
     (StorageClassBody \<lparr>scl_Provisioner = nasDriverName,
        scl_ReclaimPolicy = reclaimPolicyOf (nsc_ReclaimPolicy sc),
        scl_AllowVolumeExpansion = nsc_AllowVolumeExpansion sc,
        scl_Parameters = fst (nasStorageClassParameters sc),
        scl_VolumeBindingMode = BindingImmediate\<rparr>)"

definition ensureNASStorageClass :: "Reconciler \<Rightarrow> AlibabaCloudCSIDriver \<Rightarrow> NASStorageClassSpec \<Rightarrow>
    bool \<Rightarrow> goerror option prog" where
  "ensureNASStorageClass r cr sc unused = createOrAdopt r cr (nasStorageClass sc)"

section \<open>The driver\<close>

fun nasClassLoop :: "Reconciler \<Rightarrow> AlibabaCloudCSIDriver \<Rightarrow> nat \<Rightarrow> NASStorageClassSpec list \<Rightarrow>
    goerror option prog" where
  "nasClassLoop r cr i [] = Ret None"
| "nasClassLoop r cr i (sc # scs) =
     (let isDefault = (i = 0) in
      check (ensureNASStorageClass r cr sc isDefault)
        (Wrapped (''StorageClass '' @ nsc_Name sc @ '': '')) (
      check (ensureStorageProfile (nsc_Name sc) (nas_StorageProfile (spec_NAS (cr_Spec cr)))
          nasClaimPropertySets [])
        (Wrapped (''StorageProfile '' @ nsc_Name sc @ '': '')) (
      nasClassLoop r cr (i + 1) scs)))"

definition ensureNASDriver :: "Reconciler \<Rightarrow> AlibabaCloudCSIDriver \<Rightarrow> goerror option prog" where
  "ensureNASDriver r cr = (let pluginImage = pluginImageFor cr in
     check (ensureNASCSIDriver r cr) (Wrapped ''CSIDriver: '') (
     check (ensureNASControllerDeployment r cr pluginImage) (Wrapped ''controller Deployment: '') (
     check (ensureNASNodeDaemonSet r cr pluginImage) (Wrapped ''node DaemonSet: '') (
     nasClassLoop r cr 0 (nas_StorageClasses (spec_NAS (cr_Spec cr)))))))"

section \<open>The storage class parameters\<close>

text \<open>
  The parameters the documentation of the two modes asks for, as a specification that does not
  depend on the order of the assignments: the parameter of a key, and the fields that must be
  set for dynamic provisioning to work.
\<close>

definition nasParameterSpec :: "NASStorageClassSpec \<Rightarrow> string \<Rightarrow> string" where
  "nasParameterSpec sc key =
     (let subpath = (nsc_VolumeAs sc = ''subpath'') in
      if key = ''volumeAs'' then ifEmpty (nsc_VolumeAs sc) ''filesystem''
      else if key = ''storageType'' then nsc_StorageType sc
      else if subpath then
        (if key = ''mountType'' then ifEmpty (nsc_MountProtocol sc) ''nfs''
         else if key = ''server'' then nsc_Server sc else [])
      else if key = ''fileSystemType'' then ifEmpty (nsc_FileSystemType sc) ''standard''
      else if key = ''regionId'' then nsc_RegionID sc else if key = ''zoneId'' then nsc_ZoneID sc
      else if key = ''vpcId'' then nsc_VpcID sc else if key = ''vSwitchId'' then nsc_VSwitchID sc
      else [])"

definition nasRequired :: "NASStorageClassSpec \<Rightarrow> string list" where
  "nasRequired sc = (if nsc_VolumeAs sc = ''subpath'' then [''server'']
     else [''regionId'', ''zoneId'', ''vpcId'', ''vSwitchId''])"

definition someIfSet :: "string \<Rightarrow> string option" where
  "someIfSet v = (if v = [] then None else Some v)"

lemma fieldLoop_missing:
  "snd (fieldLoop fs params missing) = missing @ map fst (filter (\<lambda>(k, v). v = []) fs)"
  by (induction fs params missing rule: fieldLoop.induct) (simp_all del: fun_upd_apply)

lemma fieldLoop_params:
  "distinct (map fst fs) \<Longrightarrow> fst (fieldLoop fs params missing) k =
    (case map_of fs k of Some v \<Rightarrow> if v \<noteq> [] then Some v else params k | None \<Rightarrow> params k)"
proof (induction fs arbitrary: params missing)
  case (Cons f fs)
  obtain key val where f: "f = (key, val)" by (cases f)
  with Cons.prems have none: "map_of fs key = None" by (simp add: map_of_eq_None_iff)
  have IH: "fst (fieldLoop fs params missing) k =
      (case map_of fs k of Some v \<Rightarrow> if v \<noteq> [] then Some v else params k | None \<Rightarrow> params k)"
    for params missing
    by (rule Cons.IH) (use Cons.prems in simp)
  show ?case
  proof (cases "k = key")
    case True
    with IH none have "fst (fieldLoop fs params missing) key = params key" for params missing
      by simp
    with True show ?thesis by (simp add: f)
  next
    case False
    with IH show ?thesis by (simp add: f split: option.split)
  qed
qed simp

lemma nasStorageClassParameters_missing:
  "snd (nasStorageClassParameters sc) = filter (\<lambda>k. nasParameterSpec sc k = []) (nasRequired sc)"
  by (cases "nsc_VolumeAs sc = ''subpath''")
    (simp_all add: nasStorageClassParameters_def nasParameterSpec_def nasRequired_def Let_def
      fieldLoop_missing ifEmpty_def)

lemma nasParameters_subpath:
  "nsc_VolumeAs sc = ''subpath'' \<Longrightarrow> fst (nasStorageClassParameters sc) =
    (\<lambda>k. if k = ''storageType'' \<and> nsc_StorageType sc \<noteq> [] then Some (nsc_StorageType sc)
      else if k = ''server'' \<and> nsc_Server sc \<noteq> [] then Some (nsc_Server sc)
      else if k = ''mountType'' then Some (ifEmpty (nsc_MountProtocol sc) ''nfs'')
      else if k = ''volumeAs'' then Some ''subpath'' else None)"
  by (rule ext) (simp add: nasStorageClassParameters_def Let_def)

lemma nasParameters_filesystem:
  "nsc_VolumeAs sc \<noteq> ''subpath'' \<Longrightarrow> fst (nasStorageClassParameters sc) k =
    (let rest = (if k = ''storageType'' \<and> nsc_StorageType sc \<noteq> [] then Some (nsc_StorageType sc)
      else if k = ''fileSystemType'' then Some (ifEmpty (nsc_FileSystemType sc) ''standard'')
      else if k = ''volumeAs'' then Some (ifEmpty (nsc_VolumeAs sc) ''filesystem'') else None)
     in case map_of [(''regionId'', nsc_RegionID sc), (''zoneId'', nsc_ZoneID sc),
           (''vpcId'', nsc_VpcID sc), (''vSwitchId'', nsc_VSwitchID sc)] k of
          Some v \<Rightarrow> if v \<noteq> [] then Some v else rest
        | None \<Rightarrow> rest)"
proof -
  assume fs: "nsc_VolumeAs sc \<noteq> ''subpath''"
  then have "ifEmpty (nsc_VolumeAs sc) ''filesystem'' \<noteq> ''subpath''" by (simp add: ifEmpty_def)
  then show ?thesis
    by (simp add: nasStorageClassParameters_def Let_def fieldLoop_params del: fieldLoop.simps
        cong: option.case_cong)
qed

lemma nasStorageClassParameters_params:
  "fst (nasStorageClassParameters sc) k = someIfSet (nasParameterSpec sc k)"
  by (cases "nsc_VolumeAs sc = ''subpath''")
    (simp_all add: nasParameters_subpath nasParameters_filesystem nasParameterSpec_def someIfSet_def)

text \<open>
  C27: the parameters of a NAS storage class, for every specification: the parameter of a key is
  what the mode asks for, absent when the field is empty, and the fields reported as missing are
  exactly the required ones of the mode that are empty, in order.
\<close>

theorem nas_parameters:
  "nasStorageClassParameters sc =
     ((\<lambda>k. someIfSet (nasParameterSpec sc k)),
      filter (\<lambda>k. nasParameterSpec sc k = []) (nasRequired sc))"
  by (intro prod_eqI ext)
    (simp_all add: nasStorageClassParameters_params nasStorageClassParameters_missing)

section \<open>Reading the pod templates\<close>

lemma nasController_wellFormed:
  "podWellFormed (dep_PodSpec (controllerDeploymentSpec cr ''csi-nas-controller''
     (nasControllerContainers getenv cr pluginImage)))"
  by (simp add: podWellFormed_def controllerDeploymentSpec_def nasControllerContainers_def
      socketMount_def Let_def)

lemma nasNodePod_wellFormed: "podWellFormed (nasNodePod getenv cr pluginImage)"
  by (simp add: podWellFormed_def nasNodePod_def nasNodeContainers_def)

lemma nasNodePod_probes: "probesRegistrar (nasNodePod getenv cr pluginImage)"
  by (simp add: probesRegistrar_def nasNodePod_def nasNodeContainers_def argPorts_def
      registrarHealthzStartupProbe_def map_filter_simps showNat.simps showDigit_def)

lemma nasNodePod_ports:
  assumes "''SERVICE_PORT'' \<notin> set (map evs_Name (spec_ExtraEnv (cr_Spec cr)))"
  shows "hostPorts (nasNodePod getenv cr pluginImage) = [''11261'', ''9811'', ''9809'']"
proof -
  have "effectiveEnv (extraEnv cr) ''SERVICE_PORT'' = None"
    using assms by (auto simp: effectiveEnv_None extraEnv_map)
  then show ?thesis
    by (simp add: hostPorts_def containerPorts_def nasNodePod_def nasNodeContainers_def argPorts_def
        map_filter_simps effectiveEnv_driverEnv effectiveEnv_Cons effectiveEnv_Nil)
qed

interpretation nas_node: node_plugin nasNodePod "[''11261'', ''9811'', ''9809'']"
  by (unfold_locales, rule nasNodePod_wellFormed, rule nasNodePod_probes, simp add: nasNodePod_def)
    (rule nasNodePod_ports)

interpretation nodes: node_plugins diskNodePod "[''11260'', ''9810'', ''9808'']"
    nasNodePod "[''11261'', ''9811'', ''9809'']"
  by unfold_locales simp

text \<open>
  C29: both node DaemonSets run on the host network of every node.  Unless the user sets
  \<open>SERVICE_PORT\<close> through \<open>extraEnv\<close>, the six ports their containers listen on (plugin, registrar,
  liveness probe of each) are pairwise distinct.
\<close>

theorem host_ports_disjoint:
  assumes "''SERVICE_PORT'' \<notin> set (map evs_Name (spec_ExtraEnv (cr_Spec cr)))"
  shows "distinct (hostPorts (diskNodePod getenv cr img) @ hostPorts (nasNodePod getenv cr img))"
  by (rule nodes.no_collision [OF assms])

theorem host_ports_disjoint_witness:
  "distinct (hostPorts (diskNodePod (\<lambda>_. []) sampleCR ''plugin:v1'') @
     hostPorts (nasNodePod (\<lambda>_. []) sampleCR ''plugin:v1''))"
  by (rule host_ports_disjoint) (simp add: sampleExtraEnv_def)

text \<open>
  C31: the exception is real.  An extra variable \<open>SERVICE_PORT\<close> reaches the plugin containers of
  both DaemonSets after the operator's own value, so both listen on the same host port.
\<close>

theorem service_port_override_collides:
  assumes "find (\<lambda>e. evs_Name e = ''SERVICE_PORT'') (rev (spec_ExtraEnv (cr_Spec cr))) = Some e"
  shows "\<not> distinct (hostPorts (diskNodePod getenv cr img) @ hostPorts (nasNodePod getenv cr img))"
proof -
  have "find P (map envVarOf es) = map_option envVarOf (find (\<lambda>e. P (envVarOf e)) es)" for P es
    by (induction es) auto
  then have "effectiveEnv (extraEnv cr) ''SERVICE_PORT'' = Some (envVarOf e)"
    using assms by (simp add: effectiveEnv_def extraEnv_map rev_map)
  then have "ev_Value (envVarOf e) \<in> set (hostPorts (diskNodePod getenv cr img))"
    and "ev_Value (envVarOf e) \<in> set (hostPorts (nasNodePod getenv cr img))"
    by (simp_all add: hostPorts_def containerPorts_def diskNodePod_def diskNodeContainers_def
        nasNodePod_def nasNodeContainers_def effectiveEnv_driverEnv effectiveEnv_Cons)
  then show ?thesis by auto
qed

theorem service_port_override_collides_witness:
  "\<exists>cr. spec_ExtraEnv (cr_Spec cr) =
       [\<lparr>evs_Name = ''SERVICE_PORT'', evs_Value = ''12000'', evs_SecretKeyRef = None\<rparr>] \<and>
     \<not> distinct (hostPorts (diskNodePod (\<lambda>_. []) cr ''plugin:v1'') @
       hostPorts (nasNodePod (\<lambda>_. []) cr ''plugin:v1''))"
proof (intro exI conjI)
  let ?e = "\<lparr>evs_Name = ''SERVICE_PORT'', evs_Value = ''12000'', evs_SecretKeyRef = None\<rparr>"
  let ?cr = "sampleCR\<lparr>cr_Spec := sampleSpec\<lparr>spec_ExtraEnv := [?e]\<rparr>\<rparr>"
  show "spec_ExtraEnv (cr_Spec ?cr) = [?e]" by simp
  show "\<not> distinct (hostPorts (diskNodePod (\<lambda>_. []) ?cr ''plugin:v1'') @
       hostPorts (nasNodePod (\<lambda>_. []) ?cr ''plugin:v1''))"
    by (rule service_port_override_collides [where e = ?e]) simp
qed

text \<open>
  C28: the four pod templates are ones the API server accepts, for every specification: container
  names and volume names are distinct, no container mounts a path twice, and every mount refers
  to a volume of its pod.  In both node pods the start-up probe asks the port on which the
  registrar container of the same pod serves its health.
\<close>

theorem pods_well_formed:
  "list_all podWellFormed
     [dep_PodSpec (controllerDeploymentSpec cr ''csi-disk-controller'' (diskControllerContainers getenv cr img)),
      dep_PodSpec (controllerDeploymentSpec cr ''csi-nas-controller'' (nasControllerContainers getenv cr img)),
      diskNodePod getenv cr img, nasNodePod getenv cr img] \<and>
   list_all probesRegistrar [diskNodePod getenv cr img, nasNodePod getenv cr img]"
  by (simp add: diskController_wellFormed nasController_wellFormed disk_node.pod_wellFormed
      nas_node.pod_wellFormed disk_node.pod_probes nas_node.pod_probes)

section \<open>Contracts\<close>

lemma nas_refs [object_simps]:
  "objRef nasCSIDriver = (KCSIDriver, [], nasDriverName)"
  "objRef (nasControllerDeployment g cr img) = (KDeployment, operatorNamespace, ''csi-nas-controller'')"
  "objRef (nasNodeDaemonSet g cr img) = (KDaemonSet, operatorNamespace, ''csi-nas-node'')"
  "objRef (nasStorageClass nsc) = (KStorageClass, [], nsc_Name nsc)"
  by (simp_all add: nasCSIDriver_def nasControllerDeployment_def nasNodeDaemonSet_def Let_def
      nasStorageClass_def object_simps)

lemma nas_kinds [object_simps]:
  "objKind nasCSIDriver = KCSIDriver" "objKind (nasControllerDeployment g cr img) = KDeployment"
  "objKind (nasNodeDaemonSet g cr img) = KDaemonSet" "objKind (nasStorageClass nsc) = KStorageClass"
  by (simp_all add: objKind_ref nas_refs)

lemma nas_creatable [object_simps]:
  "creatable (obj_body nasCSIDriver)" "creatable (obj_body (nasControllerDeployment g cr img))"
  "creatable (obj_body (nasNodeDaemonSet g cr img))" "creatable (obj_body (nasStorageClass sc))"
  by (simp_all add: creatable_def nasCSIDriver_def nasControllerDeployment_def nasNodeDaemonSet_def
      Let_def nasStorageClass_def object_simps)

lemma nas_fresh [object_simps]:
  "owners nasCSIDriver = []" "owners (nasControllerDeployment g cr img) = []"
  "owners (nasNodeDaemonSet g cr img) = []" "owners (nasStorageClass nsc) = []"
  "resourceVersion nasCSIDriver = []" "resourceVersion (nasControllerDeployment g cr img) = []"
  "resourceVersion (nasNodeDaemonSet g cr img) = []" "resourceVersion (nasStorageClass nsc) = []"
  by (simp_all add: nasCSIDriver_def nasControllerDeployment_def nasNodeDaemonSet_def Let_def
      nasStorageClass_def object_simps)

definition nasClassNames :: "AlibabaCloudCSIDriver \<Rightarrow> string list" where
  "nasClassNames cr = map nsc_Name (nas_StorageClasses (spec_NAS (cr_Spec cr)))"

definition adoptedNAS :: "AlibabaCloudCSIDriver \<Rightarrow> ObjectRef set" where
  "adoptedNAS cr = {(KCSIDriver, [], nasDriverName)} \<union> classRefs (nasClassNames cr)"

definition replacedNAS :: "ObjectRef set" where
  "replacedNAS = {(KDeployment, operatorNamespace, ''csi-nas-controller''),
     (KDaemonSet, operatorNamespace, ''csi-nas-node'')}"

definition managedNAS :: "AlibabaCloudCSIDriver \<Rightarrow> ObjectRef set" where
  "managedNAS cr = adoptedNAS cr \<union> replacedNAS \<union> profileRefs (nasClassNames cr)"

text \<open>What CDI is told about a NAS class.\<close>

definition nasProfilePatch :: "AlibabaCloudCSIDriver \<Rightarrow> json" where
  "nasProfilePatch cr =
     storageProfilePatch (nas_StorageProfile (spec_NAS (cr_Spec cr))) nasClaimPropertySets []"

lemma nasClassLoop_profiles:
  assumes "sp_Patch (nas_StorageProfile (spec_NAS (cr_Spec cr)))" and "sc \<in> set scs"
  shows "does (handlesProfile (nsc_Name sc) (nasProfilePatch cr)) (nasClassLoop r cr i scs)"
  using assms(2)
proof (induction scs arbitrary: i)
  case (Cons sc' scs)
  show ?case
  proof (cases "sc = sc'")
    case True
    show ?thesis
      unfolding nasClassLoop.simps Let_def True nasProfilePatch_def
      by (rule does_then, rule does_first, rule ensureStorageProfile_does [OF assms(1)])
  next
    case False
    with Cons show ?thesis
      unfolding nasClassLoop.simps Let_def by (intro does_then Cons.IH) simp
  qed
qed simp

lemma ensureNASDriver_profiles:
  assumes "sp_Patch (nas_StorageProfile (spec_NAS (cr_Spec cr)))"
    and "sc \<in> set (nas_StorageClasses (spec_NAS (cr_Spec cr)))"
  shows "does (handlesProfile (nsc_Name sc) (nasProfilePatch cr)) (ensureNASDriver r cr)"
  unfolding ensureNASDriver_def Let_def by (intro does_then nasClassLoop_profiles assms)

context operator_libs
begin

lemma nasClassLoop_managed:
  assumes "classRefs (map nsc_Name scs) \<subseteq> T" and "profileRefs (map nsc_Name scs) \<subseteq> T"
  shows "confined (managed r cr T) (nasClassLoop r cr i scs)"
  using assms
proof (induction scs arbitrary: i)
  case (Cons sc scs)
  then show ?case
    unfolding nasClassLoop.simps ensureNASStorageClass_def Let_def
    by (intro contract_rules contracts)
      (auto simp: object_simps classRefs_def profileRefs_def)
qed (simp add: contract_rules)

lemma nasClassLoop_quiet: "confined (\<lambda>ev. \<not> sccFound ev) (nasClassLoop r cr i scs)"
  by (induction scs arbitrary: i)
    (simp_all add: Let_def ensureNASStorageClass_def confined_check helpers_quiet optional_quiet
      confined_Ret)

lemma ensureNASDriver_quiet: "confined (\<lambda>ev. \<not> sccFound ev) (ensureNASDriver r cr)"
  unfolding ensureNASDriver_def ensureNASCSIDriver_def ensureNASControllerDeployment_def
    ensureNASNodeDaemonSet_def Let_def
  by (intro confined_check helpers_quiet nasClassLoop_quiet)

lemma nasClassLoop_updating: "updating minimalUpdate (nasClassLoop r cr i scs)"
  by (induction scs arbitrary: i)
    (simp_all add: Let_def ensureNASStorageClass_def updating_check createOrAdopt_minimal
      optional_updating updating_Ret nas_kinds)

lemma ensureNASDriver_updating: "updating minimalUpdate (ensureNASDriver r cr)"
  unfolding ensureNASDriver_def ensureNASCSIDriver_def ensureNASControllerDeployment_def
    ensureNASNodeDaemonSet_def Let_def
  by (intro updating_check createOrAdopt_minimal createOrUpdate_minimal nasClassLoop_updating)
    (simp_all add: nas_kinds)

lemma nasClasses_managed:
  "confined (managed r cr (managedNAS cr))
     (nasClassLoop r cr i (nas_StorageClasses (spec_NAS (cr_Spec cr))))"
  by (rule nasClassLoop_managed) (auto simp: managedNAS_def adoptedNAS_def nasClassNames_def)

lemma ensureNASDriver_managed [contracts]:
  "confined (managed r cr (managedNAS cr)) (ensureNASDriver r cr)"
  unfolding ensureNASDriver_def ensureNASCSIDriver_def ensureNASControllerDeployment_def
    ensureNASNodeDaemonSet_def Let_def
  by (intro contract_rules contracts nasClasses_managed)
    (auto simp: object_simps managedNAS_def adoptedNAS_def replacedNAS_def)

end

context kube_operator
begin

lemma nasClassLoop_establishes:
  "establishes cr (nasClassLoop r cr i scs) (classRefs (map nsc_Name scs))"
proof (induction scs arbitrary: i)
  case (Cons sc scs)
  let ?T = "classRefs (map nsc_Name (sc # scs)) \<union> profileRefs (map nsc_Name (sc # scs))"
  have loop: "confined (ownedWrites r cr) (nasClassLoop r cr j scs)" for j
    by (rule managed_ownedWrites [where T = ?T], rule nasClassLoop_managed)
      (auto simp: profileRefs_def)
  have profile: "confined (ownedWrites r cr) (ensureStorageProfile (nsc_Name sc) cfg sets snap)"
    for cfg sets snap
    by (rule managed_ownedWrites [where T = ?T], rule ensureStorageProfile_managed)
      (simp add: profileRefs_def)
  have "establishes cr (nasClassLoop r cr i (sc # scs))
      ({objRef (nasStorageClass sc)} \<union> ({} \<union> classRefs (map nsc_Name scs)))"
    unfolding nasClassLoop.simps Let_def ensureNASStorageClass_def
    by (intro establishes_check establishes_adopt establishes_nothing Cons.IH loop profile
        confined_check) (auto simp: object_simps)
  then show ?case by (simp add: object_simps)
qed (simp add: establishes_nothing)

lemma ensureNASDriver_establishes [contracts]:
  "establishes cr (ensureNASDriver r cr) (adoptedNAS cr \<union> replacedNAS)"
proof -
  let ?d = "nasControllerDeployment (rec_Getenv r) cr (pluginImageFor cr)"
  let ?n = "nasNodeDaemonSet (rec_Getenv r) cr (pluginImageFor cr)"
  have "establishes cr (ensureNASDriver r cr) ({objRef nasCSIDriver} \<union> ({objRef ?d} \<union>
      ({objRef ?n} \<union> classRefs (nasClassNames cr))))"
    unfolding ensureNASDriver_def ensureNASCSIDriver_def ensureNASControllerDeployment_def
      ensureNASNodeDaemonSet_def Let_def nasClassNames_def
    by (intro establishes_check establishes_adopt establishes_update
        nasClassLoop_establishes confined_check managed_ownedWrites [where T = "managedNAS cr"]
        createOrUpdate_managed nasClasses_managed)
      (auto simp: object_simps managedNAS_def replacedNAS_def)
  then show ?thesis
    by (rule establishes_mono) (auto simp: object_simps adoptedNAS_def replacedNAS_def)
qed

lemma ensureNASDriver_provides:
  shows ensureNASDriver_provides_deployment: "provides (ensureNASDriver r cr)
      (KDeployment, operatorNamespace, ''csi-nas-controller'')
      (asDesired r cr (nasControllerDeployment (rec_Getenv r) cr (pluginImageFor cr)))"
    and ensureNASDriver_provides_daemonset: "provides (ensureNASDriver r cr)
      (KDaemonSet, operatorNamespace, ''csi-nas-node'')
      (asDesired r cr (nasNodeDaemonSet (rec_Getenv r) cr (pluginImageFor cr)))"
proof -
  let ?d = "nasControllerDeployment (rec_Getenv r) cr (pluginImageFor cr)"
  let ?n = "nasNodeDaemonSet (rec_Getenv r) cr (pluginImageFor cr)"
  note d = provides_update [of cr ?d, unfolded nas_refs]
  note n = provides_update [of cr ?n, unfolded nas_refs]
  note parts = ensureNASDriver_def ensureNASCSIDriver_def ensureNASControllerDeployment_def
      ensureNASNodeDaemonSet_def Let_def
  let ?T = "managedNAS cr - {objRef ?d}" and ?T' = "managedNAS cr - {objRef ?n}"
  show "provides (ensureNASDriver r cr) (KDeployment, operatorNamespace, ''csi-nas-controller'')
      (asDesired r cr ?d)"
    unfolding parts
    by (rule provides_then, rule provides_first [OF d, where T = ?T],
        rule managed_writesWithin [where r = r and cr = cr], intro confined_check
        createOrUpdate_managed nasClassLoop_managed)
      (auto simp: object_simps managedNAS_def adoptedNAS_def replacedNAS_def classRefs_def
        profileRefs_def nasClassNames_def)
  show "provides (ensureNASDriver r cr) (KDaemonSet, operatorNamespace, ''csi-nas-node'')
      (asDesired r cr ?n)"
    unfolding parts
    by (rule provides_then, rule provides_then, rule provides_first [OF n, where T = ?T'],
        rule managed_writesWithin [where r = r and cr = cr], rule nasClassLoop_managed)
      (auto simp: object_simps managedNAS_def adoptedNAS_def replacedNAS_def classRefs_def
        profileRefs_def nasClassNames_def)
qed

end

context reliable_operator
begin

lemma nasClassLoop_completes:
  assumes "cr_Namespace cr = []" and "served KStorageClass"
    and "\<And>ob. objRef ob \<in> classRefs (map nsc_Name scs) \<Longrightarrow> accepts ob"
  shows "completes cr (nasClassLoop r cr i scs) (classRefs (map nsc_Name scs))"
  using assms(3)
proof (induction scs arbitrary: i)
  case (Cons sc scs)
  let ?T = "classRefs (map nsc_Name (sc # scs)) \<union> profileRefs (map nsc_Name (sc # scs))"
  have "completes cr (nasClassLoop r cr i (sc # scs))
      ({objRef (nasStorageClass sc)} \<union> ({} \<union> classRefs (map nsc_Name scs)))"
    unfolding nasClassLoop.simps Let_def ensureNASStorageClass_def
    by (intro completes_check completes_adopt ensureStorageProfile_completes Cons.IH
        managed_ownedWrites [where T = ?T] createOrAdopt_managed ensureStorageProfile_managed)
      (use assms(1,2) Cons.prems in \<open>auto simp: object_simps profileRefs_def classRefs_kind\<close>)
  then show ?case by (simp add: object_simps)
qed (simp add: completes_Ret)

lemma ensureNASDriver_completes [contracts]:
  assumes "cr_Namespace cr = []"
    and "\<And>kd. kd \<in> {KCSIDriver, KDeployment, KDaemonSet, KStorageClass} \<Longrightarrow> served kd"
    and "\<And>ob. objRef ob \<in> managedNAS cr \<Longrightarrow> accepts ob"
  shows "completes cr (ensureNASDriver r cr) (adoptedNAS cr)"
proof -
  have "completes cr (ensureNASDriver r cr) ({objRef nasCSIDriver} \<union> ({} \<union> ({} \<union>
      classRefs (nasClassNames cr))))"
    unfolding ensureNASDriver_def ensureNASCSIDriver_def ensureNASControllerDeployment_def
      ensureNASNodeDaemonSet_def Let_def nasClassNames_def
    by (intro completes_check completes_adopt completes_update
        nasClassLoop_completes managed_ownedWrites [where T = "managedNAS cr"]
        createOrUpdate_managed createOrAdopt_managed)
      (use assms in \<open>auto simp: object_simps managedNAS_def adoptedNAS_def replacedNAS_def
        nasClassNames_def classRefs_kind objKind_ref\<close>)
  then show ?thesis by (rule completes_mono) (simp add: object_simps adoptedNAS_def)
qed

end

end
