(* ===== verification/Reconcile.thy ===== *)
theory Reconcile
  imports Nas
begin

text \<open>
  The reconciler itself: \<open>Reconcile\<close> reads the custom resource, ensures the access-control objects
  and the enabled drivers in order, stopping at the first error, and reports the outcome in the
  status.  \<open>ensureAll\<close> and \<open>finalStatus\<close> say the same without flags, and \<open>Reconcile_eq\<close> shows that
  the two are the same program.
\<close>

section \<open>Conditions\<close>

definition conditionsAt :: "nat \<Rightarrow> bool \<Rightarrow> goerror option \<Rightarrow> CSIDriverCondition list" where
  "conditionsAt now allReady err = (case err of
     Some e \<Rightarrow>
       [ \<lparr>cond_Type = ConditionAvailable, cond_Status = ''False'', cond_Reason = ''ReconcileError'',
          cond_Message = Error e, cond_LastTransitionTime = now\<rparr>,
         \<lparr>cond_Type = ConditionDegraded, cond_Status = ''True'', cond_Reason = ''ReconcileError'',
          cond_Message = Error e, cond_LastTransitionTime = now\<rparr>,
         \<lparr>cond_Type = ConditionProgressing, cond_Status = ''False'', cond_Reason = ''Error'',
          cond_Message = [], cond_LastTransitionTime = now\<rparr> ]
   | None \<Rightarrow> (let avail = (if allReady then ''True'' else ''False'') in
       [ \<lparr>cond_Type = ConditionAvailable, cond_Status = avail, cond_Reason = ''AsExpected'',
          cond_Message = [], cond_LastTransitionTime = now\<rparr>,
         \<lparr>cond_Type = ConditionDegraded, cond_Status = ''False'', cond_Reason = ''AsExpected'',
          cond_Message = [], cond_LastTransitionTime = now\<rparr>,
         \<lparr>cond_Type = ConditionProgressing, cond_Status = ''False'', cond_Reason = ''AsExpected'',
          cond_Message = [], cond_LastTransitionTime = now\<rparr> ]))"

definition buildConditions :: "bool \<Rightarrow> goerror option \<Rightarrow> CSIDriverCondition list prog" where
  "buildConditions allReady err = Now (\<lambda>now. Ret (conditionsAt now allReady err))"

section \<open>The reconciler\<close>

text \<open>
  Steps 2 and 3: when there is no error yet and the driver is enabled, ensure it; the result is
  the error so far and whether the driver is ready.
\<close>

definition driverStep :: "goerror option \<Rightarrow> bool \<Rightarrow> goerror option prog \<Rightarrow> string \<Rightarrow>
    (goerror option \<times> bool) prog" where
  "driverStep reconcileErr enabled ensure prefix =
     (if reconcileErr = None \<and> enabled
      then bind ensure (\<lambda>err. case err of
          Some err \<Rightarrow> Ret (Some (Wrapped prefix err), False)
        | None \<Rightarrow> Ret (reconcileErr, True))
      else Ret (reconcileErr, False))"

text \<open>Step 5.  The error of the status patch is logged and dropped.\<close>

definition updateStatus :: "AlibabaCloudCSIDriver \<Rightarrow> goerror option \<Rightarrow> bool \<Rightarrow> bool \<Rightarrow> bool \<Rightarrow>
    goerror option prog" where
  "updateStatus cr reconcileErr diskReady nasReady ossReady =
     (let allReady = (\<not> disk_Enabled (spec_Disk (cr_Spec cr)) \<or> diskReady) \<and>
        (\<not> nas_Enabled (spec_NAS (cr_Spec cr)) \<or> nasReady)
      in bind (buildConditions allReady reconcileErr) (\<lambda>conditions.
        let cr' = cr\<lparr>cr_Status := \<lparr>st_ObservedGeneration = cr_Generation cr,
              st_Conditions = conditions, st_DiskDriverReady = diskReady,
              st_NASDriverReady = nasReady, st_OSSDriverReady = ossReady\<rparr>\<rparr>
        in StatusPatch cr cr' (\<lambda>err. Ret reconcileErr)))"

definition Reconcile :: "Reconciler \<Rightarrow> NamespacedName \<Rightarrow> goerror option prog" where
  "Reconcile r req = GetCR req (\<lambda>res. case res of
       Inl err \<Rightarrow> if err_Reason err = NotFound then Ret None else Ret (Some (LibErr err))
     | Inr cr \<Rightarrow>
         bind (ensureRBAC r cr) (\<lambda>err.
         let reconcileErr = map_option (Wrapped ''RBAC: '') err in
         bind (driverStep reconcileErr (disk_Enabled (spec_Disk (cr_Spec cr)))
             (ensureDiskDriver r cr) ''disk driver: '') (\<lambda>(reconcileErr, diskReady).
         bind (driverStep reconcileErr (nas_Enabled (spec_NAS (cr_Spec cr)))
             (ensureNASDriver r cr) ''nas driver: '') (\<lambda>(reconcileErr, nasReady).
         let ossReady = False in
         updateStatus cr reconcileErr diskReady nasReady ossReady))))"

section \<open>Without flags\<close>

definition ensureAll :: "Reconciler \<Rightarrow> AlibabaCloudCSIDriver \<Rightarrow> goerror option prog" where
  "ensureAll r cr =
     check (ensureRBAC r cr) (Wrapped ''RBAC: '') (
     check (if disk_Enabled (spec_Disk (cr_Spec cr)) then ensureDiskDriver r cr else Ret None)
       (Wrapped ''disk driver: '') (
     check (if nas_Enabled (spec_NAS (cr_Spec cr)) then ensureNASDriver r cr else Ret None)
       (Wrapped ''nas driver: '') (
     Ret None)))"

definition finalStatus :: "AlibabaCloudCSIDriver \<Rightarrow> goerror option \<Rightarrow> nat \<Rightarrow> AlibabaCloudCSIDriverStatus"
  where
  "finalStatus cr err now = \<lparr>st_ObservedGeneration = cr_Generation cr,
     st_Conditions = conditionsAt now True err,
     st_DiskDriverReady = (disk_Enabled (spec_Disk (cr_Spec cr)) \<and>
       (case err of None \<Rightarrow> True | Some (Wrapped prefix e) \<Rightarrow> prefix = ''nas driver: '' | _ \<Rightarrow> False)),
     st_NASDriverReady = (nas_Enabled (spec_NAS (cr_Spec cr)) \<and> err = None),
     st_OSSDriverReady = False\<rparr>"

definition report :: "AlibabaCloudCSIDriver \<Rightarrow> goerror option \<Rightarrow> goerror option prog" where
  "report cr err = Now (\<lambda>now.
     StatusPatch cr (cr\<lparr>cr_Status := finalStatus cr err now\<rparr>) (\<lambda>_. Ret err))"

lemma bind_eqI: "(\<And>a. f a = g a) \<Longrightarrow> bind p f = bind p g"
  by (rule arg_cong [where f = "bind p"]) (rule ext)

lemma driverStep_error [simp]: "driverStep (Some e) enabled p prefix = Ret (Some e, False)"
  by (simp add: driverStep_def)

lemma driverStep_first:
  "bind (driverStep None enabled p prefix) f = bind (if enabled then p else Ret None)
    (\<lambda>e. case e of None \<Rightarrow> f (None, enabled) | Some e \<Rightarrow> f (Some (Wrapped prefix e), False))"
  by (auto simp: driverStep_def intro!: bind_eqI split: option.split)

lemma updateStatus_report:
  "diskReady = disk_Enabled (spec_Disk (cr_Spec cr)) \<Longrightarrow> nasReady = nas_Enabled (spec_NAS (cr_Spec cr)) \<Longrightarrow>
     updateStatus cr None diskReady nasReady False = report cr None"
  "diskReady = disk_Enabled (spec_Disk (cr_Spec cr)) \<Longrightarrow>
     updateStatus cr (Some (Wrapped ''nas driver: '' e)) diskReady False False =
     report cr (Some (Wrapped ''nas driver: '' e))"
  "prefix \<noteq> ''nas driver: '' \<Longrightarrow>
     updateStatus cr (Some (Wrapped prefix e)) False False False = report cr (Some (Wrapped prefix e))"
  by (simp_all add: updateStatus_def report_def buildConditions_def finalStatus_def Let_def
      conditionsAt_def)

lemma Reconcile_eq:
  "Reconcile r req = GetCR req (\<lambda>res. case res of
       Inl err \<Rightarrow> if err_Reason err = NotFound then Ret None else Ret (Some (LibErr err))
     | Inr cr \<Rightarrow> bind (ensureAll r cr) (report cr))"
  unfolding Reconcile_def ensureAll_def check_def
  by (intro arg_cong [where f = "GetCR req"] ext)
    (auto simp: driverStep_first updateStatus_report intro!: bind_eqI split: sum.split option.split)

section \<open>Traces\<close>

lemma exec_report:
  "exec (report cr err) tr err' \<longleftrightarrow> err' = err \<and> (\<exists>now res. tr =
     [EvNow now, EvStatusPatch cr (cr\<lparr>cr_Status := finalStatus cr err now\<rparr>) res])"
  by (auto simp: report_def exec_iffs)

lemma exec_bind_report:
  "exec (bind p (report cr)) tr err \<longleftrightarrow> (\<exists>tr1 now res. exec p tr1 err \<and>
     tr = tr1 @ [EvNow now, EvStatusPatch cr (cr\<lparr>cr_Status := finalStatus cr err now\<rparr>) res])"
  unfolding exec_bind_iff exec_report by blast

lemma exec_Reconcile:
  "exec (Reconcile r req) tr err \<longleftrightarrow>
    (\<exists>e. tr = [EvGetCR req (Inl e)] \<and>
       err = (if err_Reason e = NotFound then None else Some (LibErr e))) \<or>
    (\<exists>cr tr1 now res. crKey cr = req \<and> exec (ensureAll r cr) tr1 err \<and>
       tr = EvGetCR req (Inr cr) # tr1 @
         [EvNow now, EvStatusPatch cr (cr\<lparr>cr_Status := finalStatus cr err now\<rparr>) res])"
  unfolding Reconcile_eq by (auto simp: exec_iffs split_sum_ex exec_bind_report)

lemma exec_check_iff:
  "exec (check p wrap rest) tr err \<longleftrightarrow>
    (\<exists>e. exec p tr (Some e) \<and> err = Some (wrap e)) \<or>
    (\<exists>tr1 tr2. tr = tr1 @ tr2 \<and> exec p tr1 None \<and> exec rest tr2 err)"
  unfolding check_def exec_bind_iff by (auto simp: split_option_ex)

text \<open>The phases, in order, and the error each of them reports.\<close>

lemma exec_ensureAll:
  "exec (ensureAll r cr) tr err \<longleftrightarrow>
    (\<exists>e. err = Some (Wrapped ''RBAC: '' e) \<and> exec (ensureRBAC r cr) tr (Some e)) \<or>
    (\<exists>tr1 tr2. tr = tr1 @ tr2 \<and> exec (ensureRBAC r cr) tr1 None \<and>
      ((\<exists>e. disk_Enabled (spec_Disk (cr_Spec cr)) \<and> err = Some (Wrapped ''disk driver: '' e) \<and>
          exec (ensureDiskDriver r cr) tr2 (Some e)) \<or>
       (\<exists>tr3 tr4. tr2 = tr3 @ tr4 \<and>
          (if disk_Enabled (spec_Disk (cr_Spec cr)) then exec (ensureDiskDriver r cr) tr3 None
           else tr3 = []) \<and>
          (if nas_Enabled (spec_NAS (cr_Spec cr))
           then (exec (ensureNASDriver r cr) tr4 None \<and> err = None) \<or>
             (\<exists>e. exec (ensureNASDriver r cr) tr4 (Some e) \<and> err = Some (Wrapped ''nas driver: '' e))
           else tr4 = [] \<and> err = None))))"
  unfolding ensureAll_def exec_check_iff by (auto split: if_splits)

section \<open>A driver as the reconciler sees it\<close>

text \<open>
  The interface of the two drivers: the operation, whether it is enabled, the objects it puts in
  place and those it may write.
\<close>

locale csi_driver = kube_operator A objs crs r
  for A :: "'w api" and objs and crs and r +
  fixes enabled :: "AlibabaCloudCSIDriver \<Rightarrow> bool"
    and ensure :: "AlibabaCloudCSIDriver \<Rightarrow> goerror option prog"
    and places :: "AlibabaCloudCSIDriver \<Rightarrow> ObjectRef set"
    and writes :: "AlibabaCloudCSIDriver \<Rightarrow> ObjectRef set"
  assumes ensure_managed: "confined (managed r cr (writes cr)) (ensure cr)"
    and ensure_establishes: "establishes cr (ensure cr) (places cr)"
    and ensure_quiet: "confined (\<lambda>ev. \<not> sccFound ev) (ensure cr)"
    and places_owned: "ref \<in> places cr \<Longrightarrow> fst ref \<noteq> KNamespace"
    and writes_owned: "ref \<in> writes cr \<Longrightarrow> fst ref \<noteq> KNamespace"
begin

definition step :: "AlibabaCloudCSIDriver \<Rightarrow> goerror option prog" where
  "step cr = (if enabled cr then ensure cr else Ret None)"

definition stepPlaces :: "AlibabaCloudCSIDriver \<Rightarrow> ObjectRef set" where
  "stepPlaces cr = (if enabled cr then places cr else {})"

definition stepWrites :: "AlibabaCloudCSIDriver \<Rightarrow> ObjectRef set" where
  "stepWrites cr = (if enabled cr then writes cr else {})"

lemma step_managed: "confined (managed r cr (stepWrites cr)) (step cr)"
  by (simp add: step_def stepWrites_def ensure_managed confined_Ret)

lemma step_establishes: "establishes cr (step cr) (stepPlaces cr)"
  by (simp add: step_def stepPlaces_def ensure_establishes establishes_nothing)

lemma step_quiet: "confined (\<lambda>ev. \<not> sccFound ev) (step cr)"
  by (simp add: step_def ensure_quiet confined_Ret)

lemma step_does: "enabled cr \<Longrightarrow> does P (ensure cr) \<Longrightarrow> does P (step cr)"
  by (simp add: step_def)

lemma stepPlaces_owned: "ref \<in> stepPlaces cr \<Longrightarrow> fst ref \<noteq> KNamespace"
  by (auto simp: stepPlaces_def dest: places_owned split: if_splits)

lemma step_namespace: "(KNamespace, n) \<notin> stepWrites cr"
  by (auto simp: stepWrites_def dest: writes_owned)

end

sublocale kube_operator < disk: csi_driver A objs crs r "\<lambda>cr. disk_Enabled (spec_Disk (cr_Spec cr))"
  "ensureDiskDriver r" "\<lambda>cr. adoptedDisk cr \<union> replacedDisk" managedDisk
  by (unfold_locales, rule ensureDiskDriver_managed, rule ensureDiskDriver_establishes,
      rule ensureDiskDriver_quiet)
    (auto simp: adoptedDisk_def replacedDisk_def managedDisk_def classRefs_def profileRefs_def)

sublocale kube_operator < nas: csi_driver A objs crs r "\<lambda>cr. nas_Enabled (spec_NAS (cr_Spec cr))"
  "ensureNASDriver r" "\<lambda>cr. adoptedNAS cr \<union> replacedNAS" managedNAS
  by (unfold_locales, rule ensureNASDriver_managed, rule ensureNASDriver_establishes,
      rule ensureNASDriver_quiet)
    (auto simp: adoptedNAS_def replacedNAS_def managedNAS_def classRefs_def profileRefs_def)

section \<open>What one reconciliation writes and establishes\<close>

definition managedAll :: "AlibabaCloudCSIDriver \<Rightarrow> ObjectRef set" where
  "managedAll cr = managedRBAC \<union>
     (if disk_Enabled (spec_Disk (cr_Spec cr)) then managedDisk cr else {}) \<union>
     (if nas_Enabled (spec_NAS (cr_Spec cr)) then managedNAS cr else {})"

definition placesAll :: "AlibabaCloudCSIDriver \<Rightarrow> ObjectRef set" where
  "placesAll cr = adoptedRBAC \<union>
     (if disk_Enabled (spec_Disk (cr_Spec cr)) then adoptedDisk cr \<union> replacedDisk else {}) \<union>
     (if nas_Enabled (spec_NAS (cr_Spec cr)) then adoptedNAS cr \<union> replacedNAS else {})"

text \<open>The objects another owner must not hold for the adoptions to succeed.\<close>

definition adoptedAll :: "AlibabaCloudCSIDriver \<Rightarrow> ObjectRef set" where
  "adoptedAll cr = managedRBAC \<union>
     (if disk_Enabled (spec_Disk (cr_Spec cr)) then adoptedDisk cr else {}) \<union>
     (if nas_Enabled (spec_NAS (cr_Spec cr)) then adoptedNAS cr else {})"

definition desiredWorkloads :: "Reconciler \<Rightarrow> AlibabaCloudCSIDriver \<Rightarrow> Object list" where
  "desiredWorkloads r cr =
     (if disk_Enabled (spec_Disk (cr_Spec cr))
      then [diskControllerDeployment (rec_Getenv r) cr (pluginImageFor cr),
        diskNodeDaemonSet (rec_Getenv r) cr (pluginImageFor cr)] else []) @
     (if nas_Enabled (spec_NAS (cr_Spec cr))
      then [nasControllerDeployment (rec_Getenv r) cr (pluginImageFor cr),
        nasNodeDaemonSet (rec_Getenv r) cr (pluginImageFor cr)] else [])"

definition controlledBy :: "Reconciler \<Rightarrow> AlibabaCloudCSIDriver \<Rightarrow> store \<Rightarrow> ObjectRef \<Rightarrow> bool" where
  "controlledBy r cr s ref \<longleftrightarrow>
     (case s ref of None \<Rightarrow> False | Some ob \<Rightarrow> lib_IsControlledBy r ob cr)"

lemma controlledBy_stored: "controlledBy r cr s ref \<Longrightarrow> \<exists>ob. s ref = Some ob"
  by (cases "s ref") (simp_all add: controlledBy_def)

definition hasDesired :: "Reconciler \<Rightarrow> AlibabaCloudCSIDriver \<Rightarrow> store \<Rightarrow> Object \<Rightarrow> bool" where
  "hasDesired r cr s d \<longleftrightarrow>
     (case s (objRef d) of None \<Rightarrow> False | Some ob \<Rightarrow> asDesired r cr d ob)"

text \<open>The StorageProfiles that are to be patched, with the patch.\<close>

definition desiredProfiles :: "AlibabaCloudCSIDriver \<Rightarrow> (string \<times> json) list" where
  "desiredProfiles cr =
     (if disk_Enabled (spec_Disk (cr_Spec cr)) \<and> sp_Patch (disk_StorageProfile (spec_Disk (cr_Spec cr)))
      then map (\<lambda>sc. (dsc_Name sc, diskProfilePatch cr sc)) (disk_StorageClasses (spec_Disk (cr_Spec cr)))
      else []) @
     (if nas_Enabled (spec_NAS (cr_Spec cr)) \<and> sp_Patch (nas_StorageProfile (spec_NAS (cr_Spec cr)))
      then map (\<lambda>sc. (nsc_Name sc, nasProfilePatch cr)) (nas_StorageClasses (spec_NAS (cr_Spec cr)))
      else [])"

definition wantsSnapshots :: "AlibabaCloudCSIDriver \<Rightarrow> bool" where
  "wantsSnapshots cr \<longleftrightarrow> disk_Enabled (spec_Disk (cr_Spec cr)) \<and>
     snap_Enabled (disk_Snapshot (spec_Disk (cr_Spec cr)))"

text \<open>
  \<open>inPlace r cr s tr s'\<close>: what a reconciliation without error leaves when it sends the requests
  \<open>tr\<close> and takes the objects from \<open>s\<close> to \<open>s'\<close>.  The objects of \<open>placesAll\<close> are controlled by
  the resource and the workloads are the desired ones; the privileged pods are admitted by the
  binding of the security context constraint where the requests found that API, and by the
  namespace otherwise, if it existed.  The snapshot class exists, and is controlled by the
  resource if the run created it, unless the server said that its API is not installed.  Every
  StorageProfile was patched, or found missing.
\<close>

definition inPlace :: "Reconciler \<Rightarrow> AlibabaCloudCSIDriver \<Rightarrow> store \<Rightarrow> event list \<Rightarrow> store \<Rightarrow> bool"
  where
  "inPlace r cr s tr s' \<longleftrightarrow> (\<forall>ref \<in> placesAll cr. controlledBy r cr s' ref) \<and>
     list_all (hasDesired r cr s') (desiredWorkloads r cr) \<and>
     (if sccDetected tr then controlledBy r cr s' (objRef sccBinding)
      else s (KNamespace, [], operatorNamespace) \<noteq> None \<longrightarrow> namespaceAdmits s') \<and>
     (wantsSnapshots cr \<longrightarrow> apiMissing (snapshotClassRef cr) tr \<or>
        (s' (snapshotClassRef cr) \<noteq> None \<and>
         (s (snapshotClassRef cr) = None \<longrightarrow> controlledBy r cr s' (snapshotClassRef cr)))) \<and>
     list_all (\<lambda>(name, patch). list_ex (handlesProfile name patch) tr) (desiredProfiles cr)"

context operator_libs
begin

lemma ensureAll_managed: "confined (managed r cr (managedAll cr)) (ensureAll r cr)"
  unfolding ensureAll_def
  by (intro confined_check confined_if confined_Ret managed_subset [OF ensureRBAC_managed]
      managed_subset [OF ensureDiskDriver_managed] managed_subset [OF ensureNASDriver_managed])
    (auto simp: managedAll_def)

lemma ensureAll_updating: "updating minimalUpdate (ensureAll r cr)"
  unfolding ensureAll_def
  by (intro updating_check updating_if updating_Ret ensureRBAC_updating ensureDiskDriver_updating
      ensureNASDriver_updating)

end

context kube_operator
begin

lemma controlledBy_in: "controlledIn w cr ref = controlledBy r cr (objs w) ref"
  by (simp add: controlledIn_def controlledBy_def split: option.split)

lemma ensureAll_steps: "ensureAll r cr = check (ensureRBAC r cr) (Wrapped ''RBAC: '')
   (check (disk.step cr) (Wrapped ''disk driver: '') (check (nas.step cr) (Wrapped ''nas driver: '')
     (Ret None)))"
  by (simp add: ensureAll_def disk.step_def nas.step_def)

lemma drivers_managed:
  "confined (managed r cr (disk.stepWrites cr \<union> nas.stepWrites cr))
     (check (disk.step cr) wrap (check (nas.step cr) wrap' (Ret None)))"
  by (intro contract_rules managed_subset [OF disk.step_managed] managed_subset [OF nas.step_managed])
    auto

lemma ensureAll_establishes: "establishes cr (ensureAll r cr) (placesAll cr)"
proof -
  have "establishes cr (ensureAll r cr) (adoptedRBAC \<union> (disk.stepPlaces cr \<union> (nas.stepPlaces cr \<union> {})))"
    unfolding ensureAll_steps
    by (intro establishes_check ensureRBAC_establishes disk.step_establishes nas.step_establishes
        establishes_nothing managed_ownedWrites [OF drivers_managed] confined_check confined_Ret
        managed_ownedWrites [OF disk.step_managed] managed_ownedWrites [OF nas.step_managed])
      (auto simp: adoptedRBAC_def dest: disk.stepPlaces_owned nas.stepPlaces_owned)
  then show ?thesis
    by (rule establishes_mono) (auto simp: placesAll_def disk.stepPlaces_def nas.stepPlaces_def)
qed

lemma ensureAll_admits:
  assumes "run A (ensureAll r cr) w = (None, w')"
  shows "admitted cr (sccDetected (requests A (ensureAll r cr) w)) w w'"
proof -
  let ?rest = "check (disk.step cr) (Wrapped ''disk driver: '')
    (check (nas.step cr) (Wrapped ''nas driver: '') (Ret None))"
  from assms obtain w1 where rbac: "run A (ensureRBAC r cr) w = (None, w1)"
    and rest: "run A ?rest w1 = (None, w')"
    unfolding ensureAll_steps by (auto simp only: run_check_None)
  note managed = drivers_managed [where cr = cr]
  have "objs w' (KNamespace, [], operatorNamespace) = objs w1 (KNamespace, [], operatorNamespace)"
    using run_confined [OF rest managed_writesWithin [OF managed]] disk.step_namespace
      nas.step_namespace by blast
  moreover have "controlledIn w1 cr (objRef sccBinding) \<Longrightarrow> controlledIn w' cr (objRef sccBinding)"
    by (rule run_keeps_controlled [OF rest managed_ownedWrites [OF managed]])
      (simp_all add: object_simps)
  moreover have "\<not> sccDetected (requests A ?rest w1)"
    by (rule run_quiet [OF rest]) (intro confined_check disk.step_quiet nas.step_quiet confined_Ret)
  then have "sccDetected (requests A (ensureAll r cr) w) = sccDetected (requests A (ensureRBAC r cr) w)"
    unfolding ensureAll_steps by (simp add: requests_check rbac)
  ultimately show ?thesis
    using ensureRBAC_admits [OF rbac] by (simp add: admitted_def namespaceAdmits_def split: if_splits)
qed

lemma ensureAll_snapshotClass:
  assumes "wantsSnapshots cr"
    and "\<And>d. placesOptional cr optional (snapshotClassRef cr)
      (ensureVolumeSnapshotClass r cr d (disk_Snapshot (spec_Disk (cr_Spec cr))))"
  shows "placesOptional cr optional (snapshotClassRef cr) (ensureAll r cr)"
proof -
  have "placesOptional cr optional (snapshotClassRef cr) (disk.step cr)"
    using assms by (simp add: wantsSnapshots_def disk.step_def ensureDiskDriver_snapshotClass)
  moreover have "confined (managed r cr (nas.stepWrites cr)) (check (nas.step cr) wrap (Ret None))" for wrap
    by (intro confined_check nas.step_managed confined_Ret)
  moreover have "snapshotClassRef cr \<notin> nas.stepWrites cr" and "snapshotClassRef cr \<notin> managedRBAC"
    by (auto simp: snapshotClassRef_def nas.stepWrites_def managedNAS_def adoptedNAS_def
        replacedNAS_def classRefs_def profileRefs_def managedRBAC_def adoptedRBAC_def)
  ultimately show ?thesis
    unfolding ensureAll_steps
    by (intro placesOptional_then [OF _ ensureRBAC_managed] placesOptional_first)
qed

lemma snapshotClass_optional:
  assumes "wantsSnapshots cr"
  shows "placesOptional cr True (snapshotClassRef cr)
      (ensureVolumeSnapshotClass r cr d (disk_Snapshot (spec_Disk (cr_Spec cr))))"
  using assms by (simp add: wantsSnapshots_def snapshotClassRef_enabled placesOptional_class)

lemma ensureAll_profiles:
  assumes "(name, patch) \<in> set (desiredProfiles cr)"
  shows "does (handlesProfile name patch) (ensureAll r cr)"
proof -
  consider (disk) sc where "disk_Enabled (spec_Disk (cr_Spec cr))"
      "sp_Patch (disk_StorageProfile (spec_Disk (cr_Spec cr)))"
      "sc \<in> set (disk_StorageClasses (spec_Disk (cr_Spec cr)))" "name = dsc_Name sc" "patch = diskProfilePatch cr sc"
    | (nas) sc where "nas_Enabled (spec_NAS (cr_Spec cr))"
      "sp_Patch (nas_StorageProfile (spec_NAS (cr_Spec cr)))"
      "sc \<in> set (nas_StorageClasses (spec_NAS (cr_Spec cr)))" "name = nsc_Name sc" "patch = nasProfilePatch cr"
    using assms by (auto simp: desiredProfiles_def split: if_splits)
  then show ?thesis
  proof cases
    case disk
    then show ?thesis
      unfolding ensureAll_steps disk(4,5)
      by (intro does_then does_first [OF disk.step_does] ensureDiskDriver_profiles)
  next
    case nas
    then show ?thesis
      unfolding ensureAll_steps nas(4,5)
      by (intro does_then [OF does_then [OF does_first [OF nas.step_does]]] ensureNASDriver_profiles)
  qed
qed

lemma disk_provides:
  assumes "disk_Enabled (spec_Disk (cr_Spec cr))" and "provides (ensureDiskDriver r cr) ref Q"
    and "ref \<notin> managedNAS cr"
  shows "provides (ensureAll r cr) ref Q"
  unfolding ensureAll_steps
proof (rule provides_then, rule provides_first [where T = "nas.stepWrites cr"])
  show "provides (disk.step cr) ref Q" using assms(1,2) by (simp add: disk.step_def)
  show "confined (writesWithin (nas.stepWrites cr)) (check (nas.step cr) wrap (Ret None))" for wrap
    by (intro contract_rules managed_writesWithin [OF nas.step_managed])
  show "ref \<notin> nas.stepWrites cr" using assms(3) by (simp add: nas.stepWrites_def)
qed

lemma nas_provides:
  assumes "nas_Enabled (spec_NAS (cr_Spec cr))" and "provides (ensureNASDriver r cr) ref Q"
  shows "provides (ensureAll r cr) ref Q"
  unfolding ensureAll_steps
proof (rule provides_then, rule provides_then, rule provides_first [where T = "{}"])
  show "provides (nas.step cr) ref Q" using assms by (simp add: nas.step_def)
qed (simp_all add: confined_Ret)

lemma ensureAll_workloads:
  assumes "run A (ensureAll r cr) w = (None, w')"
  shows "list_all (hasDesired r cr (objs w')) (desiredWorkloads r cr)"
proof -
  have body: "hasDesired r cr (objs w') d"
    if "objRef d = ref" and "provides (ensureAll r cr) ref (asDesired r cr d)" for d ref
    using that assms by (fastforce simp: provides_def hasDesired_def)
  have other: "(KDeployment, operatorNamespace, ''csi-disk-controller'') \<notin> managedNAS cr"
    "(KDaemonSet, operatorNamespace, ''csi-disk-node'') \<notin> managedNAS cr"
    by (auto simp: managedNAS_def adoptedNAS_def replacedNAS_def classRefs_def profileRefs_def)
  note ds = body [OF _ disk_provides [OF _ ensureDiskDriver_provides_deployment other(1)]]
    body [OF _ disk_provides [OF _ ensureDiskDriver_provides_daemonset other(2)]]
  note ns = body [OF _ nas_provides [OF _ ensureNASDriver_provides_deployment]]
    body [OF _ nas_provides [OF _ ensureNASDriver_provides_daemonset]]
  show ?thesis by (simp add: desiredWorkloads_def ds ns disk_refs nas_refs)
qed

lemma ensureAll_inPlace:
  assumes "run A (ensureAll r cr) w = (None, w')"
  shows "inPlace r cr (objs w) (requests A (ensureAll r cr) w) (objs w')"
proof -
  have "list_ex (handlesProfile name patch) (requests A (ensureAll r cr) w)"
    if "(name, patch) \<in> set (desiredProfiles cr)" for name patch
    using ensureAll_profiles [OF that] run_requests [OF assms] by (simp add: does_def)
  then have profiles: "list_all (\<lambda>(name, patch). list_ex (handlesProfile name patch)
      (requests A (ensureAll r cr) w)) (desiredProfiles cr)"
    by (auto simp: list_all_iff)
  moreover have "wantsSnapshots cr \<longrightarrow> apiMissing (snapshotClassRef cr) (requests A (ensureAll r cr) w) \<or>
      (objs w' (snapshotClassRef cr) \<noteq> None \<and>
       (objs w (snapshotClassRef cr) = None \<longrightarrow> controlledBy r cr (objs w') (snapshotClassRef cr)))"
    using ensureAll_snapshotClass [OF _ snapshotClass_optional, of cr] assms
    by (simp add: placesOptional_def controlledBy_in)
  moreover have "\<forall>ref \<in> placesAll cr. controlledBy r cr (objs w') ref"
    using ensureAll_establishes [of cr] assms by (simp add: establishes_def controlledBy_in)
  ultimately show ?thesis
    using ensureAll_admits [OF assms] ensureAll_workloads [OF assms]
    by (simp add: inPlace_def admitted_def controlledBy_in split: if_splits)
qed

text \<open>A run of \<open>Reconcile\<close> is a run of \<open>ensureAll\<close> between two requests that keep the objects.\<close>

lemma run_Reconcile:
  assumes "run A (Reconcile r req) w = (err, w')"
  obtains (missing) e where "fst (api_GetCR A req w) = Inl e" "objs w' = objs w" "crs w' = crs w"
      "err = (if err_Reason e = NotFound then None else Some (LibErr e))"
  | (found) cr w1 w2 where "crs w req = Some cr" "objs w1 = objs w" "crs w1 = crs w"
      "run A (ensureAll r cr) w1 = (err, w2)" "objs w' = objs w2"
      "\<exists>now res. requests A (Reconcile r req) w = EvGetCR req (Inr cr) # requests A (ensureAll r cr) w1 @
        [EvNow now, EvStatusPatch cr (cr\<lparr>cr_Status := finalStatus cr err now\<rparr>) res]"
proof -
  obtain res w1 where get: "api_GetCR A req w = (res, w1)" by (cases "api_GetCR A req w")
  show ?thesis
  proof (cases res)
    case (Inl e)
    with assms get getcr_frame [OF get] show ?thesis
      by (intro missing [of e]) (auto simp: Reconcile_eq run_simps split: if_splits)
  next
    case (Inr cr)
    obtain err2 w2 where all: "run A (ensureAll r cr) w1 = (err2, w2)"
      by (cases "run A (ensureAll r cr) w1")
    obtain now w3 where now: "api_Now A w2 = (now, w3)" by (cases "api_Now A w2")
    obtain e4 w4 where st: "api_StatusPatch A cr (cr\<lparr>cr_Status := finalStatus cr err2 now\<rparr>) w3 = (e4, w4)"
      by (cases "api_StatusPatch A cr (cr\<lparr>cr_Status := finalStatus cr err2 now\<rparr>) w3")
    from assms get Inr all now st have eqs: "err = err2" "w' = w4"
      by (auto simp: Reconcile_eq run_simps report_def)
    have "requests A (Reconcile r req) w = EvGetCR req (Inr cr) # requests A (ensureAll r cr) w1 @
        [EvNow now, EvStatusPatch cr (cr\<lparr>cr_Status := finalStatus cr err now\<rparr>) e4]"
      using get Inr all now st eqs by (simp add: Reconcile_eq report_def requests_bind)
    with eqs all getcr_frame [OF get] getcr_found [OF get [unfolded Inr]] now_frame [OF now]
      status_frame [OF st] show ?thesis by (intro found [of cr w1 w2]) auto
  qed
qed

end

context reliable_operator
begin

lemma ensureAll_completes:
  assumes "cr_Namespace cr = []"
    and "\<And>kd. kd \<notin> {KVolumeSnapshotClass, KStorageProfile} \<Longrightarrow> served kd"
    and "\<And>ob. objRef ob \<in> managedAll cr \<Longrightarrow> accepts ob"
    and "\<And>ref ob. ref \<in> adoptedAll cr \<Longrightarrow> objs w ref = Some ob \<Longrightarrow> \<not> takenByOther r cr ob"
  shows "fst (run A (ensureAll r cr) w) = None"
proof -
  let ?disk = "if disk_Enabled (spec_Disk (cr_Spec cr)) then adoptedDisk cr else {}"
  let ?nas = "if nas_Enabled (spec_NAS (cr_Spec cr)) then adoptedNAS cr else {}"
  have rbac: "completes cr (ensureRBAC r cr) managedRBAC"
    by (rule ensureRBAC_completes) (use assms(1-3) in \<open>auto simp: managedAll_def\<close>)
  have disk: "completes cr (disk.step cr) ?disk"
    using assms(1-3) by (auto simp: disk.step_def managedAll_def
        intro!: ensureDiskDriver_completes completes_Ret)
  have nas: "completes cr (nas.step cr) ?nas"
    using assms(1-3) by (auto simp: nas.step_def managedAll_def
        intro!: ensureNASDriver_completes completes_Ret)
  have kinds: "\<forall>ref \<in> ?disk \<union> ?nas. fst ref \<noteq> KNamespace"
    by (auto simp: adoptedDisk_def adoptedNAS_def classRefs_def)
  have "completes cr (ensureAll r cr)
      (({objRef sccBinding} \<union> adoptedRBAC \<union> {(KNamespace, [], operatorNamespace)}) \<union> (?disk \<union> (?nas \<union> {})))"
    unfolding ensureAll_steps
    by (intro completes_check disk nas completes_Ret managed_ownedWrites [OF ensureRBAC_managed]
        managed_ownedWrites [OF disk.step_managed] managed_ownedWrites [OF nas.step_managed]
        completes_mono [OF rbac])
      (use kinds in \<open>auto simp: managedRBAC_def object_simps\<close>)
  then have "completes cr (ensureAll r cr) (adoptedAll cr)"
    by (rule completes_mono) (auto simp: adoptedAll_def managedRBAC_def object_simps)
  then show ?thesis using assms(4) by (simp add: completes_def untaken_def)
qed

end

section \<open>Runs of the reconciler\<close>

context kube_operator
begin

lemma inPlace_longer:
  assumes "inPlace r cr s tr s'" and "\<not> sccDetected tr1" and "\<not> sccDetected tr2"
  shows "inPlace r cr s (tr1 @ tr @ tr2) s'"
  using assms by (auto simp: inPlace_def list_all_iff)

lemma Reconcile_sound:
  assumes "crs w req = Some cr" and "run A (Reconcile r req) w = (None, w')"
  shows "inPlace r cr (objs w) (requests A (Reconcile r req) w) (objs w')"
  using assms(2)
proof (cases rule: run_Reconcile)
  case (missing e)
  then have "err_Reason e = NotFound" by (simp split: if_splits)
  with missing(1) getcr_missing [of req w e] assms(1) show ?thesis
    by (metis option.distinct(1) prod.collapse)
next
  case (found cr' w1 w2)
  then obtain now res where tr: "requests A (Reconcile r req) w = [EvGetCR req (Inr cr)] @
      requests A (ensureAll r cr) w1 @
      [EvNow now, EvStatusPatch cr (cr\<lparr>cr_Status := finalStatus cr None now\<rparr>) res]"
    using assms(1) by auto
  have "inPlace r cr (objs w1) (requests A (ensureAll r cr) w1) (objs w2)"
    using found assms(1) ensureAll_inPlace [of cr w1 w2] by simp
  then show ?thesis
    unfolding tr found(2) [symmetric] found(5)
    by (rule inPlace_longer) (simp_all add: sccDetected_def)
qed

text \<open>Whatever happens, nothing outside the managed objects and the status of the resource changes.\<close>

lemma Reconcile_frame:
  assumes "crs w req = Some cr" and "run A (Reconcile r req) w = (err, w')"
  shows "(\<forall>ref. ref \<notin> managedAll cr \<longrightarrow> objs w' ref = objs w ref) \<and>
    (\<forall>n. n \<noteq> req \<longrightarrow> crs w' n = crs w n) \<and>
    (\<exists>st. crs w' req = Some (cr\<lparr>cr_Status := st\<rparr>))"
proof -
  obtain res w1 where get: "api_GetCR A req w = (res, w1)" by (cases "api_GetCR A req w")
  note frame1 = getcr_frame [OF get]
  show ?thesis
  proof (cases res)
    case (Inl e)
    with assms get have "w' = w1" by (auto simp: Reconcile_eq run_simps split: if_splits)
    with frame1 assms(1) show ?thesis by (auto intro: exI [of _ "cr_Status cr"])
  next
    case (Inr cr')
    with getcr_found [of req w cr' w1] get assms(1) have cr': "cr' = cr" by simp
    obtain err2 w2 where all: "run A (ensureAll r cr) w1 = (err2, w2)"
      by (cases "run A (ensureAll r cr) w1")
    obtain now w3 where now: "api_Now A w2 = (now, w3)" by (cases "api_Now A w2")
    let ?cr = "cr\<lparr>cr_Status := finalStatus cr err2 now\<rparr>"
    obtain e4 w4 where st: "api_StatusPatch A cr ?cr w3 = (e4, w4)"
      by (cases "api_StatusPatch A cr ?cr w3")
    from assms get Inr cr' all now st have w': "w' = w4"
      by (auto simp: Reconcile_eq run_simps report_def)
    have key: "crKey ?cr = req" using cr_keyed [OF assms(1)] by (simp add: crKey_def)
    note frame2 = run_confined [OF all managed_writesWithin [OF ensureAll_managed]]
    have "crs w3 = crs w" using frame1 frame2 now_frame [OF now] by simp
    moreover from status_frame [OF st] key obtain g where
      "crs w4 req = map_option (\<lambda>x. x\<lparr>cr_Status := g x\<rparr>) (crs w3 req)" by auto
    moreover have "\<forall>n. n \<noteq> req \<longrightarrow> crs w4 n = crs w3 n" using status_frame [OF st] key by auto
    moreover have "objs w4 = objs w2" using status_frame [OF st] now_frame [OF now] by simp
    ultimately show ?thesis using assms(1) frame1 frame2 w' by auto
  qed
qed

end

context reliable_operator
begin

lemma Reconcile_completes:
  assumes "crs w req = Some cr" and "cr_Namespace cr = []"
    and "\<And>kd. kd \<notin> {KVolumeSnapshotClass, KStorageProfile} \<Longrightarrow> served kd"
    and "\<And>ob. objRef ob \<in> managedAll cr \<Longrightarrow> accepts ob"
    and "\<And>ref ob. ref \<in> adoptedAll cr \<Longrightarrow> objs w ref = Some ob \<Longrightarrow> \<not> takenByOther r cr ob"
    and "run A (Reconcile r req) w = (err, w')"
  shows "err = None"
  using assms(6)
proof (cases rule: run_Reconcile)
  case (missing e)
  with getcr_present [OF assms(1)] show ?thesis by simp
next
  case (found cr' w1 w2)
  with assms(1) have "cr' = cr" by simp
  moreover have "fst (run A (ensureAll r cr) w1) = None"
    by (rule ensureAll_completes [OF assms(2-4)]) (use assms(5) found in auto)
  ultimately show ?thesis using found by simp
qed

text \<open>Where the snapshot API is served, the snapshot class is there.\<close>

lemma Reconcile_snapshotClass:
  assumes "crs w req = Some cr" and "run A (Reconcile r req) w = (None, w')"
    and "wantsSnapshots cr" and "served KVolumeSnapshotClass"
    and "\<And>ob. objRef ob \<in> managedAll cr \<Longrightarrow> accepts ob"
  shows "objs w' (snapshotClassRef cr) \<noteq> None \<and>
    (objs w (snapshotClassRef cr) = None \<longrightarrow> controlledBy r cr (objs w') (snapshotClassRef cr))"
  using assms(2)
proof (cases rule: run_Reconcile)
  case (missing e)
  with getcr_present [OF assms(1)] show ?thesis by simp
next
  case (found cr' w1 w2)
  with assms(1) have "cr' = cr" by simp
  have name: "snapshotClassRef cr = (KVolumeSnapshotClass, [],
      ifEmpty (snap_ClassName (disk_Snapshot (spec_Disk (cr_Spec cr)))) defaultDiskSnapClassName)"
    and "disk_Enabled (spec_Disk (cr_Spec cr))" and snap: "snap_Enabled (disk_Snapshot (spec_Disk (cr_Spec cr)))"
    using assms(3) by (simp_all add: wantsSnapshots_def snapshotClassRef_enabled)
  then have "snapshotClassRef cr \<in> managedAll cr" by (simp add: managedAll_def managedDisk_def)
  then have "placesOptional cr False (snapshotClassRef cr)
      (ensureVolumeSnapshotClass r cr d (disk_Snapshot (spec_Disk (cr_Spec cr))))" for d
    unfolding name by (intro placesOptional_served snap assms(4,5)) simp
  from ensureAll_snapshotClass [OF assms(3) this] found \<open>cr' = cr\<close> show ?thesis
    by (simp add: placesOptional_def controlledBy_in)
qed

end

end
