(* ===== verification/RefCluster.thy ===== *)
theory RefCluster
  imports Reconcile
begin

text \<open>
  Reference instances of the parameters, which show that the laws of the locales can hold
  together: the owner-reference functions and the retry loop as their documentation describes
  them, and an API server in memory with resource versions, conflicts and kinds that are not
  served.  Every locale of the development is interpreted on them.
\<close>

section \<open>Owner references\<close>

definition ownerRefOf :: "AlibabaCloudCSIDriver \<Rightarrow> OwnerReference" where
  "ownerRefOf cr = \<lparr>or_APIVersion = ''csi.alibabacloud.com/v1alpha1'', or_Kind = ownerKind,
     or_Name = cr_Name cr, or_UID = cr_UID cr, or_Controller = True, or_BlockOwnerDeletion = True\<rparr>"

fun upsertOwner :: "AlibabaCloudCSIDriver \<Rightarrow> OwnerReference list \<Rightarrow> OwnerReference list" where
  "upsertOwner cr [] = [ownerRefOf cr]"
| "upsertOwner cr (ref # refs) =
     (if refersTo cr ref then ownerRefOf cr # refs else ref # upsertOwner cr refs)"

definition refSetController :: "AlibabaCloudCSIDriver \<Rightarrow> Object \<Rightarrow> LibError + Object" where
  "refSetController cr ob =
     (if \<not> namespaceOk cr ob
      then Inl \<lparr>err_Reason = OtherReason, err_Message = ''cross-namespace owner references are disallowed''\<rparr>
      else if foreign cr ob
      then Inl \<lparr>err_Reason = OtherReason, err_Message = ''Object is already owned by another controller''\<rparr>
      else Inr (setOwners (upsertOwner cr (owners ob)) ob))"

definition refIsControlledBy :: "Object \<Rightarrow> AlibabaCloudCSIDriver \<Rightarrow> bool" where
  "refIsControlledBy ob cr = (case controllerOf ob of None \<Rightarrow> False | Some ref \<Rightarrow> or_UID ref = cr_UID cr)"

lemma find_upsertOwner:
  assumes "\<And>ref. find or_Controller refs = Some ref \<Longrightarrow> refersTo cr ref"
  shows "find or_Controller (upsertOwner cr refs) = Some (ownerRefOf cr)"
  using assms
proof (induction refs)
  case (Cons ref refs)
  show ?case
  proof (cases "refersTo cr ref")
    case False
    with Cons.prems have "\<not> or_Controller ref" by fastforce
    with False Cons show ?thesis by simp
  qed (simp add: ownerRefOf_def)
qed (simp add: ownerRefOf_def)

lemma refersTo_ownerRefOf [simp]: "refersTo cr (ownerRefOf cr)" "or_UID (ownerRefOf cr) = cr_UID cr"
  "or_BlockOwnerDeletion (ownerRefOf cr)"
  by (simp_all add: refersTo_def ownerRefOf_def apiGroup_def ownerGroup_def)

interpretation ref_owner: owner_lib refSetController refIsControlledBy
proof unfold_locales
  fix cr ob ob'
  assume set: "refSetController cr ob = Inr ob'"
  then have ob': "ob' = setOwners (upsertOwner cr (owners ob)) ob" and "\<not> foreign cr ob"
    by (auto simp: refSetController_def split: if_splits)
  then have "controllerOf ob' = Some (ownerRefOf cr)"
    by (auto simp: controllerOf_def foreign_def object_simps intro!: find_upsertOwner)
  then show "\<exists>ref. controllerOf ob' = Some ref \<and> refersTo cr ref \<and> or_UID ref = cr_UID cr \<and>
      or_BlockOwnerDeletion ref" by simp
  from ob' show "\<exists>refs. ob' = setOwners refs ob" by blast
qed (auto simp: refSetController_def refIsControlledBy_def split: option.split)

section \<open>Retrying\<close>

text \<open>\<open>retry.DefaultRetry\<close> has five steps: one attempt and four more.\<close>

primrec retryTimes :: "nat \<Rightarrow> (Object \<Rightarrow> (goerror option \<times> Object) prog) \<Rightarrow> Object \<Rightarrow>
    (goerror option \<times> Object) prog" where
  "retryTimes 0 f s = f s"
| "retryTimes (Suc n) f s =
     bind (f s) (\<lambda>(err, s'). if isConflict err then retryTimes n f s' else Ret (err, s'))"

lemma retries_retryTimes: "retries f s (retryTimes n f s)"
proof (induction n arbitrary: s)
  case 0
  then show ?case by (simp add: retries.last_attempt)
next
  case (Suc n)
  show ?case unfolding retryTimes.simps
    by (rule retries.more_attempts [where again = "retryTimes n f"]) (rule Suc.IH)
qed

interpretation ref_retry: retry_lib "retryTimes n" for n
  by unfold_locales (rule retries_retryTimes)

text \<open>A loop with \<open>n\<close> retries makes at most \<open>n + 1\<close> times the requests of one attempt.\<close>

lemma exec_retryTimes_length:
  assumes "\<And>s tr res. exec (f s) tr res \<Longrightarrow> length tr \<le> k"
  shows "exec (retryTimes n f s) tr res \<Longrightarrow> length tr \<le> k * (n + 1)"
proof (induction n arbitrary: s tr)
  case 0
  then show ?case using assms by simp
next
  case (Suc n)
  then obtain tr1 err s' tr2 where tr: "tr = tr1 @ tr2" and first: "exec (f s) tr1 (err, s')"
    and rest: "exec (if isConflict err then retryTimes n f s' else Ret (err, s')) tr2 res"
    by (auto elim!: exec_bindE)
  have "length tr2 \<le> k * (n + 1)"
    using rest Suc.IH [of s' tr2] by (cases "isConflict err") auto
  with assms [OF first] show ?case by (simp add: tr)
qed

definition refReconciler :: "bool \<Rightarrow> (string \<Rightarrow> string) \<Rightarrow> Reconciler" where
  "refReconciler config getenv = \<lparr>lib_SetControllerReference = refSetController,
     lib_IsControlledBy = refIsControlledBy, lib_RetryOnConflict = retryTimes 4,
     rec_Config = config, rec_Getenv = getenv\<rparr>"

interpretation ref_libs: operator_libs "refReconciler config getenv" for config getenv
  by (intro operator_libs.intro, unfold refReconciler_def Reconciler.simps)
    (rule ref_owner.owner_lib_axioms, rule ref_retry.retry_lib_axioms)

section \<open>An API server in memory\<close>

record World =
  w_Objects :: "Object list"
  w_CRs :: "AlibabaCloudCSIDriver list"
  w_Version :: nat
  w_Clock :: nat
  w_SCC :: bool

definition stored :: "World \<Rightarrow> ObjectRef \<Rightarrow> Object option" where
  "stored w ref = find (\<lambda>ob. objRef ob = ref) (w_Objects w)"

definition storedCR :: "World \<Rightarrow> NamespacedName \<Rightarrow> AlibabaCloudCSIDriver option" where
  "storedCR w n = find (\<lambda>cr. crKey cr = n) (w_CRs w)"

definition libError :: "ErrReason \<Rightarrow> LibError" where
  "libError reason = \<lparr>err_Reason = reason, err_Message = []\<rparr>"

definition putObject :: "Object \<Rightarrow> World \<Rightarrow> World" where
  "putObject ob w = w\<lparr>w_Objects := setResourceVersion (showNat (w_Version w)) ob #
       filter (\<lambda>x. objRef x \<noteq> objRef ob) (w_Objects w), w_Version := w_Version w + 1\<rparr>"

definition refApi :: "(Kind \<Rightarrow> bool) \<Rightarrow> (Object \<Rightarrow> bool) \<Rightarrow> World api" where
  "refApi served accepts = \<lparr>
     api_GetCR = \<lambda>n w. (case storedCR w n of
         None \<Rightarrow> Inl (libError NotFound) | Some cr \<Rightarrow> Inr cr, w),
     api_Get = \<lambda>kd n w. (case stored w (kd, n) of
         None \<Rightarrow> Inl (libError (if served kd then NotFound else NoMatch)) | Some ob \<Rightarrow> Inr ob, w),
     api_Create = \<lambda>ob w. if stored w (objRef ob) \<noteq> None then (Some (libError AlreadyExists), w)
         else if \<not> served (objKind ob) then (Some (libError NoMatch), w)
         else if \<not> accepts ob \<or> resourceVersion ob \<noteq> [] then (Some (libError OtherReason), w)
         else (None, putObject ob w),
     api_Update = \<lambda>ob w. (case stored w (objRef ob) of
         None \<Rightarrow> (Some (libError NotFound), w)
       | Some cur \<Rightarrow> if resourceVersion ob \<noteq> [] \<and> resourceVersion ob \<noteq> resourceVersion cur
           then (Some (libError Conflict), w)
           else if \<not> accepts ob then (Some (libError OtherReason), w)
           else (None, putObject ob w)),
     api_Patch = \<lambda>kd n j w. (case stored w (kd, n) of
         None \<Rightarrow> (Some (libError NotFound), w)
       | Some ob \<Rightarrow> (None, putObject (setRest (obj_rest ob @ ''+'') ob) w)),
     api_StatusPatch = \<lambda>c c' w. (None, w\<lparr>w_CRs := map (\<lambda>cr. if crKey cr = crKey c'
         then cr\<lparr>cr_Status := cr_Status c'\<rparr> else cr) (w_CRs w)\<rparr>),
     api_RESTMapping = \<lambda>g kd w. (if w_SCC w then None else Some (libError NoMatch), w),
     api_NewDiscoveryClient = \<lambda>w. (None, w),
     api_ServerResources = \<lambda>gv w.
       (if w_SCC w then Inr [sccKind] else Inl (libError NotFound), w),
     api_Now = \<lambda>w. (w_Clock w, w\<lparr>w_Clock := w_Clock w + 1\<rparr>)\<rparr>"

lemma find_filter_other:
  "ref \<noteq> ref' \<Longrightarrow> find (\<lambda>ob. objRef ob = ref) (filter (\<lambda>x. objRef x \<noteq> ref') obs) =
   find (\<lambda>ob. objRef ob = ref) obs"
  by (induction obs) auto

lemma stored_put:
  "stored (putObject ob w) =
     (stored w)(objRef ob \<mapsto> setResourceVersion (showNat (w_Version w)) ob)"
proof (rule ext)
  fix ref
  show "stored (putObject ob w) ref =
      ((stored w)(objRef ob \<mapsto> setResourceVersion (showNat (w_Version w)) ob)) ref"
    by (cases "ref = objRef ob")
      (simp_all add: stored_def putObject_def object_simps find_filter_other)
qed

lemma storedCR_put [simp]: "storedCR (putObject ob w) = storedCR w"
  by (rule ext) (simp add: storedCR_def putObject_def)

lemma stored_ref: "stored w ref = Some ob \<Longrightarrow> objRef ob = ref"
  by (auto simp: stored_def dest: find_SomeD)

lemma storedCR_key: "storedCR w n = Some cr \<Longrightarrow> crKey cr = n"
  by (auto simp: storedCR_def dest: find_SomeD)

lemma find_map_status:
  "find (\<lambda>cr. crKey cr = n) (map (\<lambda>cr. if crKey cr = key then cr\<lparr>cr_Status := st\<rparr> else cr) crs) =
   map_option (\<lambda>cr. if crKey cr = key then cr\<lparr>cr_Status := st\<rparr> else cr)
     (find (\<lambda>cr. crKey cr = n) crs)"
  by (induction crs) (auto simp: crKey_def)

lemma storedCR_status:
  "storedCR (w\<lparr>w_CRs := map (\<lambda>cr. if crKey cr = key then cr\<lparr>cr_Status := st\<rparr> else cr) (w_CRs w)\<rparr>) n =
   (if n = key then map_option (\<lambda>cr. cr\<lparr>cr_Status := st\<rparr>) (storedCR w n) else storedCR w n)"
  using storedCR_key [of w n] by (cases "storedCR w n") (auto simp: storedCR_def find_map_status)

lemma stored_frames [simp]:
  "stored (w\<lparr>w_CRs := cs\<rparr>) = stored w" "stored (w\<lparr>w_Clock := t\<rparr>) = stored w"
  "storedCR (w\<lparr>w_Clock := t\<rparr>) = storedCR w"
  by (rule ext, simp add: stored_def storedCR_def)+

lemma objRef_pair: "(objKind ob, objNamed ob) = objRef ob"
  by (simp add: objRef_def)

interpretation ref_server: kube_api "refApi served accepts" stored storedCR for served accepts
proof unfold_locales
  fix ob w w' kd n j c c'
  fix e :: LibError and rese :: "LibError option"
  show "stored w ref = Some ob \<Longrightarrow> objRef ob = ref" for ref by (rule stored_ref)
  show "storedCR w m = Some cr \<Longrightarrow> crKey cr = m" for m cr by (rule storedCR_key)
  show "api_Create (refApi served accepts) ob w = (None, w') \<Longrightarrow> stored w (objRef ob) = None \<and>
      (\<exists>ob'. sameDesired ob ob' \<and> stored w' = (stored w)(objRef ob \<mapsto> ob')) \<and> storedCR w' = storedCR w"
    by (auto simp: refApi_def stored_put split: if_splits intro!: exI [of _ "setResourceVersion v ob" for v])
  show "api_Update (refApi served accepts) ob w = (None, w') \<Longrightarrow>
      (\<exists>cur. stored w (objRef ob) = Some cur \<and> resourceVersion ob \<in> {[], resourceVersion cur}) \<and>
      (\<exists>ob'. sameDesired ob ob' \<and> stored w' = (stored w)(objRef ob \<mapsto> ob')) \<and> storedCR w' = storedCR w"
    by (auto simp: refApi_def stored_put split: if_splits option.splits
        intro!: exI [of _ "setResourceVersion v ob" for v])
  show "api_Patch (refApi served accepts) kd n j w = (rese, w') \<Longrightarrow> patchesSpecOnly j \<Longrightarrow>
      (\<exists>f. (\<forall>ob. owners (f ob) = owners ob) \<and>
        stored w' = (stored w)((kd, n) := map_option f (stored w (kd, n)))) \<and> storedCR w' = storedCR w"
    by (auto simp: refApi_def stored_put object_simps fun_upd_idem dest!: stored_ref split: option.splits
        intro!: exI [of _ "\<lambda>x. setResourceVersion (showNat (w_Version w)) (setRest (obj_rest x @ ''+'') x)"])
  show "api_StatusPatch (refApi served accepts) c c' w = (rese, w') \<Longrightarrow> stored w' = stored w \<and>
      (\<forall>n. n \<noteq> crKey c' \<longrightarrow> storedCR w' n = storedCR w n) \<and>
      (\<exists>g. storedCR w' (crKey c') = map_option (\<lambda>x. x\<lparr>cr_Status := g x\<rparr>) (storedCR w (crKey c')))"
    by (auto simp: refApi_def storedCR_status intro!: exI [of _ "\<lambda>_. cr_Status c'"])
qed (auto simp: refApi_def libError_def split: option.splits if_splits)

interpretation ref_cluster: reliable_operator "refApi served accepts" stored storedCR served accepts
  "refReconciler config getenv" for served accepts config getenv
proof (intro reliable_operator.intro reliable_api.intro kube_operator.intro)
  show "kube_api (refApi served accepts) stored storedCR" by (rule ref_server.kube_api_axioms)
  show "operator_libs (refReconciler config getenv)" by (rule ref_libs.operator_libs_axioms)
  show "reliable_api_axioms (refApi served accepts) stored storedCR served accepts"
    by unfold_locales (auto simp: refApi_def libError_def)
qed (rule ref_server.kube_api_axioms)

section \<open>A sample cluster\<close>

text \<open>
  A cluster before the first reconciliation: a namespace without labels, a service account and a
  DaemonSet left without an owner by an earlier version of the operator, a StorageProfile of CDI
  for one of the classes; the snapshot API is not installed.
\<close>

definition sampleWorld :: World where
  "sampleWorld = \<lparr>
     w_Objects =
       [ fresh (named [] operatorNamespace) NamespaceBody,
         setResourceVersion ''7'' serviceAccount,
         setResourceVersion ''8'' (diskNodeDaemonSet (\<lambda>_. []) sampleCR ''old:v1''),
         fresh (named [] ''disk-essd'') StorageProfileBody ],
     w_CRs = [sampleCR], w_Version = 10, w_Clock = 100, w_SCC = False\<rparr>"

abbreviation sampleApi :: "World api" where
  "sampleApi \<equiv> refApi (\<lambda>kd. kd \<noteq> KVolumeSnapshotClass) (\<lambda>_. True)"

abbreviation sampleReconciler :: Reconciler where
  "sampleReconciler \<equiv> refReconciler True (\<lambda>_. [])"

lemma sampleWorld_untaken: "stored sampleWorld ref = Some ob \<Longrightarrow> \<not> takenByOther r cr ob"
proof -
  assume "stored sampleWorld ref = Some ob"
  then have "ob \<in> set (w_Objects sampleWorld)" by (auto simp: stored_def dest: find_SomeD)
  then have "owners ob = []" by (auto simp: sampleWorld_def object_simps)
  then show ?thesis by (simp add: takenByOther_def foreign_def controllerOf_def)
qed

lemma sampleWorld_cr [simp]: "storedCR sampleWorld ([], ''cluster'') = Some sampleCR"
  by (simp add: storedCR_def sampleWorld_def)

lemma sample_operator: "reliable_operator sampleApi stored storedCR
    (\<lambda>kd. kd \<noteq> KVolumeSnapshotClass) (\<lambda>_. True) sampleReconciler"
  "kube_operator sampleApi stored storedCR sampleReconciler"
  "operator_libs sampleReconciler"
  by unfold_locales

end
