(* ===== verification/Stable.thy ===== *)
theory Stable
  imports RefCluster
begin

text \<open>
  A second reconciliation.  \<open>keeps ob p\<close>: the program \<open>p\<close> leaves the object \<open>ob\<close> in the store, up to
  the fields the server owns, whatever requests fail.  The helpers keep an object that is already
  as they want it, so once a resource is reconciled, reconciling it again changes nothing.
\<close>

section \<open>Programs that keep an object\<close>

context kube_operator
begin

definition heldAs :: "Object \<Rightarrow> 'w \<Rightarrow> bool" where
  "heldAs ob w \<longleftrightarrow> (\<exists>cur. objs w (objRef ob) = Some cur \<and> sameDesired ob cur)"

definition keeps :: "Object \<Rightarrow> 'b prog \<Rightarrow> bool" where
  "keeps ob p \<longleftrightarrow> (\<forall>w a w'. run A p w = (a, w') \<longrightarrow> heldAs ob w \<longrightarrow> heldAs ob w')"

lemma heldAs_objs: "heldAs ob w \<Longrightarrow> objs w' = objs w \<Longrightarrow> heldAs ob w'"
  by (simp add: heldAs_def)

lemma heldAs_puts:
  assumes "puts st (objs w) (objs w')" and "heldAs ob w" and "objRef ob = objRef st \<Longrightarrow> sameDesired ob st"
  shows "heldAs ob w'"
  using assms sameDesired_trans [of ob st] by (auto simp: heldAs_def puts_def)

lemma keeps_Ret: "keeps ob (Ret a)"
  by (simp add: keeps_def)

lemma keeps_bind: "keeps ob p \<Longrightarrow> (\<And>a. keeps ob (f a)) \<Longrightarrow> keeps ob (bind p f)"
  by (fastforce simp: keeps_def run_bind_iff)

lemma keeps_if: "(b \<Longrightarrow> keeps ob p) \<Longrightarrow> (\<not> b \<Longrightarrow> keeps ob q) \<Longrightarrow> keeps ob (if b then p else q)"
  by simp

lemma keeps_check: "keeps ob p \<Longrightarrow> keeps ob q \<Longrightarrow> keeps ob (check p wrap q)"
  unfolding check_def by (rule keeps_bind) (auto simp: keeps_Ret split: option.split)

lemma keeps_frame: "confined (writesWithin T) p \<Longrightarrow> objRef ob \<notin> T \<Longrightarrow> keeps ob p"
  unfolding keeps_def heldAs_def using run_confined by metis

section \<open>The helpers\<close>

lemma keeps_adoptAttempt:
  assumes "lib_IsControlledBy r ob cr" and "objRef st = objRef ob"
    and "run A (adoptAttempt r cr st) w = (res, w')" and "heldAs ob w"
  shows "heldAs ob w' \<and> snd res = st"
proof -
  from assms(4) obtain cur where cur: "objs w (objRef st) = Some cur" and same: "sameDesired ob cur"
    by (auto simp: heldAs_def assms(2))
  have "lib_IsControlledBy r cur cr" using assms(1) sameDesired_controlled [OF same] by simp
  moreover have "run A (adoptAttempt r cr st) w = ((fst res, snd res), w')" using assms(3) by simp
  ultimately have "snd res = st \<and> objs w' = objs w"
    using run_adoptAttempt [OF _ cur] by blast
  with heldAs_objs [OF assms(4)] show ?thesis by blast
qed

text \<open>What is controlled by the resource is not adopted again.\<close>

lemma keeps_adopt:
  assumes "objRef ob = objRef obj \<Longrightarrow> lib_IsControlledBy r ob cr"
  shows "keeps ob (createOrAdopt r cr obj)"
proof (cases "objRef ob = objRef obj")
  case False
  show ?thesis
    by (rule keeps_frame [where T = "{objRef obj}"], rule createOrAdopt_confined) (use False in auto)
next
  case True
  note controlled = assms [OF True]
  show ?thesis unfolding keeps_def
  proof (intro allI impI)
    fix w err w' assume run: "run A (createOrAdopt r cr obj) w = (err, w')" and held: "heldAs ob w"
    show "heldAs ob w'"
    proof (cases "lib_SetControllerReference r cr obj")
      case (Inl e)
      with run held show ?thesis by (simp add: createOrAdopt_def)
    next
      case set: (Inr st)
      have ref: "objRef st = objRef ob" using set_objRef [OF set] True by simp
      from run set show ?thesis
      proof (cases rule: run_createOrAdopt)
        case (created w1)
        with held ref show ?thesis by (auto simp: heldAs_def dest: create_ok)
      next
        case (failed e)
        with heldAs_objs [OF held] create_failed [of st w e w'] show ?thesis by blast
      next
        case (exists_already e w1 s')
        have held1: "heldAs ob w1"
          using heldAs_objs [OF held] create_failed [OF exists_already(1)] by blast
        have "heldAs ob w' \<and> True"
          by (rule run_retries_inv [where J = "heldAs ob" and I = "\<lambda>s. s = st" and Q = "\<lambda>_ _. True",
                OF retries exists_already(3)])
            (use held1 keeps_adoptAttempt [OF controlled ref] in auto)
        then show ?thesis by simp
      qed
    qed
  qed
qed

text \<open>Replacing an object by the desired one keeps it if it was the desired one.\<close>

lemma keeps_update:
  assumes "objRef ob = objRef obj \<Longrightarrow> asDesired r cr obj ob"
  shows "keeps ob (createOrUpdate r cr obj)"
proof (cases "objRef ob = objRef obj")
  case False
  show ?thesis
    by (rule keeps_frame [where T = "{objRef obj}"], rule createOrUpdate_confined) (use False in auto)
next
  case True
  from assms [OF True] obtain st where set: "lib_SetControllerReference r cr obj = Inr st"
    and st: "sameDesired st ob" by (auto simp: asDesired_def split: sum.splits)
  show ?thesis unfolding keeps_def
  proof (intro allI impI)
    fix w err w' assume run: "run A (createOrUpdate r cr obj) w = (err, w')" and held: "heldAs ob w"
    from run set obtain s' where
      loop: "run A (lib_RetryOnConflict r updateAttempt st) w = ((err, s'), w')"
      unfolding createOrUpdate_def by (auto simp: run_bind_iff)
    have "heldAs ob w' \<and> True"
    proof (rule run_retries_inv [where J = "heldAs ob" and I = "sameDesired ob" and Q = "\<lambda>_ _. True",
          OF retries loop])
      fix s x res x'
      assume I: "sameDesired ob s" and J: "heldAs ob x" and one: "run A (updateAttempt s) x = (res, x')"
      from one have "run A (updateAttempt s) x = ((fst res, snd res), x')" by simp
      from run_updateAttempt [OF this] have *: "sameDesired s (snd res)"
        "if fst res = None then puts s (objs x) (objs x') else objs x' = objs x" by auto
      from *(1) I have "sameDesired ob (snd res)" by (blast intro: sameDesired_trans)
      moreover have "heldAs ob x'"
        using *(2) heldAs_puts [OF _ J I] heldAs_objs [OF J] by (cases "fst res = None") auto
      ultimately show "heldAs ob x' \<and> sameDesired ob (snd res) \<and> True" by blast
    qed (use held sameDesired_sym [OF st] in auto)
    then show "heldAs ob w'" by simp
  qed
qed

text \<open>A snapshot class is only ever created, and labels are only written when they are missing.\<close>

lemma keeps_snapshotClass: "keeps ob (ensureVolumeSnapshotClass r cr driverName cfg)"
proof -
  have "heldAs ob w1" if "api_Create A u w = (res, w1)" and "heldAs ob w" for u w res w1
    using that create_ok [of u w w1] create_failed [of u w _ w1]
    by (cases res) (auto simp: heldAs_def)
  then show ?thesis
    unfolding keeps_def ensureVolumeSnapshotClass_def
    by (auto simp: Let_def run_simps split: sum.split prod.splits option.splits if_splits)
qed

lemma keeps_psa:
  assumes "objRef ob = (KNamespace, [], operatorNamespace) \<Longrightarrow> psaLabels (objLabels ob) = objLabels ob"
  shows "keeps ob ensurePrivilegedNamespacePSA"
proof (cases "objRef ob = (KNamespace, [], operatorNamespace)")
  case False
  show ?thesis
    by (rule keeps_frame [where T = "{(KNamespace, [], operatorNamespace)}"],
        rule managed_writesWithin [where r = r], rule psa_managed) (use False in auto)
next
  case True
  show ?thesis unfolding keeps_def
  proof (intro allI impI)
    fix w err w' assume run: "run A ensurePrivilegedNamespacePSA w = (err, w')" and held: "heldAs ob w"
    obtain res w1 where get: "api_Get A KNamespace ([], operatorNamespace) w = (res, w1)"
      by (cases "api_Get A KNamespace ([], operatorNamespace) w")
    have "w' = w1"
    proof (cases res)
      case (Inl e)
      with run get show ?thesis
        by (auto simp: ensurePrivilegedNamespacePSA_def run_simps split: if_splits)
    next
      case (Inr ns)
      with held get_found get True have "sameDesired ob ns" by (auto simp: heldAs_def)
      from sameDesired_labels [OF this] assms [OF True] have "psaLabels (objLabels ns) = objLabels ns"
        by simp
      with run get Inr show ?thesis
        by (auto simp: ensurePrivilegedNamespacePSA_def run_simps labelLoop_psa)
    qed
    with heldAs_objs [OF held] get_frame [OF get] show "heldAs ob w'" by blast
  qed
qed

section \<open>The phases\<close>

text \<open>
  \<open>settled cr ob\<close>: the object is as a reconciliation of \<open>cr\<close> wants it, as far as the reconciliation
  has a say.  StorageProfiles are left out: they are patched every time, and what a patch does is
  up to the server.
\<close>

definition settled :: "AlibabaCloudCSIDriver \<Rightarrow> Object \<Rightarrow> bool" where
  "settled cr ob \<longleftrightarrow> objKind ob \<noteq> KStorageProfile \<and>
     (objRef ob \<in> insert (objRef sccBinding) (placesAll cr) \<longrightarrow> lib_IsControlledBy r ob cr) \<and>
     (\<forall>d \<in> set (desiredWorkloads r cr). objRef ob = objRef d \<longrightarrow> asDesired r cr d ob) \<and>
     (objRef ob = (KNamespace, [], operatorNamespace) \<longrightarrow> psaLabels (objLabels ob) = objLabels ob)"

lemma keeps_profile: "objKind ob \<noteq> KStorageProfile \<Longrightarrow> keeps ob (ensureStorageProfile name cfg sets snap)"
  by (rule keeps_frame [where T = "{(KStorageProfile, [], name)}"],
      rule managed_writesWithin [where r = r], rule ensureStorageProfile_managed)
    (auto simp: objRef_def)

lemma keeps_sccAvailable: "keeps ob (sccAvailable r)"
  by (rule keeps_frame [where T = "{}"], rule managed_writesWithin [where r = r],
      rule sccAvailable_managed) simp

lemma keeps_RBAC:
  assumes "settled cr ob"
  shows "keeps ob (ensureRBAC r cr)"
proof -
  have refs: "objRef serviceAccount \<in> placesAll cr" "objRef driverClusterRole \<in> placesAll cr"
    "objRef driverClusterRoleBinding \<in> placesAll cr"
    by (simp_all add: placesAll_def adoptedRBAC_def object_simps)
  show ?thesis
    unfolding ensureRBAC_def ensureServiceAccount_def ensureClusterRole_def
      ensureClusterRoleBinding_def ensureSCCBinding_def
    by (intro keeps_check keeps_bind keeps_if keeps_adopt keeps_psa keeps_sccAvailable)
      (use assms refs in \<open>simp_all add: settled_def\<close>)
qed

lemma keeps_diskClasses:
  assumes "objKind ob \<noteq> KStorageProfile"
    and "objRef ob \<in> classRefs (map dsc_Name scs) \<Longrightarrow> lib_IsControlledBy r ob cr"
  shows "keeps ob (diskClassLoop r cr snap i scs)"
  using assms(2)
proof (induction scs arbitrary: i)
  case (Cons sc scs)
  show ?case
    unfolding diskClassLoop.simps Let_def ensureDiskStorageClass_def
    by (intro keeps_check keeps_adopt keeps_profile assms(1) Cons.IH Cons.prems)
      (auto simp: classRefs_def object_simps)
qed (simp add: keeps_Ret)

lemma keeps_nasClasses:
  assumes "objKind ob \<noteq> KStorageProfile"
    and "objRef ob \<in> classRefs (map nsc_Name scs) \<Longrightarrow> lib_IsControlledBy r ob cr"
  shows "keeps ob (nasClassLoop r cr i scs)"
  using assms(2)
proof (induction scs arbitrary: i)
  case (Cons sc scs)
  show ?case
    unfolding nasClassLoop.simps Let_def ensureNASStorageClass_def
    by (intro keeps_check keeps_adopt keeps_profile assms(1) Cons.IH Cons.prems)
      (auto simp: classRefs_def object_simps)
qed (simp add: keeps_Ret)

lemma keeps_disk:
  assumes "settled cr ob" and "disk_Enabled (spec_Disk (cr_Spec cr))"
  shows "keeps ob (ensureDiskDriver r cr)"
proof -
  have controlled: "objRef ob \<in> adoptedDisk cr \<Longrightarrow> lib_IsControlledBy r ob cr"
    using assms by (auto simp: settled_def placesAll_def)
  show ?thesis
    unfolding ensureDiskDriver_def ensureDiskCSIDriver_def ensureDiskControllerDeployment_def
      ensureDiskNodeDaemonSet_def Let_def
    by (intro keeps_check keeps_adopt keeps_update keeps_snapshotClass keeps_diskClasses controlled)
      (use assms in \<open>auto simp: settled_def desiredWorkloads_def adoptedDisk_def diskClassNames_def
        object_simps\<close>)
qed

lemma keeps_NAS:
  assumes "settled cr ob" and "nas_Enabled (spec_NAS (cr_Spec cr))"
  shows "keeps ob (ensureNASDriver r cr)"
proof -
  have controlled: "objRef ob \<in> adoptedNAS cr \<Longrightarrow> lib_IsControlledBy r ob cr"
    using assms by (auto simp: settled_def placesAll_def)
  show ?thesis
    unfolding ensureNASDriver_def ensureNASCSIDriver_def ensureNASControllerDeployment_def
      ensureNASNodeDaemonSet_def Let_def
    by (intro keeps_check keeps_adopt keeps_update keeps_nasClasses controlled)
      (use assms in \<open>auto simp: settled_def desiredWorkloads_def adoptedNAS_def nasClassNames_def
        object_simps\<close>)
qed

lemma keeps_all: "settled cr ob \<Longrightarrow> keeps ob (ensureAll r cr)"
  unfolding ensureAll_def
  by (intro keeps_check keeps_if keeps_Ret keeps_RBAC keeps_disk keeps_NAS)

lemma Reconcile_keeps_settled:
  assumes "crs w req = Some cr" and "settled cr ob" and "objs w (objRef ob) = Some ob"
    and "run A (Reconcile r req) w = (err, w')"
  shows "heldAs ob w'"
  using assms(4)
proof (cases rule: run_Reconcile)
  case (missing e)
  with assms(3) show ?thesis by (auto simp: heldAs_def)
next
  case (found cr' w1 w2)
  with assms(1) have "run A (ensureAll r cr) w1 = (err, w2)" by simp
  moreover have "heldAs ob w1" using found(2) assms(3) by (auto simp: heldAs_def)
  ultimately have "heldAs ob w2" using keeps_all [OF assms(2)] by (auto simp: keeps_def)
  with found(5) show ?thesis by (auto intro: heldAs_objs)
qed

end

section \<open>After a first reconciliation\<close>

text \<open>
  The owner reference does not depend on the status: the library writes the kind, the name and
  the UID of the owner.
\<close>

locale status_blind = operator_libs r for r :: Reconciler +
  assumes set_status: "lib_SetControllerReference r (cr\<lparr>cr_Status := st\<rparr>) ob = lib_SetControllerReference r cr ob"
begin

lemma controlled_status: "lib_IsControlledBy r ob (cr\<lparr>cr_Status := st\<rparr>) = lib_IsControlledBy r ob cr"
  by (simp add: controlled_iff)

lemma asDesired_status: "asDesired r (cr\<lparr>cr_Status := st\<rparr>) d ob = asDesired r cr d ob"
  by (simp add: asDesired_def set_status)

end

text \<open>Nothing that is built from the resource looks at its status.\<close>

lemma helpers_status:
  "pluginImageFor (cr\<lparr>cr_Status := st\<rparr>) = pluginImageFor cr"
  "controllerReplicas (cr\<lparr>cr_Status := st\<rparr>) = controllerReplicas cr"
  "controllerNodeSelector (cr\<lparr>cr_Status := st\<rparr>) = controllerNodeSelector cr"
  "controllerTolerations (cr\<lparr>cr_Status := st\<rparr>) = controllerTolerations cr"
  "ramTokenVersion (cr\<lparr>cr_Status := st\<rparr>) = ramTokenVersion cr"
  "driverEnv (cr\<lparr>cr_Status := st\<rparr>) = driverEnv cr"
  by (simp_all add: pluginImageFor_def controllerReplicas_def controllerNodeSelector_def
      controllerTolerations_def ramTokenVersion_def driverEnv_def extraEnv_def)

lemma pods_status:
  "diskControllerContainers g (cr\<lparr>cr_Status := st\<rparr>) img = diskControllerContainers g cr img"
  "nasControllerContainers g (cr\<lparr>cr_Status := st\<rparr>) img = nasControllerContainers g cr img"
  "diskNodeContainers g (cr\<lparr>cr_Status := st\<rparr>) img = diskNodeContainers g cr img"
  "nasNodeContainers g (cr\<lparr>cr_Status := st\<rparr>) img = nasNodeContainers g cr img"
  "controllerDeploymentSpec (cr\<lparr>cr_Status := st\<rparr>) app cs = controllerDeploymentSpec cr app cs"
  by (simp_all only: diskControllerContainers_def nasControllerContainers_def diskNodeContainers_def
      nasNodeContainers_def controllerDeploymentSpec_def helpers_status)

lemma desiredWorkloads_status: "desiredWorkloads r (cr\<lparr>cr_Status := st\<rparr>) = desiredWorkloads r cr"
  by (simp add: desiredWorkloads_def diskControllerDeployment_def diskNodeDaemonSet_def diskNodePod_def
      nasControllerDeployment_def nasNodeDaemonSet_def nasNodePod_def helpers_status pods_status)

lemma placesAll_status: "placesAll (cr\<lparr>cr_Status := st\<rparr>) = placesAll cr"
  by (simp add: placesAll_def adoptedDisk_def adoptedNAS_def diskClassNames_def nasClassNames_def)

locale repeated_operator = kube_operator A objs crs r + status_blind r
  for A :: "'w api" and objs crs and r :: Reconciler
begin

lemma settled_status: "settled (cr\<lparr>cr_Status := st\<rparr>) ob = settled cr ob"
  by (simp add: settled_def placesAll_status desiredWorkloads_status controlled_status asDesired_status)

lemma settled_inPlace:
  assumes "inPlace r cr s tr (objs w)" and "objs w ref = Some ob" and "fst ref \<noteq> KStorageProfile"
    and "ref = objRef sccBinding \<longrightarrow> lib_IsControlledBy r ob cr"
    and "ref = (KNamespace, [], operatorNamespace) \<longrightarrow> psaLabels (objLabels ob) = objLabels ob"
  shows "settled cr ob"
proof -
  note ref = keyed [OF assms(2)]
  have "objRef ob \<in> placesAll cr \<longrightarrow> lib_IsControlledBy r ob cr"
    using assms(1,2) ref by (auto simp: inPlace_def controlledBy_def)
  moreover have "\<forall>d \<in> set (desiredWorkloads r cr). objRef ob = objRef d \<longrightarrow> asDesired r cr d ob"
    using assms(1,2) ref by (auto simp: inPlace_def list_all_iff hasDesired_def)
  moreover have "objKind ob \<noteq> KStorageProfile" using assms(3) ref by (auto simp: objRef_def)
  ultimately show ?thesis using assms(4,5) ref by (simp add: settled_def)
qed

lemma second_Reconcile:
  assumes "crs w req = Some cr" and "run A (Reconcile r req) w = (None, w1)"
    and "run A (Reconcile r req) w1 = (err, w2)" and "objs w1 ref = Some ob"
    and "fst ref \<noteq> KStorageProfile" and "ref = objRef sccBinding \<longrightarrow> lib_IsControlledBy r ob cr"
    and "ref = (KNamespace, [], operatorNamespace) \<longrightarrow> psaLabels (objLabels ob) = objLabels ob"
  shows "\<exists>ob'. objs w2 ref = Some ob' \<and> sameDesired ob ob'"
proof -
  from Reconcile_frame [OF assms(1,2)] obtain st where cr: "crs w1 req = Some (cr\<lparr>cr_Status := st\<rparr>)"
    by blast
  have "settled cr ob"
    by (rule settled_inPlace [OF Reconcile_sound [OF assms(1,2)] assms(4-7)])
  then have "settled (cr\<lparr>cr_Status := st\<rparr>) ob" by (simp only: settled_status)
  from Reconcile_keeps_settled [OF cr this _ assms(3)] keyed [OF assms(4)] assms(4)
  show ?thesis by (simp add: heldAs_def)
qed

end

lemma owner_status:
  "refersTo (cr\<lparr>cr_Status := st\<rparr>) = refersTo cr" "ownerRefOf (cr\<lparr>cr_Status := st\<rparr>) = ownerRefOf cr"
  "namespaceOk (cr\<lparr>cr_Status := st\<rparr>) ob = namespaceOk cr ob"
  "foreign (cr\<lparr>cr_Status := st\<rparr>) ob = foreign cr ob"
  by (auto simp: refersTo_def ownerRefOf_def namespaceOk_def foreign_def)

lemma upsertOwner_status: "upsertOwner (cr\<lparr>cr_Status := st\<rparr>) refs = upsertOwner cr refs"
  by (induction refs) (simp_all add: owner_status)

interpretation ref_blind: status_blind "refReconciler config getenv" for config getenv
  by unfold_locales (simp add: refReconciler_def refSetController_def owner_status
      upsertOwner_status)

interpretation ref_repeated: repeated_operator "refApi served accepts" stored storedCR
  "refReconciler config getenv" for served accepts config getenv
  by unfold_locales

end
