(* ===== verification/Links.thy ===== *)
theory Links
  imports RefCluster
begin

text \<open>
  Snapshot classes and StorageProfiles belong together: a profile names the snapshot class that the
  disk driver creates, and is patched only after that class was requested.
\<close>

section \<open>What a patch links to\<close>

fun jsonField :: "string \<Rightarrow> json \<Rightarrow> json option" where
  "jsonField k (JObject kvs) = map_of kvs k"
| "jsonField k _ = None"

definition patchedSnapshotClass :: "json \<Rightarrow> json option" where
  "patchedSnapshotClass patch = Option.bind (jsonField ''spec'' patch) (jsonField ''snapshotClass'')"

lemma patchedSnapshotClass_profile:
  "patchedSnapshotClass (storageProfilePatch cfg sets snap) = (if snap = [] then None else Some (JString snap))"
  by (simp add: patchedSnapshotClass_def storageProfilePatch_def Let_def)

text \<open>A patch names the snapshot class of the specification; a snapshot class is created by that name.\<close>

definition linksSnapshots :: "AlibabaCloudCSIDriver \<Rightarrow> event \<Rightarrow> bool" where
  "linksSnapshots cr ev \<longleftrightarrow> (case ev of
     EvPatch kd n patch res \<Rightarrow> patchedSnapshotClass patch =
       (if diskSnapClassName cr = [] then None else Some (JString (diskSnapClassName cr)))
   | EvCreate ob res \<Rightarrow> objKind ob = KVolumeSnapshotClass \<longrightarrow> objRef ob = snapshotClassRef cr
   | _ \<Rightarrow> True)"

definition isPatch :: "event \<Rightarrow> bool" where
  "isPatch ev \<longleftrightarrow> (case ev of EvPatch _ _ _ _ \<Rightarrow> True | _ \<Rightarrow> False)"

definition createsSnapshotClass :: "AlibabaCloudCSIDriver \<Rightarrow> event \<Rightarrow> bool" where
  "createsSnapshotClass cr ev \<longleftrightarrow> (case ev of EvCreate ob _ \<Rightarrow> objRef ob = snapshotClassRef cr | _ \<Rightarrow> False)"

lemma link_simps [simp]:
  "linksSnapshots cr (EvGet kd n x)" "linksSnapshots cr (EvUpdate ob res)"
  "objKind ob \<noteq> KVolumeSnapshotClass \<Longrightarrow> linksSnapshots cr (EvCreate ob res)"
  "objRef ob = snapshotClassRef cr \<Longrightarrow> linksSnapshots cr (EvCreate ob res)"
  "\<not> isPatch (EvGet kd n x)" "\<not> isPatch (EvUpdate ob res)" "\<not> isPatch (EvCreate ob res)"
  by (simp_all add: linksSnapshots_def isPatch_def)

lemma link_patch [simp]:
  "linksSnapshots cr (EvPatch kd n (storageProfilePatch cfg sets (diskSnapClassName cr)) res)"
  by (simp add: linksSnapshots_def patchedSnapshotClass_profile)

section \<open>The disk driver\<close>

text \<open>The name under which the class is created is the one the profiles get.\<close>

lemma snapshotClass_name:
  "snap_Enabled (disk_Snapshot (spec_Disk (cr_Spec cr))) \<Longrightarrow>
     objRef (volumeSnapshotClass (ifEmpty (snap_ClassName (disk_Snapshot (spec_Disk (cr_Spec cr))))
       defaultDiskSnapClassName) d) = snapshotClassRef cr"
  by (simp add: snapshotClassRef_def diskSnapClassName_def ifEmpty_def object_simps)

text \<open>
  What a trace of the disk driver is like: every event links, and the snapshot class is created,
  if there is to be one, before every patch.
\<close>

fun classFirst :: "AlibabaCloudCSIDriver \<Rightarrow> event list \<Rightarrow> bool" where
  "classFirst cr [] = True"
| "classFirst cr (ev # tr) = (createsSnapshotClass cr ev \<or> (\<not> isPatch ev \<and> classFirst cr tr))"

definition linked :: "AlibabaCloudCSIDriver \<Rightarrow> event list \<Rightarrow> bool" where
  "linked cr tr \<longleftrightarrow> list_all (linksSnapshots cr) tr \<and>
     (snap_Enabled (disk_Snapshot (spec_Disk (cr_Spec cr))) \<longrightarrow> classFirst cr tr)"

lemma classFirst_quiet:
  "list_all (\<lambda>ev. \<not> isPatch ev) tr1 \<Longrightarrow> classFirst cr tr2 \<Longrightarrow> classFirst cr (tr1 @ tr2)"
  by (induction tr1) auto

lemma classFirst_created:
  "list_all (\<lambda>ev. \<not> isPatch ev) tr1 \<Longrightarrow> list_ex (createsSnapshotClass cr) tr1 \<Longrightarrow> classFirst cr (tr1 @ tr2)"
  by (induction tr1) auto

definition linkedAlways :: "AlibabaCloudCSIDriver \<Rightarrow> goerror option prog \<Rightarrow> bool" where
  "linkedAlways cr p \<longleftrightarrow> (\<forall>tr err. exec p tr err \<longrightarrow> linked cr tr)"

lemma linked_quiet:
  "list_all (linksSnapshots cr) tr \<Longrightarrow> list_all (\<lambda>ev. \<not> isPatch ev) tr \<Longrightarrow> linked cr tr"
  using classFirst_quiet [of tr cr "[]"] by (simp add: linked_def)

lemma linked_append:
  "list_all (linksSnapshots cr) tr1 \<Longrightarrow> list_all (\<lambda>ev. \<not> isPatch ev) tr1 \<Longrightarrow> linked cr tr2 \<Longrightarrow>
     linked cr (tr1 @ tr2)"
  by (simp add: linked_def classFirst_quiet)

lemma linked_created:
  "list_all (linksSnapshots cr) tr1 \<Longrightarrow> list_all (\<lambda>ev. \<not> isPatch ev) tr1 \<Longrightarrow>
     snap_Enabled (disk_Snapshot (spec_Disk (cr_Spec cr))) \<longrightarrow> list_ex (createsSnapshotClass cr) tr1 \<Longrightarrow>
     list_all (linksSnapshots cr) tr2 \<Longrightarrow> linked cr (tr1 @ tr2)"
  by (auto simp: linked_def classFirst_created)

context operator_libs
begin

lemma helpers_link:
  assumes "objKind obj \<noteq> KVolumeSnapshotClass"
  shows "confined (linksSnapshots cr) (createOrAdopt r cr' obj)"
    and "confined (linksSnapshots cr) (createOrUpdate r cr' obj)"
    and "confined (\<lambda>ev. \<not> isPatch ev) (createOrAdopt r cr' obj)"
    and "confined (\<lambda>ev. \<not> isPatch ev) (createOrUpdate r cr' obj)"
  using assms by (auto intro!: createOrAdopt_confined createOrUpdate_confined simp: objKind_ref)

lemma exec_snapshotClass:
  assumes "exec (ensureVolumeSnapshotClass r cr d (disk_Snapshot (spec_Disk (cr_Spec cr)))) tr err"
  shows "list_all (linksSnapshots cr) tr \<and> list_all (\<lambda>ev. \<not> isPatch ev) tr \<and>
    (snap_Enabled (disk_Snapshot (spec_Disk (cr_Spec cr))) \<and> err = None \<longrightarrow>
       list_ex (createsSnapshotClass cr) tr)"
proof (cases "snap_Enabled (disk_Snapshot (spec_Disk (cr_Spec cr)))")
  case False
  with assms show ?thesis by (simp add: ensureVolumeSnapshotClass_def exec_iffs)
next
  case True
  let ?obj = "volumeSnapshotClass (ifEmpty (snap_ClassName (disk_Snapshot (spec_Disk (cr_Spec cr))))
    defaultDiskSnapClassName) d"
  show ?thesis
  proof (cases "lib_SetControllerReference r cr ?obj")
    case (Inl e)
    with assms True show ?thesis by (simp add: ensureVolumeSnapshotClass_def exec_iffs)
  next
    case (Inr u)
    have "objRef u = snapshotClassRef cr" using set_objRef [OF Inr] snapshotClass_name [OF True] by simp
    moreover have "\<exists>res. tr = [EvCreate u res]"
      using assms True Inr unfolding ensureVolumeSnapshotClass_def
      by (auto simp: exec_iffs split_option_ex split: if_splits)
    ultimately show ?thesis by (auto simp: createsSnapshotClass_def)
  qed
qed

lemma profile_link:
  "confined (linksSnapshots cr) (ensureStorageProfile name cfg sets (diskSnapClassName cr))"
  unfolding ensureStorageProfile_def by (auto intro!: contract_rules split: sum.splits)

lemma diskClassLoop_link:
  "confined (linksSnapshots cr) (diskClassLoop r cr (diskSnapClassName cr) i scs)"
proof (induction scs arbitrary: i)
  case (Cons sc scs)
  show ?case
    unfolding diskClassLoop.simps Let_def ensureDiskStorageClass_def
    by (intro confined_check helpers_link profile_link Cons.IH) (simp add: object_simps)
qed (simp add: confined_Ret)

lemma linkedAlways_check:
  assumes "confined (linksSnapshots cr) p" and "confined (\<lambda>ev. \<not> isPatch ev) p" and "linkedAlways cr q"
  shows "linkedAlways cr (check p wrap q)"
proof -
  note p = confined_exec [OF assms(1)] confined_exec [OF assms(2)]
  from assms(3) have q: "exec q tr err \<Longrightarrow> linked cr tr" for tr err by (auto simp: linkedAlways_def)
  show ?thesis unfolding linkedAlways_def exec_check_iff
    by (intro allI impI, elim disjE exE conjE, simp_all only:)
      (rule linked_quiet linked_append; (rule p q; assumption))+
qed

lemma snapshotClass_then:
  assumes "confined (linksSnapshots cr) q"
  shows "linkedAlways cr (check (ensureVolumeSnapshotClass r cr d (disk_Snapshot (spec_Disk (cr_Spec cr)))) wrap q)"
  unfolding linkedAlways_def exec_check_iff
proof (intro allI impI, elim disjE exE conjE)
  fix tr e
  assume "exec (ensureVolumeSnapshotClass r cr d (disk_Snapshot (spec_Disk (cr_Spec cr)))) tr (Some e)"
  from exec_snapshotClass [OF this] show "linked cr tr" by (simp add: linked_quiet)
next
  fix tr tr1 tr2 err
  assume "exec (ensureVolumeSnapshotClass r cr d (disk_Snapshot (spec_Disk (cr_Spec cr)))) tr1 None"
    and "exec q tr2 err" and "tr = tr1 @ tr2"
  with exec_snapshotClass [of cr d tr1 None] confined_exec [OF assms] show "linked cr tr"
    by (simp add: linked_created)
qed

lemma ensureDiskDriver_linked: "linkedAlways cr (ensureDiskDriver r cr)"
  unfolding ensureDiskDriver_def ensureDiskCSIDriver_def ensureDiskControllerDeployment_def
    ensureDiskNodeDaemonSet_def Let_def
  by (intro linkedAlways_check snapshotClass_then diskClassLoop_link helpers_link)
    (simp_all add: object_simps)

end

text \<open>
  C24: on every path of the disk driver, a StorageProfile is patched with the name of the snapshot
  class of the specification or its default (with none if there is no name), a snapshot class is
  created by that name, and if snapshots are enabled the class was requested before the first patch.
\<close>

theorem profiles_link_snapshot_class:
  assumes "operator_libs r" and "exec (ensureDiskDriver r cr) tr err"
  shows "linked cr tr"
  using operator_libs.ensureDiskDriver_linked [OF assms(1)] assms(2) by (auto simp: linkedAlways_def)

theorem profiles_link_snapshot_class_witness:
  "\<exists>tr err. exec (ensureDiskDriver sampleReconciler sampleCR) tr err \<and> linked sampleCR tr"
  using exec_total [of "ensureDiskDriver sampleReconciler sampleCR"]
    profiles_link_snapshot_class [OF sample_operator(3)] by blast

end
