(* ===== verification/Bounds.thy ===== *)
theory Bounds
  imports RefCluster
begin

text \<open>
  How many requests the operator makes.  A reconciliation always ends, because a program is a finite
  tree; with a bounded retry loop the number of its requests is bounded by the number of storage
  classes, whatever the server answers.
\<close>

section \<open>Programs with a bounded number of requests\<close>

definition atMost :: "nat \<Rightarrow> 'a prog \<Rightarrow> bool" where
  "atMost k p \<longleftrightarrow> (\<forall>tr a. exec p tr a \<longrightarrow> length tr \<le> k)"

named_theorems bound_rules \<open>bounds of composed programs from the bounds of their parts\<close>

lemma atMost_mono: "atMost k p \<Longrightarrow> k \<le> k' \<Longrightarrow> atMost k' p"
  by (fastforce simp: atMost_def)

lemma atMost_Ret [bound_rules]: "atMost k (Ret a)"
  by (simp add: atMost_def)

lemma atMost_bind [bound_rules]:
  "atMost j p \<Longrightarrow> (\<And>a. atMost k (f a)) \<Longrightarrow> atMost (j + k) (bind p f)"
  unfolding atMost_def by (fastforce elim!: exec_bindE intro: add_mono)

lemma atMost_check [bound_rules]: "atMost j p \<Longrightarrow> atMost k q \<Longrightarrow> atMost (j + k) (check p w q)"
  unfolding check_def by (rule atMost_bind) (auto split: option.split simp: atMost_Ret)

lemma atMost_if [bound_rules]: "atMost k p \<Longrightarrow> atMost k q \<Longrightarrow> atMost k (if b then p else q)"
  by simp

lemma atMost_request [bound_rules]:
  "(\<And>x. atMost k (f1 x)) \<Longrightarrow> atMost (Suc k) (GetObj kd n f1)"
  "(\<And>x. atMost k (f2 x)) \<Longrightarrow> atMost (Suc k) (Create ob f2)"
  "(\<And>x. atMost k (f2 x)) \<Longrightarrow> atMost (Suc k) (Update ob f2)"
  "(\<And>x. atMost k (f2 x)) \<Longrightarrow> atMost (Suc k) (MergePatch kd n j f2)"
  "(\<And>x. atMost k (f2 x)) \<Longrightarrow> atMost (Suc k) (StatusPatch c c' f2)"
  "(\<And>x. atMost k (f3 x)) \<Longrightarrow> atMost (Suc k) (RESTMapping g kd' f3)"
  "(\<And>x. atMost k (f4 x)) \<Longrightarrow> atMost (Suc k) (NewDiscoveryClient f4)"
  "(\<And>x. atMost k (f5 x)) \<Longrightarrow> atMost (Suc k) (ServerResources gv f5)"
  "(\<And>t. atMost k (f6 t)) \<Longrightarrow> atMost (Suc k) (Now f6)"
  "(\<And>x. atMost k (f7 x)) \<Longrightarrow> atMost (Suc k) (GetCR nn f7)"
  by (fastforce simp: atMost_def exec_iffs)+

section \<open>The retry loop\<close>

locale bounded_retry =
  fixes r :: Reconciler and n :: nat
  assumes retry_bound: "(\<And>s. atMost k (f s)) \<Longrightarrow> atMost (k * (n + 1)) (lib_RetryOnConflict r f s)"
begin

lemma createOrAdopt_bound: "atMost (2 * n + 3) (createOrAdopt r cr obj)"
proof -
  have attempt: "atMost 2 (adoptAttempt r cr s)" for s
    unfolding adoptAttempt_def numeral_2_eq_2
    by (intro atMost_request) (auto split: sum.split intro!: bound_rules)
  have "atMost (2 * (n + 1) + 0) (bind (lib_RetryOnConflict r (adoptAttempt r cr) s) (\<lambda>(err, _). Ret err))" for s
    by (intro atMost_bind retry_bound attempt) (simp add: atMost_Ret split: prod.split)
  then have "atMost (Suc (2 * n + 2)) (createOrAdopt r cr obj)"
    unfolding createOrAdopt_def by (auto split: sum.split option.split intro!: bound_rules)
  then show ?thesis by (rule atMost_mono) simp
qed

lemma createOrUpdate_bound: "atMost (2 * n + 2) (createOrUpdate r cr obj)"
proof -
  have attempt: "atMost 2 (updateAttempt s)" for s
    unfolding updateAttempt_def numeral_2_eq_2
    by (intro atMost_request) (auto split: sum.split simp: Let_def intro!: bound_rules)
  have "atMost (2 * (n + 1) + 0) (bind (lib_RetryOnConflict r updateAttempt s) (\<lambda>(err, _). Ret err))" for s
    by (intro atMost_bind retry_bound attempt) (simp add: atMost_Ret split: prod.split)
  then show ?thesis
    unfolding createOrUpdate_def by (auto split: sum.split intro!: bound_rules)
qed

lemma sccAvailable_bound: "atMost 3 (sccAvailable r)"
proof -
  have "atMost (Suc (Suc (Suc 0))) (sccAvailable r)"
    unfolding sccAvailable_def by (auto split: sum.split option.split intro!: bound_rules)
  then show ?thesis by (simp add: numeral_3_eq_3)
qed

lemma psa_bound: "atMost 2 ensurePrivilegedNamespacePSA"
  unfolding ensurePrivilegedNamespacePSA_def numeral_2_eq_2
  by (intro atMost_request) (auto split: sum.split prod.split intro!: bound_rules)

lemma ensureRBAC_bound: "atMost (8 * n + 15) (ensureRBAC r cr)"
proof -
  have "atMost (2 * n + 3) (if a then ensureSCCBinding r cr else ensurePrivilegedNamespacePSA)" for a
    unfolding ensureSCCBinding_def
    using createOrAdopt_bound atMost_mono [OF psa_bound] by simp
  then have "atMost ((2 * n + 3) + ((2 * n + 3) + ((2 * n + 3) + (3 + (2 * n + 3))))) (ensureRBAC r cr)"
    unfolding ensureRBAC_def ensureServiceAccount_def ensureClusterRole_def ensureClusterRoleBinding_def
    by (intro atMost_check atMost_bind createOrAdopt_bound sccAvailable_bound) assumption
  then show ?thesis by (rule atMost_mono) simp
qed

lemma storageProfile_bound: "atMost 2 (ensureStorageProfile name cfg sets snap)"
  unfolding ensureStorageProfile_def numeral_2_eq_2
  by (auto split: sum.split intro!: bound_rules)

lemma snapshotClass_bound: "atMost 1 (ensureVolumeSnapshotClass r cr d cfg)"
  unfolding ensureVolumeSnapshotClass_def One_nat_def
  by (auto split: sum.split option.split simp: Let_def intro!: bound_rules)

lemma diskClassLoop_bound: "atMost ((2 * n + 5) * length scs) (diskClassLoop r cr snap i scs)"
proof (induction scs arbitrary: i)
  case (Cons sc scs)
  have "atMost ((2 * n + 3) + (2 + (2 * n + 5) * length scs)) (diskClassLoop r cr snap i (sc # scs))"
    unfolding diskClassLoop.simps Let_def ensureDiskStorageClass_def
    by (intro atMost_check createOrAdopt_bound storageProfile_bound Cons.IH)
  then show ?case by (rule atMost_mono) simp
qed (simp add: atMost_Ret)

lemma nasClassLoop_bound: "atMost ((2 * n + 5) * length scs) (nasClassLoop r cr i scs)"
proof (induction scs arbitrary: i)
  case (Cons sc scs)
  have "atMost ((2 * n + 3) + (2 + (2 * n + 5) * length scs)) (nasClassLoop r cr i (sc # scs))"
    unfolding nasClassLoop.simps Let_def ensureNASStorageClass_def
    by (intro atMost_check createOrAdopt_bound storageProfile_bound Cons.IH)
  then show ?case by (rule atMost_mono) simp
qed (simp add: atMost_Ret)

lemma ensureDiskDriver_bound:
  "atMost (6 * n + 8 + (2 * n + 5) * length (disk_StorageClasses (spec_Disk (cr_Spec cr))))
     (ensureDiskDriver r cr)"
proof -
  have "atMost ((2 * n + 3) + ((2 * n + 2) + ((2 * n + 2) + (1 +
      (2 * n + 5) * length (disk_StorageClasses (spec_Disk (cr_Spec cr))))))) (ensureDiskDriver r cr)"
    unfolding ensureDiskDriver_def Let_def ensureDiskCSIDriver_def ensureDiskControllerDeployment_def
      ensureDiskNodeDaemonSet_def
    by (intro atMost_check createOrAdopt_bound createOrUpdate_bound snapshotClass_bound
        diskClassLoop_bound)
  then show ?thesis by (rule atMost_mono) simp
qed

lemma ensureNASDriver_bound:
  "atMost (6 * n + 7 + (2 * n + 5) * length (nas_StorageClasses (spec_NAS (cr_Spec cr))))
     (ensureNASDriver r cr)"
proof -
  have "atMost ((2 * n + 3) + ((2 * n + 2) + ((2 * n + 2) +
      (2 * n + 5) * length (nas_StorageClasses (spec_NAS (cr_Spec cr)))))) (ensureNASDriver r cr)"
    unfolding ensureNASDriver_def Let_def ensureNASCSIDriver_def ensureNASControllerDeployment_def
      ensureNASNodeDaemonSet_def
    by (intro atMost_check createOrAdopt_bound createOrUpdate_bound nasClassLoop_bound)
  then show ?thesis by (rule atMost_mono) simp
qed

lemma ensureAll_bound:
  "atMost (20 * n + 30 + (2 * n + 5) * (length (disk_StorageClasses (spec_Disk (cr_Spec cr))) +
     length (nas_StorageClasses (spec_NAS (cr_Spec cr))))) (ensureAll r cr)"
proof -
  have "atMost ((8 * n + 15) +
      ((6 * n + 8 + (2 * n + 5) * length (disk_StorageClasses (spec_Disk (cr_Spec cr)))) +
      ((6 * n + 7 + (2 * n + 5) * length (nas_StorageClasses (spec_NAS (cr_Spec cr)))) + 0))) (ensureAll r cr)"
    unfolding ensureAll_def
    by (intro atMost_check atMost_if atMost_Ret ensureRBAC_bound ensureDiskDriver_bound ensureNASDriver_bound)
  then show ?thesis by (rule atMost_mono) (simp add: algebra_simps)
qed

end

interpretation ref_bounded: bounded_retry "refReconciler config getenv" 4 for config getenv
proof
  fix k and f :: "Object \<Rightarrow> (goerror option \<times> Object) prog" and s
  assume "\<And>s. atMost k (f s)"
  then have "\<And>s tr res. exec (f s) tr res \<Longrightarrow> length tr \<le> k"
    unfolding atMost_def by blast
  then have "\<And>tr res. exec (retryTimes 4 f s) tr res \<Longrightarrow> length tr \<le> k * (4 + 1)"
    by (rule exec_retryTimes_length)
  then show "atMost (k * (4 + 1)) (lib_RetryOnConflict (refReconciler config getenv) f s)"
    by (simp only: atMost_def refReconciler_def Reconciler.simps) blast
qed

text \<open>
  C10: termination.  A reconciliation of any resource ends, and after reading the resource it makes at
  most \<open>20 n + 32\<close> requests and \<open>2 n + 5\<close> more for each storage class, where a retry loop makes at
  most \<open>n + 1\<close> attempts (five for \<open>retry.DefaultRetry\<close>), however often the server reports a conflict.
\<close>

theorem Reconcile_ends_within_bound:
  assumes "bounded_retry r n"
  shows "(\<exists>tr err. exec (Reconcile r req) tr err) \<and>
    (\<forall>cr tr err. exec (Reconcile r req) (EvGetCR req (Inr cr) # tr) err \<longrightarrow>
       length tr \<le> 20 * n + 32 + (2 * n + 5) * (length (disk_StorageClasses (spec_Disk (cr_Spec cr))) +
         length (nas_StorageClasses (spec_NAS (cr_Spec cr)))))"
proof (intro conjI allI impI)
  show "\<exists>tr err. exec (Reconcile r req) tr err" by (rule exec_total)
next
  fix cr tr err
  assume "exec (Reconcile r req) (EvGetCR req (Inr cr) # tr) err"
  then obtain tr1 now st res where "exec (ensureAll r cr) tr1 err"
    and "tr = tr1 @ [EvNow now, EvStatusPatch cr st res]" by (auto simp: exec_Reconcile)
  then show "length tr \<le> 20 * n + 32 + (2 * n + 5) * (length (disk_StorageClasses (spec_Disk (cr_Spec cr))) +
      length (nas_StorageClasses (spec_NAS (cr_Spec cr))))"
    using bounded_retry.ensureAll_bound [OF assms, of cr] unfolding atMost_def by fastforce
qed

theorem Reconcile_ends_within_bound_witness:
  "\<exists>tr err. exec (Reconcile sampleReconciler ([], ''cluster''))
       (EvGetCR ([], ''cluster'') (Inr sampleCR) # tr) err \<and>
     length tr \<le> 112 + 13 * 3"
proof -
  obtain tr err where "exec (ensureAll sampleReconciler sampleCR) tr err"
    using exec_total [of "ensureAll sampleReconciler sampleCR"] by auto
  moreover have "crKey sampleCR = ([], ''cluster'')" by code_simp
  ultimately have "exec (Reconcile sampleReconciler ([], ''cluster''))
      (EvGetCR ([], ''cluster'') (Inr sampleCR) # tr @ [EvNow 0, EvStatusPatch sampleCR
        (sampleCR\<lparr>cr_Status := finalStatus sampleCR err 0\<rparr>) None]) err"
    unfolding exec_Reconcile by fastforce
  moreover have "length (disk_StorageClasses (spec_Disk (cr_Spec sampleCR))) +
      length (nas_StorageClasses (spec_NAS (cr_Spec sampleCR))) = 3" by code_simp
  ultimately show ?thesis
    using Reconcile_ends_within_bound [OF ref_bounded.bounded_retry_axioms] by fastforce
qed

end
