(* ===== verification/GoHeap.thy ===== *)
theory GoHeap
  imports Prelude "HOL-Library.AList"
begin

text \<open>
  Go values that share memory: pointers, slices and maps are references into a heap, and copying a
  struct copies the references.  The heap is a list of cells that only grows by allocation; the
  type of cells is left open here, with an injection \<open>mk\<close> and a partial projection \<open>rd\<close> for each
  type of value that is stored.
  The locale \<open>deep_copy\<close> states what it means that a function copies deeply: old cells are not
  touched, the copy denotes the same value, and it reaches new cells only.  Every combinator of
  the generated code (struct, pointer, slice, map) preserves it.
\<close>

section \<open>Memory\<close>

type_synonym addr = nat
type_synonym 'c heap = "'c list"

definition alloc :: "'c \<Rightarrow> 'c heap \<Rightarrow> addr \<times> 'c heap" where
  "alloc c h = (length h, h @ [c])"

definition deref :: "('c \<Rightarrow> 'a option) \<Rightarrow> 'c heap \<Rightarrow> addr \<Rightarrow> 'a option" where
  "deref rd h a = (if a < length h then rd (h ! a) else None)"

text \<open>A slice is nil, or an address of a backing array with an offset and a length.\<close>

datatype slice = NilSlice | Slice addr nat nat

fun slice_length :: "slice \<Rightarrow> nat" where
  "slice_length NilSlice = 0"
| "slice_length (Slice a off n) = n"

fun elems :: "('c \<Rightarrow> 'e list option) \<Rightarrow> 'c heap \<Rightarrow> slice \<Rightarrow> 'e list" where
  "elems rd h NilSlice = []"
| "elems rd h (Slice a off n) = take n (drop off (the (deref rd h a)))"

text \<open>\<open>make([]T, n)\<close>: a new array of zero values.\<close>

definition make :: "('e list \<Rightarrow> 'c) \<Rightarrow> 'e \<Rightarrow> nat \<Rightarrow> 'c heap \<Rightarrow> slice \<times> 'c heap" where
  "make mk zero n h = (let (a, h') = alloc (mk (replicate n zero)) h in (Slice a 0 n, h'))"

text \<open>\<open>s[i] = y\<close>.\<close>

fun setElem :: "('e list \<Rightarrow> 'c) \<Rightarrow> ('c \<Rightarrow> 'e list option) \<Rightarrow> slice \<Rightarrow> nat \<Rightarrow> 'e \<Rightarrow> 'c heap \<Rightarrow> 'c heap" where
  "setElem mk rd NilSlice i y h = h"
| "setElem mk rd (Slice a off n) i y h = h[a := mk ((the (deref rd h a))[off + i := y])]"

text \<open>The built-in \<open>copy(dst, src)\<close>: as many elements as the shorter slice has.\<close>

fun goCopy :: "('e list \<Rightarrow> 'c) \<Rightarrow> ('c \<Rightarrow> 'e list option) \<Rightarrow> slice \<Rightarrow> slice \<Rightarrow> 'c heap \<Rightarrow> 'c heap" where
  "goCopy mk rd NilSlice src h = h"
| "goCopy mk rd (Slice a off n) src h =
     (let m = min n (slice_length src); arr = the (deref rd h a)
      in h[a := mk (take off arr @ take m (elems rd h src) @ drop (off + m) arr)])"

text \<open>
  \<open>append(s, x)\<close>: in place when the backing array has room behind the slice, otherwise into a new
  array.  How much room a new array has for \<open>n\<close> elements is up to the implementation: \<open>grow n\<close>.
\<close>

definition goAppend :: "(nat \<Rightarrow> nat) \<Rightarrow> ('e list \<Rightarrow> 'c) \<Rightarrow> ('c \<Rightarrow> 'e list option) \<Rightarrow> 'e \<Rightarrow> slice \<Rightarrow> 'e \<Rightarrow>
    'c heap \<Rightarrow> slice \<times> 'c heap" where
  "goAppend grow mk rd zero s x h =
     (let m = slice_length s + 1;
          fresh = (let (a, h') = alloc (mk (elems rd h s @ [x] @ replicate (grow m - m) zero)) h
            in (Slice a 0 m, h'))
      in case s of
           NilSlice \<Rightarrow> fresh
         | Slice a off n \<Rightarrow> (let arr = the (deref rd h a) in
             if off + n < length arr then (Slice a off m, h[a := mk (arr[off + n := x])])
             else fresh))"

section \<open>The shapes of the generated code\<close>

text \<open>\<open>if in.F != nil { *out = make([]T, len(*in)); copy(*out, *in) }\<close>\<close>

definition copySlice :: "('e list \<Rightarrow> 'c) \<Rightarrow> ('c \<Rightarrow> 'e list option) \<Rightarrow> 'e \<Rightarrow> slice \<Rightarrow> 'c heap \<Rightarrow>
    slice \<times> 'c heap" where
  "copySlice mk rd zero s h = (if s \<noteq> NilSlice
     then (let (out, h1) = make mk zero (slice_length s) h in (out, goCopy mk rd out s h1))
     else (s, h))"

text \<open>\<open>for i := range *in { (*in)[i].DeepCopyInto(&(*out)[i]) }\<close>, from index \<open>i\<close> on.\<close>

fun copyElems :: "('e list \<Rightarrow> 'c) \<Rightarrow> ('c \<Rightarrow> 'e list option) \<Rightarrow> ('e \<Rightarrow> 'c heap \<Rightarrow> 'e \<times> 'c heap) \<Rightarrow>
    slice \<Rightarrow> slice \<Rightarrow> nat \<Rightarrow> nat \<Rightarrow> 'c heap \<Rightarrow> 'c heap" where
  "copyElems mk rd cp out s i 0 h = h"
| "copyElems mk rd cp out s i (Suc n) h =
     (let (y, h1) = cp (elems rd h s ! i) h
      in copyElems mk rd cp out s (Suc i) n (setElem mk rd out i y h1))"

definition deepCopySlice :: "('e list \<Rightarrow> 'c) \<Rightarrow> ('c \<Rightarrow> 'e list option) \<Rightarrow> 'e \<Rightarrow>
    ('e \<Rightarrow> 'c heap \<Rightarrow> 'e \<times> 'c heap) \<Rightarrow> slice \<Rightarrow> 'c heap \<Rightarrow> slice \<times> 'c heap" where
  "deepCopySlice mk rd zero cp s h = (if s \<noteq> NilSlice
     then (let (out, h1) = make mk zero (slice_length s) h
           in (out, copyElems mk rd cp out s 0 (slice_length s) h1))
     else (s, h))"

text \<open>\<open>if in == nil { return nil }; out := new(T); in.DeepCopyInto(out); return out\<close>\<close>

definition deepCopyPtr :: "('a \<Rightarrow> 'c) \<Rightarrow> ('c \<Rightarrow> 'a option) \<Rightarrow> 'a \<Rightarrow> ('a \<Rightarrow> 'c heap \<Rightarrow> 'a \<times> 'c heap) \<Rightarrow>
    addr option \<Rightarrow> 'c heap \<Rightarrow> addr option \<times> 'c heap" where
  "deepCopyPtr mk rd zero cp p h = (case p of
       None \<Rightarrow> (None, h)
     | Some a \<Rightarrow> (let (out, h1) = alloc (mk zero) h; (y, h2) = cp (the (deref rd h1 a)) h1
                 in (Some out, h2[out := mk y])))"

text \<open>
  \<open>*out = make(map[string]string, len(*in)); for key, val := range *in { (*out)[key] = val }\<close>.
  A map cell lists its entries in the order in which the iteration visits them.
\<close>

fun insertAll :: "((string \<times> string) list \<Rightarrow> 'c) \<Rightarrow> ('c \<Rightarrow> (string \<times> string) list option) \<Rightarrow> addr \<Rightarrow>
    (string \<times> string) list \<Rightarrow> 'c heap \<Rightarrow> 'c heap" where
  "insertAll mk rd out [] h = h"
| "insertAll mk rd out ((key, val) # rest) h =
     insertAll mk rd out rest (h[out := mk (AList.update key val (the (deref rd h out)))])"

definition copyMap :: "((string \<times> string) list \<Rightarrow> 'c) \<Rightarrow> ('c \<Rightarrow> (string \<times> string) list option) \<Rightarrow>
    addr option \<Rightarrow> 'c heap \<Rightarrow> addr option \<times> 'c heap" where
  "copyMap mk rd p h = (case p of
       None \<Rightarrow> (None, h)
     | Some a \<Rightarrow> (let (out, h1) = alloc (mk []) h
                 in (Some out, insertAll mk rd out (the (deref rd h1 a)) h1)))"

section \<open>Deep copies\<close>

locale deep_copy =
  fixes ok :: "'c heap \<Rightarrow> 'a \<Rightarrow> bool"
    and view :: "'c heap \<Rightarrow> 'a \<Rightarrow> 'v"
    and reach :: "'c heap \<Rightarrow> 'a \<Rightarrow> addr set"
    and cp :: "'a \<Rightarrow> 'c heap \<Rightarrow> 'a \<times> 'c heap"
  assumes reach_in: "ok h x \<Longrightarrow> reach h x \<subseteq> {..<length h}"
    and local: "ok h x \<Longrightarrow> (\<And>a. a \<in> reach h x \<Longrightarrow> a < length h' \<and> h' ! a = h ! a) \<Longrightarrow>
      ok h' x \<and> view h' x = view h x \<and> reach h' x = reach h x"
    and copies: "ok h x \<Longrightarrow> cp x h = (y, h') \<Longrightarrow>
      (\<exists>cs. h' = h @ cs) \<and> ok h' y \<and> view h' y = view h x \<and> reach h' y \<subseteq> {length h..<length h'}"
begin

lemma extend:
  assumes "ok h x"
  shows "ok (h @ cs) x \<and> view (h @ cs) x = view h x \<and> reach (h @ cs) x = reach h x"
  using assms reach_in [OF assms] by (intro local) (auto simp: nth_append)

text \<open>The original and the copy keep their values when cells of the other one are overwritten.\<close>

lemma original_kept:
  assumes "ok h x" and "cp x h = (y, h')" and "length h' \<le> length h''"
    and "\<And>a. a < length h' \<Longrightarrow> a \<notin> reach h' y \<Longrightarrow> h'' ! a = h' ! a"
  shows "ok h'' x \<and> view h'' x = view h x"
proof -
  from copies [OF assms(1,2)] obtain cs where h': "h' = h @ cs" and y: "reach h' y \<subseteq> {length h..<length h'}"
    by blast
  have "ok h'' x \<and> view h'' x = view h x \<and> reach h'' x = reach h x"
  proof (rule local [OF assms(1)])
    fix a assume "a \<in> reach h x"
    with reach_in [OF assms(1)] have a: "a < length h" by auto
    with y have "a \<notin> reach h' y" by auto
    with a assms(4) [of a] show "a < length h'' \<and> h'' ! a = h ! a"
      using assms(3) by (simp add: h' nth_append)
  qed
  then show ?thesis by simp
qed

lemma copy_kept:
  assumes "ok h x" and "cp x h = (y, h')" and "length h' \<le> length h''"
    and "\<And>a. a < length h' \<Longrightarrow> length h \<le> a \<Longrightarrow> h'' ! a = h' ! a"
  shows "ok h'' y \<and> view h'' y = view h x"
proof -
  from copies [OF assms(1,2)] have y: "ok h' y" "view h' y = view h x"
    "reach h' y \<subseteq> {length h..<length h'}" by auto
  have "ok h'' y \<and> view h'' y = view h' y \<and> reach h'' y = reach h' y"
    using y(3) assms(3) by (intro local [OF y(1)]) (fastforce simp: assms(4))
  with y(2) show ?thesis by simp
qed

text \<open>They share no cell, so each keeps its value whatever is written through the other one.\<close>

lemma separate:
  assumes "ok h x" and "cp x h = (y, h')"
  shows "(\<exists>cs. h' = h @ cs) \<and> view h' y = view h x \<and> reach h' x \<inter> reach h' y = {}"
proof -
  from copies [OF assms] obtain cs where h': "h' = h @ cs" and y: "view h' y = view h x"
    "reach h' y \<subseteq> {length h..<length h'}" by blast
  have "reach h' x \<subseteq> {..<length h}" using extend [OF assms(1), of cs] reach_in [OF assms(1)] h' by simp
  with y(2) have "reach h' x \<inter> reach h' y = {}" by fastforce
  with h' y(1) show ?thesis by blast
qed

lemma independent:
  assumes "ok h x" and "cp x h = (y, h')" and "length h' \<le> length h''"
  shows "((\<forall>a < length h'. a \<notin> reach h' y \<longrightarrow> h'' ! a = h' ! a) \<longrightarrow> view h'' x = view h x) \<and>
    ((\<forall>a < length h'. a \<notin> reach h' x \<longrightarrow> h'' ! a = h' ! a) \<longrightarrow> view h'' y = view h x)"
proof -
  from copies [OF assms(1,2)] obtain cs where h': "h' = h @ cs" by blast
  have "reach h' x \<subseteq> {..<length h}" using extend [OF assms(1), of cs] reach_in [OF assms(1)] h' by simp
  then show ?thesis
    using original_kept [OF assms] copy_kept [OF assms] by fastforce
qed

end

subsection \<open>Structs\<close>

text \<open>A struct without references is copied by the assignment \<open>*out = *in\<close>.\<close>

definition copyPlain :: "'a \<Rightarrow> 'c heap \<Rightarrow> 'a \<times> 'c heap" where
  "copyPlain x h = (x, h)"

lemma deep_copy_plain: "deep_copy (\<lambda>h x. True) (\<lambda>h x. x) (\<lambda>h x. {}) copyPlain"
  by unfold_locales (auto simp: copyPlain_def)

text \<open>A struct with a part that is copied deeply and written back.\<close>

lemma deep_copy_struct:
  assumes "deep_copy ok view reach cp" and get: "\<And>s y. get (put y s) = y"
    and mkv: "\<And>s y v. mkv (put y s) v = mkv s v"
  shows "deep_copy (\<lambda>h s. ok h (get s)) (\<lambda>h s. mkv s (view h (get s))) (\<lambda>h s. reach h (get s))
    (\<lambda>s h. let (y, h') = cp (get s) h in (put y s, h'))"
proof -
  note part_copies = deep_copy.copies [OF assms(1)] and part_local = deep_copy.local [OF assms(1)]
    and part_in = deep_copy.reach_in [OF assms(1)]
  show ?thesis
  proof
    fix h :: "'a list" and x y h'
    assume "ok h (get x)" and "(let (y, h') = cp (get x) h in (put y x, h')) = (y, h')"
    moreover obtain p h1 where p: "cp (get x) h = (p, h1)" by (cases "cp (get x) h")
    ultimately show "(\<exists>cs. h' = h @ cs) \<and> ok h' (get y) \<and>
        mkv y (view h' (get y)) = mkv x (view h (get x)) \<and> reach h' (get y) \<subseteq> {length h..<length h'}"
      using part_copies [OF _ p] by (auto simp: get mkv)
  next
    fix h h' :: "'a list" and x
    assume "ok h (get x)" and "\<And>a. a \<in> reach h (get x) \<Longrightarrow> a < length h' \<and> h' ! a = h ! a"
    from part_local [OF this] show "ok h' (get x) \<and> mkv x (view h' (get x)) = mkv x (view h (get x)) \<and>
        reach h' (get x) = reach h (get x)" by simp
  qed (rule part_in)
qed

lemma deep_copy_structI:
  assumes dc: "deep_copy ok view reach cp" and get: "\<And>s y. get (put y s) = y"
    and mkv: "\<And>s y v. mkv (put y s) v = mkv s v"
    and eqs: "\<And>h s. ok' h s = ok h (get s)" "\<And>h s. view' h s = mkv s (view h (get s))"
      "\<And>h s. reach' h s = reach h (get s)"
      "\<And>s h. cp' s h = (let (y, h') = cp (get s) h in (put y s, h'))"
  shows "deep_copy ok' view' reach' cp'"
proof -
  have "ok' = (\<lambda>h s. ok h (get s))" "view' = (\<lambda>h s. mkv s (view h (get s)))"
    "reach' = (\<lambda>h s. reach h (get s))" "cp' = (\<lambda>s h. let (y, h') = cp (get s) h in (put y s, h'))"
    by (simp_all add: fun_eq_iff eqs)
  with deep_copy_struct [OF dc, of get put mkv] get mkv show ?thesis by simp
qed

lemma deep_copy_pair:
  assumes "deep_copy ok1 view1 reach1 cp1" and "deep_copy ok2 view2 reach2 cp2"
  shows "deep_copy (\<lambda>h (x, y). ok1 h x \<and> ok2 h y) (\<lambda>h (x, y). (view1 h x, view2 h y))
    (\<lambda>h (x, y). reach1 h x \<union> reach2 h y)
    (\<lambda>(x, y) h. let (x', h1) = cp1 x h; (y', h2) = cp2 y h1 in ((x', y'), h2))"
proof -
  note copies1 = deep_copy.copies [OF assms(1)] and copies2 = deep_copy.copies [OF assms(2)]
    and extend1 = deep_copy.extend [OF assms(1)] and extend2 = deep_copy.extend [OF assms(2)]
  show ?thesis
  proof (unfold_locales, goal_cases)
    case (1 h x)
    then show ?case using deep_copy.reach_in [OF assms(1)] deep_copy.reach_in [OF assms(2)] by (cases x) fastforce
  next
    case (2 h x h')
    obtain x1 x2 where x: "x = (x1, x2)" by (cases x)
    from 2 show ?case
      using deep_copy.local [OF assms(1), of h x1 h'] deep_copy.local [OF assms(2), of h x2 h'] by (simp add: x)
  next
    case (3 h x y h')
    obtain x1 x2 where x: "x = (x1, x2)" by (cases x)
    obtain y1 h1 where c1: "cp1 x1 h = (y1, h1)" by (cases "cp1 x1 h")
    obtain y2 h2 where c2: "cp2 x2 h1 = (y2, h2)" by (cases "cp2 x2 h1")
    from 3 have ok: "ok1 h x1" "ok2 h x2" and y: "y = (y1, y2)" "h' = h2" by (simp_all add: x c1 c2)
    from copies1 [OF ok(1) c1] obtain cs1 where h1: "h1 = h @ cs1" and y1: "ok1 h1 y1"
      "view1 h1 y1 = view1 h x1" "reach1 h1 y1 \<subseteq> {length h..<length h1}" by blast
    from extend2 [OF ok(2), of cs1] have ok2: "ok2 h1 x2" "view2 h1 x2 = view2 h x2"
      by (simp_all add: h1)
    from copies2 [OF ok2(1) c2] obtain cs2 where h2: "h2 = h1 @ cs2" and y2: "ok2 h2 y2"
      "view2 h2 y2 = view2 h x2" "reach2 h2 y2 \<subseteq> {length h1..<length h2}" using ok2(2) by auto
    from extend1 [OF y1(1), of cs2] y1 have "ok1 h2 y1" "view1 h2 y1 = view1 h x1"
      "reach1 h2 y1 \<subseteq> {length h..<length h1}" by (simp_all add: h2)
    with y2 show ?case by (auto simp: x y h2 h1)
  qed
qed

subsection \<open>Slices, pointers, maps\<close>

fun sliceOk :: "('c \<Rightarrow> 'e list option) \<Rightarrow> ('c heap \<Rightarrow> 'e \<Rightarrow> bool) \<Rightarrow> 'c heap \<Rightarrow> slice \<Rightarrow> bool" where
  "sliceOk rd ok h NilSlice = True"
| "sliceOk rd ok h (Slice a off n) = (case deref rd h a of None \<Rightarrow> False
     | Some arr \<Rightarrow> off + n \<le> length arr \<and> list_all (ok h) (elems rd h (Slice a off n)))"

definition sliceView :: "('c \<Rightarrow> 'e list option) \<Rightarrow> ('c heap \<Rightarrow> 'e \<Rightarrow> 'v) \<Rightarrow> 'c heap \<Rightarrow> slice \<Rightarrow> 'v list" where
  "sliceView rd view h s = map (view h) (elems rd h s)"

fun sliceReach :: "('c \<Rightarrow> 'e list option) \<Rightarrow> ('c heap \<Rightarrow> 'e \<Rightarrow> addr set) \<Rightarrow> 'c heap \<Rightarrow> slice \<Rightarrow> addr set" where
  "sliceReach rd reach h NilSlice = {}"
| "sliceReach rd reach h (Slice a off n) =
     insert a (\<Union>x \<in> set (elems rd h (Slice a off n)). reach h x)"

lemma deref_SomeD: "deref rd h a = Some x \<Longrightarrow> a < length h \<and> rd (h ! a) = Some x"
  by (simp add: deref_def split: if_splits)

lemma deref_append [simp]: "a < length h \<Longrightarrow> deref rd (h @ cs) a = deref rd h a"
  by (simp add: deref_def nth_append)

lemma deref_new [simp]: "deref rd (h @ c # cs) (length h) = rd c"
  by (simp add: deref_def)

lemma slice_elems_len: "sliceOk rd ok h s \<Longrightarrow> length (elems rd h s) = slice_length s"
  by (cases s) (auto split: option.splits)

lemma slice_elem_ok: "sliceOk rd ok h s \<Longrightarrow> x \<in> set (elems rd h s) \<Longrightarrow> ok h x"
  by (cases s) (auto simp: list_all_iff split: option.splits)

lemma slice_local:
  assumes "deep_copy ok view reach cp" and "sliceOk rd ok h s"
    and same: "\<And>a. a \<in> sliceReach rd reach h s \<Longrightarrow> a < length h' \<and> h' ! a = h ! a"
  shows "sliceOk rd ok h' s \<and> elems rd h' s = elems rd h s \<and> sliceView rd view h' s = sliceView rd view h s \<and>
    sliceReach rd reach h' s = sliceReach rd reach h s"
proof (cases s)
  case (Slice a off n)
  from assms(2) obtain arr where arr: "deref rd h a = Some arr" "off + n \<le> length arr"
    by (auto simp: Slice split: option.splits)
  have arr': "deref rd h' a = Some arr"
    using arr(1) same [of a] by (simp add: deref_def Slice split: if_splits)
  then have el: "elems rd h' s = elems rd h s" by (simp add: arr Slice)
  have "ok h' x \<and> view h' x = view h x \<and> reach h' x = reach h x" if "x \<in> set (elems rd h s)" for x
    using that slice_elem_ok [OF assms(2)]
    by (intro deep_copy.local [OF assms(1)]) (auto simp: Slice intro!: same)
  with el arr arr' show ?thesis
    unfolding Slice by (auto simp: sliceView_def list_all_iff)
qed (simp add: sliceView_def)

lemma slice_reach_in:
  assumes "deep_copy ok view reach cp" and "sliceOk rd ok h s"
  shows "sliceReach rd reach h s \<subseteq> {..<length h}"
proof (cases s)
  case (Slice a off n)
  with assms(2) have "a < length h" by (auto simp: deref_def split: option.splits if_splits)
  moreover have "reach h x \<subseteq> {..<length h}" if "x \<in> set (elems rd h s)" for x
    using deep_copy.reach_in [OF assms(1)] slice_elem_ok [OF assms(2) that] by blast
  ultimately show ?thesis by (auto simp: Slice)
qed simp

text \<open>What the loop has done after some steps: a new array, filled up to the current index.\<close>

lemma copyElems_spec:
  assumes dc: "deep_copy ok view reach cp" and rd: "\<And>xs. rd (mk xs) = Some xs"
    and s: "sliceOk rd ok h0 s" and out: "out = Slice (length h0) 0 (length ys + n)"
    and h: "h = h0 @ mk (ys @ replicate n zero) # cs"
    and len: "length ys + n = slice_length s"
    and ys: "\<And>j. j < length ys \<Longrightarrow> ok h (ys ! j) \<and> view h (ys ! j) = view h0 (elems rd h0 s ! j) \<and>
      reach h (ys ! j) \<subseteq> {Suc (length h0)..<length h}"
  shows "\<exists>zs cs'. copyElems mk rd cp out s (length ys) n h = h0 @ mk zs # cs' \<and>
    length zs = slice_length s \<and>
    (\<forall>j < slice_length s. let h' = h0 @ mk zs # cs' in ok h' (zs ! j) \<and>
       view h' (zs ! j) = view h0 (elems rd h0 s ! j) \<and> reach h' (zs ! j) \<subseteq> {Suc (length h0)..<length h'})"
  using out h len ys
proof (induction n arbitrary: ys h cs)
  case 0
  then show ?case by (intro exI [of _ ys] exI [of _ cs]) simp
next
  case (Suc n)
  let ?x = "elems rd h0 s ! length ys"
  have in_h: "\<And>a. a \<in> sliceReach rd reach h0 s \<Longrightarrow> a < length h \<and> h ! a = h0 ! a"
    using slice_reach_in [OF dc s] Suc.prems(2) by (auto simp: nth_append)
  have el: "elems rd h s = elems rd h0 s" using slice_local [OF dc s in_h] by simp
  have x0: "ok h0 ?x" using s Suc.prems(3) slice_elems_len [OF s] by (intro slice_elem_ok [OF s] nth_mem) simp
  have x: "ok h ?x" "view h ?x = view h0 ?x"
    using deep_copy.extend [OF dc x0] by (simp_all add: Suc.prems(2))
  obtain y h1 where y: "cp ?x h = (y, h1)" by (cases "cp ?x h")
  from deep_copy.copies [OF dc x(1) y] obtain cs1 where h1: "h1 = h @ cs1" and y_ok: "ok h1 y"
    "view h1 y = view h0 ?x" "reach h1 y \<subseteq> {length h..<length h1}" using x(2) by auto
  let ?ys = "ys @ [y]" and ?cs = "cs @ cs1"
  let ?h2 = "h0 @ mk (?ys @ replicate n zero) # ?cs"
  have set: "setElem mk rd out (length ys) y h1 = ?h2"
    by (simp add: Suc.prems(1,2) h1 deref_def rd list_update_append nth_append)
  have keep: "ok ?h2 z \<and> view ?h2 z = view h1 z \<and> reach ?h2 z = reach h1 z"
    if "ok h1 z" "reach h1 z \<subseteq> {Suc (length h0)..<length h1}" for z
    using that(2) by (intro deep_copy.local [OF dc that(1)])
      (auto simp: h1 Suc.prems(2) nth_append nth_Cons split: nat.splits)
  have new: "ok ?h2 (?ys ! j) \<and> view ?h2 (?ys ! j) = view h0 (elems rd h0 s ! j) \<and>
      reach ?h2 (?ys ! j) \<subseteq> {Suc (length h0)..<length ?h2}" if "j < length ?ys" for j
  proof (cases "j = length ys")
    case True
    have y_in: "reach h1 y \<subseteq> {Suc (length h0)..<length h1}"
      using y_ok(3) Suc.prems(2) by fastforce
    have "length h1 = length ?h2" by (simp add: h1 Suc.prems(2))
    with True keep [OF y_ok(1) y_in] y_ok(2) y_in show ?thesis by simp
  next
    case False
    with that have j: "j < length ys" by simp
    from Suc.prems(4) [OF j] deep_copy.extend [OF dc, of h "ys ! j" cs1]
    have "ok h1 (ys ! j)" "view h1 (ys ! j) = view h0 (elems rd h0 s ! j)"
      "reach h1 (ys ! j) \<subseteq> {Suc (length h0)..<length h}" by (simp_all add: h1)
    moreover from this(3) have in1: "reach h1 (ys ! j) \<subseteq> {Suc (length h0)..<length h1}"
      by (auto simp: h1)
    moreover have "length h1 = length ?h2" by (simp add: h1 Suc.prems(2))
    ultimately show ?thesis using keep [OF _ in1] j by (simp add: nth_append)
  qed
  have "copyElems mk rd cp out s (length ys) (Suc n) h = copyElems mk rd cp out s (length ?ys) n ?h2"
    using y by (simp add: el set)
  with Suc.IH [of ?ys ?h2 ?cs, OF _ refl _ new] Suc.prems(1,3) show ?case by simp
qed

lemma deep_copy_slice:
  assumes dc: "deep_copy ok view reach cp" and rd: "\<And>xs. rd (mk xs) = Some xs"
  shows "deep_copy (sliceOk rd ok) (sliceView rd view) (sliceReach rd reach) (deepCopySlice mk rd zero cp)"
proof (unfold_locales, goal_cases)
  case (1 h s)
  then show ?case by (rule slice_reach_in [OF dc])
next
  case (2 h s h')
  then show ?case using slice_local [OF dc] by blast
next
  case (3 h s y h')
  note s = 3(1) and cp = 3(2)
  show ?case
  proof (cases "s = NilSlice")
    case True
    with s cp show ?thesis by (simp add: deepCopySlice_def sliceView_def)
  next
    case False
    let ?n = "slice_length s" and ?out = "Slice (length h) 0 (slice_length s)"
    obtain zs cs where h': "h' = h @ mk zs # cs" and y: "y = ?out" and len: "length zs = ?n"
      and zs: "\<And>j. j < ?n \<Longrightarrow> ok h' (zs ! j) \<and> view h' (zs ! j) = view h (elems rd h s ! j) \<and>
        reach h' (zs ! j) \<subseteq> {Suc (length h)..<length h'}"
      using copyElems_spec [OF dc rd s, of ?out "[]" ?n "h @ [mk (replicate ?n zero)]" zero "[]"] cp False
      by (auto simp: deepCopySlice_def make_def alloc_def Let_def)
    have el: "elems rd h' y = zs" by (simp add: y h' deref_def rd len)
    have "sliceOk rd ok h' y"
      using zs len el by (auto simp: y h' deref_def rd list_all_length)
    moreover have "sliceView rd view h' y = sliceView rd view h s"
      unfolding sliceView_def el using zs len slice_elems_len [OF s] by (intro nth_equalityI) simp_all
    moreover have "reach h' x \<subseteq> {length h..<length h'}" if "x \<in> set zs" for x
      using that zs len by (fastforce simp: in_set_conv_nth)
    then have "sliceReach rd reach h' y \<subseteq> {length h..<length h'}"
      using el by (auto simp: y h')
    ultimately show ?thesis using h' by blast
  qed
qed

text \<open>Where the elements hold no references, the built-in copy does the same as the loop.\<close>

lemma copySlice_eq:
  assumes rd: "\<And>xs. rd (mk xs) = Some xs" and s: "sliceOk rd ok h s"
  shows "copySlice mk rd zero s h = (if s = NilSlice then (s, h)
    else (Slice (length h) 0 (slice_length s), h @ [mk (elems rd h s)]))"
proof (cases s)
  case (Slice a off n)
  with s obtain arr where arr: "deref rd h a = Some arr" "off + n \<le> length arr"
    by (auto split: option.splits)
  with deref_SomeD [OF arr(1)] show ?thesis
    by (simp add: Slice copySlice_def make_def alloc_def Let_def rd)
qed (simp add: copySlice_def)

lemma deep_copy_builtin:
  assumes rd: "\<And>xs. rd (mk xs) = Some xs"
  shows "deep_copy (sliceOk rd (\<lambda>h x. True)) (sliceView rd (\<lambda>h x. x)) (sliceReach rd (\<lambda>h x. {}))
    (copySlice mk rd zero)"
proof (unfold_locales, goal_cases)
  case (1 h s)
  then show ?case by (rule slice_reach_in [OF deep_copy_plain])
next
  case (2 h s h')
  then show ?case using slice_local [OF deep_copy_plain] by blast
next
  case (3 h s y h')
  then show ?case using slice_elems_len [OF 3(1)]
    by (auto simp: copySlice_eq [OF rd 3(1)] rd sliceView_def list_all_iff split: if_splits)
qed

definition ptrOk :: "('c \<Rightarrow> 'a option) \<Rightarrow> ('c heap \<Rightarrow> 'a \<Rightarrow> bool) \<Rightarrow> 'c heap \<Rightarrow> addr option \<Rightarrow> bool" where
  "ptrOk rd ok h p = (case p of None \<Rightarrow> True
     | Some a \<Rightarrow> (case deref rd h a of None \<Rightarrow> False | Some x \<Rightarrow> ok h x))"

definition ptrView :: "('c \<Rightarrow> 'a option) \<Rightarrow> ('c heap \<Rightarrow> 'a \<Rightarrow> 'v) \<Rightarrow> 'c heap \<Rightarrow> addr option \<Rightarrow> 'v option" where
  "ptrView rd view h p = map_option (\<lambda>a. view h (the (deref rd h a))) p"

definition ptrReach :: "('c \<Rightarrow> 'a option) \<Rightarrow> ('c heap \<Rightarrow> 'a \<Rightarrow> addr set) \<Rightarrow> 'c heap \<Rightarrow> addr option \<Rightarrow> addr set" where
  "ptrReach rd reach h p = (case p of None \<Rightarrow> {} | Some a \<Rightarrow> insert a (reach h (the (deref rd h a))))"

lemma ptr_local:
  assumes "deep_copy ok view reach cp" and "ptrOk rd ok h p"
    and same: "\<And>a. a \<in> ptrReach rd reach h p \<Longrightarrow> a < length h' \<and> h' ! a = h ! a"
  shows "ptrOk rd ok h' p \<and> ptrView rd view h' p = ptrView rd view h p \<and>
    ptrReach rd reach h' p = ptrReach rd reach h p"
proof (cases p)
  case (Some a)
  with assms(2) obtain x where x: "deref rd h a = Some x" "ok h x"
    by (auto simp: ptrOk_def split: option.splits)
  moreover have "deref rd h' a = Some x"
    using x(1) same [of a] by (simp add: Some deref_def ptrReach_def split: if_splits)
  moreover have "ok h' x \<and> view h' x = view h x \<and> reach h' x = reach h x"
    by (rule deep_copy.local [OF assms(1) x(2)]) (rule same, simp add: Some ptrReach_def x)
  ultimately show ?thesis by (simp add: Some ptrOk_def ptrView_def ptrReach_def)
qed (simp add: ptrOk_def ptrView_def ptrReach_def)

lemma deep_copy_ptr:
  assumes dc: "deep_copy ok view reach cp" and rd: "\<And>x. rd (mk x) = Some x"
  shows "deep_copy (ptrOk rd ok) (ptrView rd view) (ptrReach rd reach) (deepCopyPtr mk rd zero cp)"
proof (unfold_locales, goal_cases)
  case (1 h p)
  then show ?case using deep_copy.reach_in [OF dc]
    by (fastforce simp: ptrOk_def ptrReach_def dest: deref_SomeD split: option.splits)
next
  case (2 h p h')
  then show ?case by (intro ptr_local [OF dc])
next
  case (3 h p y h')
  show ?case
  proof (cases p)
    case (Some a)
    with 3 obtain x where x: "deref rd h a = Some x" "ok h x"
      by (auto simp: ptrOk_def split: option.splits)
    let ?h1 = "h @ [mk zero]"
    obtain z h2 where z: "cp x ?h1 = (z, h2)" by (cases "cp x ?h1")
    from deep_copy.extend [OF dc x(2)] have x1: "ok ?h1 x" "view ?h1 x = view h x" by simp_all
    from deep_copy.copies [OF dc x1(1) z] obtain cs where h2: "h2 = h @ mk zero # cs"
      and z_ok: "ok h2 z" "view h2 z = view h x" "reach h2 z \<subseteq> {Suc (length h)..<length h2}"
      using x1(2) by auto
    let ?h' = "h @ mk z # cs"
    from 3(2) x z have y: "y = Some (length h)" and h': "h' = ?h'"
      using deref_SomeD [OF x(1)] by (auto simp: Some deepCopyPtr_def alloc_def h2)
    have "ok ?h' z \<and> view ?h' z = view h2 z \<and> reach ?h' z = reach h2 z"
      using z_ok(3) by (intro deep_copy.local [OF dc z_ok(1)])
        (auto simp: h2 nth_append nth_Cons split: nat.splits)
    with z_ok x show ?thesis
      by (auto simp: Some y h' h2 ptrOk_def ptrView_def ptrReach_def deref_def rd)
  qed (use 3 in \<open>simp add: deepCopyPtr_def ptrOk_def ptrView_def ptrReach_def\<close>)
qed

text \<open>Maps: what a cell of entries denotes is the function that looks a key up.\<close>

definition mapOk :: "('c \<Rightarrow> (string \<times> string) list option) \<Rightarrow> 'c heap \<Rightarrow> addr option \<Rightarrow> bool" where
  "mapOk rd = ptrOk rd (\<lambda>h es. distinct (map fst es))"

definition mapView :: "('c \<Rightarrow> (string \<times> string) list option) \<Rightarrow> 'c heap \<Rightarrow> addr option \<Rightarrow> strmap option" where
  "mapView rd = ptrView rd (\<lambda>h. map_of)"

definition mapReach :: "('c \<Rightarrow> (string \<times> string) list option) \<Rightarrow> 'c heap \<Rightarrow> addr option \<Rightarrow> addr set" where
  "mapReach rd = ptrReach rd (\<lambda>h es. {})"

lemma insertAll_spec:
  assumes "\<And>es. rd (mk es) = Some es" and "distinct (map fst acc)"
  shows "\<exists>es'. insertAll mk rd (length h) es (h @ mk acc # cs) = h @ mk es' # cs \<and>
    distinct (map fst es') \<and> map_of es' = map_of acc ++ map_of (rev es)"
  using assms(2)
proof (induction es arbitrary: acc)
  case (Cons kv es)
  obtain k v where kv: "kv = (k, v)" by (cases kv)
  from Cons.prems have "distinct (map fst (AList.update k v acc))" by (rule distinct_update)
  moreover have "map_of (AList.update k v acc) ++ map_of (rev es) = map_of acc ++ map_of (rev (kv # es))"
    by (simp add: kv update_conv' map_add_assoc [symmetric] map_add_upd_left)
  ultimately show ?case using Cons.IH [of "AList.update k v acc"] by (simp add: kv assms(1))
qed auto

lemma deep_copy_map:
  assumes rd: "\<And>es. rd (mk es) = Some es"
  shows "deep_copy (mapOk rd) (mapView rd) (mapReach rd) (copyMap mk rd)"
proof (unfold_locales, goal_cases)
  case (1 h p)
  then show ?case
    by (auto simp: mapOk_def mapReach_def ptrOk_def ptrReach_def dest: deref_SomeD split: option.splits)
next
  case (2 h p h')
  then show ?case
    by (cases p) (auto simp: mapOk_def mapView_def mapReach_def ptrOk_def ptrView_def ptrReach_def
        deref_def split: option.splits if_splits)
next
  case (3 h p y h')
  show ?case
  proof (cases p)
    case (Some a)
    with 3(1) obtain es where es: "deref rd h a = Some es" "distinct (map fst es)"
      by (auto simp: mapOk_def ptrOk_def split: option.splits)
    from insertAll_spec [where mk = mk and rd = rd and acc = "[]" and h = h and es = es and cs = "[]"]
    obtain es' where es': "insertAll mk rd (length h) es (h @ [mk []]) = h @ [mk es']"
      "distinct (map fst es')" "map_of es' = map_of (rev es)" by (auto simp: rd)
    from 3(2) es es'(1) deref_SomeD [OF es(1)] have "y = Some (length h)" "h' = h @ [mk es']"
      by (auto simp: Some copyMap_def alloc_def)
    moreover have "map_of (rev es) = map_of es"
      using es(2) by (subst map_of_inject_set) (simp_all add: rev_map [symmetric])
    ultimately show ?thesis
      using es es' by (simp add: Some mapOk_def mapView_def mapReach_def ptrOk_def ptrView_def
          ptrReach_def rd)
  qed (use 3 in \<open>simp add: copyMap_def mapOk_def mapView_def mapReach_def ptrOk_def ptrView_def ptrReach_def\<close>)
qed

end
