(* ===== verification/DeepCopy.thy ===== *)
theory DeepCopy
  imports GoHeap ApiTypes
begin

text \<open>
  The generated copy functions of \<open>zz_generated.deepcopy.go\<close>, over structs as they are in memory:
  records that end in \<open>_mem\<close> hold slices, maps and pointers as references into the heap.  A struct
  without references is the record of \<open>ApiTypes\<close> itself.  \<open>T_DeepCopyInto\<close> returns the struct that
  the method writes to \<open>*out\<close>, starting from the assignment \<open>*out = *in\<close>; \<open>T_DeepCopy\<close> works on a
  pointer, which may be nil.  The metadata of objects and lists belongs to a library: its type is
  the type variable \<open>'m\<close> and its copy functions are parameters.
\<close>

section \<open>Structs in memory\<close>

record DiskSpec_mem =
  dm_Enabled :: bool
  dm_DefaultStorageClass :: bool
  dm_StorageClasses :: slice
  dm_Snapshot :: SnapshotConfig
  dm_StorageProfile :: StorageProfileConfig

record NASSpec_mem =
  nm_Enabled :: bool
  nm_StorageClasses :: slice
  nm_StorageProfile :: StorageProfileConfig

record ControllerSpec_mem =
  cm_Replicas :: int32
  cm_NodeSelector :: "addr option"
  cm_Tolerations :: slice

record EnvVarSpec_mem =
  em_Name :: string
  em_Value :: string
  em_SecretKeyRef :: "addr option"

record Spec_mem =
  sm_Disk :: DiskSpec_mem
  sm_NAS :: NASSpec_mem
  sm_OSS :: OSSSpec
  sm_ImageTag :: string
  sm_ECSEndpoint :: string
  sm_ExtraEnv :: slice
  sm_Auth :: AuthSpec
  sm_Controller :: ControllerSpec_mem

record Status_mem =
  tm_ObservedGeneration :: int64
  tm_Conditions :: slice
  tm_DiskDriverReady :: bool
  tm_NASDriverReady :: bool
  tm_OSSDriverReady :: bool

type_synonym TypeMeta = "string \<times> string" \<comment> \<open>kind, API version\<close>

record 'm Driver_mem =
  rm_TypeMeta :: TypeMeta
  rm_ObjectMeta :: 'm
  rm_Spec :: Spec_mem
  rm_Status :: Status_mem

record 'm DriverList_mem =
  lm_TypeMeta :: TypeMeta
  lm_ListMeta :: 'm
  lm_Items :: slice

section \<open>Cells\<close>

text \<open>Backing arrays, map entries, and structs that a pointer can refer to.\<close>

datatype 'm cell =
    DiskStorageClassArray "DiskStorageClassSpec list"
  | NASStorageClassArray "NASStorageClassSpec list"
  | TolerationArray "TolerationSpec list"
  | EnvVarArray "EnvVarSpec_mem list"
  | ConditionArray "CSIDriverCondition list"
  | DriverArray "'m Driver_mem list"
  | MapCell "(string \<times> string) list"
  | DriverCell "'m Driver_mem"
  | DriverListCell "'m DriverList_mem"
  | SpecCell Spec_mem
  | StatusCell Status_mem
  | AuthCell AuthSpec
  | ConditionCell CSIDriverCondition
  | ControllerCell ControllerSpec_mem
  | DiskCell DiskSpec_mem
  | DiskStorageClassCell DiskStorageClassSpec
  | EnvVarCell EnvVarSpec_mem
  | NASCell NASSpec_mem
  | NASStorageClassCell NASStorageClassSpec
  | OSSCell OSSSpec
  | SecretCell SecretKeySelector
  | SnapshotCell SnapshotConfig
  | ProfileCell StorageProfileConfig
  | TolerationCell TolerationSpec
  | MetadataCell string \<comment> \<open>whatever the metadata of an object refers to\<close>

definition asDiskStorageClassArray :: "'m cell \<Rightarrow> (DiskStorageClassSpec list) option" where
  "asDiskStorageClassArray c = (case c of DiskStorageClassArray x \<Rightarrow> Some x | _ \<Rightarrow> None)"

definition asNASStorageClassArray :: "'m cell \<Rightarrow> (NASStorageClassSpec list) option" where
  "asNASStorageClassArray c = (case c of NASStorageClassArray x \<Rightarrow> Some x | _ \<Rightarrow> None)"

definition asTolerationArray :: "'m cell \<Rightarrow> (TolerationSpec list) option" where
  "asTolerationArray c = (case c of TolerationArray x \<Rightarrow> Some x | _ \<Rightarrow> None)"

definition asEnvVarArray :: "'m cell \<Rightarrow> (EnvVarSpec_mem list) option" where
  "asEnvVarArray c = (case c of EnvVarArray x \<Rightarrow> Some x | _ \<Rightarrow> None)"

definition asConditionArray :: "'m cell \<Rightarrow> (CSIDriverCondition list) option" where
  "asConditionArray c = (case c of ConditionArray x \<Rightarrow> Some x | _ \<Rightarrow> None)"

definition asDriverArray :: "'m cell \<Rightarrow> ('m Driver_mem list) option" where
  "asDriverArray c = (case c of DriverArray x \<Rightarrow> Some x | _ \<Rightarrow> None)"

definition asMapCell :: "'m cell \<Rightarrow> ((string \<times> string) list) option" where
  "asMapCell c = (case c of MapCell x \<Rightarrow> Some x | _ \<Rightarrow> None)"

definition asDriverCell :: "'m cell \<Rightarrow> ('m Driver_mem) option" where
  "asDriverCell c = (case c of DriverCell x \<Rightarrow> Some x | _ \<Rightarrow> None)"

definition asDriverListCell :: "'m cell \<Rightarrow> ('m DriverList_mem) option" where
  "asDriverListCell c = (case c of DriverListCell x \<Rightarrow> Some x | _ \<Rightarrow> None)"

definition asSpecCell :: "'m cell \<Rightarrow> Spec_mem option" where
  "asSpecCell c = (case c of SpecCell x \<Rightarrow> Some x | _ \<Rightarrow> None)"

definition asStatusCell :: "'m cell \<Rightarrow> Status_mem option" where
  "asStatusCell c = (case c of StatusCell x \<Rightarrow> Some x | _ \<Rightarrow> None)"

definition asAuthCell :: "'m cell \<Rightarrow> AuthSpec option" where
  "asAuthCell c = (case c of AuthCell x \<Rightarrow> Some x | _ \<Rightarrow> None)"

definition asConditionCell :: "'m cell \<Rightarrow> CSIDriverCondition option" where
  "asConditionCell c = (case c of ConditionCell x \<Rightarrow> Some x | _ \<Rightarrow> None)"

definition asControllerCell :: "'m cell \<Rightarrow> ControllerSpec_mem option" where
  "asControllerCell c = (case c of ControllerCell x \<Rightarrow> Some x | _ \<Rightarrow> None)"

definition asDiskCell :: "'m cell \<Rightarrow> DiskSpec_mem option" where
  "asDiskCell c = (case c of DiskCell x \<Rightarrow> Some x | _ \<Rightarrow> None)"

definition asDiskStorageClassCell :: "'m cell \<Rightarrow> DiskStorageClassSpec option" where
  "asDiskStorageClassCell c = (case c of DiskStorageClassCell x \<Rightarrow> Some x | _ \<Rightarrow> None)"

definition asEnvVarCell :: "'m cell \<Rightarrow> EnvVarSpec_mem option" where
  "asEnvVarCell c = (case c of EnvVarCell x \<Rightarrow> Some x | _ \<Rightarrow> None)"

definition asNASCell :: "'m cell \<Rightarrow> NASSpec_mem option" where
  "asNASCell c = (case c of NASCell x \<Rightarrow> Some x | _ \<Rightarrow> None)"

definition asNASStorageClassCell :: "'m cell \<Rightarrow> NASStorageClassSpec option" where
  "asNASStorageClassCell c = (case c of NASStorageClassCell x \<Rightarrow> Some x | _ \<Rightarrow> None)"

definition asOSSCell :: "'m cell \<Rightarrow> OSSSpec option" where
  "asOSSCell c = (case c of OSSCell x \<Rightarrow> Some x | _ \<Rightarrow> None)"

definition asSecretCell :: "'m cell \<Rightarrow> SecretKeySelector option" where
  "asSecretCell c = (case c of SecretCell x \<Rightarrow> Some x | _ \<Rightarrow> None)"

definition asSnapshotCell :: "'m cell \<Rightarrow> SnapshotConfig option" where
  "asSnapshotCell c = (case c of SnapshotCell x \<Rightarrow> Some x | _ \<Rightarrow> None)"

definition asProfileCell :: "'m cell \<Rightarrow> StorageProfileConfig option" where
  "asProfileCell c = (case c of ProfileCell x \<Rightarrow> Some x | _ \<Rightarrow> None)"

definition asTolerationCell :: "'m cell \<Rightarrow> TolerationSpec option" where
  "asTolerationCell c = (case c of TolerationCell x \<Rightarrow> Some x | _ \<Rightarrow> None)"

lemmas as_defs = asDiskStorageClassArray_def asNASStorageClassArray_def asTolerationArray_def
  asEnvVarArray_def asConditionArray_def asDriverArray_def asMapCell_def asDriverCell_def
  asDriverListCell_def asSpecCell_def asStatusCell_def asAuthCell_def asConditionCell_def
  asControllerCell_def asDiskCell_def asDiskStorageClassCell_def asEnvVarCell_def asNASCell_def
  asNASStorageClassCell_def asOSSCell_def asSecretCell_def asSnapshotCell_def asProfileCell_def
  asTolerationCell_def

lemma as_cell [simp]:
  "asDiskStorageClassArray (DiskStorageClassArray x0) = Some x0"
  "asNASStorageClassArray (NASStorageClassArray x1) = Some x1"
  "asTolerationArray (TolerationArray x2) = Some x2"
  "asEnvVarArray (EnvVarArray x3) = Some x3"
  "asConditionArray (ConditionArray x4) = Some x4"
  "asDriverArray (DriverArray x5) = Some x5"
  "asMapCell (MapCell x6) = Some x6"
  "asDriverCell (DriverCell x7) = Some x7"
  "asDriverListCell (DriverListCell x8) = Some x8"
  "asSpecCell (SpecCell x9) = Some x9"
  "asStatusCell (StatusCell x10) = Some x10"
  "asAuthCell (AuthCell x11) = Some x11"
  "asConditionCell (ConditionCell x12) = Some x12"
  "asControllerCell (ControllerCell x13) = Some x13"
  "asDiskCell (DiskCell x14) = Some x14"
  "asDiskStorageClassCell (DiskStorageClassCell x15) = Some x15"
  "asEnvVarCell (EnvVarCell x16) = Some x16"
  "asNASCell (NASCell x17) = Some x17"
  "asNASStorageClassCell (NASStorageClassCell x18) = Some x18"
  "asOSSCell (OSSCell x19) = Some x19"
  "asSecretCell (SecretCell x20) = Some x20"
  "asSnapshotCell (SnapshotCell x21) = Some x21"
  "asProfileCell (ProfileCell x22) = Some x22"
  "asTolerationCell (TolerationCell x23) = Some x23"
  by (simp_all add: as_defs)

section \<open>Zero values\<close>

definition zero_DiskSpec_mem :: DiskSpec_mem where
  "zero_DiskSpec_mem = \<lparr>dm_Enabled = False, dm_DefaultStorageClass = False, dm_StorageClasses = NilSlice,
     dm_Snapshot = zero_SnapshotConfig, dm_StorageProfile = zero_StorageProfileConfig\<rparr>"

definition zero_NASSpec_mem :: NASSpec_mem where
  "zero_NASSpec_mem = \<lparr>nm_Enabled = False, nm_StorageClasses = NilSlice,
     nm_StorageProfile = zero_StorageProfileConfig\<rparr>"

definition zero_ControllerSpec_mem :: ControllerSpec_mem where
  "zero_ControllerSpec_mem = \<lparr>cm_Replicas = 0, cm_NodeSelector = None, cm_Tolerations = NilSlice\<rparr>"

definition zero_EnvVarSpec_mem :: EnvVarSpec_mem where
  "zero_EnvVarSpec_mem = \<lparr>em_Name = [], em_Value = [], em_SecretKeyRef = None\<rparr>"

definition zero_Spec_mem :: Spec_mem where
  "zero_Spec_mem = \<lparr>sm_Disk = zero_DiskSpec_mem, sm_NAS = zero_NASSpec_mem, sm_OSS = zero_OSSSpec,
     sm_ImageTag = [], sm_ECSEndpoint = [], sm_ExtraEnv = NilSlice, sm_Auth = zero_AuthSpec,
     sm_Controller = zero_ControllerSpec_mem\<rparr>"

definition zero_Status_mem :: Status_mem where
  "zero_Status_mem = \<lparr>tm_ObservedGeneration = 0, tm_Conditions = NilSlice, tm_DiskDriverReady = False,
     tm_NASDriverReady = False, tm_OSSDriverReady = False\<rparr>"

text \<open>The library of object metadata: the zero value and the copy functions it generates.\<close>

record 'm MetaLib =
  md_zero :: 'm
  md_ObjectMeta_DeepCopyInto :: "'m \<Rightarrow> 'm cell heap \<Rightarrow> 'm \<times> 'm cell heap"
  md_ListMeta_DeepCopyInto :: "'m \<Rightarrow> 'm cell heap \<Rightarrow> 'm \<times> 'm cell heap"

definition zero_Driver_mem :: "'m MetaLib \<Rightarrow> 'm Driver_mem" where
  "zero_Driver_mem L = \<lparr>rm_TypeMeta = ([], []), rm_ObjectMeta = md_zero L, rm_Spec = zero_Spec_mem,
     rm_Status = zero_Status_mem\<rparr>"

definition zero_DriverList_mem :: "'m MetaLib \<Rightarrow> 'm DriverList_mem" where
  "zero_DriverList_mem L = \<lparr>lm_TypeMeta = ([], []), lm_ListMeta = md_zero L, lm_Items = NilSlice\<rparr>"

section \<open>The copy functions\<close>

definition AuthSpec_DeepCopyInto :: "AuthSpec \<Rightarrow> 'm cell heap \<Rightarrow> AuthSpec \<times> 'm cell heap" where
  "AuthSpec_DeepCopyInto = copyPlain"

definition DiskStorageClassSpec_DeepCopyInto :: "DiskStorageClassSpec \<Rightarrow> 'm cell heap \<Rightarrow>
    DiskStorageClassSpec \<times> 'm cell heap" where
  "DiskStorageClassSpec_DeepCopyInto = copyPlain"

definition NASStorageClassSpec_DeepCopyInto :: "NASStorageClassSpec \<Rightarrow> 'm cell heap \<Rightarrow>
    NASStorageClassSpec \<times> 'm cell heap" where
  "NASStorageClassSpec_DeepCopyInto = copyPlain"

definition OSSSpec_DeepCopyInto :: "OSSSpec \<Rightarrow> 'm cell heap \<Rightarrow> OSSSpec \<times> 'm cell heap" where
  "OSSSpec_DeepCopyInto = copyPlain"

definition SecretKeySelector_DeepCopyInto :: "SecretKeySelector \<Rightarrow> 'm cell heap \<Rightarrow>
    SecretKeySelector \<times> 'm cell heap" where
  "SecretKeySelector_DeepCopyInto = copyPlain"

definition SnapshotConfig_DeepCopyInto :: "SnapshotConfig \<Rightarrow> 'm cell heap \<Rightarrow>
    SnapshotConfig \<times> 'm cell heap" where
  "SnapshotConfig_DeepCopyInto = copyPlain"

definition StorageProfileConfig_DeepCopyInto :: "StorageProfileConfig \<Rightarrow> 'm cell heap \<Rightarrow>
    StorageProfileConfig \<times> 'm cell heap" where
  "StorageProfileConfig_DeepCopyInto = copyPlain"

definition TolerationSpec_DeepCopyInto :: "TolerationSpec \<Rightarrow> 'm cell heap \<Rightarrow>
    TolerationSpec \<times> 'm cell heap" where
  "TolerationSpec_DeepCopyInto = copyPlain"

text \<open>The copy of a \<open>metav1.Time\<close> is an assignment: a time holds no reference that is written through.\<close>

definition CSIDriverCondition_DeepCopyInto :: "CSIDriverCondition \<Rightarrow> 'm cell heap \<Rightarrow>
    CSIDriverCondition \<times> 'm cell heap" where
  "CSIDriverCondition_DeepCopyInto in' h = (let out = in';
     (time, h) = copyPlain (cond_LastTransitionTime in') h
     in (out\<lparr>cond_LastTransitionTime := time\<rparr>, h))"

definition DiskSpec_DeepCopyInto :: "DiskSpec_mem \<Rightarrow> 'm cell heap \<Rightarrow> DiskSpec_mem \<times> 'm cell heap" where
  "DiskSpec_DeepCopyInto in' h = (let out = in';
     (classes, h) = copySlice DiskStorageClassArray asDiskStorageClassArray zero_DiskStorageClassSpec
       (dm_StorageClasses in') h;
     out = out\<lparr>dm_StorageClasses := classes\<rparr>;
     out = out\<lparr>dm_Snapshot := dm_Snapshot in'\<rparr>;
     out = out\<lparr>dm_StorageProfile := dm_StorageProfile in'\<rparr>
     in (out, h))"

definition NASSpec_DeepCopyInto :: "NASSpec_mem \<Rightarrow> 'm cell heap \<Rightarrow> NASSpec_mem \<times> 'm cell heap" where
  "NASSpec_DeepCopyInto in' h = (let out = in';
     (classes, h) = copySlice NASStorageClassArray asNASStorageClassArray zero_NASStorageClassSpec
       (nm_StorageClasses in') h;
     out = out\<lparr>nm_StorageClasses := classes\<rparr>;
     out = out\<lparr>nm_StorageProfile := nm_StorageProfile in'\<rparr>
     in (out, h))"

definition ControllerSpec_DeepCopyInto :: "ControllerSpec_mem \<Rightarrow> 'm cell heap \<Rightarrow>
    ControllerSpec_mem \<times> 'm cell heap" where
  "ControllerSpec_DeepCopyInto in' h = (let out = in';
     (selector, h) = copyMap MapCell asMapCell (cm_NodeSelector in') h;
     out = out\<lparr>cm_NodeSelector := selector\<rparr>;
     (tolerations, h) = copySlice TolerationArray asTolerationArray zero_TolerationSpec
       (cm_Tolerations in') h;
     out = out\<lparr>cm_Tolerations := tolerations\<rparr>
     in (out, h))"

definition EnvVarSpec_DeepCopyInto :: "EnvVarSpec_mem \<Rightarrow> 'm cell heap \<Rightarrow>
    EnvVarSpec_mem \<times> 'm cell heap" where
  "EnvVarSpec_DeepCopyInto in' h = (let out = in';
     (ref, h) = deepCopyPtr SecretCell asSecretCell zero_SecretKeySelector copyPlain
       (em_SecretKeyRef in') h;
     out = out\<lparr>em_SecretKeyRef := ref\<rparr>
     in (out, h))"

definition Spec_DeepCopyInto :: "Spec_mem \<Rightarrow> 'm cell heap \<Rightarrow> Spec_mem \<times> 'm cell heap" where
  "Spec_DeepCopyInto in' h = (let out = in';
     (disk, h) = DiskSpec_DeepCopyInto (sm_Disk in') h;
     out = out\<lparr>sm_Disk := disk\<rparr>;
     (nas, h) = NASSpec_DeepCopyInto (sm_NAS in') h;
     out = out\<lparr>sm_NAS := nas\<rparr>;
     out = out\<lparr>sm_OSS := sm_OSS in'\<rparr>;
     (env, h) = deepCopySlice EnvVarArray asEnvVarArray zero_EnvVarSpec_mem EnvVarSpec_DeepCopyInto
       (sm_ExtraEnv in') h;
     out = out\<lparr>sm_ExtraEnv := env\<rparr>;
     out = out\<lparr>sm_Auth := sm_Auth in'\<rparr>;
     (controller, h) = ControllerSpec_DeepCopyInto (sm_Controller in') h;
     out = out\<lparr>sm_Controller := controller\<rparr>
     in (out, h))"

definition Status_DeepCopyInto :: "Status_mem \<Rightarrow> 'm cell heap \<Rightarrow> Status_mem \<times> 'm cell heap" where
  "Status_DeepCopyInto in' h = (let out = in';
     (conditions, h) = deepCopySlice ConditionArray asConditionArray zero_CSIDriverCondition
       CSIDriverCondition_DeepCopyInto (tm_Conditions in') h;
     out = out\<lparr>tm_Conditions := conditions\<rparr>
     in (out, h))"

definition Driver_DeepCopyInto :: "'m MetaLib \<Rightarrow> 'm Driver_mem \<Rightarrow> 'm cell heap \<Rightarrow>
    'm Driver_mem \<times> 'm cell heap" where
  "Driver_DeepCopyInto L in' h = (let out = in';
     out = out\<lparr>rm_TypeMeta := rm_TypeMeta in'\<rparr>;
     (meta, h) = md_ObjectMeta_DeepCopyInto L (rm_ObjectMeta in') h;
     out = out\<lparr>rm_ObjectMeta := meta\<rparr>;
     (spec, h) = Spec_DeepCopyInto (rm_Spec in') h;
     out = out\<lparr>rm_Spec := spec\<rparr>;
     (status, h) = Status_DeepCopyInto (rm_Status in') h;
     out = out\<lparr>rm_Status := status\<rparr>
     in (out, h))"

definition DriverList_DeepCopyInto :: "'m MetaLib \<Rightarrow> 'm DriverList_mem \<Rightarrow> 'm cell heap \<Rightarrow>
    'm DriverList_mem \<times> 'm cell heap" where
  "DriverList_DeepCopyInto L in' h = (let out = in';
     out = out\<lparr>lm_TypeMeta := lm_TypeMeta in'\<rparr>;
     (meta, h) = md_ListMeta_DeepCopyInto L (lm_ListMeta in') h;
     out = out\<lparr>lm_ListMeta := meta\<rparr>;
     (items, h) = deepCopySlice DriverArray asDriverArray (zero_Driver_mem L) (Driver_DeepCopyInto L)
       (lm_Items in') h;
     out = out\<lparr>lm_Items := items\<rparr>
     in (out, h))"

section \<open>Copies through a pointer\<close>

definition AuthSpec_DeepCopy :: "addr option \<Rightarrow> 'm cell heap \<Rightarrow> addr option \<times> 'm cell heap" where
  "AuthSpec_DeepCopy = deepCopyPtr AuthCell asAuthCell zero_AuthSpec AuthSpec_DeepCopyInto"

definition CSIDriverCondition_DeepCopy :: "addr option \<Rightarrow> 'm cell heap \<Rightarrow> addr option \<times> 'm cell heap" where
  "CSIDriverCondition_DeepCopy = deepCopyPtr ConditionCell asConditionCell zero_CSIDriverCondition CSIDriverCondition_DeepCopyInto"

definition ControllerSpec_DeepCopy :: "addr option \<Rightarrow> 'm cell heap \<Rightarrow> addr option \<times> 'm cell heap" where
  "ControllerSpec_DeepCopy = deepCopyPtr ControllerCell asControllerCell zero_ControllerSpec_mem ControllerSpec_DeepCopyInto"

definition DiskSpec_DeepCopy :: "addr option \<Rightarrow> 'm cell heap \<Rightarrow> addr option \<times> 'm cell heap" where
  "DiskSpec_DeepCopy = deepCopyPtr DiskCell asDiskCell zero_DiskSpec_mem DiskSpec_DeepCopyInto"

definition DiskStorageClassSpec_DeepCopy :: "addr option \<Rightarrow> 'm cell heap \<Rightarrow> addr option \<times> 'm cell heap" where
  "DiskStorageClassSpec_DeepCopy = deepCopyPtr DiskStorageClassCell asDiskStorageClassCell zero_DiskStorageClassSpec DiskStorageClassSpec_DeepCopyInto"

definition EnvVarSpec_DeepCopy :: "addr option \<Rightarrow> 'm cell heap \<Rightarrow> addr option \<times> 'm cell heap" where
  "EnvVarSpec_DeepCopy = deepCopyPtr EnvVarCell asEnvVarCell zero_EnvVarSpec_mem EnvVarSpec_DeepCopyInto"

definition NASSpec_DeepCopy :: "addr option \<Rightarrow> 'm cell heap \<Rightarrow> addr option \<times> 'm cell heap" where
  "NASSpec_DeepCopy = deepCopyPtr NASCell asNASCell zero_NASSpec_mem NASSpec_DeepCopyInto"

definition NASStorageClassSpec_DeepCopy :: "addr option \<Rightarrow> 'm cell heap \<Rightarrow> addr option \<times> 'm cell heap" where
  "NASStorageClassSpec_DeepCopy = deepCopyPtr NASStorageClassCell asNASStorageClassCell zero_NASStorageClassSpec NASStorageClassSpec_DeepCopyInto"

definition OSSSpec_DeepCopy :: "addr option \<Rightarrow> 'm cell heap \<Rightarrow> addr option \<times> 'm cell heap" where
  "OSSSpec_DeepCopy = deepCopyPtr OSSCell asOSSCell zero_OSSSpec OSSSpec_DeepCopyInto"

definition SecretKeySelector_DeepCopy :: "addr option \<Rightarrow> 'm cell heap \<Rightarrow> addr option \<times> 'm cell heap" where
  "SecretKeySelector_DeepCopy = deepCopyPtr SecretCell asSecretCell zero_SecretKeySelector SecretKeySelector_DeepCopyInto"

definition SnapshotConfig_DeepCopy :: "addr option \<Rightarrow> 'm cell heap \<Rightarrow> addr option \<times> 'm cell heap" where
  "SnapshotConfig_DeepCopy = deepCopyPtr SnapshotCell asSnapshotCell zero_SnapshotConfig SnapshotConfig_DeepCopyInto"

definition StorageProfileConfig_DeepCopy :: "addr option \<Rightarrow> 'm cell heap \<Rightarrow> addr option \<times> 'm cell heap" where
  "StorageProfileConfig_DeepCopy = deepCopyPtr ProfileCell asProfileCell zero_StorageProfileConfig StorageProfileConfig_DeepCopyInto"

definition TolerationSpec_DeepCopy :: "addr option \<Rightarrow> 'm cell heap \<Rightarrow> addr option \<times> 'm cell heap" where
  "TolerationSpec_DeepCopy = deepCopyPtr TolerationCell asTolerationCell zero_TolerationSpec TolerationSpec_DeepCopyInto"

definition Spec_DeepCopy :: "addr option \<Rightarrow> 'm cell heap \<Rightarrow> addr option \<times> 'm cell heap" where
  "Spec_DeepCopy = deepCopyPtr SpecCell asSpecCell zero_Spec_mem Spec_DeepCopyInto"

definition Status_DeepCopy :: "addr option \<Rightarrow> 'm cell heap \<Rightarrow> addr option \<times> 'm cell heap" where
  "Status_DeepCopy = deepCopyPtr StatusCell asStatusCell zero_Status_mem Status_DeepCopyInto"

definition Driver_DeepCopy :: "'m MetaLib \<Rightarrow> addr option \<Rightarrow> 'm cell heap \<Rightarrow>
    addr option \<times> 'm cell heap" where
  "Driver_DeepCopy L = deepCopyPtr DriverCell asDriverCell (zero_Driver_mem L) (Driver_DeepCopyInto L)"

definition DriverList_DeepCopy :: "'m MetaLib \<Rightarrow> addr option \<Rightarrow> 'm cell heap \<Rightarrow>
    addr option \<times> 'm cell heap" where
  "DriverList_DeepCopy L = deepCopyPtr DriverListCell asDriverListCell (zero_DriverList_mem L) (DriverList_DeepCopyInto L)"

text \<open>
  \<open>DeepCopyObject\<close> returns an interface value: nil only when the copy is the nil pointer, and then
  the nil interface rather than an interface that holds a nil pointer.
\<close>

datatype runtime_Object = DriverObject addr | DriverListObject addr

definition Driver_DeepCopyObject :: "'m MetaLib \<Rightarrow> addr option \<Rightarrow> 'm cell heap \<Rightarrow>
    runtime_Object option \<times> 'm cell heap" where
  "Driver_DeepCopyObject L p h = (case Driver_DeepCopy L p h of
       (Some c, h') \<Rightarrow> (Some (DriverObject c), h')
     | (None, h') \<Rightarrow> (None, h'))"

definition DriverList_DeepCopyObject :: "'m MetaLib \<Rightarrow> addr option \<Rightarrow> 'm cell heap \<Rightarrow>
    runtime_Object option \<times> 'm cell heap" where
  "DriverList_DeepCopyObject L p h = (case DriverList_DeepCopy L p h of
       (Some c, h') \<Rightarrow> (Some (DriverListObject c), h')
     | (None, h') \<Rightarrow> (None, h'))"

end
