(* ===== verification/CopyLaws.thy ===== *)
theory CopyLaws
  imports DeepCopy
begin

text \<open>
  Every copy function of the resource types is a deep copy.  For each struct with references,
  \<open>T_ok\<close> says that its references are valid, \<open>T_view\<close> is the value it denotes (the record of
  \<open>ApiTypes\<close>) and \<open>T_reach\<close> the cells it can reach.
\<close>

section \<open>What a struct in memory denotes\<close>

abbreviation "plainOk \<equiv> (\<lambda>h x. True)"
abbreviation "plainView \<equiv> (\<lambda>h x. x)"
abbreviation "plainReach \<equiv> (\<lambda>h x. {})"

definition DiskSpec_view :: "'m cell heap \<Rightarrow> DiskSpec_mem \<Rightarrow> DiskSpec" where
  "DiskSpec_view h s = \<lparr>disk_Enabled = dm_Enabled s, disk_DefaultStorageClass = dm_DefaultStorageClass s,
     disk_StorageClasses = sliceView asDiskStorageClassArray plainView h (dm_StorageClasses s),
     disk_Snapshot = dm_Snapshot s, disk_StorageProfile = dm_StorageProfile s\<rparr>"

definition NASSpec_view :: "'m cell heap \<Rightarrow> NASSpec_mem \<Rightarrow> NASSpec" where
  "NASSpec_view h s = \<lparr>nas_Enabled = nm_Enabled s,
     nas_StorageClasses = sliceView asNASStorageClassArray plainView h (nm_StorageClasses s),
     nas_StorageProfile = nm_StorageProfile s\<rparr>"

definition ControllerSpec_view :: "'m cell heap \<Rightarrow> ControllerSpec_mem \<Rightarrow> ControllerSpec" where
  "ControllerSpec_view h s = \<lparr>ctl_Replicas = cm_Replicas s,
     ctl_NodeSelector = mapView asMapCell h (cm_NodeSelector s),
     ctl_Tolerations = sliceView asTolerationArray plainView h (cm_Tolerations s)\<rparr>"

definition EnvVarSpec_view :: "'m cell heap \<Rightarrow> EnvVarSpec_mem \<Rightarrow> EnvVarSpec" where
  "EnvVarSpec_view h s = \<lparr>evs_Name = em_Name s, evs_Value = em_Value s,
     evs_SecretKeyRef = ptrView asSecretCell plainView h (em_SecretKeyRef s)\<rparr>"

definition Spec_view :: "'m cell heap \<Rightarrow> Spec_mem \<Rightarrow> AlibabaCloudCSIDriverSpec" where
  "Spec_view h s = \<lparr>spec_Disk = DiskSpec_view h (sm_Disk s), spec_NAS = NASSpec_view h (sm_NAS s),
     spec_OSS = sm_OSS s, spec_ImageTag = sm_ImageTag s, spec_ECSEndpoint = sm_ECSEndpoint s,
     spec_ExtraEnv = sliceView asEnvVarArray EnvVarSpec_view h (sm_ExtraEnv s),
     spec_Auth = sm_Auth s, spec_Controller = ControllerSpec_view h (sm_Controller s)\<rparr>"

definition Status_view :: "'m cell heap \<Rightarrow> Status_mem \<Rightarrow> AlibabaCloudCSIDriverStatus" where
  "Status_view h s = \<lparr>st_ObservedGeneration = tm_ObservedGeneration s,
     st_Conditions = sliceView asConditionArray plainView h (tm_Conditions s),
     st_DiskDriverReady = tm_DiskDriverReady s, st_NASDriverReady = tm_NASDriverReady s,
     st_OSSDriverReady = tm_OSSDriverReady s\<rparr>"

section \<open>Valid references\<close>

definition DiskSpec_ok :: "'m cell heap \<Rightarrow> DiskSpec_mem \<Rightarrow> bool" where
  "DiskSpec_ok h s = sliceOk asDiskStorageClassArray plainOk h (dm_StorageClasses s)"

definition NASSpec_ok :: "'m cell heap \<Rightarrow> NASSpec_mem \<Rightarrow> bool" where
  "NASSpec_ok h s = sliceOk asNASStorageClassArray plainOk h (nm_StorageClasses s)"

definition ControllerSpec_ok :: "'m cell heap \<Rightarrow> ControllerSpec_mem \<Rightarrow> bool" where
  "ControllerSpec_ok h s \<longleftrightarrow> mapOk asMapCell h (cm_NodeSelector s) \<and>
     sliceOk asTolerationArray plainOk h (cm_Tolerations s)"

definition EnvVarSpec_ok :: "'m cell heap \<Rightarrow> EnvVarSpec_mem \<Rightarrow> bool" where
  "EnvVarSpec_ok h s = ptrOk asSecretCell plainOk h (em_SecretKeyRef s)"

definition Spec_ok :: "'m cell heap \<Rightarrow> Spec_mem \<Rightarrow> bool" where
  "Spec_ok h s \<longleftrightarrow> DiskSpec_ok h (sm_Disk s) \<and> NASSpec_ok h (sm_NAS s) \<and>
     sliceOk asEnvVarArray EnvVarSpec_ok h (sm_ExtraEnv s) \<and> ControllerSpec_ok h (sm_Controller s)"

definition Status_ok :: "'m cell heap \<Rightarrow> Status_mem \<Rightarrow> bool" where
  "Status_ok h s = sliceOk asConditionArray plainOk h (tm_Conditions s)"

section \<open>Reachable cells\<close>

definition DiskSpec_reach :: "'m cell heap \<Rightarrow> DiskSpec_mem \<Rightarrow> addr set" where
  "DiskSpec_reach h s = sliceReach asDiskStorageClassArray plainReach h (dm_StorageClasses s)"

definition NASSpec_reach :: "'m cell heap \<Rightarrow> NASSpec_mem \<Rightarrow> addr set" where
  "NASSpec_reach h s = sliceReach asNASStorageClassArray plainReach h (nm_StorageClasses s)"

definition ControllerSpec_reach :: "'m cell heap \<Rightarrow> ControllerSpec_mem \<Rightarrow> addr set" where
  "ControllerSpec_reach h s = mapReach asMapCell h (cm_NodeSelector s) \<union>
     sliceReach asTolerationArray plainReach h (cm_Tolerations s)"

definition EnvVarSpec_reach :: "'m cell heap \<Rightarrow> EnvVarSpec_mem \<Rightarrow> addr set" where
  "EnvVarSpec_reach h s = ptrReach asSecretCell plainReach h (em_SecretKeyRef s)"

definition Spec_reach :: "'m cell heap \<Rightarrow> Spec_mem \<Rightarrow> addr set" where
  "Spec_reach h s = DiskSpec_reach h (sm_Disk s) \<union> (NASSpec_reach h (sm_NAS s) \<union>
     (sliceReach asEnvVarArray EnvVarSpec_reach h (sm_ExtraEnv s) \<union>
      ControllerSpec_reach h (sm_Controller s)))"

definition Status_reach :: "'m cell heap \<Rightarrow> Status_mem \<Rightarrow> addr set" where
  "Status_reach h s = sliceReach asConditionArray plainReach h (tm_Conditions s)"

section \<open>The laws\<close>

interpretation disk_copy: deep_copy DiskSpec_ok DiskSpec_view DiskSpec_reach DiskSpec_DeepCopyInto
  by (rule deep_copy_structI [OF deep_copy_builtin, where get = dm_StorageClasses and
        put = "\<lambda>y s. s\<lparr>dm_StorageClasses := y\<rparr>" and
        mkv = "\<lambda>s v. (DiskSpec_view [] s)\<lparr>disk_StorageClasses := v\<rparr>"])
    (simp_all add: DiskSpec_ok_def DiskSpec_view_def DiskSpec_reach_def DiskSpec_DeepCopyInto_def)

interpretation nas_copy: deep_copy NASSpec_ok NASSpec_view NASSpec_reach NASSpec_DeepCopyInto
  by (rule deep_copy_structI [OF deep_copy_builtin, where get = nm_StorageClasses and
        put = "\<lambda>y s. s\<lparr>nm_StorageClasses := y\<rparr>" and
        mkv = "\<lambda>s v. (NASSpec_view [] s)\<lparr>nas_StorageClasses := v\<rparr>"])
    (simp_all add: NASSpec_ok_def NASSpec_view_def NASSpec_reach_def NASSpec_DeepCopyInto_def)

interpretation controller_copy: deep_copy ControllerSpec_ok ControllerSpec_view ControllerSpec_reach
    ControllerSpec_DeepCopyInto
  by (rule deep_copy_structI [OF deep_copy_pair [OF deep_copy_map deep_copy_builtin],
        where get = "\<lambda>s. (cm_NodeSelector s, cm_Tolerations s)" and
        put = "\<lambda>(m, t) s. s\<lparr>cm_NodeSelector := m, cm_Tolerations := t\<rparr>" and
        mkv = "\<lambda>s (m, t). \<lparr>ctl_Replicas = cm_Replicas s, ctl_NodeSelector = m, ctl_Tolerations = t\<rparr>"])
    (simp_all add: ControllerSpec_ok_def ControllerSpec_view_def ControllerSpec_reach_def
      ControllerSpec_DeepCopyInto_def split_beta Let_def)

interpretation env_copy: deep_copy EnvVarSpec_ok EnvVarSpec_view EnvVarSpec_reach EnvVarSpec_DeepCopyInto
  by (rule deep_copy_structI [OF deep_copy_ptr [OF deep_copy_plain], where get = em_SecretKeyRef and
        put = "\<lambda>y s. s\<lparr>em_SecretKeyRef := y\<rparr>" and
        mkv = "\<lambda>s v. \<lparr>evs_Name = em_Name s, evs_Value = em_Value s, evs_SecretKeyRef = v\<rparr>"])
    (simp_all add: EnvVarSpec_ok_def EnvVarSpec_view_def EnvVarSpec_reach_def EnvVarSpec_DeepCopyInto_def)

lemma condition_copy: "CSIDriverCondition_DeepCopyInto = copyPlain"
  by (simp add: fun_eq_iff CSIDriverCondition_DeepCopyInto_def copyPlain_def)

interpretation status_copy: deep_copy Status_ok Status_view Status_reach Status_DeepCopyInto
  by (rule deep_copy_structI [OF deep_copy_slice [OF deep_copy_plain], where get = tm_Conditions and
        put = "\<lambda>y s. s\<lparr>tm_Conditions := y\<rparr>" and
        mkv = "\<lambda>s v. (Status_view [] s)\<lparr>st_Conditions := v\<rparr>"])
    (simp_all add: Status_ok_def Status_view_def Status_reach_def Status_DeepCopyInto_def condition_copy)

interpretation spec_copy: deep_copy Spec_ok Spec_view Spec_reach Spec_DeepCopyInto
  by (rule deep_copy_structI [OF deep_copy_pair [OF disk_copy.deep_copy_axioms
        deep_copy_pair [OF nas_copy.deep_copy_axioms
        deep_copy_pair [OF deep_copy_slice [OF env_copy.deep_copy_axioms] controller_copy.deep_copy_axioms]]],
        where get = "\<lambda>s. (sm_Disk s, sm_NAS s, sm_ExtraEnv s, sm_Controller s)" and
        put = "\<lambda>(d, n, e, c) s. s\<lparr>sm_Disk := d, sm_NAS := n, sm_ExtraEnv := e, sm_Controller := c\<rparr>" and
        mkv = "\<lambda>s (d, n, e, c). \<lparr>spec_Disk = d, spec_NAS = n, spec_OSS = sm_OSS s,
          spec_ImageTag = sm_ImageTag s, spec_ECSEndpoint = sm_ECSEndpoint s, spec_ExtraEnv = e,
          spec_Auth = sm_Auth s, spec_Controller = c\<rparr>"])
    (simp_all add: Spec_ok_def Spec_view_def Spec_reach_def Spec_DeepCopyInto_def split_beta Let_def)

section \<open>Objects with metadata\<close>

text \<open>
  The copy functions of \<open>ObjectMeta\<close> and \<open>ListMeta\<close> are documented as deep copies.  Metadata
  refers to no struct of this API.
\<close>

locale meta_lib =
  fixes L :: "'m MetaLib"
    and meta_ok :: "'m cell heap \<Rightarrow> 'm \<Rightarrow> bool"
    and meta_view :: "'m cell heap \<Rightarrow> 'm \<Rightarrow> 'v"
    and meta_reach :: "'m cell heap \<Rightarrow> 'm \<Rightarrow> addr set"
  assumes object_meta: "deep_copy meta_ok meta_view meta_reach (md_ObjectMeta_DeepCopyInto L)"
    and list_meta: "deep_copy meta_ok meta_view meta_reach (md_ListMeta_DeepCopyInto L)"

definition Driver_ok :: "('m cell heap \<Rightarrow> 'm \<Rightarrow> bool) \<Rightarrow> 'm cell heap \<Rightarrow> 'm Driver_mem \<Rightarrow> bool" where
  "Driver_ok mok h s \<longleftrightarrow> mok h (rm_ObjectMeta s) \<and> Spec_ok h (rm_Spec s) \<and> Status_ok h (rm_Status s)"

definition Driver_view :: "('m cell heap \<Rightarrow> 'm \<Rightarrow> 'v) \<Rightarrow> 'm cell heap \<Rightarrow> 'm Driver_mem \<Rightarrow>
    TypeMeta \<times> 'v \<times> AlibabaCloudCSIDriverSpec \<times> AlibabaCloudCSIDriverStatus" where
  "Driver_view mview h s = (rm_TypeMeta s, mview h (rm_ObjectMeta s), Spec_view h (rm_Spec s),
     Status_view h (rm_Status s))"

definition Driver_reach :: "('m cell heap \<Rightarrow> 'm \<Rightarrow> addr set) \<Rightarrow> 'm cell heap \<Rightarrow> 'm Driver_mem \<Rightarrow> addr set" where
  "Driver_reach mreach h s = mreach h (rm_ObjectMeta s) \<union> (Spec_reach h (rm_Spec s) \<union>
     Status_reach h (rm_Status s))"

definition DriverList_ok :: "('m cell heap \<Rightarrow> 'm \<Rightarrow> bool) \<Rightarrow> 'm cell heap \<Rightarrow> 'm DriverList_mem \<Rightarrow> bool" where
  "DriverList_ok mok h s \<longleftrightarrow> mok h (lm_ListMeta s) \<and> sliceOk asDriverArray (Driver_ok mok) h (lm_Items s)"

definition DriverList_view :: "('m cell heap \<Rightarrow> 'm \<Rightarrow> 'v) \<Rightarrow> 'm cell heap \<Rightarrow> 'm DriverList_mem \<Rightarrow>
    TypeMeta \<times> 'v \<times> (TypeMeta \<times> 'v \<times> AlibabaCloudCSIDriverSpec \<times> AlibabaCloudCSIDriverStatus) list" where
  "DriverList_view mview h s = (lm_TypeMeta s, mview h (lm_ListMeta s),
     sliceView asDriverArray (Driver_view mview) h (lm_Items s))"

definition DriverList_reach :: "('m cell heap \<Rightarrow> 'm \<Rightarrow> addr set) \<Rightarrow> 'm cell heap \<Rightarrow> 'm DriverList_mem \<Rightarrow>
    addr set" where
  "DriverList_reach mreach h s = mreach h (lm_ListMeta s) \<union>
     sliceReach asDriverArray (Driver_reach mreach) h (lm_Items s)"

sublocale meta_lib < driver_copy: deep_copy "Driver_ok meta_ok" "Driver_view meta_view"
    "Driver_reach meta_reach" "Driver_DeepCopyInto L"
  by (rule deep_copy_structI [OF deep_copy_pair [OF object_meta deep_copy_pair
        [OF spec_copy.deep_copy_axioms status_copy.deep_copy_axioms]],
        where get = "\<lambda>s. (rm_ObjectMeta s, rm_Spec s, rm_Status s)" and
        put = "\<lambda>(m, s, t) d. d\<lparr>rm_ObjectMeta := m, rm_Spec := s, rm_Status := t\<rparr>" and
        mkv = "\<lambda>d v. (rm_TypeMeta d, v)"])
    (simp_all add: Driver_ok_def Driver_view_def Driver_reach_def Driver_DeepCopyInto_def split_beta Let_def)

sublocale meta_lib < driver_ptr: deep_copy "ptrOk asDriverCell (Driver_ok meta_ok)"
    "ptrView asDriverCell (Driver_view meta_view)" "ptrReach asDriverCell (Driver_reach meta_reach)"
    "Driver_DeepCopy L"
  unfolding Driver_DeepCopy_def by (rule deep_copy_ptr [OF driver_copy.deep_copy_axioms]) simp

sublocale meta_lib < list_copy: deep_copy "DriverList_ok meta_ok" "DriverList_view meta_view"
    "DriverList_reach meta_reach" "DriverList_DeepCopyInto L"
  by (rule deep_copy_structI [OF deep_copy_pair [OF list_meta deep_copy_slice
        [OF driver_copy.deep_copy_axioms]],
        where get = "\<lambda>s. (lm_ListMeta s, lm_Items s)" and
        put = "\<lambda>(m, s) d. d\<lparr>lm_ListMeta := m, lm_Items := s\<rparr>" and
        mkv = "\<lambda>d v. (lm_TypeMeta d, v)"])
    (simp_all add: DriverList_ok_def DriverList_view_def DriverList_reach_def
      DriverList_DeepCopyInto_def split_beta Let_def)

sublocale meta_lib < list_ptr: deep_copy "ptrOk asDriverListCell (DriverList_ok meta_ok)"
    "ptrView asDriverListCell (DriverList_view meta_view)"
    "ptrReach asDriverListCell (DriverList_reach meta_reach)" "DriverList_DeepCopy L"
  unfolding DriverList_DeepCopy_def by (rule deep_copy_ptr [OF list_copy.deep_copy_axioms]) simp

context meta_lib
begin

lemma driver_ptr_deep: "deep_copy (ptrOk asDriverCell (Driver_ok meta_ok))
    (ptrView asDriverCell (Driver_view meta_view)) (ptrReach asDriverCell (Driver_reach meta_reach))
    (Driver_DeepCopy L)"
  by (rule driver_ptr.deep_copy_axioms)

lemma list_ptr_deep: "deep_copy (ptrOk asDriverListCell (DriverList_ok meta_ok))
    (ptrView asDriverListCell (DriverList_view meta_view))
    (ptrReach asDriverListCell (DriverList_reach meta_reach)) (DriverList_DeepCopy L)"
  by (rule list_ptr.deep_copy_axioms)

end

section \<open>A metadata library, and a resource in memory\<close>

record RefMeta =
  rmd_Name :: string
  rmd_Labels :: "addr option"

definition refMeta_DeepCopyInto :: "RefMeta \<Rightarrow> RefMeta cell heap \<Rightarrow> RefMeta \<times> RefMeta cell heap" where
  "refMeta_DeepCopyInto in' h = (let (labels, h) = copyMap MapCell asMapCell (rmd_Labels in') h
     in (in'\<lparr>rmd_Labels := labels\<rparr>, h))"

definition refMetaLib :: "RefMeta MetaLib" where
  "refMetaLib = \<lparr>md_zero = \<lparr>rmd_Name = [], rmd_Labels = None\<rparr>,
     md_ObjectMeta_DeepCopyInto = refMeta_DeepCopyInto, md_ListMeta_DeepCopyInto = refMeta_DeepCopyInto\<rparr>"

definition refMeta_ok :: "RefMeta cell heap \<Rightarrow> RefMeta \<Rightarrow> bool" where
  "refMeta_ok h m = mapOk asMapCell h (rmd_Labels m)"

definition refMeta_view :: "RefMeta cell heap \<Rightarrow> RefMeta \<Rightarrow> string \<times> strmap option" where
  "refMeta_view h m = (rmd_Name m, mapView asMapCell h (rmd_Labels m))"

definition refMeta_reach :: "RefMeta cell heap \<Rightarrow> RefMeta \<Rightarrow> addr set" where
  "refMeta_reach h m = mapReach asMapCell h (rmd_Labels m)"

lemma refMeta_deep: "deep_copy refMeta_ok refMeta_view refMeta_reach refMeta_DeepCopyInto"
  by (rule deep_copy_structI [OF deep_copy_map, where get = rmd_Labels and
        put = "\<lambda>y m. m\<lparr>rmd_Labels := y\<rparr>" and mkv = "\<lambda>m v. (rmd_Name m, v)"])
    (simp_all add: refMeta_ok_def refMeta_view_def refMeta_reach_def refMeta_DeepCopyInto_def)

interpretation ref_meta: meta_lib refMetaLib refMeta_ok refMeta_view refMeta_reach
  by (rule meta_lib.intro) (simp_all add: refMetaLib_def refMeta_deep)

text \<open>Cell 5 holds a resource with labels, a disk class, a node selector and a secret reference.\<close>

definition sampleMem :: "RefMeta Driver_mem" where
  "sampleMem = (zero_Driver_mem refMetaLib)
     \<lparr>rm_ObjectMeta := \<lparr>rmd_Name = ''cluster'', rmd_Labels = Some 0\<rparr>,
      rm_Spec := zero_Spec_mem
        \<lparr>sm_Disk := zero_DiskSpec_mem\<lparr>dm_Enabled := True, dm_StorageClasses := Slice 1 0 1\<rparr>,
         sm_ExtraEnv := Slice 4 0 1,
         sm_Controller := zero_ControllerSpec_mem\<lparr>cm_NodeSelector := Some 2\<rparr>\<rparr>\<rparr>"

definition sampleHeap :: "RefMeta cell heap" where
  "sampleHeap =
    [ MapCell [(''team'', ''storage'')],
      DiskStorageClassArray [zero_DiskStorageClassSpec\<lparr>dsc_Name := ''fast''\<rparr>, zero_DiskStorageClassSpec],
      MapCell [(''role'', ''infra''), (''zone'', ''c'')],
      SecretCell \<lparr>sks_Name = ''cred'', sks_Key = ''id''\<rparr>,
      EnvVarArray [\<lparr>em_Name = ''ACCESS_KEY'', em_Value = [], em_SecretKeyRef = Some 3\<rparr>],
      DriverCell sampleMem ]"

lemma sampleHeap_ok: "ptrOk asDriverCell (Driver_ok refMeta_ok) sampleHeap (Some 5)"
  by (simp add: sampleHeap_def sampleMem_def ptrOk_def deref_def Driver_ok_def refMeta_ok_def mapOk_def
      Spec_ok_def Status_ok_def DiskSpec_ok_def NASSpec_ok_def ControllerSpec_ok_def EnvVarSpec_ok_def
      zero_Driver_mem_def zero_Spec_mem_def zero_DiskSpec_mem_def zero_NASSpec_mem_def
      zero_ControllerSpec_mem_def zero_Status_mem_def)

lemma sampleHeap_reach: "2 \<in> ptrReach asDriverCell (Driver_reach refMeta_reach) sampleHeap (Some 5)"
  by (simp add: sampleHeap_def sampleMem_def ptrReach_def deref_def Driver_reach_def Spec_reach_def
      ControllerSpec_reach_def mapReach_def zero_Driver_mem_def zero_Spec_mem_def
      zero_ControllerSpec_mem_def)

section \<open>The copies are independent\<close>

abbreviation driverView :: "('m cell heap \<Rightarrow> 'm \<Rightarrow> 'v) \<Rightarrow> 'm cell heap \<Rightarrow> addr option \<Rightarrow>
    (TypeMeta \<times> 'v \<times> AlibabaCloudCSIDriverSpec \<times> AlibabaCloudCSIDriverStatus) option" where
  "driverView mview \<equiv> ptrView asDriverCell (Driver_view mview)"

abbreviation driverReach :: "('m cell heap \<Rightarrow> 'm \<Rightarrow> addr set) \<Rightarrow> 'm cell heap \<Rightarrow> addr option \<Rightarrow> addr set" where
  "driverReach mreach \<equiv> ptrReach asDriverCell (Driver_reach mreach)"

text \<open>
  C34: \<open>DeepCopy\<close> of a resource changes no cell that was there before, the copy denotes the same value
  (a nil pointer is copied to nil), and original and copy share no cell: no backing array, no map,
  no secret reference.  \<open>DeepCopyObject\<close> wraps that copy, nil as the nil interface.
\<close>

theorem DeepCopy_is_deep:
  assumes "meta_lib L mok mview mreach" and "ptrOk asDriverCell (Driver_ok mok) h p"
    and "Driver_DeepCopy L p h = (q, h')"
  shows "(\<exists>cs. h' = h @ cs) \<and> driverView mview h' q = driverView mview h p \<and>
    driverReach mreach h' p \<inter> driverReach mreach h' q = {} \<and>
    Driver_DeepCopyObject L p h = (map_option DriverObject q, h')"
  using deep_copy.separate [OF meta_lib.driver_ptr_deep [OF assms(1)] assms(2,3)] assms(3)
  by (cases q) (simp_all add: Driver_DeepCopyObject_def)

lemma sample_DeepCopy: "\<exists>q h'. Driver_DeepCopy refMetaLib (Some 5) sampleHeap = (q, h')"
  by (cases "Driver_DeepCopy refMetaLib (Some 5) sampleHeap") simp

theorem DeepCopy_is_deep_witness:
  "\<exists>q h'. Driver_DeepCopy refMetaLib (Some 5) sampleHeap = (q, h') \<and>
     driverReach refMeta_reach h' (Some 5) \<inter> driverReach refMeta_reach h' q = {}"
  using sample_DeepCopy DeepCopy_is_deep [OF ref_meta.meta_lib_axioms sampleHeap_ok] by blast

text \<open>
  C35: the two are independent.  Overwriting any cells reachable from the copy leaves the original's
  value as it was, and overwriting any cells reachable from the original leaves the copy's.
\<close>

theorem DeepCopy_survives_writes:
  assumes "meta_lib L mok mview mreach" and "ptrOk asDriverCell (Driver_ok mok) h p"
    and "Driver_DeepCopy L p h = (q, h')" and "length h' \<le> length h''"
  shows "((\<forall>a < length h'. a \<notin> driverReach mreach h' q \<longrightarrow> h'' ! a = h' ! a) \<longrightarrow>
      driverView mview h'' p = driverView mview h p) \<and>
    ((\<forall>a < length h'. a \<notin> driverReach mreach h' p \<longrightarrow> h'' ! a = h' ! a) \<longrightarrow>
      driverView mview h'' q = driverView mview h p)"
  by (rule deep_copy.independent [OF meta_lib.driver_ptr_deep [OF assms(1)] assms(2-4)])

theorem DeepCopy_survives_writes_witness:
  "\<exists>q h'. Driver_DeepCopy refMetaLib (Some 5) sampleHeap = (q, h') \<and>
     driverView refMeta_view (h'[2 := MapCell []]) q = driverView refMeta_view sampleHeap (Some 5)"
proof -
  obtain q h' where copy: "Driver_DeepCopy refMetaLib (Some 5) sampleHeap = (q, h')"
    using sample_DeepCopy by blast
  from DeepCopy_is_deep [OF ref_meta.meta_lib_axioms sampleHeap_ok copy] obtain cs where
    "h' = sampleHeap @ cs" by blast
  then have "2 \<in> driverReach refMeta_reach h' (Some 5)"
    using deep_copy.extend [OF ref_meta.driver_ptr_deep sampleHeap_ok, of cs] sampleHeap_reach by simp
  then have "\<forall>a < length h'. a \<notin> driverReach refMeta_reach h' (Some 5) \<longrightarrow> h'[2 := MapCell []] ! a = h' ! a"
    by (metis nth_list_update_neq)
  with DeepCopy_survives_writes [OF ref_meta.meta_lib_axioms sampleHeap_ok copy, of "h'[2 := MapCell []]"]
  have "driverView refMeta_view (h'[2 := MapCell []]) q = driverView refMeta_view sampleHeap (Some 5)"
    by simp
  with copy show ?thesis by blast
qed

text \<open>
  The same for a list of resources, whose items are copied one by one: no cell that was there
  changes, the value is the same, and no item of the copy shares a cell with the original.
\<close>

lemma List_DeepCopy_is_deep:
  assumes "meta_lib L mok mview mreach" and "ptrOk asDriverListCell (DriverList_ok mok) h p"
    and "DriverList_DeepCopy L p h = (q, h')"
  shows "(\<exists>cs. h' = h @ cs) \<and>
    ptrView asDriverListCell (DriverList_view mview) h' q = ptrView asDriverListCell (DriverList_view mview) h p \<and>
    ptrReach asDriverListCell (DriverList_reach mreach) h' p \<inter>
      ptrReach asDriverListCell (DriverList_reach mreach) h' q = {} \<and>
    DriverList_DeepCopyObject L p h = (map_option DriverListObject q, h')"
  using deep_copy.separate [OF meta_lib.list_ptr_deep [OF assms(1)] assms(2,3)] assms(3)
  by (cases q) (simp_all add: DriverList_DeepCopyObject_def)

text \<open>Two cells more: a list with the sample as its only item.\<close>

definition sampleListHeap :: "RefMeta cell heap" where
  "sampleListHeap = sampleHeap @ [DriverArray [sampleMem], DriverListCell \<lparr>lm_TypeMeta = ([], []),
     lm_ListMeta = \<lparr>rmd_Name = [], rmd_Labels = None\<rparr>, lm_Items = Slice 6 0 1\<rparr>]"

lemma sampleListHeap_ok: "ptrOk asDriverListCell (DriverList_ok refMeta_ok) sampleListHeap (Some 7)"
  by (simp add: sampleListHeap_def sampleHeap_def sampleMem_def ptrOk_def deref_def DriverList_ok_def
      Driver_ok_def refMeta_ok_def mapOk_def Spec_ok_def Status_ok_def DiskSpec_ok_def NASSpec_ok_def
      ControllerSpec_ok_def EnvVarSpec_ok_def zero_Driver_mem_def zero_Spec_mem_def
      zero_DiskSpec_mem_def zero_NASSpec_mem_def zero_ControllerSpec_mem_def zero_Status_mem_def)

lemma List_DeepCopy_is_deep_witness:
  "\<exists>q h'. DriverList_DeepCopy refMetaLib (Some 7) sampleListHeap = (q, h') \<and>
     (\<exists>cs. h' = sampleListHeap @ cs)"
proof -
  obtain q h' where "DriverList_DeepCopy refMetaLib (Some 7) sampleListHeap = (q, h')"
    by (cases "DriverList_DeepCopy refMetaLib (Some 7) sampleListHeap")
  with List_DeepCopy_is_deep [OF ref_meta.meta_lib_axioms sampleListHeap_ok this] show ?thesis by blast
qed

section \<open>The base of the status patch\<close>

text \<open>
  What \<open>Reconcile\<close> does before it patches the status: copy the resource as the base of the patch,
  then assign to the status through the original pointer.  The conditions are a new array.
\<close>

definition prepareStatusPatch :: "'m MetaLib \<Rightarrow> int64 \<Rightarrow> bool \<Rightarrow> bool \<Rightarrow> bool \<Rightarrow> CSIDriverCondition list \<Rightarrow>
    addr \<Rightarrow> 'm cell heap \<Rightarrow> addr option \<times> 'm cell heap" where
  "prepareStatusPatch L generation diskReady nasReady ossReady conditions cr h =
     (let (base, h) = Driver_DeepCopy L (Some cr) h;
          assign = (\<lambda>f h. let d = the (deref asDriverCell h cr)
            in h[cr := DriverCell (d\<lparr>rm_Status := f (rm_Status d)\<rparr>)]);
          h = assign (\<lambda>s. s\<lparr>tm_ObservedGeneration := generation\<rparr>) h;
          h = assign (\<lambda>s. s\<lparr>tm_DiskDriverReady := diskReady\<rparr>) h;
          h = assign (\<lambda>s. s\<lparr>tm_NASDriverReady := nasReady\<rparr>) h;
          h = assign (\<lambda>s. s\<lparr>tm_OSSDriverReady := ossReady\<rparr>) h;
          (a, h) = alloc (ConditionArray conditions) h;
          h = assign (\<lambda>s. s\<lparr>tm_Conditions := Slice a 0 (length conditions)\<rparr>) h
      in (base, h))"

lemma deref_update [simp]: "a < length h \<Longrightarrow> rd c = Some x \<Longrightarrow> deref rd (h[a := c]) a = Some x"
  by (simp add: deref_def)

lemma prepareStatusPatch_heap:
  assumes "Driver_DeepCopy L (Some cr) h = (q, h1)" and "deref asDriverCell h1 cr = Some d"
  shows "prepareStatusPatch L generation diskReady nasReady ossReady conditions cr h =
    (q, (h1 @ [ConditionArray conditions])[cr := DriverCell (d\<lparr>rm_Status :=
       \<lparr>tm_ObservedGeneration = generation, tm_Conditions = Slice (length h1) 0 (length conditions),
        tm_DiskDriverReady = diskReady, tm_NASDriverReady = nasReady, tm_OSSDriverReady = ossReady\<rparr>\<rparr>)])"
  using assms deref_SomeD [OF assms(2)]
  by (cases "rm_Status d") (simp add: prepareStatusPatch_def alloc_def Let_def list_update_append)

text \<open>
  C33: the patch is computed from two different values.  After the assignments the base still denotes
  the resource as it was read, and the resource differs from it in the status only, which is the
  one assigned.
\<close>

theorem status_patch_base_is_a_snapshot:
  assumes "meta_lib L mok mview mreach" and "ptrOk asDriverCell (Driver_ok mok) h (Some cr)"
    and "prepareStatusPatch L generation diskReady nasReady ossReady conditions cr h = (base, h')"
  shows "driverView mview h' base = driverView mview h (Some cr) \<and>
    (\<exists>d d'. deref asDriverCell h cr = Some d \<and> deref asDriverCell h' cr = Some d' \<and>
       d' = d\<lparr>rm_Status := rm_Status d'\<rparr> \<and>
       Status_view h' (rm_Status d') = \<lparr>st_ObservedGeneration = generation, st_Conditions = conditions,
         st_DiskDriverReady = diskReady, st_NASDriverReady = nasReady, st_OSSDriverReady = ossReady\<rparr>)"
proof -
  obtain d where d: "deref asDriverCell h cr = Some d"
    using assms(2) by (auto simp: ptrOk_def split: option.splits)
  obtain q h1 where copy: "Driver_DeepCopy L (Some cr) h = (q, h1)"
    by (cases "Driver_DeepCopy L (Some cr) h")
  note dc = meta_lib.driver_ptr_deep [OF assms(1)]
  from deep_copy.separate [OF dc assms(2) copy] obtain cs where h1: "h1 = h @ cs" by blast
  from deref_SomeD [OF d] have cr: "cr < length h" ..
  with d h1 have "deref asDriverCell h1 cr = Some d" by simp
  note eqs = assms(3) [unfolded prepareStatusPatch_heap [OF copy this], simplified]
  let ?s = "\<lparr>tm_ObservedGeneration = generation, tm_Conditions = Slice (length h1) 0 (length conditions),
    tm_DiskDriverReady = diskReady, tm_NASDriverReady = nasReady, tm_OSSDriverReady = ossReady\<rparr>"
  have "driverView mview h' q = driverView mview h (Some cr)"
    using deep_copy.copy_kept [OF dc assms(2) copy, of h'] eqs cr by (force simp: nth_append)
  moreover have "deref asDriverCell h' cr = Some (d\<lparr>rm_Status := ?s\<rparr>)"
    using eqs cr h1 by auto
  moreover have "Status_view h' ?s = \<lparr>st_ObservedGeneration = generation, st_Conditions = conditions,
      st_DiskDriverReady = diskReady, st_NASDriverReady = nasReady, st_OSSDriverReady = ossReady\<rparr>"
    using eqs cr h1 by (auto simp: Status_view_def sliceView_def deref_def nth_append)
  ultimately show ?thesis using d eqs by auto
qed

theorem status_patch_base_is_a_snapshot_witness:
  "\<exists>base h'. prepareStatusPatch refMetaLib 3 True False False [] 5 sampleHeap = (base, h') \<and>
     driverView refMeta_view h' base = driverView refMeta_view sampleHeap (Some 5)"
proof -
  obtain base h' where "prepareStatusPatch refMetaLib 3 True False False [] 5 sampleHeap = (base, h')"
    by (cases "prepareStatusPatch refMetaLib 3 True False False [] 5 sampleHeap")
  with status_patch_base_is_a_snapshot [OF ref_meta.meta_lib_axioms sampleHeap_ok this] show ?thesis
    by blast
qed

end
