(* ===== verification/Manager.thy ===== *)
theory Manager
  imports GoHeap
begin

text \<open>
  The program's entry point, \<open>cmd/main.go\<close>: the command line, the TLS options of the two servers,
  the certificate watchers, and the start-up sequence in which every failure ends the process.
  The calls of controller-runtime are events; an environment answers each of them with an error or
  none.  The \<open>flag\<close> and \<open>path/filepath\<close> packages of the standard library are modelled as far as the
  program uses them.
\<close>

section \<open>Flags\<close>

record Options =
  o_metricsAddr :: string
  o_probeAddr :: string
  o_enableLeaderElection :: bool
  o_secureMetrics :: bool
  o_webhookCertPath :: string
  o_webhookCertName :: string
  o_webhookCertKey :: string
  o_metricsCertPath :: string
  o_metricsCertName :: string
  o_metricsCertKey :: string
  o_enableHTTP2 :: bool
  o_libraryFlags :: "(string \<times> string) list" \<comment> \<open>set flags of the libraries, last first\<close>

definition defaultOptions :: Options where
  "defaultOptions = \<lparr>o_metricsAddr = ''0'', o_probeAddr = '':8081'', o_enableLeaderElection = False,
     o_secureMetrics = True, o_webhookCertPath = [], o_webhookCertName = ''tls.crt'',
     o_webhookCertKey = ''tls.key'', o_metricsCertPath = [], o_metricsCertName = ''tls.crt'',
     o_metricsCertKey = ''tls.key'', o_enableHTTP2 = False, o_libraryFlags = []\<rparr>"

text \<open>
  A flag takes a string or is boolean; its setter fails on a value it does not accept.  The flags
  that \<open>zap\<close> and controller-runtime bind are a parameter.
\<close>

datatype flag = StringVar "string \<Rightarrow> Options \<Rightarrow> Options" | BoolVar "bool \<Rightarrow> Options \<Rightarrow> Options"
  | LibraryVar bool "string \<Rightarrow> bool"

definition formalFlags :: "(string \<times> flag) list" where
  "formalFlags =
    [ (''metrics-bind-address'', StringVar (\<lambda>v o'. o'\<lparr>o_metricsAddr := v\<rparr>)),
      (''health-probe-bind-address'', StringVar (\<lambda>v o'. o'\<lparr>o_probeAddr := v\<rparr>)),
      (''leader-elect'', BoolVar (\<lambda>v o'. o'\<lparr>o_enableLeaderElection := v\<rparr>)),
      (''metrics-secure'', BoolVar (\<lambda>v o'. o'\<lparr>o_secureMetrics := v\<rparr>)),
      (''webhook-cert-path'', StringVar (\<lambda>v o'. o'\<lparr>o_webhookCertPath := v\<rparr>)),
      (''webhook-cert-name'', StringVar (\<lambda>v o'. o'\<lparr>o_webhookCertName := v\<rparr>)),
      (''webhook-cert-key'', StringVar (\<lambda>v o'. o'\<lparr>o_webhookCertKey := v\<rparr>)),
      (''metrics-cert-path'', StringVar (\<lambda>v o'. o'\<lparr>o_metricsCertPath := v\<rparr>)),
      (''metrics-cert-name'', StringVar (\<lambda>v o'. o'\<lparr>o_metricsCertName := v\<rparr>)),
      (''metrics-cert-key'', StringVar (\<lambda>v o'. o'\<lparr>o_metricsCertKey := v\<rparr>)),
      (''enable-http2'', BoolVar (\<lambda>v o'. o'\<lparr>o_enableHTTP2 := v\<rparr>)) ]"

definition lookupFlag :: "(string \<Rightarrow> flag option) \<Rightarrow> string \<Rightarrow> flag option" where
  "lookupFlag libFlags name = (case map_of formalFlags name of Some f \<Rightarrow> Some f | None \<Rightarrow> libFlags name)"

text \<open>\<open>strconv.ParseBool\<close>\<close>

definition parseBool :: "string \<Rightarrow> bool option" where
  "parseBool s =
     (if s \<in> set [''1'', ''t'', ''T'', ''TRUE'', ''true'', ''True''] then Some True
      else if s \<in> set [''0'', ''f'', ''F'', ''FALSE'', ''false'', ''False''] then Some False
      else None)"

definition isBoolFlag :: "flag \<Rightarrow> bool" where
  "isBoolFlag f = (case f of StringVar _ \<Rightarrow> False | BoolVar _ \<Rightarrow> True | LibraryVar b _ \<Rightarrow> b)"

definition setFlag :: "string \<Rightarrow> flag \<Rightarrow> string \<Rightarrow> Options \<Rightarrow> Options option" where
  "setFlag name f v o' = (case f of
       StringVar assign \<Rightarrow> Some (assign v o')
     | BoolVar assign \<Rightarrow> map_option (\<lambda>b. assign b o') (parseBool v)
     | LibraryVar _ accepts \<Rightarrow>
         if accepts v then Some (o'\<lparr>o_libraryFlags := (name, v) # o_libraryFlags o'\<rparr>) else None)"

text \<open>The name and the value behind the dashes: split at the first \<open>=\<close>, which cannot come first.\<close>

fun cutValue :: "string \<Rightarrow> string \<times> string option" where
  "cutValue [] = ([], None)"
| "cutValue (c # s) = (if c = CHR ''='' then ([], Some s)
     else case cutValue s of (name, v) \<Rightarrow> (c # name, v))"

datatype parsed = Parsed Options | HelpRequested | FlagError

text \<open>
  \<open>flag.Parse\<close>: arguments are consumed as long as they look like flags; \<open>--\<close> and the first other
  argument end the flags.  The command line's flag set exits on an error.
\<close>

fun parseFlags :: "(string \<Rightarrow> flag option) \<Rightarrow> string list \<Rightarrow> Options \<Rightarrow> parsed" where
  "parseFlags libFlags [] o' = Parsed o'"
| "parseFlags libFlags (s # args) o' =
     (if length s < 2 \<or> s ! 0 \<noteq> CHR ''-'' then Parsed o'
      else if s = ''--'' then Parsed o'
      else let name = (if s ! 1 = CHR ''-'' then drop 2 s else drop 1 s) in
      if name ! 0 = CHR ''-'' \<or> name ! 0 = CHR ''='' then FlagError
      else case cutValue name of (name, value) \<Rightarrow>
        (case lookupFlag libFlags name of
           None \<Rightarrow> if name \<in> {''help'', ''h''} then HelpRequested else FlagError
         | Some f \<Rightarrow>
             if isBoolFlag f
             then (case setFlag name f (case value of None \<Rightarrow> ''true'' | Some v \<Rightarrow> v) o' of
                 None \<Rightarrow> FlagError | Some o'' \<Rightarrow> parseFlags libFlags args o'')
             else (case value of
                 Some v \<Rightarrow> (case setFlag name f v o' of
                     None \<Rightarrow> FlagError | Some o'' \<Rightarrow> parseFlags libFlags args o'')
               | None \<Rightarrow> (case args of
                     [] \<Rightarrow> FlagError
                   | v # rest \<Rightarrow> (case setFlag name f v o' of
                         None \<Rightarrow> FlagError | Some o'' \<Rightarrow> parseFlags libFlags rest o'')))))"

section \<open>Paths\<close>

text \<open>\<open>filepath.Clean\<close> and \<open>filepath.Join\<close> on Unix: elements of the path from left to right.\<close>

fun pathElems :: "string \<Rightarrow> string \<Rightarrow> string list" where
  "pathElems cur [] = [rev cur]"
| "pathElems cur (c # s) = (if c = CHR ''/'' then rev cur # pathElems [] s else pathElems (c # cur) s)"

fun cleanElems :: "bool \<Rightarrow> string list \<Rightarrow> string list \<Rightarrow> string list" where
  "cleanElems rooted out [] = rev out"
| "cleanElems rooted out (e # es) =
     (if e = [] \<or> e = ''.'' then cleanElems rooted out es
      else if e = ''..'' then
        (if out \<noteq> [] \<and> hd out \<noteq> ''..'' then cleanElems rooted (tl out) es
         else if rooted then cleanElems rooted out es
         else cleanElems rooted (e # out) es)
      else cleanElems rooted (e # out) es)"

fun joinSlash :: "string list \<Rightarrow> string" where
  "joinSlash [] = []"
| "joinSlash [e] = e"
| "joinSlash (e # f # es) = e @ ''/'' @ joinSlash (f # es)"

definition filepath_Clean :: "string \<Rightarrow> string" where
  "filepath_Clean path =
     (let rooted = (path \<noteq> [] \<and> hd path = CHR ''/'');
          out = joinSlash (cleanElems rooted [] (pathElems [] path))
      in if rooted then ''/'' @ out else if out = [] then ''.'' else out)"

definition filepath_Join :: "string \<Rightarrow> string \<Rightarrow> string" where
  "filepath_Join dir name =
     (if dir \<noteq> [] then filepath_Clean (dir @ ''/'' @ name)
      else if name \<noteq> [] then filepath_Clean name else [])"

section \<open>TLS options\<close>

text \<open>
  The two closures over \<open>tls.Config\<close>.  An element of a backing array that was never assigned is the
  nil function.
\<close>

datatype tlsOption = DisableHTTP2 | UseCertificate "string \<times> string"

type_synonym tlsHeap = "tlsOption option list heap"

record TLSConfig =
  tls_NextProtos :: "string list"
  tls_GetCertificate :: "(string \<times> string) option"

fun applyOption :: "tlsOption \<Rightarrow> TLSConfig \<Rightarrow> TLSConfig" where
  "applyOption DisableHTTP2 c = c\<lparr>tls_NextProtos := [''http/1.1'']\<rparr>"
| "applyOption (UseCertificate watcher) c = c\<lparr>tls_GetCertificate := Some watcher\<rparr>"

text \<open>A server applies its options in order when it starts.\<close>

definition serverConfig :: "tlsHeap \<Rightarrow> slice \<Rightarrow> TLSConfig \<Rightarrow> TLSConfig" where
  "serverConfig h s c = fold (\<lambda>opt. applyOption (the opt)) (elems Some h s) c"

definition appendOption :: "(nat \<Rightarrow> nat) \<Rightarrow> slice \<Rightarrow> tlsOption \<Rightarrow> tlsHeap \<Rightarrow> slice \<times> tlsHeap" where
  "appendOption grow s opt h = goAppend grow id Some None s (Some opt) h"

section \<open>Start-up\<close>

record ManagerOptions =
  mo_MetricsBindAddress :: string
  mo_MetricsSecureServing :: bool
  mo_MetricsFilterProvider :: bool \<comment> \<open>set to authentication and authorisation\<close>
  mo_MetricsTLSOpts :: slice
  mo_WebhookTLSOpts :: slice
  mo_HealthProbeBindAddress :: string
  mo_LeaderElection :: bool
  mo_LeaderElectionID :: string

text \<open>What \<open>SetupWithManager\<close> hands to the controller builder: no created object is watched.\<close>

record ControllerBuilder =
  cb_For :: string
  cb_Owns :: "string list"
  cb_Named :: string

definition SetupWithManager :: ControllerBuilder where
  "SetupWithManager = \<lparr>cb_For = ''AlibabaCloudCSIDriver'', cb_Owns = [],
     cb_Named = ''alibabacloudcsidriver''\<rparr>"

text \<open>The API group of the resource and the types registered for it.\<close>

definition GroupVersion :: "string \<times> string" where
  "GroupVersion = (''csi.alibabacloud.com'', ''v1alpha1'')"

definition registeredTypes :: "string list" where
  "registeredTypes = [''AlibabaCloudCSIDriver'', ''AlibabaCloudCSIDriverList'']"

datatype Runnable = CertWatcher string string

datatype Call =
    AddClientGoToScheme
  | AddKnownTypes "string \<times> string" "string list"
  | NewCertWatcher string string
  | GetConfig
  | NewManager ManagerOptions
  | CompleteController ControllerBuilder
  | AddRunnable Runnable
  | AddHealthzCheck string
  | AddReadyzCheck string
  | StartManager tlsHeap \<comment> \<open>with the arrays that the servers read now\<close>

datatype Outcome = Returned | Exited nat | Panicked

text \<open>
  An environment answers the call that follows the calls made so far: \<open>None\<close>, or \<open>Some\<close> error.
  \<open>attempt\<close> is the idiom \<open>if err := call(); err != nil { os.Exit(1) }\<close>, and \<open>must\<close> is
  \<open>utilruntime.Must\<close>, which panics.
\<close>

type_synonym Env = "Call list \<Rightarrow> Call \<Rightarrow> string option"

definition attempt :: "Env \<Rightarrow> Call \<Rightarrow> Call list \<Rightarrow> (Call list \<Rightarrow> Outcome \<times> Call list) \<Rightarrow>
    Outcome \<times> Call list" where
  "attempt env c tr k = (case env tr c of None \<Rightarrow> k (tr @ [c]) | Some err \<Rightarrow> (Exited 1, tr @ [c]))"

definition must :: "Env \<Rightarrow> Call \<Rightarrow> Call list \<Rightarrow> (Call list \<Rightarrow> Outcome \<times> Call list) \<Rightarrow>
    Outcome \<times> Call list" where
  "must env c tr k = (case env tr c of None \<Rightarrow> k (tr @ [c]) | Some err \<Rightarrow> (Panicked, tr @ [c]))"

text \<open>The package's \<open>init\<close>.\<close>

definition initScheme :: "Env \<Rightarrow> Call list \<Rightarrow> (Call list \<Rightarrow> Outcome \<times> Call list) \<Rightarrow>
    Outcome \<times> Call list" where
  "initScheme env tr k = must env AddClientGoToScheme tr (\<lambda>tr. must env (AddKnownTypes GroupVersion registeredTypes) tr k)"

text \<open>A certificate watcher is created only if a path is given; the result is its file names.\<close>

definition watchCertificate :: "Env \<Rightarrow> string \<Rightarrow> string \<Rightarrow> string \<Rightarrow> Call list \<Rightarrow>
    ((string \<times> string) option \<Rightarrow> Call list \<Rightarrow> Outcome \<times> Call list) \<Rightarrow> Outcome \<times> Call list" where
  "watchCertificate env path name key tr k =
     (if length path > 0
      then (let cert = filepath_Join path name; keyFile = filepath_Join path key
        in attempt env (NewCertWatcher cert keyFile) tr (k (Some (cert, keyFile))))
      else k None tr)"

definition addWatcher :: "Env \<Rightarrow> (string \<times> string) option \<Rightarrow> Call list \<Rightarrow>
    (Call list \<Rightarrow> Outcome \<times> Call list) \<Rightarrow> Outcome \<times> Call list" where
  "addWatcher env watcher tr k = (case watcher of
       None \<Rightarrow> k tr
     | Some (cert, keyFile) \<Rightarrow> attempt env (AddRunnable (CertWatcher cert keyFile)) tr k)"

text \<open>
  The TLS options: both slices start as the common one; each server's certificate is appended to
  its own copy of the slice header.
\<close>

definition baseOptions :: "(nat \<Rightarrow> nat) \<Rightarrow> bool \<Rightarrow> slice \<times> tlsHeap" where
  "baseOptions grow enableHTTP2 =
     (if \<not> enableHTTP2 then appendOption grow NilSlice DisableHTTP2 [] else (NilSlice, []))"

definition withWatcher :: "(nat \<Rightarrow> nat) \<Rightarrow> slice \<Rightarrow> (string \<times> string) option \<Rightarrow> tlsHeap \<Rightarrow> slice \<times> tlsHeap"
  where
  "withWatcher grow s watcher h = (case watcher of
       None \<Rightarrow> (s, h)
     | Some w \<Rightarrow> appendOption grow s (UseCertificate w) h)"

definition startManager :: "Env \<Rightarrow> (string \<times> string) option \<Rightarrow> (string \<times> string) option \<Rightarrow>
    ManagerOptions \<Rightarrow> tlsHeap \<Rightarrow> Call list \<Rightarrow> Outcome \<times> Call list" where
  "startManager env metricsCertWatcher webhookCertWatcher opts h tr =
     attempt env GetConfig tr (\<lambda>tr.
     attempt env (NewManager opts) tr (\<lambda>tr.
     attempt env (CompleteController SetupWithManager) tr (\<lambda>tr.
     addWatcher env metricsCertWatcher tr (\<lambda>tr.
     addWatcher env webhookCertWatcher tr (\<lambda>tr.
     attempt env (AddHealthzCheck ''healthz'') tr (\<lambda>tr.
     attempt env (AddReadyzCheck ''readyz'') tr (\<lambda>tr.
     attempt env (StartManager h) tr (\<lambda>tr. (Returned, tr)))))))))"

definition managerOptions :: "Options \<Rightarrow> slice \<Rightarrow> slice \<Rightarrow> ManagerOptions" where
  "managerOptions o' metricsTLSOpts webhookTLSOpts =
     \<lparr>mo_MetricsBindAddress = o_metricsAddr o', mo_MetricsSecureServing = o_secureMetrics o',
      mo_MetricsFilterProvider = o_secureMetrics o', mo_MetricsTLSOpts = metricsTLSOpts,
      mo_WebhookTLSOpts = webhookTLSOpts, mo_HealthProbeBindAddress = o_probeAddr o',
      mo_LeaderElection = o_enableLeaderElection o',
      mo_LeaderElectionID = ''e8987b99.csi.alibabacloud.com''\<rparr>"

text \<open>What \<open>main\<close> does once the command line is parsed.\<close>

definition serve :: "(nat \<Rightarrow> nat) \<Rightarrow> Env \<Rightarrow> Options \<Rightarrow> Call list \<Rightarrow> Outcome \<times> Call list" where
  "serve grow env o' tr =
     (let (tlsOpts, h) = baseOptions grow (o_enableHTTP2 o') in
      watchCertificate env (o_webhookCertPath o') (o_webhookCertName o') (o_webhookCertKey o') tr
        (\<lambda>webhookCertWatcher tr.
      let (webhookTLSOpts, h) = withWatcher grow tlsOpts webhookCertWatcher h in
      watchCertificate env (o_metricsCertPath o') (o_metricsCertName o') (o_metricsCertKey o') tr
        (\<lambda>metricsCertWatcher tr.
      let (metricsTLSOpts, h) = withWatcher grow tlsOpts metricsCertWatcher h in
      startManager env metricsCertWatcher webhookCertWatcher
        (managerOptions o' metricsTLSOpts webhookTLSOpts) h tr)))"

definition main :: "(nat \<Rightarrow> nat) \<Rightarrow> Env \<Rightarrow> (string \<Rightarrow> flag option) \<Rightarrow> string list \<Rightarrow> Outcome \<times> Call list" where
  "main grow env libFlags args = initScheme env [] (\<lambda>tr.
     case parseFlags libFlags args defaultOptions of
       HelpRequested \<Rightarrow> (Exited 0, tr)
     | FlagError \<Rightarrow> (Exited 2, tr)
     | Parsed o' \<Rightarrow> serve grow env o' tr)"

section \<open>The command line\<close>

text \<open>Every option as an argument of the form \<open>--name=value\<close>.\<close>

definition flagArg :: "string \<Rightarrow> string \<Rightarrow> string" where
  "flagArg name v = ''--'' @ name @ ''='' @ v"

definition renderBool :: "bool \<Rightarrow> string" where
  "renderBool b = (if b then ''true'' else ''false'')"

definition renderFlags :: "Options \<Rightarrow> string list" where
  "renderFlags o' =
    [ flagArg ''metrics-bind-address'' (o_metricsAddr o'),
      flagArg ''health-probe-bind-address'' (o_probeAddr o'),
      flagArg ''leader-elect'' (renderBool (o_enableLeaderElection o')),
      flagArg ''metrics-secure'' (renderBool (o_secureMetrics o')),
      flagArg ''webhook-cert-path'' (o_webhookCertPath o'),
      flagArg ''webhook-cert-name'' (o_webhookCertName o'),
      flagArg ''webhook-cert-key'' (o_webhookCertKey o'),
      flagArg ''metrics-cert-path'' (o_metricsCertPath o'),
      flagArg ''metrics-cert-name'' (o_metricsCertName o'),
      flagArg ''metrics-cert-key'' (o_metricsCertKey o'),
      flagArg ''enable-http2'' (renderBool (o_enableHTTP2 o')) ]"

lemma cutValue_eq: "CHR ''='' \<notin> set name \<Longrightarrow> cutValue (name @ ''='' @ v) = (name, Some v)"
  by (induction name) auto

lemma parse_flagArg:
  assumes "name \<noteq> []" and "CHR ''='' \<notin> set name" and "hd name \<noteq> CHR ''-''"
    and "lookupFlag libFlags name = Some f"
  shows "parseFlags libFlags (flagArg name v # args) o' =
    (case setFlag name f v o' of None \<Rightarrow> FlagError | Some o'' \<Rightarrow> parseFlags libFlags args o'')"
  using assms cutValue_eq [OF assms(2), of v]
  by (cases name) (auto simp: flagArg_def split: option.splits)

lemma parseBool_render [simp]: "parseBool (renderBool b) = Some b"
  by (simp add: parseBool_def renderBool_def)

text \<open>
  C40: printing options and parsing them gives the options back, whatever the values: an \<open>=\<close> or a
  dash in a value is harmless, and no default survives where a value was given.
\<close>

theorem flags_roundtrip:
  assumes "o_libraryFlags o' = []"
  shows "parseFlags libFlags (renderFlags o' @ ''--'' # rest) defaultOptions = Parsed o'"
proof -
  have "parseFlags libFlags (renderFlags o' @ ''--'' # rest) defaultOptions =
      Parsed (o'\<lparr>o_libraryFlags := []\<rparr>)"
    unfolding renderFlags_def append_Cons append_Nil
    by (subst parse_flagArg, simp, simp, simp, simp add: lookupFlag_def formalFlags_def,
        simp only: setFlag_def flag.case option.case parseBool_render option.map)+
      (simp add: defaultOptions_def)
  with assms show ?thesis by simp
qed

theorem flags_roundtrip_witness:
  "parseFlags (\<lambda>_. None) (renderFlags (defaultOptions\<lparr>o_metricsAddr := '':8443'', o_secureMetrics := False\<rparr>) @
     [''--'', ''--metrics-secure'']) defaultOptions =
   Parsed (defaultOptions\<lparr>o_metricsAddr := '':8443'', o_secureMetrics := False\<rparr>)"
  by (rule flags_roundtrip) (simp add: defaultOptions_def)

section \<open>Start-up\<close>

text \<open>All calls of a trace were answered without error.\<close>

definition succeeded :: "Env \<Rightarrow> Call list \<Rightarrow> bool" where
  "succeeded env tr \<longleftrightarrow> (\<forall>i < length tr. env (take i tr) (tr ! i) = None)"

text \<open>
  How a process may end, by the result \<open>cmd\<close> of parsing its command line: it returns after a trace
  without errors that ends with the start of the manager; it exits before any server is set up, with
  status 0 if help was requested and 2 if the command line is bad; or it ends at the first call that
  fails, with a panic for the registration of types, which comes before the command line is looked
  at, and with status 1 for every other call, which needs a command line that parses.
\<close>

definition orderly :: "Env \<Rightarrow> parsed \<Rightarrow> Outcome \<times> Call list \<Rightarrow> bool" where
  "orderly env cmd res = (case res of (out, tr) \<Rightarrow>
     (succeeded env tr \<and> (case cmd of
          HelpRequested \<Rightarrow> out = Exited 0 \<and> length tr = 2
        | FlagError \<Rightarrow> out = Exited 2 \<and> length tr = 2
        | Parsed _ \<Rightarrow> out = Returned \<and> tr \<noteq> [] \<and> (\<exists>h. last tr = StartManager h))) \<or>
     (tr \<noteq> [] \<and> succeeded env (butlast tr) \<and> env (butlast tr) (last tr) \<noteq> None \<and>
      (if length tr \<le> 2 then out = Panicked else out = Exited 1 \<and> (\<exists>o'. cmd = Parsed o'))))"

lemma succeeded_Nil [simp]: "succeeded env []"
  by (simp add: succeeded_def)

lemma succeeded_snoc: "succeeded env (tr @ [c]) \<longleftrightarrow> succeeded env tr \<and> env tr c = None"
  by (auto simp: succeeded_def nth_append less_Suc_eq)

lemma orderly_attempt:
  assumes "succeeded env tr" and "2 \<le> length tr"
    and "succeeded env (tr @ [c]) \<Longrightarrow> orderly env (Parsed o') (k (tr @ [c]))"
  shows "orderly env (Parsed o') (attempt env c tr k)"
  using assms by (cases "env tr c") (simp_all add: attempt_def orderly_def succeeded_snoc)

lemma orderly_must:
  assumes "succeeded env tr" and "length tr < 2"
    and "succeeded env (tr @ [c]) \<Longrightarrow> orderly env cmd (k (tr @ [c]))"
  shows "orderly env cmd (must env c tr k)"
  using assms by (cases "env tr c") (simp_all add: must_def orderly_def succeeded_snoc)

lemma orderly_watch:
  assumes "succeeded env tr" and "2 \<le> length tr"
    and "\<And>w tr'. succeeded env tr' \<Longrightarrow> 2 \<le> length tr' \<Longrightarrow> orderly env (Parsed o') (k w tr')"
  shows "orderly env (Parsed o') (watchCertificate env path name key tr k)"
  unfolding watchCertificate_def Let_def
  using assms by (auto intro!: orderly_attempt)

lemma orderly_add:
  assumes "succeeded env tr" and "2 \<le> length tr"
    and "\<And>tr'. succeeded env tr' \<Longrightarrow> 2 \<le> length tr' \<Longrightarrow> orderly env (Parsed o') (k tr')"
  shows "orderly env (Parsed o') (addWatcher env w tr k)"
  unfolding addWatcher_def using assms by (auto intro!: orderly_attempt split: option.split)

lemma orderly_start:
  assumes "succeeded env tr" and "2 \<le> length tr"
  shows "orderly env (Parsed o') (startManager env mw ww opts h tr)"
  unfolding startManager_def using assms
  by (intro orderly_attempt orderly_add) (auto simp: orderly_def)

lemma orderly_exit:
  "succeeded env tr \<Longrightarrow> length tr = 2 \<Longrightarrow> orderly env HelpRequested (Exited 0, tr)"
  "succeeded env tr \<Longrightarrow> length tr = 2 \<Longrightarrow> orderly env FlagError (Exited 2, tr)"
  by (simp_all add: orderly_def)

lemma orderly_serve:
  "succeeded env tr \<Longrightarrow> 2 \<le> length tr \<Longrightarrow> orderly env (Parsed o') (serve grow env o' tr)"
  unfolding serve_def by (auto simp: split_beta Let_def intro!: orderly_watch orderly_start)

text \<open>
  C36: start-up.  On every command line and whatever the calls answer, the process stops at the first
  call that fails, with status 1 (a panic while the types are registered), and makes no later call.
  Otherwise the command line decides: on a request for help it exits with status 0 and on a bad
  command line with status 2, both after the registration of types and before any other call; with
  a command line that parses it returns, after the manager was started and stopped without an error.
\<close>

theorem main_stops_at_first_failure:
  "orderly env (parseFlags libFlags args defaultOptions) (main grow env libFlags args)"
  unfolding main_def initScheme_def
  by (intro orderly_must) (auto intro!: orderly_serve orderly_exit split: parsed.split)

section \<open>The two servers\<close>

text \<open>The file names of a certificate, if a path is given.\<close>

definition certificateOf :: "string \<Rightarrow> string \<Rightarrow> string \<Rightarrow> (string \<times> string) option" where
  "certificateOf path name key = (if length path > 0
     then Some (filepath_Join path name, filepath_Join path key) else None)"

text \<open>What a server is configured with: HTTP/2 off unless enabled, and its own certificate.\<close>

definition intendedConfig :: "bool \<Rightarrow> (string \<times> string) option \<Rightarrow> TLSConfig \<Rightarrow> TLSConfig" where
  "intendedConfig enableHTTP2 certificate c =
     \<lparr>tls_NextProtos = (if enableHTTP2 then tls_NextProtos c else [''http/1.1'']),
      tls_GetCertificate = (case certificate of None \<Rightarrow> tls_GetCertificate c | Some w \<Rightarrow> Some w)\<rparr>"

text \<open>The slices of both servers and the heap after the last append.\<close>

definition tlsSetup :: "(nat \<Rightarrow> nat) \<Rightarrow> bool \<Rightarrow> (string \<times> string) option \<Rightarrow> (string \<times> string) option \<Rightarrow>
    slice \<times> slice \<times> tlsHeap" where
  "tlsSetup grow enableHTTP2 webhookCert metricsCert =
     (let (tlsOpts, h) = baseOptions grow enableHTTP2;
          (webhookTLSOpts, h) = withWatcher grow tlsOpts webhookCert h;
          (metricsTLSOpts, h) = withWatcher grow tlsOpts metricsCert h
      in (webhookTLSOpts, metricsTLSOpts, h))"

lemma calls_attempt:
  assumes "list_all P tr" and "P c" and "list_all P (tr @ [c]) \<Longrightarrow> list_all P (snd (k (tr @ [c])))"
  shows "list_all P (snd (attempt env c tr k))"
  using assms by (cases "env tr c") (simp_all add: attempt_def)

lemma calls_watch:
  assumes "list_all P tr" and "\<And>c key. P (NewCertWatcher c key)"
    and "\<And>tr'. list_all P tr' \<Longrightarrow> list_all P (snd (k (certificateOf path name key) tr'))"
  shows "list_all P (snd (watchCertificate env path name key tr k))"
  unfolding watchCertificate_def certificateOf_def Let_def
  using assms by (auto simp: certificateOf_def intro!: calls_attempt)

lemma calls_add:
  assumes "list_all P tr" and "\<And>r. P (AddRunnable r)"
    and "\<And>tr'. list_all P tr' \<Longrightarrow> list_all P (snd (k tr'))"
  shows "list_all P (snd (addWatcher env w tr k))"
  unfolding addWatcher_def using assms by (auto intro!: calls_attempt split: option.split)

text \<open>Every manager that is created and started has these options.\<close>

fun configuredBy :: "(nat \<Rightarrow> nat) \<Rightarrow> Options \<Rightarrow> Call \<Rightarrow> bool" where
  "configuredBy grow o' c =
     (let (w, m, h) = tlsSetup grow (o_enableHTTP2 o')
          (certificateOf (o_webhookCertPath o') (o_webhookCertName o') (o_webhookCertKey o'))
          (certificateOf (o_metricsCertPath o') (o_metricsCertName o') (o_metricsCertKey o'))
      in case c of NewManager opts \<Rightarrow> opts = managerOptions o' m w | StartManager h' \<Rightarrow> h' = h | _ \<Rightarrow> True)"

lemma calls_serve:
  "list_all (configuredBy grow o') tr \<Longrightarrow> list_all (configuredBy grow o') (snd (serve grow env o' tr))"
  unfolding serve_def startManager_def
  by (auto simp: tlsSetup_def split_beta Let_def intro!: calls_attempt calls_watch calls_add)

lemma calls_main:
  assumes "parseFlags libFlags args defaultOptions = Parsed o'"
  shows "list_all (configuredBy grow o') (snd (main grow env libFlags args))"
  unfolding main_def initScheme_def must_def using assms
  by (auto simp: split_beta Let_def intro!: calls_serve split: option.split)

text \<open>The steps of the set-up, by the room \<open>grow 1 - 1\<close> behind the common option.\<close>

lemmas tls_step = withWatcher_def appendOption_def goAppend_def alloc_def deref_def

lemma base_http2 [simp]: "baseOptions grow True = (NilSlice, [])"
  by (simp add: baseOptions_def)

lemma base_no_http2 [simp]:
  "baseOptions grow False = (Slice 0 0 (Suc 0), [Some DisableHTTP2 # replicate (grow (Suc 0) - Suc 0) None])"
  by (simp add: baseOptions_def appendOption_def goAppend_def alloc_def)

lemma with_nil [simp]:
  "withWatcher grow NilSlice (Some w) h =
     (Slice (length h) 0 (Suc 0), h @ [Some (UseCertificate w) # replicate (grow (Suc 0) - Suc 0) None])"
  by (simp add: tls_step)

lemma with_none [simp]: "withWatcher grow s None h = (s, h)"
  by (simp add: withWatcher_def)

lemma with_exact [simp]:
  "withWatcher grow (Slice 0 0 (Suc 0)) (Some w) ([opt] # h) =
     (Slice (Suc (length h)) 0 2, ([opt] # h) @ [[opt, Some (UseCertificate w)] @ replicate (grow 2 - 2) None])"
  by (simp add: tls_step numeral_2_eq_2)

lemma with_room [simp]:
  "withWatcher grow (Slice 0 0 (Suc 0)) (Some w) ((opt # x # xs) # h) =
     (Slice 0 0 2, (opt # Some (UseCertificate w) # xs) # h)"
  by (simp add: tls_step numeral_2_eq_2)

lemma config_simps [simp]:
  "serverConfig h NilSlice c = c"
  "a < length h \<Longrightarrow> h ! a = x # xs \<Longrightarrow> serverConfig h (Slice a 0 (Suc 0)) c = applyOption (the x) c"
  "a < length h \<Longrightarrow> h ! a = x # y # ys \<Longrightarrow>
     serverConfig h (Slice a 0 2) c = applyOption (the y) (applyOption (the x) c)"
  by (simp_all add: serverConfig_def deref_def numeral_2_eq_2)

text \<open>What the servers get.\<close>

lemma tlsSetup_exact:
  assumes "tlsSetup grow http2 wc mc = (w, m, h)" and "grow 1 \<le> 1"
  shows "serverConfig h w c = intendedConfig http2 wc c \<and> serverConfig h m c = intendedConfig http2 mc c"
  using assms
  by (cases http2; cases wc; cases mc)
    (auto simp: tlsSetup_def intendedConfig_def nth_append)

lemma tlsSetup_protos:
  assumes "tlsSetup grow http2 wc mc = (w, m, h)"
  shows "tls_NextProtos (serverConfig h w c) = tls_NextProtos (intendedConfig http2 wc c) \<and>
    tls_NextProtos (serverConfig h m c) = tls_NextProtos (intendedConfig http2 mc c)"
proof (cases "grow 1 - 1")
  case (Suc n)
  with assms show ?thesis
    by (cases http2; cases wc; cases mc) (auto simp: tlsSetup_def intendedConfig_def nth_append)
qed (use tlsSetup_exact [OF assms] in simp)

lemma tlsSetup_shared:
  assumes "tlsSetup grow False (Some wc) (Some mc) = (w, m, h)" and "2 \<le> grow 1"
  shows "tls_GetCertificate (serverConfig h w c) = Some mc"
proof -
  from assms(2) obtain n where "grow 1 - 1 = Suc n" by (cases "grow 1 - 1") auto
  with assms(1) show ?thesis by (auto simp: tlsSetup_def)
qed

lemma calls_of_main:
  assumes "parseFlags libFlags args defaultOptions = Parsed o'"
    and "main grow env libFlags args = (out, tr)" and "c \<in> set tr"
  shows "configuredBy grow o' c"
  using calls_main [OF assms(1), of grow env] assms(2,3) by (simp add: list_all_iff del: configuredBy.simps)

text \<open>
  C38: the TLS configuration.  Whenever the manager is created and started, HTTP/2 is off on the
  webhook and on the metrics server unless \<open>--enable-http2\<close> was given, however arrays grow; with an
  implementation in which an append to a nil slice leaves no spare room (\<open>grow 1 \<le> 1\<close>, as Go's does
  for one function; C39 shows what happens otherwise), each server also has its own certificate and
  nothing else changed; the metrics endpoint authenticates exactly
  when it is served over HTTPS.
\<close>

theorem servers_tls:
  assumes "parseFlags libFlags args defaultOptions = Parsed o'"
    and "main grow env libFlags args = (out, tr)"
    and "NewManager opts \<in> set tr" and "StartManager h \<in> set tr"
  shows "let webhook = serverConfig h (mo_WebhookTLSOpts opts) c;
      metrics = serverConfig h (mo_MetricsTLSOpts opts) c;
      webhookCert = certificateOf (o_webhookCertPath o') (o_webhookCertName o') (o_webhookCertKey o');
      metricsCert = certificateOf (o_metricsCertPath o') (o_metricsCertName o') (o_metricsCertKey o')
    in (\<not> o_enableHTTP2 o' \<longrightarrow> tls_NextProtos webhook = [''http/1.1''] \<and> tls_NextProtos metrics = [''http/1.1'']) \<and>
      (grow 1 \<le> 1 \<longrightarrow> webhook = intendedConfig (o_enableHTTP2 o') webhookCert c \<and>
         metrics = intendedConfig (o_enableHTTP2 o') metricsCert c) \<and>
      mo_MetricsSecureServing opts = o_secureMetrics o' \<and> mo_MetricsFilterProvider opts = o_secureMetrics o'"
proof -
  let ?wc = "certificateOf (o_webhookCertPath o') (o_webhookCertName o') (o_webhookCertKey o')"
  let ?mc = "certificateOf (o_metricsCertPath o') (o_metricsCertName o') (o_metricsCertKey o')"
  obtain w m h' where tls: "tlsSetup grow (o_enableHTTP2 o') ?wc ?mc = (w, m, h')"
    by (cases "tlsSetup grow (o_enableHTTP2 o') ?wc ?mc")
  have "opts = managerOptions o' m w" "h = h'"
    using calls_of_main [OF assms(1,2) assms(3)] calls_of_main [OF assms(1,2) assms(4)] tls by simp_all
  then show ?thesis
    using tlsSetup_exact [OF tls, of c] tlsSetup_protos [OF tls, of c]
    by (simp add: Let_def managerOptions_def intendedConfig_def)
qed

text \<open>A command line with both certificates.\<close>

definition sampleArgs :: "string list" where
  "sampleArgs = [''--webhook-cert-path=/webhook/'', ''-metrics-cert-path'', ''/metrics'', ''--leader-elect'']"

definition sampleOptions :: Options where
  "sampleOptions = defaultOptions\<lparr>o_webhookCertPath := ''/webhook/'', o_metricsCertPath := ''/metrics'',
     o_enableLeaderElection := True\<rparr>"

lemma sampleArgs_parsed: "parseFlags (\<lambda>_. None) sampleArgs defaultOptions = Parsed sampleOptions"
  by (simp add: sampleArgs_def sampleOptions_def defaultOptions_def lookupFlag_def formalFlags_def
      isBoolFlag_def setFlag_def parseBool_def)

lemma sample_certificates:
  "certificateOf ''/webhook/'' ''tls.crt'' ''tls.key'' = Some (''/webhook/tls.crt'', ''/webhook/tls.key'')"
  "certificateOf ''/metrics'' ''tls.crt'' ''tls.key'' = Some (''/metrics/tls.crt'', ''/metrics/tls.key'')"
  by code_simp+

text \<open>
  C37: when every call succeeds, the calls are exactly these, in this order: types, certificate
  watchers of the paths that are given, the manager with the options of the command line, the
  controller, the watchers, the two checks, and the start.
\<close>

theorem main_starts_in_order:
  assumes "parseFlags libFlags args defaultOptions = Parsed o'"
  shows "main grow (\<lambda>_ _. None) libFlags args =
    (let wc = certificateOf (o_webhookCertPath o') (o_webhookCertName o') (o_webhookCertKey o');
         mc = certificateOf (o_metricsCertPath o') (o_metricsCertName o') (o_metricsCertKey o');
         (w, m, h) = tlsSetup grow (o_enableHTTP2 o') wc mc;
         new = (\<lambda>cert. case cert of None \<Rightarrow> [] | Some (c, k) \<Rightarrow> [NewCertWatcher c k]);
         add = (\<lambda>cert. case cert of None \<Rightarrow> [] | Some (c, k) \<Rightarrow> [AddRunnable (CertWatcher c k)])
     in (Returned, [AddClientGoToScheme, AddKnownTypes GroupVersion registeredTypes] @ new wc @ new mc @
          [GetConfig, NewManager (managerOptions o' m w), CompleteController SetupWithManager] @
          add mc @ add wc @ [AddHealthzCheck ''healthz'', AddReadyzCheck ''readyz'', StartManager h]))"
  using assms
  by (simp add: main_def initScheme_def must_def serve_def startManager_def attempt_def addWatcher_def
      watchCertificate_def certificateOf_def tlsSetup_def Let_def split_beta)

theorem main_starts_in_order_witness:
  "\<exists>opts h. main (\<lambda>n. n) (\<lambda>_ _. None) (\<lambda>_. None) sampleArgs =
     (Returned, [AddClientGoToScheme, AddKnownTypes GroupVersion registeredTypes,
       NewCertWatcher ''/webhook/tls.crt'' ''/webhook/tls.key'',
       NewCertWatcher ''/metrics/tls.crt'' ''/metrics/tls.key'', GetConfig, NewManager opts,
       CompleteController SetupWithManager,
       AddRunnable (CertWatcher ''/metrics/tls.crt'' ''/metrics/tls.key''),
       AddRunnable (CertWatcher ''/webhook/tls.crt'' ''/webhook/tls.key''),
       AddHealthzCheck ''healthz'', AddReadyzCheck ''readyz'', StartManager h])"
  using main_starts_in_order [OF sampleArgs_parsed, of "\<lambda>n. n"]
  by (simp add: sampleOptions_def defaultOptions_def sample_certificates split_beta Let_def)

lemma sample_main:
  "\<exists>tr opts h. main grow (\<lambda>_ _. None) (\<lambda>_. None) sampleArgs = (Returned, tr) \<and>
     NewManager opts \<in> set tr \<and> StartManager h \<in> set tr"
  by (simp add: main_def initScheme_def must_def serve_def startManager_def attempt_def addWatcher_def
      watchCertificate_def sampleArgs_parsed Let_def split_beta split: option.split)

theorem servers_tls_witness:
  "\<exists>(opts :: ManagerOptions) h tr. main (\<lambda>n. n) (\<lambda>_ _. None) (\<lambda>_. None) sampleArgs = (Returned, tr) \<and>
     serverConfig h (mo_WebhookTLSOpts opts) \<lparr>tls_NextProtos = [''h2''], tls_GetCertificate = None\<rparr> =
       \<lparr>tls_NextProtos = [''http/1.1''],
        tls_GetCertificate = Some (''/webhook/tls.crt'', ''/webhook/tls.key'')\<rparr>"
proof -
  obtain tr opts h where run: "main (\<lambda>n. n) (\<lambda>_ _. None) (\<lambda>_. None) sampleArgs = (Returned, tr)"
    "NewManager opts \<in> set tr" "StartManager h \<in> set tr"
    using sample_main [of "\<lambda>n. n"] by blast
  from servers_tls [OF sampleArgs_parsed this, of "\<lparr>tls_NextProtos = [''h2''], tls_GetCertificate = None\<rparr>"]
  have "serverConfig h (mo_WebhookTLSOpts opts) \<lparr>tls_NextProtos = [''h2''], tls_GetCertificate = None\<rparr> =
      \<lparr>tls_NextProtos = [''http/1.1''],
       tls_GetCertificate = Some (''/webhook/tls.crt'', ''/webhook/tls.key'')\<rparr>"
    by (simp add: Let_def sampleOptions_def defaultOptions_def intendedConfig_def sample_certificates)
  with run(1) show ?thesis by blast
qed

text \<open>
  C39: the separation rests on how arrays grow.  Both slices start as the same slice header, so with an
  implementation that leaves room behind the common option, both certificates are appended to the
  same array cell and the webhook server serves the certificate of the metrics server.
\<close>

theorem spare_capacity_mixes_certificates:
  assumes "parseFlags libFlags args defaultOptions = Parsed o'"
    and "main grow env libFlags args = (out, tr)"
    and "NewManager opts \<in> set tr" and "StartManager h \<in> set tr"
    and "\<not> o_enableHTTP2 o'" and "o_webhookCertPath o' \<noteq> []" and "o_metricsCertPath o' \<noteq> []"
    and "2 \<le> grow 1"
  shows "tls_GetCertificate (serverConfig h (mo_WebhookTLSOpts opts) c) =
    certificateOf (o_metricsCertPath o') (o_metricsCertName o') (o_metricsCertKey o')"
proof -
  let ?wc = "certificateOf (o_webhookCertPath o') (o_webhookCertName o') (o_webhookCertKey o')"
  let ?mc = "certificateOf (o_metricsCertPath o') (o_metricsCertName o') (o_metricsCertKey o')"
  obtain w m h' where tls: "tlsSetup grow False ?wc ?mc = (w, m, h')"
    by (cases "tlsSetup grow False ?wc ?mc")
  obtain wc mc where certs: "?wc = Some wc" "?mc = Some mc"
    using assms(6,7) by (simp add: certificateOf_def)
  have "opts = managerOptions o' m w" "h = h'"
    using calls_of_main [OF assms(1,2) assms(3)] calls_of_main [OF assms(1,2) assms(4)] tls assms(5)
    by simp_all
  with tlsSetup_shared [OF tls [unfolded certs] assms(8), of c] certs show ?thesis
    by (simp add: managerOptions_def)
qed

theorem spare_capacity_mixes_certificates_witness:
  "\<exists>(opts :: ManagerOptions) h tr. main (\<lambda>n. 2 * n) (\<lambda>_ _. None) (\<lambda>_. None) sampleArgs = (Returned, tr) \<and>
     tls_GetCertificate (serverConfig h (mo_WebhookTLSOpts opts)
       \<lparr>tls_NextProtos = [''h2''], tls_GetCertificate = None\<rparr>) = Some (''/metrics/tls.crt'', ''/metrics/tls.key'')"
proof -
  obtain tr opts h where run: "main (\<lambda>n. 2 * n) (\<lambda>_ _. None) (\<lambda>_. None) sampleArgs = (Returned, tr)"
    "NewManager opts \<in> set tr" "StartManager h \<in> set tr"
    using sample_main [of "\<lambda>n. 2 * n"] by blast
  have "tls_GetCertificate (serverConfig h (mo_WebhookTLSOpts opts)
      \<lparr>tls_NextProtos = [''h2''], tls_GetCertificate = None\<rparr>) = Some (''/metrics/tls.crt'', ''/metrics/tls.key'')"
    by (subst spare_capacity_mixes_certificates [OF sampleArgs_parsed run])
      (simp_all add: sampleOptions_def defaultOptions_def sample_certificates)
  with run(1) show ?thesis by blast
qed

end
