(* ===== verification/Spec2Isabelle.thy ===== *)
theory Spec2Isabelle
  imports RefCluster Stable Links Bounds CopyLaws Manager
begin

text \<open>
  A verification development for the Alibaba Cloud CSI operator, a Kubernetes operator in Go that
  installs the disk and NAS storage drivers from one cluster-scoped custom resource.

  \<^bold>\<open>The program.\<close>  \<open>internal/controller/alibabacloudcsidriver_controller.go\<close> holds the reconciler.
  \<open>Reconcile\<close> reads the custom resource, calls \<open>ensureRBAC\<close>, \<open>ensureDiskDriver\<close> and \<open>ensureNASDriver\<close>
  in order, stopping at the first error, and patches the status.  Every object goes through one
  of two helpers: \<open>createOrAdopt\<close> (create, or stamp the owner on what exists) and \<open>createOrUpdate\<close>
  (create, or replace).  \<open>api/v1alpha1/alibabacloudcsidriver_types.go\<close> declares the resource and
  \<open>zz_generated.deepcopy.go\<close> copies it; \<open>cmd/main.go\<close> parses the command line, sets up the
  servers and the manager, registers the reconciler (\<open>SetupWithManager\<close>, for the types of
  \<open>groupversion_info.go\<close>) and starts it.

  \<^bold>\<open>How the code is modelled.\<close>  The calls of the API client, of discovery and of the clock are the
  constructors of the type \<open>prog\<close>: an operation is a program that issues requests and continues
  with the answers.  Such a program is read in two ways.  \<open>exec p tr a\<close> relates it to every trace
  of requests and answers, so a theorem over \<open>exec\<close> holds whatever the server answers and
  whatever other writers do in between.  \<open>run A p w\<close> executes it against a server \<open>A\<close> on a state
  \<open>w\<close>, and \<open>requests A p w\<close> are the requests and answers of that run; what is relied on of a server
  is the locale \<open>kube_api\<close> (an answer may always be an error; a write without error stores what was
  sent) and \<open>reliable_api\<close> (the requests that ought to succeed do).  These two are an idealisation of
  \<open>mgr.GetClient()\<close>: its reads come from a cache that may lag behind, and a write that returns an
  error may have taken effect, while \<open>kube_api\<close> takes reads as current and failed writes as without
  effect.  Only the theorems over \<open>run\<close> rest on it.  Third-party functions are fields of the record \<open>Reconciler\<close>: \<open>SetControllerReference\<close>,
  \<open>IsControlledBy\<close> (laws: \<open>owner_lib\<close>), \<open>RetryOnConflict\<close> (\<open>retry_lib\<close>) and the process
  environment.  Go errors are values of \<open>goerror\<close>, with the wrapping of \<open>fmt.Errorf\<close>.
  Where sharing matters (the copy functions, the TLS options of \<open>main\<close>) slices, maps and pointers
  are references into a heap, a list of cells that grows by allocation; the room that \<open>append\<close>
  leaves is a parameter \<open>grow\<close>, since Go does not promise it.  \<open>main\<close> is a function of an
  environment that answers each library call, given the calls before it, with an error or none.

  \<^bold>\<open>The theories.\<close>
  \<^item> \<open>Prelude\<close>: Go maps and strings, named collections of rewrite rules, shared lemmas.
  \<^item> \<open>ApiTypes\<close>: the structs of \<open>alibabacloudcsidriver_types.go\<close> and their validation markers.
  \<^item> \<open>KubeObjects\<close>: the Kubernetes objects that the operator builds, with the fields it sets.
  \<^item> \<open>Client\<close>: errors, requests, programs, traces (\<open>exec\<close>), execution (\<open>run\<close>) and the predicate
    \<open>confined\<close> on every request of a program.
  \<^item> \<open>Apply\<close>: \<open>createOrAdopt\<close> and \<open>createOrUpdate\<close>, the library locales, and what the helpers do on
    every trace.
  \<^item> \<open>Server\<close>, \<open>Converge\<close>: the server locales, and the two helpers as refinements of the abstract
    steps \<open>adoptStep\<close> and \<open>updateStep\<close>.
  \<^item> \<open>Rbac\<close>: \<open>ensureRBAC\<close>, platform detection (\<open>sccDetected\<close>: what the requests of a run found), Pod
    Security labels (\<open>namespaceAdmits\<close>), the RBAC markers and the permissions each request needs,
    with the checks against escalation and for blocking owner references (\<open>needs\<close>, \<open>boundRoles\<close>).
  \<^item> \<open>Workload\<close>, \<open>Profiles\<close>, \<open>Disk\<close>, \<open>Nas\<close>: the pure helpers, snapshot classes and CDI profiles, and the
    two drivers with their pod templates and storage classes.
  \<^item> \<open>Reconcile\<close>: the reconciler and its status, the locale \<open>csi_driver\<close> of what it expects of a
    driver, which both drivers satisfy, and \<open>inPlace\<close>, what a reconciliation without error leaves:
    the owned objects, the workloads, the admission of privileged pods, the snapshot class and the
    StorageProfiles, the last two as far as their APIs are installed.
  \<^item> \<open>Samples\<close>, \<open>RefCluster\<close>: a sample resource, and instances of every locale: an owner library, a retry
    loop and an API server over a finite store, on which the theorems are applied.
  \<^item> \<open>Stable\<close>: which programs keep an object (\<open>keeps\<close>), and that a second reconciliation keeps what
    the first one left; \<open>status_blind\<close> is the law that owner references do not depend on the status.
  \<^item> \<open>Links\<close>: the snapshot class and the StorageProfiles that name it.
  \<^item> \<open>Bounds\<close>: the number of requests of each operation (\<open>atMost\<close>) and of a reconciliation.
  \<^item> \<open>GoHeap\<close>, \<open>DeepCopy\<close>, \<open>CopyLaws\<close>: memory and the locale \<open>deep_copy\<close>; the structs in memory
    (\<open>T_mem\<close>) and every generated \<open>T_DeepCopyInto\<close>, \<open>T_DeepCopy\<close>, \<open>T_DeepCopyObject\<close>; their
    proofs, through one rule for each way of building a struct, and the patch base of the status.
  \<^item> \<open>Manager\<close>: \<open>main\<close>, with the flag parser and the path functions it uses, and registration.
  \<^item> This theory: the properties that span the components.

  \<^bold>\<open>Bounds.\<close>  All loops of the code are over finite lists and are structural recursions.  The retry
  loop of client-go makes a bounded number of attempts; the instance \<open>retryTimes n\<close> makes at most
  \<open>n + 1\<close>, and the sample uses the five of \<open>retry.DefaultRetry\<close>.  \<open>retry_lib\<close> asks only that the
  result is one of the attempts' results, and \<open>bounded_retry\<close> that \<open>n + 1\<close> attempts of at most
  \<open>k\<close> requests make at most \<open>k (n + 1)\<close>.  From this a reconciliation makes at most
  \<open>20 n + 32\<close> requests after reading the resource and \<open>2 n + 5\<close> for each storage class; nothing
  here uses fuel.

  \<^bold>\<open>Not modelled.\<close>  Log messages (no effect on the state), the fields of third-party types that the
  operator neither sets nor reads (kept opaque in \<open>obj_rest\<close>), the JSON encoding and the defaulting
  that the API server applies to a stored resource, and the code of the libraries: the copy
  functions of \<open>ObjectMeta\<close> are the parameter \<open>MetaLib\<close> with the contract \<open>meta_lib\<close>, the flags
  that libraries register are a lookup function.  The end-to-end tests and the Kustomize manifests
  are not part of the program.
\<close>

section \<open>The reconciler\<close>

text \<open>
  C1: convergence.  Against an API server that serves the built-in kinds and accepts the managed
  objects, with no object that the operator adopts held by another controller, one reconciliation
  of a stored resource returns no error and leaves everything in place: the access-control objects,
  the CSIDriver objects, the storage classes and the workloads of the enabled drivers exist and are
  controlled by the resource, the workloads have exactly the desired specification, and the
  privileged pods are admitted in the way of the platform that was detected.  Where the snapshot API
  is served and snapshots are enabled, the snapshot class exists, and is controlled by the resource
  if it did not exist before; every StorageProfile that was found was patched.  Excluded: a snapshot
  class that exists already is not adopted, and a missing StorageProfile, snapshot API, CDI API or
  \<open>kube-system\<close> namespace is passed over.
\<close>

theorem Reconcile_converges:
  assumes "reliable_operator A objs crs served accepts r"
    and "crs w req = Some cr" and "cr_Namespace cr = []"
    and "\<forall>kd. kd \<notin> {KVolumeSnapshotClass, KStorageProfile} \<longrightarrow> served kd"
    and "\<forall>ob. objRef ob \<in> managedAll cr \<longrightarrow> accepts ob"
    and "\<forall>ref \<in> adoptedAll cr. \<forall>ob. objs w ref = Some ob \<longrightarrow> \<not> takenByOther r cr ob"
    and "run A (Reconcile r req) w = (err, w')"
  shows "err = None \<and> inPlace r cr (objs w) (requests A (Reconcile r req) w) (objs w') \<and>
    (wantsSnapshots cr \<and> served KVolumeSnapshotClass \<longrightarrow> objs w' (snapshotClassRef cr) \<noteq> None \<and>
      (objs w (snapshotClassRef cr) = None \<longrightarrow> controlledBy r cr (objs w') (snapshotClassRef cr)))"
proof -
  have err: "err = None"
    using reliable_operator.Reconcile_completes [OF assms(1-3) _ _ _ assms(7)] assms(4-6) by blast
  note run = assms(7) [unfolded err]
  have "wantsSnapshots cr \<and> served KVolumeSnapshotClass \<longrightarrow> objs w' (snapshotClassRef cr) \<noteq> None \<and>
      (objs w (snapshotClassRef cr) = None \<longrightarrow> controlledBy r cr (objs w') (snapshotClassRef cr))"
    using reliable_operator.Reconcile_snapshotClass [OF assms(1,2) run] assms(5) by blast
  with err kube_operator.Reconcile_sound [OF reliable_operator.axioms(2) [OF assms(1)] assms(2) run]
  show ?thesis by simp
qed

text \<open>The sample on a cluster that also serves the snapshot API.\<close>

abbreviation fullApi :: "World api" where
  "fullApi \<equiv> refApi (\<lambda>_. True) (\<lambda>_. True)"

theorem Reconcile_converges_witness:
  "\<exists>w'. run fullApi (Reconcile sampleReconciler ([], ''cluster'')) sampleWorld = (None, w') \<and>
     inPlace sampleReconciler sampleCR (stored sampleWorld)
       (requests fullApi (Reconcile sampleReconciler ([], ''cluster'')) sampleWorld) (stored w') \<and>
     controlledBy sampleReconciler sampleCR (stored w')
       (KVolumeSnapshotClass, [], ''alibaba-cloud-disk-snapclass'')"
proof -
  obtain err w' where run: "run fullApi (Reconcile sampleReconciler ([], ''cluster''))
      sampleWorld = (err, w')"
    by (cases "run fullApi (Reconcile sampleReconciler ([], ''cluster'')) sampleWorld")
  have ref: "wantsSnapshots sampleCR"
    "snapshotClassRef sampleCR = (KVolumeSnapshotClass, [], ''alibaba-cloud-disk-snapclass'')"
    by (simp_all add: wantsSnapshots_def snapshotClassRef_def diskSnapClassName_def defaultDiskSnapClassName_def)
  have absent: "stored sampleWorld (snapshotClassRef sampleCR) = None"
    unfolding ref by (simp add: stored_def sampleWorld_def object_simps)
  have "reliable_operator fullApi stored storedCR (\<lambda>_. True) (\<lambda>_. True) sampleReconciler"
    by unfold_locales
  note converges = Reconcile_converges [OF this sampleWorld_cr _ _ _ _ run]
  have "err = None \<and> inPlace sampleReconciler sampleCR (stored sampleWorld)
      (requests fullApi (Reconcile sampleReconciler ([], ''cluster'')) sampleWorld) (stored w') \<and>
    (wantsSnapshots sampleCR \<and> True \<longrightarrow> stored w' (snapshotClassRef sampleCR) \<noteq> None \<and>
      (stored sampleWorld (snapshotClassRef sampleCR) = None \<longrightarrow>
         controlledBy sampleReconciler sampleCR (stored w') (snapshotClassRef sampleCR)))"
    by (rule converges) (simp_all add: sampleWorld_untaken)
  with run absent ref show ?thesis by simp
qed

text \<open>
  C2: soundness without reliability.  Whenever a reconciliation of a stored resource returns no
  error, even against a server that may fail any request, the owned objects other than the snapshot
  class are in place and controlled by the resource, the workloads are the desired ones, and the
  privileged pods are admitted in the way of the platform that was detected, unless the namespace
  is missing.  The optional objects are in place as far as the server let them: the snapshot class
  exists (controlled by the resource if it was absent before) unless the server answered that its
  API is not installed, and each StorageProfile was patched unless the server answered that it, or
  its API, is missing.
\<close>

theorem Reconcile_nil_means_in_place:
  assumes "kube_operator A objs crs r" and "crs w req = Some cr"
    and "run A (Reconcile r req) w = (None, w')"
  shows "inPlace r cr (objs w) (requests A (Reconcile r req) w) (objs w')"
  by (rule kube_operator.Reconcile_sound [OF assms])

text \<open>The world a run of the sample ends in.\<close>

definition sampleAfter :: World where
  "sampleAfter = snd (run sampleApi (Reconcile sampleReconciler ([], ''cluster'')) sampleWorld)"

lemma sample_run:
  "run sampleApi (Reconcile sampleReconciler ([], ''cluster'')) sampleWorld = (None, sampleAfter)"
proof -
  obtain err w' where run: "run sampleApi (Reconcile sampleReconciler ([], ''cluster''))
      sampleWorld = (err, w')"
    by (cases "run sampleApi (Reconcile sampleReconciler ([], ''cluster'')) sampleWorld")
  have "err = None"
    by (rule reliable_operator.Reconcile_completes [where cr = sampleCR,
          OF sample_operator(1) _ _ _ _ _ run])
      (simp_all add: sampleWorld_untaken)
  with run show ?thesis by (simp add: sampleAfter_def)
qed

text \<open>Every program has a path, also one that the sample server takes.\<close>

lemma sample_trace: "\<exists>tr. exec p tr (fst (run sampleApi p w))"
  using kube_api.run_trace [OF kube_operator.axioms(1) [OF sample_operator(2)], of p w]
  by (cases "run sampleApi p w") auto

lemma sample_ensureAll_trace:
  assumes "cr_Namespace cr = []"
  shows "\<exists>tr. exec (ensureAll sampleReconciler cr) tr None"
proof -
  have "fst (run sampleApi (ensureAll sampleReconciler cr) sampleWorld) = None"
    by (rule reliable_operator.ensureAll_completes [OF sample_operator(1) assms])
      (simp_all add: sampleWorld_untaken)
  with sample_trace [of "ensureAll sampleReconciler cr" sampleWorld] show ?thesis by simp
qed

theorem Reconcile_nil_means_in_place_witness:
  "inPlace sampleReconciler sampleCR (stored sampleWorld)
     (requests sampleApi (Reconcile sampleReconciler ([], ''cluster'')) sampleWorld) (stored sampleAfter)"
  by (rule Reconcile_nil_means_in_place [OF sample_operator(2) _ sample_run]) simp

text \<open>
  C3: idempotence.  After a reconciliation without error, reconciling the resource again leaves every
  stored object as it was, up to the fields the server owns, even if the second one is cut short by
  an error.  A StorageProfile is patched every time and left out here; the SCC binding and the
  namespace are only touched if they were not in place, as when the platform is detected differently.
\<close>

theorem second_Reconcile_changes_nothing:
  assumes "repeated_operator A objs crs r" and "crs w req = Some cr"
    and "run A (Reconcile r req) w = (None, w1)" and "run A (Reconcile r req) w1 = (err, w2)"
    and "objs w1 ref = Some ob" and "fst ref \<noteq> KStorageProfile"
    and "ref = objRef sccBinding \<longrightarrow> lib_IsControlledBy r ob cr"
    and "ref = (KNamespace, [], operatorNamespace) \<longrightarrow> psaLabels (objLabels ob) = objLabels ob"
  shows "\<exists>ob'. objs w2 ref = Some ob' \<and> sameDesired ob ob'"
  by (rule repeated_operator.second_Reconcile [OF assms])

theorem second_Reconcile_changes_nothing_witness:
  "\<exists>err w2 ob ob'. run sampleApi (Reconcile sampleReconciler ([], ''cluster'')) sampleAfter = (err, w2) \<and>
     stored sampleAfter (KDaemonSet, operatorNamespace, ''csi-disk-node'') = Some ob \<and>
     stored w2 (KDaemonSet, operatorNamespace, ''csi-disk-node'') = Some ob' \<and> sameDesired ob ob'"
proof -
  let ?ref = "(KDaemonSet, operatorNamespace, ''csi-disk-node'')"
  obtain err w2 where again: "run sampleApi (Reconcile sampleReconciler ([], ''cluster'')) sampleAfter = (err, w2)"
    by (cases "run sampleApi (Reconcile sampleReconciler ([], ''cluster'')) sampleAfter")
  have "inPlace sampleReconciler sampleCR (stored sampleWorld)
      (requests sampleApi (Reconcile sampleReconciler ([], ''cluster'')) sampleWorld) (stored sampleAfter)"
    by (rule kube_operator.Reconcile_sound [OF sample_operator(2) _ sample_run]) simp
  moreover have "?ref \<in> placesAll sampleCR"
    by (simp add: placesAll_def replacedDisk_def sampleCR_def)
  ultimately have "controlledBy sampleReconciler sampleCR (stored sampleAfter) ?ref"
    unfolding inPlace_def by blast
  then obtain ob where ob: "stored sampleAfter ?ref = Some ob"
    by (cases "stored sampleAfter ?ref") (simp_all add: controlledBy_def)
  have "repeated_operator sampleApi stored storedCR sampleReconciler"
    by (rule ref_repeated.repeated_operator_axioms)
  note second = second_Reconcile_changes_nothing [OF this]
  from second [OF sampleWorld_cr sample_run again ob]
  have "\<exists>ob'. stored w2 ?ref = Some ob' \<and> sameDesired ob ob'"
    by (simp add: object_simps)
  with again ob show ?thesis by blast
qed

text \<open>
  The footprint of a reconciliation: either reading the resource fails and nothing else is
  requested, or every create, update and patch before the status report is of a managed object of
  the resource that was read.  What is created or replaced is controlled by it, the namespace
  excepted; an update follows a read of the object and, unless it is of a workload, changes nothing
  but the owner references, or in the namespace the Pod Security labels; a patch changes nothing
  but the \<open>spec\<close>.
\<close>

definition footprint :: "Reconciler \<Rightarrow> NamespacedName \<Rightarrow> event list \<Rightarrow> bool" where
  "footprint r req tr \<longleftrightarrow> (\<exists>e. tr = [EvGetCR req (Inl e)]) \<or>
    (\<exists>cr body now st res. tr = EvGetCR req (Inr cr) # body @ [EvNow now, EvStatusPatch cr st res] \<and>
       list_all (writesWithin (managedAll cr)) body \<and> list_all (ownedWrites r cr) body \<and>
       updatesFollowGet minimalUpdate body)"

text \<open>
  C4: whatever the API server answers, and whatever other writers do meanwhile, a reconciliation
  stays within its footprint: it writes only the objects managed by the resource it read.  What it
  creates or replaces is controlled by that resource, with one exception: the \<open>kube-system\<close>
  namespace, which the operator does not own, may be replaced by itself with the Pod Security labels
  set.  Workloads apart, an update changes only the owner references of the object just read, and
  patches change nothing but a \<open>spec\<close>.
\<close>

theorem Reconcile_footprint:
  assumes "operator_libs r" and "exec (Reconcile r req) tr err"
  shows "footprint r req tr"
  using assms(2) unfolding exec_Reconcile
proof (elim disjE exE conjE)
  fix cr tr1 now res
  assume tr1: "exec (ensureAll r cr) tr1 err" and tr: "tr = EvGetCR req (Inr cr) # tr1 @
    [EvNow now, EvStatusPatch cr (cr\<lparr>cr_Status := finalStatus cr err now\<rparr>) res]"
  note managed = operator_libs.ensureAll_managed [OF assms(1), of cr]
  have "updatesFollowGet minimalUpdate tr1"
    using operator_libs.ensureAll_updating [OF assms(1), of cr] tr1 unfolding updating_def by blast
  then show ?thesis unfolding footprint_def
    using tr confined_exec [OF managed_writesWithin [OF managed] tr1]
      confined_exec [OF managed_ownedWrites [OF managed] tr1] by blast
qed (auto simp: footprint_def)

theorem Reconcile_footprint_witness:
  "\<exists>tr. exec (Reconcile sampleReconciler ([], ''cluster'')) tr None \<and>
     footprint sampleReconciler ([], ''cluster'') tr"
  using sample_trace [of "Reconcile sampleReconciler ([], ''cluster'')" sampleWorld]
    Reconcile_footprint [OF sample_operator(3)] sample_run by (metis fst_conv)

text \<open>
  C5: every request of a reconciliation, on every path, is one the operator's role permits, the
  checks against privilege escalation included: the operator holds every permission of a cluster
  role that it creates and of the cluster roles that it binds, and may update the finalizers of
  the resource whose deletion its owner references block.  The cluster roles it binds are taken
  as they are stored: the driver's role grants at most the rules of the source, the role that
  OpenShift provides for the privileged SCC only the use of that SCC.  An update of a role or a
  binding changes nothing but its owner references, so it asks for no check of its rules.
\<close>

theorem Reconcile_authorized:
  assumes "operator_libs r" and "boundRoles roles" and "exec (Reconcile r req) tr err"
  shows "list_all (authorized roles) tr \<and> updatesFollowGet ownersOnly tr"
  using assms(3) unfolding exec_Reconcile
proof (elim disjE exE conjE)
  fix cr tr1 now res
  assume tr1: "exec (ensureAll r cr) tr1 err" and tr: "tr = EvGetCR req (Inr cr) # tr1 @
    [EvNow now, EvStatusPatch cr (cr\<lparr>cr_Status := finalStatus cr err now\<rparr>) res]"
  have "list_all (creates creatable) tr1"
    by (rule confined_exec [OF managed_creates [OF operator_libs.ensureAll_managed [OF assms(1)]] tr1])
  then have "list_all (authorized roles) tr"
    using authorized_creates [OF assms(2)] by (auto simp: tr list_all_iff)
  moreover have "updatesFollowGet minimalUpdate tr1"
    using operator_libs.ensureAll_updating [OF assms(1), of cr] tr1 unfolding updating_def by blast
  then have "updatesFollowGet ownersOnly tr1"
    by (rule updatesFollowGet_mono) (rule minimalUpdate_owners)
  then have "updatesFollowGet ownersOnly tr"
    unfolding tr by (simp add: updatesFollowGet_append)
  ultimately show ?thesis ..
qed (auto intro: authorized_creates [OF assms(2)])

text \<open>The cluster roles of an OpenShift cluster on which the operator has run.\<close>

definition sampleRoles :: "string \<Rightarrow> PolicyRule list" where
  "sampleRoles n = (if n = ''alibaba-cloud-csi-role'' then driverRules
     else if n = ''system:openshift:scc:privileged'' then
       [\<lparr>pr_APIGroups = [''security.openshift.io''], pr_Resources = [''securitycontextconstraints''],
         pr_Verbs = [''use''], pr_ResourceNames = [''privileged'']\<rparr>]
     else [])"

lemma sampleRoles_bound: "boundRoles sampleRoles"
  by (auto simp: boundRoles_def sampleRoles_def grants_def list_all_iff)

theorem Reconcile_authorized_witness:
  "\<exists>tr. exec (Reconcile sampleReconciler ([], ''cluster'')) tr None \<and> list_all (authorized sampleRoles) tr \<and>
     updatesFollowGet ownersOnly tr"
  using sample_trace [of "Reconcile sampleReconciler ([], ''cluster'')" sampleWorld]
    Reconcile_authorized [OF sample_operator(3) sampleRoles_bound] sample_run by (metis fst_conv)

text \<open>
  \<open>reportsOutcome cr err tr\<close>: the trace \<open>tr\<close> of what follows the reading of \<open>cr\<close> ends with its only
  status patch, which changes nothing else, records the observed generation, sets \<open>Available\<close>,
  \<open>Degraded\<close> and \<open>Progressing\<close> by whether there is an error, and reports a driver ready only if it is
  enabled, and every enabled driver if there is no error.
\<close>

definition reportsOutcome :: "AlibabaCloudCSIDriver \<Rightarrow> goerror option \<Rightarrow> event list \<Rightarrow> bool" where
  "reportsOutcome cr err tr \<longleftrightarrow> (\<exists>body now cr' res. tr = body @ [EvNow now, EvStatusPatch cr cr' res] \<and>
    list_all (\<lambda>ev. case ev of EvStatusPatch _ _ _ \<Rightarrow> False | _ \<Rightarrow> True) body \<and>
    cr' = cr\<lparr>cr_Status := cr_Status cr'\<rparr> \<and>
    st_ObservedGeneration (cr_Status cr') = cr_Generation cr \<and>
    map (\<lambda>c. (cond_Type c, cond_Status c)) (st_Conditions (cr_Status cr')) =
      (if err = None
       then [(ConditionAvailable, ''True''), (ConditionDegraded, ''False''), (ConditionProgressing, ''False'')]
       else [(ConditionAvailable, ''False''), (ConditionDegraded, ''True''), (ConditionProgressing, ''False'')]) \<and>
    (if err = None
     then st_DiskDriverReady (cr_Status cr') = disk_Enabled (spec_Disk (cr_Spec cr)) \<and>
       st_NASDriverReady (cr_Status cr') = nas_Enabled (spec_NAS (cr_Spec cr))
     else (st_DiskDriverReady (cr_Status cr') \<longrightarrow> disk_Enabled (spec_Disk (cr_Spec cr))) \<and>
       \<not> st_NASDriverReady (cr_Status cr')) \<and>
    \<not> st_OSSDriverReady (cr_Status cr'))"

text \<open>
  C7: the status report.  If the resource could be read, then on every path the last request is
  the only status patch, and it reports the outcome that is returned: \<open>Available\<close> is \<open>True\<close> exactly
  when there is no error, \<open>Degraded\<close> is its opposite, and the ready flags follow the enabled drivers.
\<close>

theorem Reconcile_status:
  assumes "operator_libs r" and "exec (Reconcile r req) (EvGetCR req (Inr cr) # tr) err"
  shows "reportsOutcome cr err tr"
proof -
  from assms(2) obtain tr1 now res where tr1: "exec (ensureAll r cr) tr1 err"
    and tr: "tr = tr1 @ [EvNow now, EvStatusPatch cr (cr\<lparr>cr_Status := finalStatus cr err now\<rparr>) res]"
    unfolding exec_Reconcile by auto
  have "list_all (writesWithin (managedAll cr)) tr1"
    by (rule confined_exec [OF managed_writesWithin [OF operator_libs.ensureAll_managed [OF assms(1)]] tr1])
  then have "list_all (\<lambda>ev. case ev of EvStatusPatch _ _ _ \<Rightarrow> False | _ \<Rightarrow> True) tr1"
    by (auto simp: list_all_iff split: event.split)
  with tr show ?thesis unfolding reportsOutcome_def
    by (intro exI [of _ tr1] exI [of _ now] exI [of _ "cr\<lparr>cr_Status := finalStatus cr err now\<rparr>"]
        exI [of _ res]) (simp add: finalStatus_def conditionsAt_def split: option.split)
qed

theorem Reconcile_status_witness:
  "\<exists>tr. exec (Reconcile sampleReconciler ([], ''cluster'')) (EvGetCR ([], ''cluster'') (Inr sampleCR) # tr) None \<and>
     reportsOutcome sampleCR None tr"
proof -
  obtain tr where tr: "exec (ensureAll sampleReconciler sampleCR) tr None"
    using sample_ensureAll_trace [of sampleCR] by auto
  let ?fin = "[EvNow 5, EvStatusPatch sampleCR (sampleCR\<lparr>cr_Status := finalStatus sampleCR None 5\<rparr>) None]"
  have "exec (Reconcile sampleReconciler ([], ''cluster''))
      (EvGetCR ([], ''cluster'') (Inr sampleCR) # tr @ ?fin) None"
    unfolding exec_Reconcile using tr by auto
  with Reconcile_status [OF sample_operator(3) this] show ?thesis by blast
qed

text \<open>
  C8: the flags of \<open>Reconcile\<close> implement a plain sequence: access control, then the disk driver if
  enabled, then the NAS driver if enabled, each only if nothing failed before, then one status
  report of the outcome.
\<close>

theorem Reconcile_is_sequence:
  "Reconcile r req = GetCR req (\<lambda>res. case res of
       Inl err \<Rightarrow> if err_Reason err = NotFound then Ret None else Ret (Some (LibErr err))
     | Inr cr \<Rightarrow> bind (ensureAll r cr) (\<lambda>err. Now (\<lambda>now.
         StatusPatch cr (cr\<lparr>cr_Status := finalStatus cr err now\<rparr>) (\<lambda>_. Ret err))))"
  unfolding Reconcile_eq report_def [abs_def] by (rule refl)

text \<open>
  \<open>failedPhase r cr e body\<close>: the requests \<open>body\<close> are those of the phases up to the one that the error
  names by its prefix; the earlier ones completed, this one failed.
\<close>

definition failedPhase :: "Reconciler \<Rightarrow> AlibabaCloudCSIDriver \<Rightarrow> goerror \<Rightarrow> event list \<Rightarrow> bool" where
  "failedPhase r cr e body \<longleftrightarrow> (\<exists>e'.
     (e = Wrapped ''RBAC: '' e' \<and> exec (ensureRBAC r cr) body (Some e')) \<or>
     (e = Wrapped ''disk driver: '' e' \<and> (\<exists>b1 b2. body = b1 @ b2 \<and>
        exec (ensureRBAC r cr) b1 None \<and> exec (ensureDiskDriver r cr) b2 (Some e'))) \<or>
     (e = Wrapped ''nas driver: '' e' \<and> (\<exists>b1 b2 b3. body = b1 @ b2 @ b3 \<and>
        exec (ensureRBAC r cr) b1 None \<and>
        (if disk_Enabled (spec_Disk (cr_Spec cr)) then exec (ensureDiskDriver r cr) b2 None
         else b2 = []) \<and>
        exec (ensureNASDriver r cr) b3 (Some e'))))"

text \<open>The three ways to fail.\<close>

lemma failedPhase_intros:
  "exec (ensureRBAC r cr) b (Some e') \<Longrightarrow> failedPhase r cr (Wrapped ''RBAC: '' e') b"
  "exec (ensureRBAC r cr) b1 None \<Longrightarrow> exec (ensureDiskDriver r cr) b2 (Some e') \<Longrightarrow>
     failedPhase r cr (Wrapped ''disk driver: '' e') (b1 @ b2)"
  "exec (ensureRBAC r cr) b1 None \<Longrightarrow>
     if disk_Enabled (spec_Disk (cr_Spec cr)) then exec (ensureDiskDriver r cr) b2 None else b2 = [] \<Longrightarrow>
     exec (ensureNASDriver r cr) b3 (Some e') \<Longrightarrow>
     failedPhase r cr (Wrapped ''nas driver: '' e') (b1 @ b2 @ b3)"
  unfolding failedPhase_def by blast+

lemma failedPhase_nas_only:
  "exec (ensureRBAC r cr) b1 None \<Longrightarrow> \<not> disk_Enabled (spec_Disk (cr_Spec cr)) \<Longrightarrow>
     exec (ensureNASDriver r cr) b3 (Some e') \<Longrightarrow> failedPhase r cr (Wrapped ''nas driver: '' e') (b1 @ b3)"
  using failedPhase_intros(3) [of r cr b1 "[]"] by simp

lemma failedPhase_ensureAll:
  assumes "exec (ensureAll r cr) tr (Some e)"
  shows "failedPhase r cr e tr"
  using assms unfolding exec_ensureAll
  by (elim disjE exE conjE) (auto split: if_splits intro: failedPhase_intros failedPhase_nas_only)

text \<open>
  C6: errors.  A reconciliation that returns an error could either not read the resource, or
  stopped in the phase the error's prefix names: no later phase made a request, and every earlier
  phase completed without error.  A resource that does not exist is not an error.
\<close>

theorem Reconcile_stops_at_first_error:
  assumes "exec (Reconcile r req) tr (Some e)"
  shows "(\<exists>ge. tr = [EvGetCR req (Inl ge)] \<and> e = LibErr ge \<and> err_Reason ge \<noteq> NotFound) \<or>
    (\<exists>cr body now st res. failedPhase r cr e body \<and>
      tr = EvGetCR req (Inr cr) # body @ [EvNow now, EvStatusPatch cr st res])"
  using assms unfolding exec_Reconcile
proof (elim disjE exE conjE)
  fix ge assume "tr = [EvGetCR req (Inl ge)]"
    and "Some e = (if err_Reason ge = NotFound then None else Some (LibErr ge))"
  then show ?thesis by (simp split: if_splits)
next
  fix cr tr1 now res
  assume "exec (ensureAll r cr) tr1 (Some e)" and "tr = EvGetCR req (Inr cr) # tr1 @
    [EvNow now, EvStatusPatch cr (cr\<lparr>cr_Status := finalStatus cr (Some e) now\<rparr>) res]"
  with failedPhase_ensureAll show ?thesis by blast
qed

theorem Reconcile_stops_at_first_error_witness:
  "\<exists>tr body now st res. exec (Reconcile sampleReconciler ([], ''cluster'')) tr
      (Some (Wrapped ''RBAC: '' (LibErr (libError OtherReason)))) \<and>
     failedPhase sampleReconciler sampleCR (Wrapped ''RBAC: '' (LibErr (libError OtherReason))) body \<and>
     tr = EvGetCR ([], ''cluster'') (Inr sampleCR) # body @ [EvNow now, EvStatusPatch sampleCR st res]"
proof -
  let ?e = "Wrapped ''RBAC: '' (LibErr (libError OtherReason))"
  let ?st = "setOwners [ownerRefOf sampleCR] serviceAccount"
  let ?cr = "sampleCR\<lparr>cr_Status := finalStatus sampleCR (Some ?e) 5\<rparr>"
  let ?tr = "EvGetCR ([], ''cluster'') (Inr sampleCR) #
    [EvCreate ?st (Some (libError OtherReason))] @ [EvNow 5, EvStatusPatch sampleCR ?cr None]"
  have "lib_SetControllerReference sampleReconciler sampleCR serviceAccount = Inr ?st"
    by (simp add: refReconciler_def refSetController_def namespaceOk_def foreign_def controllerOf_def
        object_simps)
  then have "exec (ensureAll sampleReconciler sampleCR) [EvCreate ?st (Some (libError OtherReason))] (Some ?e)"
    by (simp add: exec_ensureAll ensureRBAC_def exec_check_iff ensureServiceAccount_def
        createOrAdopt_def exec_iffs libError_def)
  then have "exec (Reconcile sampleReconciler ([], ''cluster'')) ?tr (Some ?e)"
    unfolding exec_Reconcile by auto
  with Reconcile_stops_at_first_error [OF this] show ?thesis by blast
qed

text \<open>
  C9: the frame.  Against any API server, and whether the reconciliation succeeds or not, every
  object that is not managed by the resource, every other resource, and everything of the resource
  but its status is the same afterwards.
\<close>

theorem Reconcile_keeps_the_rest:
  assumes "kube_operator A objs crs r" and "crs w req = Some cr"
    and "run A (Reconcile r req) w = (err, w')"
  shows "(\<forall>ref. ref \<notin> managedAll cr \<longrightarrow> objs w' ref = objs w ref) \<and>
    (\<forall>n. n \<noteq> req \<longrightarrow> crs w' n = crs w n) \<and>
    (\<exists>st. crs w' req = Some (cr\<lparr>cr_Status := st\<rparr>))"
  by (rule kube_operator.Reconcile_frame [OF assms])

theorem Reconcile_keeps_the_rest_witness:
  "stored sampleAfter (KDeployment, ''default'', ''web'') = stored sampleWorld (KDeployment, ''default'', ''web'') \<and>
   (\<exists>st. storedCR sampleAfter ([], ''cluster'') = Some (sampleCR\<lparr>cr_Status := st\<rparr>))"
proof -
  have "(KDeployment, ''default'', ''web'') \<notin> managedAll sampleCR"
    by (simp add: managedAll_def managedRBAC_def adoptedRBAC_def managedDisk_def adoptedDisk_def
        replacedDisk_def managedNAS_def adoptedNAS_def replacedNAS_def classRefs_def profileRefs_def
        operatorNamespace_def image_iff)
  with Reconcile_keeps_the_rest [OF sample_operator(2) sampleWorld_cr sample_run] show ?thesis
    by blast
qed

lemma status_update_eq: "cr\<lparr>cr_Status := a\<rparr> = cr\<lparr>cr_Status := b\<rparr> \<longleftrightarrow> a = b"
  by (cases cr) simp

text \<open>
  C32: the transition time of the conditions is the time of the reconciliation, not of a change.
  Take two reconciliations at different times with the same result, the second of which reads the
  resource with the status that the first one reported: both report three conditions that agree in
  type, status, reason and message, yet each of the three carries the new time, so the status is
  rewritten although nothing changed.
\<close>

theorem status_changes_with_the_clock:
  assumes "exec (Reconcile r req) (EvGetCR req (Inr cr) # body @
      [EvNow now, EvStatusPatch cr (cr\<lparr>cr_Status := st\<rparr>) res]) err"
    and "exec (Reconcile r req) (EvGetCR req (Inr (cr\<lparr>cr_Status := st\<rparr>)) # body' @
      [EvNow now', EvStatusPatch (cr\<lparr>cr_Status := st\<rparr>) (cr\<lparr>cr_Status := st'\<rparr>) res']) err"
    and "now \<noteq> now'"
  shows "length (st_Conditions st) = 3 \<and>
    map (\<lambda>c. (cond_Type c, cond_Status c, cond_Reason c, cond_Message c)) (st_Conditions st') =
      map (\<lambda>c. (cond_Type c, cond_Status c, cond_Reason c, cond_Message c)) (st_Conditions st) \<and>
    map cond_LastTransitionTime (st_Conditions st) = replicate 3 now \<and>
    map cond_LastTransitionTime (st_Conditions st') = replicate 3 now' \<and> st' \<noteq> st"
proof -
  have st: "st = finalStatus cr err now" and st': "st' = finalStatus (cr\<lparr>cr_Status := st\<rparr>) err now'"
    using assms(1,2) unfolding exec_Reconcile by (auto simp: status_update_eq)
  have times: "map cond_LastTransitionTime (st_Conditions (finalStatus c err t)) = replicate 3 t" for c t
    by (simp add: finalStatus_def conditionsAt_def numeral_3_eq_3 split: option.split)
  have "map (\<lambda>c. (cond_Type c, cond_Status c, cond_Reason c, cond_Message c)) (st_Conditions (finalStatus c err t)) =
      map (\<lambda>c. (cond_Type c, cond_Status c, cond_Reason c, cond_Message c)) (st_Conditions (finalStatus c' err t'))"
    for c c' t t' by (simp add: finalStatus_def conditionsAt_def split: option.split)
  moreover have "length (st_Conditions st) = 3"
    using times [of cr now] unfolding st by (metis length_map length_replicate)
  moreover have "st' \<noteq> st"
    using times [of cr now] times [of "cr\<lparr>cr_Status := st\<rparr>" now'] assms(3) unfolding st st'
    by (metis numeral_3_eq_3 replicate_Suc list.inject)
  ultimately show ?thesis using times unfolding st st' by blast
qed

theorem status_changes_with_the_clock_witness:
  "\<exists>body body' st st'. exec (Reconcile sampleReconciler ([], ''cluster'')) (EvGetCR ([], ''cluster'') (Inr sampleCR) #
      body @ [EvNow 1, EvStatusPatch sampleCR (sampleCR\<lparr>cr_Status := st\<rparr>) None]) None \<and>
    exec (Reconcile sampleReconciler ([], ''cluster''))
      (EvGetCR ([], ''cluster'') (Inr (sampleCR\<lparr>cr_Status := st\<rparr>)) #
       body' @ [EvNow 2, EvStatusPatch (sampleCR\<lparr>cr_Status := st\<rparr>) (sampleCR\<lparr>cr_Status := st'\<rparr>) None]) None \<and>
    map cond_LastTransitionTime (st_Conditions st') = [2, 2, 2] \<and> st' \<noteq> st"
proof -
  let ?st = "finalStatus sampleCR None 1"
  let ?cr = "sampleCR\<lparr>cr_Status := ?st\<rparr>"
  let ?st' = "finalStatus ?cr None 2"
  obtain body where "exec (ensureAll sampleReconciler sampleCR) body None"
    using sample_ensureAll_trace [of sampleCR] by auto
  then have first: "exec (Reconcile sampleReconciler ([], ''cluster'')) (EvGetCR ([], ''cluster'') (Inr sampleCR) #
      body @ [EvNow 1, EvStatusPatch sampleCR ?cr None]) None"
    unfolding exec_Reconcile by auto
  obtain body' where "exec (ensureAll sampleReconciler ?cr) body' None"
    using sample_ensureAll_trace [of ?cr] by auto
  then have second: "exec (Reconcile sampleReconciler ([], ''cluster'')) (EvGetCR ([], ''cluster'') (Inr ?cr) #
      body' @ [EvNow 2, EvStatusPatch ?cr (sampleCR\<lparr>cr_Status := ?st'\<rparr>) None]) None"
    unfolding exec_Reconcile by (auto simp: crKey_def)
  from status_changes_with_the_clock [OF first second] have
    "map cond_LastTransitionTime (st_Conditions ?st') = [2, 2, 2] \<and> ?st' \<noteq> ?st"
    by (simp add: numeral_3_eq_3)
  with first second show ?thesis
    by (intro exI [of _ body] exI [of _ body'] exI [of _ ?st] exI [of _ ?st'] conjI) simp_all
qed

section \<open>The apply helpers\<close>

text \<open>A cluster in which another controller holds the service account and the DaemonSet.\<close>

definition foreignRef :: OwnerReference where
  "foreignRef = \<lparr>or_APIVersion = ''helm.example/v1'', or_Kind = ''Release'', or_Name = ''csi'', or_UID = ''uid-9'',
     or_Controller = True, or_BlockOwnerDeletion = False\<rparr>"

definition foreignWorld :: World where
  "foreignWorld = sampleWorld\<lparr>w_Objects := map (setOwners [foreignRef]) (w_Objects sampleWorld)\<rparr>"

lemma foreign_taken: "takenByOther (refReconciler c g) sampleCR (setOwners [foreignRef] ob)"
  by (simp add: takenByOther_def foreign_def controllerOf_def object_simps foreignRef_def refersTo_def
      ownerKind_def refReconciler_def refIsControlledBy_def)

lemma foreign_stored:
  "stored foreignWorld (objRef serviceAccount) =
     Some (setOwners [foreignRef] (setResourceVersion ''7'' serviceAccount))"
  "stored foreignWorld (KDaemonSet, operatorNamespace, ''csi-disk-node'') =
     Some (setOwners [foreignRef] (setResourceVersion ''8'' (diskNodeDaemonSet (\<lambda>_. []) sampleCR ''old:v1'')))"
  by (simp_all add: stored_def foreignWorld_def sampleWorld_def object_simps operatorNamespace_def)

text \<open>
  C11: \<open>createOrAdopt\<close> implements its abstract step.  Against a reliable server that serves the kind
  and accepts the object, for an object built without owner and resource version: if another
  controller holds the stored object, it returns an error and changes nothing; otherwise it returns
  no error, and its effect on the store is: create the stamped object if it is absent, leave it
  alone if the resource already controls it, else replace it by itself with the owner reference
  added.
\<close>

theorem createOrAdopt_implements_adoptStep:
  assumes "reliable_operator A objs crs served accepts r" and "cr_Namespace cr = []"
    and "owners obj = []" and "resourceVersion obj = []" and "served (objKind obj)"
    and "\<forall>ob. objRef ob = objRef obj \<longrightarrow> accepts ob"
    and "run A (createOrAdopt r cr obj) w = (err, w')"
  shows "if case objs w (objRef obj) of None \<Rightarrow> False | Some ex \<Rightarrow> takenByOther r cr ex
    then err \<noteq> None \<and> objs w' = objs w
    else err = None \<and> adoptStep r cr obj (objs w) (objs w')"
proof (cases "case objs w (objRef obj) of None \<Rightarrow> False | Some ex \<Rightarrow> takenByOther r cr ex")
  case True
  then obtain ex where "objs w (objRef obj) = Some ex" "takenByOther r cr ex"
    by (auto split: option.splits)
  from kube_operator.createOrAdopt_refuses [OF reliable_operator.axioms(2) [OF assms(1)] assms(7) this]
  show ?thesis using True by simp
next
  case False
  then have "err = None \<and> adoptStep r cr obj (objs w) (objs w')"
    using reliable_operator.createOrAdopt_refines [OF assms(1-5) _ _ assms(7)] assms(6)
    by (simp split: option.splits)
  with False show ?thesis by simp
qed

theorem createOrAdopt_implements_adoptStep_witness:
  "(\<exists>w'. run sampleApi (createOrAdopt sampleReconciler sampleCR serviceAccount) sampleWorld = (None, w') \<and>
      adoptStep sampleReconciler sampleCR serviceAccount (stored sampleWorld) (stored w')) \<and>
   (\<exists>err w'. run sampleApi (createOrAdopt sampleReconciler sampleCR serviceAccount) foreignWorld = (Some err, w') \<and>
      stored w' = stored foreignWorld)"
proof -
  let ?p = "createOrAdopt sampleReconciler sampleCR serviceAccount"
  note step = createOrAdopt_implements_adoptStep [OF sample_operator(1), where cr = sampleCR and obj = serviceAccount]
  obtain err1 w1 err2 w2 where run: "run sampleApi ?p sampleWorld = (err1, w1)"
    "run sampleApi ?p foreignWorld = (err2, w2)"
    by (cases "run sampleApi ?p sampleWorld"; cases "run sampleApi ?p foreignWorld")
  have "\<not> (case stored sampleWorld (objRef serviceAccount) of None \<Rightarrow> False
      | Some ex \<Rightarrow> takenByOther sampleReconciler sampleCR ex)"
    by (simp add: sampleWorld_untaken split: option.split)
  with step [OF _ _ _ _ _ run(1)] have "err1 = None"
    "adoptStep sampleReconciler sampleCR serviceAccount (stored sampleWorld) (stored w1)"
    by (simp_all add: object_simps)
  moreover have "case stored foreignWorld (objRef serviceAccount) of None \<Rightarrow> False
      | Some ex \<Rightarrow> takenByOther sampleReconciler sampleCR ex"
    by (simp only: foreign_stored option.case foreign_taken)
  with step [OF _ _ _ _ _ run(2)] have "err2 \<noteq> None" "stored w2 = stored foreignWorld"
    by (simp_all add: object_simps)
  ultimately show ?thesis using run by auto
qed

text \<open>
  C12: \<open>createOrUpdate\<close> implements its abstract step: against a reliable server it returns no error
  and the stored object is the stamped desired one, whatever was there before.
\<close>

theorem createOrUpdate_implements_updateStep:
  assumes "reliable_operator A objs crs served accepts r" and "cr_Namespace cr = []"
    and "owners obj = []" and "resourceVersion obj = []" and "served (objKind obj)"
    and "\<forall>ob. objRef ob = objRef obj \<longrightarrow> accepts ob"
    and "run A (createOrUpdate r cr obj) w = (err, w')"
  shows "err = None \<and> updateStep r cr obj (objs w) (objs w')"
  using reliable_operator.createOrUpdate_refines [OF assms(1-5) _ assms(7)] assms(6) by blast

theorem createOrUpdate_implements_updateStep_witness:
  "\<exists>w'. run sampleApi (createOrUpdate sampleReconciler sampleCR
        (diskNodeDaemonSet (\<lambda>_. []) sampleCR ''new:v2'')) sampleWorld = (None, w') \<and>
     updateStep sampleReconciler sampleCR (diskNodeDaemonSet (\<lambda>_. []) sampleCR ''new:v2'')
       (stored sampleWorld) (stored w')"
proof -
  let ?ob = "diskNodeDaemonSet (\<lambda>_. []) sampleCR ''new:v2''"
  obtain err w' where run: "run sampleApi (createOrUpdate sampleReconciler sampleCR ?ob) sampleWorld = (err, w')"
    by (cases "run sampleApi (createOrUpdate sampleReconciler sampleCR ?ob) sampleWorld")
  have "err = None \<and> updateStep sampleReconciler sampleCR ?ob (stored sampleWorld) (stored w')"
    by (rule createOrUpdate_implements_updateStep [OF sample_operator(1) _ _ _ _ _ run])
      (simp_all add: object_simps)
  with run show ?thesis by auto
qed

text \<open>
  C15: an object controlled by another owner is safe from adoption: \<open>createOrAdopt\<close> returns an error
  and changes no object, whatever else goes wrong.
\<close>

theorem createOrAdopt_leaves_foreign_objects:
  assumes "kube_operator A objs crs r" and "run A (createOrAdopt r cr obj) w = (err, w')"
    and "objs w (objRef obj) = Some ex" and "takenByOther r cr ex"
  shows "err \<noteq> None \<and> objs w' = objs w"
  by (rule kube_operator.createOrAdopt_refuses [OF assms])

theorem createOrAdopt_leaves_foreign_objects_witness:
  "\<exists>err w'. run sampleApi (createOrAdopt sampleReconciler sampleCR serviceAccount) foreignWorld = (err, w') \<and>
     err \<noteq> None \<and> stored w' = stored foreignWorld"
proof -
  obtain err w' where run: "run sampleApi (createOrAdopt sampleReconciler sampleCR serviceAccount)
      foreignWorld = (err, w')"
    by (cases "run sampleApi (createOrAdopt sampleReconciler sampleCR serviceAccount) foreignWorld")
  from createOrAdopt_leaves_foreign_objects [OF sample_operator(2) run foreign_stored(1) foreign_taken]
    run show ?thesis by blast
qed

text \<open>
  C17: the counterpart for workloads.  \<open>createOrUpdate\<close> does not look at the owner of an existing
  object: against a reliable server that serves the kind and accepts the object, it returns no
  error on an object that another controller holds, where \<open>createOrAdopt\<close> returns one, and takes the
  object over: the stored object then has the desired specification and is controlled by the
  resource, and the owner references it had are replaced.
\<close>

theorem createOrUpdate_takes_over_foreign_objects:
  assumes "reliable_operator A objs crs served accepts r" and "cr_Namespace cr = []"
    and "owners obj = []" and "resourceVersion obj = []" and "served (objKind obj)"
    and "\<forall>ob. objRef ob = objRef obj \<longrightarrow> accepts ob"
    and "objs w (objRef obj) = Some ex" and "takenByOther r cr ex"
    and "run A (createOrUpdate r cr obj) w = (err, w')"
  shows "err = None \<and> (\<exists>ob. objs w' (objRef obj) = Some ob \<and> asDesired r cr obj ob \<and>
    lib_IsControlledBy r ob cr \<and> \<not> lib_IsControlledBy r ex cr \<and> owners ob \<noteq> owners ex)"
proof -
  note kube = reliable_operator.axioms(2) [OF assms(1)]
  have err: "err = None"
    using reliable_operator.createOrUpdate_refines [OF assms(1-5) _ assms(9)] assms(6) by blast
  from kube_operator.createOrUpdate_controls [OF kube assms(9) [unfolded err]] obtain ob
    where ob: "objs w' (objRef obj) = Some ob" "asDesired r cr obj ob" "lib_IsControlledBy r ob cr"
    by (auto simp: kube_operator.controlledIn_def [OF kube])
  have "\<not> lib_IsControlledBy r ex cr" using assms(8) by (simp add: takenByOther_def)
  moreover from this ob(3) have "owners ob \<noteq> owners ex"
    using owner_lib.isControlledBy_owners [OF operator_libs.axioms(1) [OF kube_operator.axioms(2) [OF kube]], of ob ex cr] by metis
  ultimately show ?thesis using err ob by blast
qed

theorem createOrUpdate_takes_over_foreign_objects_witness:
  "\<exists>w' ob. run sampleApi (createOrUpdate sampleReconciler sampleCR
        (diskNodeDaemonSet (\<lambda>_. []) sampleCR ''new:v2'')) foreignWorld = (None, w') \<and>
     stored w' (KDaemonSet, operatorNamespace, ''csi-disk-node'') = Some ob \<and>
     lib_IsControlledBy sampleReconciler ob sampleCR"
proof -
  let ?ob = "diskNodeDaemonSet (\<lambda>_. []) sampleCR ''new:v2''"
  obtain err w' where run: "run sampleApi (createOrUpdate sampleReconciler sampleCR ?ob) foreignWorld = (err, w')"
    by (cases "run sampleApi (createOrUpdate sampleReconciler sampleCR ?ob) foreignWorld")
  have held: "stored foreignWorld (objRef ?ob) = Some (setOwners [foreignRef]
      (setResourceVersion ''8'' (diskNodeDaemonSet (\<lambda>_. []) sampleCR ''old:v1'')))"
    by (simp add: disk_refs foreign_stored)
  note over = createOrUpdate_takes_over_foreign_objects [OF sample_operator(1) _ _ _ _ _ held foreign_taken run]
  have "err = None \<and> (\<exists>ob. stored w' (objRef ?ob) = Some ob \<and> asDesired sampleReconciler sampleCR ?ob ob \<and>
      lib_IsControlledBy sampleReconciler ob sampleCR \<and>
      \<not> lib_IsControlledBy sampleReconciler (setOwners [foreignRef]
        (setResourceVersion ''8'' (diskNodeDaemonSet (\<lambda>_. []) sampleCR ''old:v1''))) sampleCR \<and>
      owners ob \<noteq> owners (setOwners [foreignRef]
        (setResourceVersion ''8'' (diskNodeDaemonSet (\<lambda>_. []) sampleCR ''old:v1''))))"
    by (rule over) (simp_all add: object_simps)
  with run show ?thesis by (auto simp: disk_refs)
qed

text \<open>
  C16: adoption never changes the content.  If the object exists before \<open>createOrAdopt\<close>, then
  whatever is returned it is stored afterwards with at most its owner references (and the fields
  the server assigns) changed; in particular a cluster role of an earlier version keeps its rules.
\<close>

theorem createOrAdopt_keeps_existing_content:
  assumes "kube_operator A objs crs r" and "run A (createOrAdopt r cr obj) w = (err, w')"
    and "objs w (objRef obj) = Some ex"
  shows "\<exists>refs ob. objs w' (objRef obj) = Some ob \<and> sameDesired (setOwners refs ex) ob"
  by (rule kube_operator.createOrAdopt_preserves [OF assms])

definition oldRoleWorld :: World where
  "oldRoleWorld = sampleWorld\<lparr>w_Objects :=
     [fresh (named [] ''alibaba-cloud-csi-role'') (ClusterRoleBody [])]\<rparr>"

theorem createOrAdopt_keeps_existing_content_witness:
  "\<exists>err w' ob. run sampleApi (ensureClusterRole sampleReconciler sampleCR) oldRoleWorld = (err, w') \<and>
     stored w' (KClusterRole, [], ''alibaba-cloud-csi-role'') = Some ob \<and> obj_body ob = ClusterRoleBody []"
proof -
  let ?old = "fresh (named [] ''alibaba-cloud-csi-role'') (ClusterRoleBody [])"
  obtain err w' where run: "run sampleApi (createOrAdopt sampleReconciler sampleCR driverClusterRole)
      oldRoleWorld = (err, w')"
    by (cases "run sampleApi (createOrAdopt sampleReconciler sampleCR driverClusterRole) oldRoleWorld")
  have "stored oldRoleWorld (objRef driverClusterRole) = Some ?old"
    by (simp add: stored_def oldRoleWorld_def object_simps)
  from createOrAdopt_keeps_existing_content [OF sample_operator(2) run this] obtain refs ob
    where "stored w' (objRef driverClusterRole) = Some ob" and same: "sameDesired (setOwners refs ?old) ob"
    by blast
  with sameDesired_body [OF same] run show ?thesis
    by (auto simp: object_simps ensureClusterRole_def)
qed

text \<open>
  C13: on every path, whatever other writers do between the requests, \<open>createOrAdopt\<close> replaces an
  object only right after reading it, only when the resource does not control it and no other
  owner does, and by the object just read with nothing but its owner references changed.
\<close>

theorem createOrAdopt_changes_only_owners:
  assumes "operator_libs r" and "exec (createOrAdopt r cr obj) tr err"
  shows "updatesFollowGet (\<lambda>ex ob. \<not> lib_IsControlledBy r ex cr \<and> \<not> foreign cr ex \<and>
     (\<exists>refs. ob = setOwners refs ex) \<and> lib_IsControlledBy r ob cr) tr"
  using operator_libs.createOrAdopt_updates [OF assms]
  by (simp only: operator_libs.adopts_def [OF assms(1), abs_def])

theorem createOrAdopt_changes_only_owners_witness:
  "\<exists>tr err. exec (createOrAdopt sampleReconciler sampleCR serviceAccount) tr err \<and>
     updatesFollowGet (\<lambda>ex ob. \<not> lib_IsControlledBy sampleReconciler ex sampleCR \<and> \<not> foreign sampleCR ex \<and>
       (\<exists>refs. ob = setOwners refs ex) \<and> lib_IsControlledBy sampleReconciler ob sampleCR) tr"
  using sample_trace [of "createOrAdopt sampleReconciler sampleCR serviceAccount" sampleWorld]
    createOrAdopt_changes_only_owners [OF sample_operator(3)] by blast

text \<open>
  C14: optimistic concurrency.  On every path, \<open>createOrUpdate\<close> replaces an object only right after
  reading it, by the stamped desired object carrying the resource version just read, so the server
  can refuse the write when somebody else wrote in between.
\<close>

theorem createOrUpdate_carries_version_read:
  assumes "operator_libs r" and "exec (createOrUpdate r cr obj) tr err"
  shows "updatesFollowGet (\<lambda>ex ob. \<exists>stamped. lib_SetControllerReference r cr obj = Inr stamped \<and>
     ob = setResourceVersion (resourceVersion ex) stamped) tr"
  by (rule operator_libs.createOrUpdate_updates [OF assms])

theorem createOrUpdate_carries_version_read_witness:
  "\<exists>tr err. exec (createOrUpdate sampleReconciler sampleCR (diskNodeDaemonSet (\<lambda>_. []) sampleCR ''new:v2'')) tr err \<and>
     updatesFollowGet (\<lambda>ex ob. \<exists>stamped. lib_SetControllerReference sampleReconciler sampleCR
         (diskNodeDaemonSet (\<lambda>_. []) sampleCR ''new:v2'') = Inr stamped \<and>
       ob = setResourceVersion (resourceVersion ex) stamped) tr"
  using sample_trace [of "createOrUpdate sampleReconciler sampleCR
      (diskNodeDaemonSet (\<lambda>_. []) sampleCR ''new:v2'')" sampleWorld]
    createOrUpdate_carries_version_read [OF sample_operator(3)] by blast

section \<open>Drivers and access control\<close>

text \<open>
  C18: when \<open>ensureRBAC\<close> returns no error, the privileged node pods are admitted in the way of the
  platform its requests detected.  If the cached mapper or the fresh discovery found the SCC API,
  the binding to the privileged SCC exists and is controlled by the resource; otherwise, if the
  namespace existed before, it now carries the three Pod Security labels with the value
  \<open>privileged\<close>.  A namespace that did not exist is passed over.
\<close>

theorem ensureRBAC_admits_privileged_pods:
  assumes "kube_operator A objs crs r" and "run A (ensureRBAC r cr) w = (None, w')"
  shows "if sccDetected (requests A (ensureRBAC r cr) w)
    then controlledBy r cr (objs w') (KClusterRoleBinding, [], ''alibabacloud-csi-privileged'')
    else objs w (KNamespace, [], operatorNamespace) \<noteq> None \<longrightarrow> namespaceAdmits (objs w')"
  using kube_operator.ensureRBAC_admits [OF assms]
  by (simp add: kube_operator.admitted_def [OF assms(1)] kube_operator.controlledBy_in [OF assms(1)]
      rbac_refs split: if_splits)

text \<open>The sample cluster with the OpenShift API.\<close>

abbreviation openshiftWorld :: World where
  "openshiftWorld \<equiv> sampleWorld\<lparr>w_SCC := True\<rparr>"

lemma sample_ensureRBAC:
  "\<exists>w'. run sampleApi (ensureRBAC sampleReconciler sampleCR) (sampleWorld\<lparr>w_SCC := b\<rparr>) = (None, w')"
proof -
  let ?w = "sampleWorld\<lparr>w_SCC := b\<rparr>"
  have "stored ?w = stored sampleWorld" by (rule ext) (simp add: stored_def)
  then have "kube_operator.untaken stored sampleReconciler ?w sampleCR managedRBAC"
    by (simp add: kube_operator.untaken_def [OF sample_operator(2)] sampleWorld_untaken)
  moreover have "reliable_operator.completes sampleApi stored sampleReconciler sampleCR
      (ensureRBAC sampleReconciler sampleCR) managedRBAC"
    by (rule reliable_operator.ensureRBAC_completes [OF sample_operator(1)]) auto
  ultimately show ?thesis
    unfolding reliable_operator.completes_def [OF sample_operator(1)] by (metis prod.collapse)
qed

theorem ensureRBAC_admits_privileged_pods_witness:
  "(\<exists>w'. run sampleApi (ensureRBAC sampleReconciler sampleCR) openshiftWorld = (None, w') \<and>
      (if sccDetected (requests sampleApi (ensureRBAC sampleReconciler sampleCR) openshiftWorld)
       then controlledBy sampleReconciler sampleCR (stored w') (KClusterRoleBinding, [], ''alibabacloud-csi-privileged'')
       else namespaceAdmits (stored w'))) \<and>
   (\<exists>w'. run sampleApi (ensureRBAC sampleReconciler sampleCR) sampleWorld = (None, w') \<and>
      (if sccDetected (requests sampleApi (ensureRBAC sampleReconciler sampleCR) sampleWorld)
       then controlledBy sampleReconciler sampleCR (stored w') (KClusterRoleBinding, [], ''alibabacloud-csi-privileged'')
       else namespaceAdmits (stored w')))"
proof -
  obtain w1 where run1: "run sampleApi (ensureRBAC sampleReconciler sampleCR) openshiftWorld = (None, w1)"
    using sample_ensureRBAC [of True] by blast
  have "sampleWorld\<lparr>w_SCC := False\<rparr> = sampleWorld" by (simp add: sampleWorld_def)
  then obtain w2 where run2: "run sampleApi (ensureRBAC sampleReconciler sampleCR) sampleWorld = (None, w2)"
    using sample_ensureRBAC [of False] by auto
  have "stored openshiftWorld (KNamespace, [], operatorNamespace) \<noteq> None"
    "stored sampleWorld (KNamespace, [], operatorNamespace) \<noteq> None"
    by (simp_all add: stored_def sampleWorld_def object_simps)
  with ensureRBAC_admits_privileged_pods [OF sample_operator(2) run1]
    ensureRBAC_admits_privileged_pods [OF sample_operator(2) run2] run1 run2
  show ?thesis by (simp split: if_splits)
qed

text \<open>
  C23: on every path of the disk driver, a storage class that is created is an entry of the
  specification, with its name, the disk provisioner, its reclaim policy (\<open>Retain\<close> only if asked),
  its volume expansion, and a binding that waits for the first consumer.  Its parameters are the
  disk type, and \<open>encrypted\<close> if asked; its annotations are the virtualisation default if asked, and
  the cluster default on the first entry only and only if the specification asks.
\<close>

theorem disk_classes_created_as_specified:
  assumes "operator_libs r" and "exec (ensureDiskDriver r cr) tr err"
  shows "list_all (createsDiskClass cr) tr"
  by (rule confined_exec [OF operator_libs.ensureDiskDriver_creates [OF assms(1)] assms(2)])

theorem disk_classes_created_as_specified_witness:
  "\<exists>tr err. exec (ensureDiskDriver sampleReconciler sampleCR) tr err \<and> list_all (createsDiskClass sampleCR) tr"
  using sample_trace [of "ensureDiskDriver sampleReconciler sampleCR" sampleWorld]
    disk_classes_created_as_specified [OF sample_operator(3)] by blast

end
